(* ===== verification/Prelude.thy ===== *)
theory Prelude
  imports Main "HOL-Library.Multiset" "HOL-Library.Char_ord" "HOL-Library.List_Lexorder" "HOL-Library.Product_Lexorder"
begin

text \<open>
  Shared ground of the development.

  Rows of a database table are kept in a list in insertion order. The three statements the
  program issues are \<^const>\<open>filter\<close> (SELECT), \<^const>\<open>List.find\<close> (SELECT ... LIMIT 1) and
  \<open>update_where\<close> (UPDATE ... WHERE), and an INSERT appends. A request handler that may throw
  is a function into a sum type, with \<^const>\<open>Inl\<close> for the exception. A database transaction is
  such a function on the whole database, and \<open>transaction\<close> gives its effect: an exception rolls
  every write of the body back.
\<close>

named_theorems table_simps \<open>equations of the table operations\<close>
named_theorems tx_simps \<open>inversion rules for handlers that return or throw\<close>

section \<open>Tables\<close>

definition update_where :: "('r \<Rightarrow> bool) \<Rightarrow> ('r \<Rightarrow> 'r) \<Rightarrow> 'r list \<Rightarrow> 'r list" where
  "update_where p f rows = map (\<lambda>r. if p r then f r else r) rows"

lemma update_where_Nil [simp]: "update_where p f [] = []"
  by (simp add: update_where_def)

lemma update_where_Cons [simp]:
  "update_where p f (r # rows) = (if p r then f r else r) # update_where p f rows"
  by (simp add: update_where_def)

lemma update_where_append [simp]:
  "update_where p f (xs @ ys) = update_where p f xs @ update_where p f ys"
  by (simp add: update_where_def)

lemma length_update_where [simp]: "length (update_where p f rows) = length rows"
  by (simp add: update_where_def)

lemma set_update_where: "set (update_where p f rows) = (\<lambda>r. if p r then f r else r) ` set rows"
  by (simp add: update_where_def)

lemma in_update_whereE:
  assumes "r \<in> set (update_where p f rows)"
  obtains r0 where "r0 \<in> set rows" "r = (if p r0 then f r0 else r0)"
  using assms by (auto simp: update_where_def)

lemma map_key_update_where:
  assumes "\<And>r. p r \<Longrightarrow> key (f r) = key r"
  shows "map key (update_where p f rows) = map key rows"
  using assms by (induction rows) auto

lemma update_where_cong:
  assumes "\<And>r. r \<in> set rows \<Longrightarrow> p r \<Longrightarrow> f r = g r"
  shows "update_where p f rows = update_where p g rows"
  using assms by (auto simp: update_where_def)

lemma update_where_none [simp]:
  assumes "\<And>r. r \<in> set rows \<Longrightarrow> \<not> p r"
  shows "update_where p f rows = rows"
  using assms by (induction rows) auto

lemma find_update_where_key:
  assumes "\<And>r. key r = k \<Longrightarrow> key (f r) = k"
  shows "List.find (\<lambda>r. key r = k) (update_where (\<lambda>r. key r = k) f rows)
       = map_option f (List.find (\<lambda>r. key r = k) rows)"
  using assms by (induction rows) auto

lemma find_update_where_other:
  assumes "\<And>r. p r \<Longrightarrow> \<not> q r" and "\<And>r. p r \<Longrightarrow> \<not> q (f r)"
  shows "List.find q (update_where p f rows) = List.find q rows"
  using assms by (induction rows) auto

lemma find_append:
  "List.find p (xs @ ys) = (case List.find p xs of Some r \<Rightarrow> Some r | None \<Rightarrow> List.find p ys)"
  by (induction xs) auto

lemma find_SomeD: "List.find p rows = Some r \<Longrightarrow> r \<in> set rows \<and> p r"
  by (induction rows) (auto split: if_splits)

lemma find_NoneD: "List.find p rows = None \<Longrightarrow> r \<in> set rows \<Longrightarrow> \<not> p r"
  by (simp add: find_None_iff)

lemma find_key_unique:
  assumes "distinct (map key rows)" and "r \<in> set rows" and "key r = k"
  shows "List.find (\<lambda>r. key r = k) rows = Some r"
  using assms by (induction rows) (auto simp: rev_image_eqI)

lemma filter_update_where:
  assumes "\<And>r. p r \<Longrightarrow> q (f r) = q r"
  shows "filter q (update_where p f rows) = update_where p f (filter q rows)"
  using assms by (induction rows) auto

lemma filter_update_where_disjoint:
  assumes "\<And>r. p r \<Longrightarrow> \<not> q r" and "\<And>r. p r \<Longrightarrow> \<not> q (f r)"
  shows "filter q (update_where p f rows) = filter q rows"
  using assms by (induction rows) auto

lemma distinct_map_eqD:
  assumes "distinct (map key rows)" and "r \<in> set rows" and "s \<in> set rows" and "key r = key s"
  shows "r = s"
  using assms by (meson distinct_map inj_onD)

section \<open>Handlers that return or throw\<close>

definition result_bind :: "'e + 'a \<Rightarrow> ('a \<Rightarrow> 'e + 'b) \<Rightarrow> 'e + 'b" where
  "result_bind r k = (case r of Inl e \<Rightarrow> Inl e | Inr a \<Rightarrow> k a)"

lemma result_bind_Inl [simp]: "result_bind (Inl e) k = Inl e"
  by (simp add: result_bind_def)

lemma result_bind_Inr [simp]: "result_bind (Inr a) k = k a"
  by (simp add: result_bind_def)

lemma result_bind_eq_Inr [tx_simps]:
  "result_bind r k = Inr b \<longleftrightarrow> (\<exists>a. r = Inr a \<and> k a = Inr b)"
  by (cases r) auto

lemma result_bind_eq_Inl [tx_simps]:
  "result_bind r k = Inl e \<longleftrightarrow> r = Inl e \<or> (\<exists>a. r = Inr a \<and> k a = Inl e)"
  by (cases r) auto

text \<open>A guard of the source: \<open>if (not ok) throw e\<close>.\<close>

definition ensure :: "bool \<Rightarrow> 'e \<Rightarrow> 'e + unit" where
  "ensure ok e = (if ok then Inr () else Inl e)"

lemma ensure_True [simp]: "ensure True e = Inr ()"
  by (simp add: ensure_def)

lemma ensure_False [simp]: "ensure False e = Inl e"
  by (simp add: ensure_def)

lemma ensure_eq_Inr [tx_simps]: "ensure ok e = Inr u \<longleftrightarrow> ok"
  by (auto simp: ensure_def)

lemma ensure_eq_Inl [tx_simps]: "ensure ok e = Inl e' \<longleftrightarrow> \<not> ok \<and> e' = e"
  by (auto simp: ensure_def)

text \<open>A lookup of the source that throws when there is no row.\<close>

definition or_throw :: "'a option \<Rightarrow> 'e \<Rightarrow> 'e + 'a" where
  "or_throw r e = (case r of None \<Rightarrow> Inl e | Some a \<Rightarrow> Inr a)"

lemma or_throw_simps [simp]: "or_throw None e = Inl e" "or_throw (Some a) e = Inr a"
  by (simp_all add: or_throw_def)

lemma or_throw_eq_Inr [tx_simps]: "or_throw r e = Inr a \<longleftrightarrow> r = Some a"
  by (cases r) auto

lemma or_throw_eq_Inl [tx_simps]: "or_throw r e = Inl e' \<longleftrightarrow> r = None \<and> e' = e"
  by (cases r) auto

section \<open>Transactions\<close>

definition transaction :: "('s \<Rightarrow> 'e + 'a \<times> 's) \<Rightarrow> 's \<Rightarrow> ('e + 'a) \<times> 's" where
  "transaction body s = (case body s of Inl e \<Rightarrow> (Inl e, s) | Inr (a, s') \<Rightarrow> (Inr a, s'))"

lemma transaction_throw [simp]: "body s = Inl e \<Longrightarrow> transaction body s = (Inl e, s)"
  by (simp add: transaction_def)

lemma transaction_return [simp]: "body s = Inr (a, s') \<Longrightarrow> transaction body s = (Inr a, s')"
  by (simp add: transaction_def)

lemma transaction_cases:
  obtains (throw) e where "body s = Inl e" "transaction body s = (Inl e, s)"
  | (commit) a s' where "body s = Inr (a, s')" "transaction body s = (Inr a, s')"
  by (cases "body s") auto

text \<open>What the body keeps when it returns, the transaction keeps whatever it does.\<close>

lemma transaction_keeps:
  assumes "P s" and "\<And>a s'. body s = Inr (a, s') \<Longrightarrow> P s'"
  shows "P (snd (transaction body s))"
  using assms by (cases rule: transaction_cases [of body s]) auto

lemma transaction_eq_Inr [tx_simps]:
  "transaction body s = (Inr a, s') \<longleftrightarrow> body s = Inr (a, s')"
  by (cases rule: transaction_cases [of body s]) auto

lemma transaction_eq_Inl [tx_simps]:
  "transaction body s = (Inl e, s') \<longleftrightarrow> body s = Inl e \<and> s' = s"
  by (cases rule: transaction_cases [of body s]) auto

end
