(* ===== verification/JsNumber.thy ===== *)
theory JsNumber
  imports Complex_Main "HOL-Library.Log_Nat"
begin

text \<open>
  The fragment of JavaScript's \<open>Number\<close> the program computes with.

  A finite binary64 value is the rational it denotes, and an operation on numbers is the exact
  operation followed by \<open>dbl\<close>, the rounding to 53 significant bits, ties to even. The program's
  numbers stay far from the subnormal range and from overflow, so \<open>dbl\<close> has no exponent range.
  The lemmas give what the components use: integers up to \<open>2 ^ 53\<close> and their halves are exact, an
  integer lower bound survives rounding, and the relative error is at most \<open>2 ^ -53\<close>.
\<close>

type_synonym js_number = rat

section \<open>Rounding\<close>

definition round_even :: "rat \<Rightarrow> int" where
  "round_even y =
     (let f = \<lfloor>y\<rfloor>; d = y - of_int f in
      if d < 1 / 2 then f else if d > 1 / 2 then f + 1 else if even f then f else f + 1)"

lemma round_even_of_int [simp]: "round_even (of_int n) = n"
  by (simp add: round_even_def)

lemma round_even_ge: "of_int n \<le> y \<Longrightarrow> n \<le> round_even y"
  by (simp add: round_even_def Let_def le_floor_iff [symmetric])

lemma round_even_close: "\<bar>of_int (round_even y) - y\<bar> \<le> 1 / 2"
proof -
  have "of_int \<lfloor>y\<rfloor> \<le> y" "y < of_int \<lfloor>y\<rfloor> + 1" by linarith+
  then show ?thesis
    unfolding round_even_def Let_def abs_le_iff by (auto split: if_splits; linarith)
qed

text \<open>The position of the leading bit of a positive rational.\<close>

definition leading_bit :: "rat \<Rightarrow> int" where
  "leading_bit x =
     (let e = bitlen (fst (quotient_of x)) - bitlen (snd (quotient_of x)) in
      if 2 powi e \<le> x then e else e - 1)"

lemma powi_bitlen_bounds:
  assumes "0 < a"
  shows "2 powi (bitlen a - 1) \<le> (of_int a :: rat)" "(of_int a :: rat) < 2 powi bitlen a"
proof -
  have "0 \<le> bitlen a - 1"
    using bitlen_eq_zero_iff [of a] bitlen_nonneg [of a] assms by linarith
  moreover have "(2 :: int) ^ nat (bitlen a - 1) \<le> a" "a < 2 ^ nat (bitlen a)"
    using bitlen_bounds [OF assms] by simp_all
  then have "(of_int (2 ^ nat (bitlen a - 1)) :: rat) \<le> of_int a"
    "(of_int a :: rat) < of_int (2 ^ nat (bitlen a))"
    by (simp_all only: of_int_le_iff of_int_less_iff)
  ultimately show "2 powi (bitlen a - 1) \<le> (of_int a :: rat)" "(of_int a :: rat) < 2 powi bitlen a"
    by (simp_all add: power_int_def)
qed

lemma leading_bit_bounds:
  assumes "0 < x"
  shows "2 powi leading_bit x \<le> x" "x < 2 powi (leading_bit x + 1)"
proof -
  obtain a b where q: "quotient_of x = (a, b)" by (cases "quotient_of x")
  have x: "x = of_int a / of_int b" and b: "0 < b"
    using quotient_of_div [OF q] quotient_of_denom_pos [OF q] by simp_all
  then have a: "0 < a" using assms by (simp add: zero_less_divide_iff)
  have e1: "x < 2 powi (bitlen a - bitlen b + 1)"
  proof -
    have "of_int a < (2 powi (bitlen a - bitlen b + 1)) * (2 powi (bitlen b - 1) :: rat)"
      using powi_bitlen_bounds(2) [OF a] by (simp add: power_int_add [symmetric])
    also have "\<dots> \<le> 2 powi (bitlen a - bitlen b + 1) * of_int b"
      using powi_bitlen_bounds(1) [OF b] by simp
    finally show ?thesis using b by (simp add: x divide_less_eq)
  qed
  have e2: "2 powi (bitlen a - bitlen b - 1) \<le> x"
  proof -
    have "2 powi (bitlen a - bitlen b - 1) * of_int b
        \<le> 2 powi (bitlen a - bitlen b - 1) * (2 powi bitlen b :: rat)"
      using powi_bitlen_bounds(2) [OF b] by simp
    also have "\<dots> \<le> of_int a"
      using powi_bitlen_bounds(1) [OF a] by (simp add: power_int_add [symmetric])
    finally show ?thesis using b by (simp add: x le_divide_eq)
  qed
  show "2 powi leading_bit x \<le> x" "x < 2 powi (leading_bit x + 1)"
    using e1 e2 by (auto simp: leading_bit_def q Let_def)
qed

text \<open>Rounding to 53 significant bits, first of a positive number, then of any.\<close>

definition dbl_pos :: "rat \<Rightarrow> rat" where
  "dbl_pos x = (let s = 52 - leading_bit x in of_int (round_even (x * 2 powi s)) * 2 powi (- s))"

definition dbl :: "rat \<Rightarrow> js_number" where
  "dbl x = (if x = 0 then 0 else if x < 0 then - dbl_pos (- x) else dbl_pos x)"

lemma dbl_0 [simp]: "dbl 0 = 0"
  by (simp add: dbl_def)

lemma powi_nat_of_int: "0 \<le> s \<Longrightarrow> (2 :: rat) powi s = of_int (2 ^ nat s)"
  by (simp add: power_int_def)

lemma dbl_pos_shift:
  assumes "0 < x"
  shows "2 powi 52 \<le> x * 2 powi (52 - leading_bit x)"
proof -
  have "(2 :: rat) powi 52 = 2 powi leading_bit x * 2 powi (52 - leading_bit x)"
    by (simp add: power_int_add [symmetric])
  also have "\<dots> \<le> x * 2 powi (52 - leading_bit x)"
    using leading_bit_bounds(1) [OF assms] by simp
  finally show ?thesis .
qed

text \<open>The relative error of one rounding.\<close>

lemma dbl_pos_error:
  assumes "0 < x"
  shows "\<bar>dbl_pos x - x\<bar> \<le> x / 2 ^ 53"
proof -
  let ?s = "52 - leading_bit x" and ?y = "x * 2 powi (52 - leading_bit x)"
  have "dbl_pos x - x = (of_int (round_even ?y) - ?y) * 2 powi (- ?s)"
    by (simp add: dbl_pos_def Let_def algebra_simps power_int_add [symmetric])
  then have "\<bar>dbl_pos x - x\<bar> = \<bar>of_int (round_even ?y) - ?y\<bar> * 2 powi (- ?s)"
    by (simp add: abs_mult)
  also have "\<dots> \<le> 1 / 2 * 2 powi (- ?s)"
    using round_even_close [of ?y] by (intro mult_right_mono) simp_all
  also have "\<dots> = 2 powi leading_bit x / 2 ^ 53"
    by (simp add: power_int_diff)
  also have "\<dots> \<le> x / 2 ^ 53"
    using leading_bit_bounds(1) [OF assms] by (simp add: divide_right_mono)
  finally show ?thesis .
qed

lemma dbl_error: "\<bar>dbl x - x\<bar> \<le> \<bar>x\<bar> / 2 ^ 53"
proof (cases "x < 0")
  case True
  have "\<bar>dbl x - x\<bar> = \<bar>dbl_pos (- x) - (- x)\<bar>" using True by (simp add: dbl_def)
  also have "\<dots> \<le> (- x) / 2 ^ 53" using True by (intro dbl_pos_error) simp
  finally show ?thesis using True by simp
next
  case False
  then show ?thesis using dbl_pos_error [of x] by (cases "x = 0") (simp_all add: dbl_def)
qed

section \<open>Exact values\<close>

text \<open>An integer multiple of a power of two with at most 53 bits is a double.\<close>

lemma dbl_pos_exact:
  assumes "0 < n" "n \<le> 2 ^ 53"
  shows "dbl_pos (of_int n * 2 powi k) = of_int n * 2 powi k"
proof -
  let ?x = "(of_int n * 2 powi k :: rat)"
  let ?s = "52 - leading_bit ?x"
  have pos: "0 < ?x" using assms by simp
  have "2 powi leading_bit ?x \<le> ?x" by (rule leading_bit_bounds(1) [OF pos])
  also have "?x \<le> 2 powi 53 * 2 powi k"
  proof -
    have "(of_int n :: rat) \<le> of_int (2 ^ 53)" using assms(2) by (simp only: of_int_le_iff)
    then show ?thesis by simp
  qed
  also have "\<dots> = 2 powi (53 + k)" by (simp add: power_int_add)
  finally have lb: "leading_bit ?x \<le> 53 + k"
    using power_int_strict_increasing [of "53 + k" "leading_bit ?x" "2 :: rat"]
    by (meson linorder_not_le not_less_iff_gr_or_eq one_less_numeral_iff semiring_norm(76) order_le_less_trans)
  show ?thesis
  proof (cases "leading_bit ?x = 53 + k")
    case True
    then have "2 powi (53 + k) \<le> ?x" using leading_bit_bounds(1) [OF pos] by simp
    then have "(2 :: rat) ^ 53 \<le> of_int n" by (simp add: power_int_add)
    then have "n = 2 ^ 53" using assms(2)
      by (metis (mono_tags) of_int_le_iff of_int_numeral of_int_power order_antisym)
    moreover have "?x * 2 powi ?s = of_int (2 ^ 52)"
      using True calculation by (simp add: power_int_add [symmetric] power_int_diff)
    then have "round_even (?x * 2 powi ?s) = 2 ^ 52"
      by (simp only: round_even_of_int)
    ultimately show ?thesis using True
      by (simp add: dbl_pos_def Let_def power_int_add power_int_diff)
  next
    case False
    with lb have le: "0 \<le> k + ?s" by simp
    have "?x * 2 powi ?s = of_int n * (2 powi (k + ?s))"
      by (simp add: power_int_add)
    also have "\<dots> = of_int (n * 2 ^ nat (k + ?s))"
      using powi_nat_of_int [OF le] by simp
    finally have "round_even (?x * 2 powi ?s) = n * 2 ^ nat (k + ?s)"
      by (simp only: round_even_of_int)
    then have "dbl_pos ?x = of_int n * (2 powi (k + ?s) * 2 powi (- ?s))"
      using powi_nat_of_int [OF le] by (simp add: dbl_pos_def Let_def)
    also have "2 powi (k + ?s) * 2 powi (- ?s) = (2 powi k :: rat)"
      by (subst power_int_add [symmetric]) simp_all
    finally show ?thesis .
  qed
qed

lemma dbl_exact_scaled:
  assumes "\<bar>n\<bar> \<le> 2 ^ 53"
  shows "dbl (of_int n * 2 powi k) = of_int n * 2 powi k"
proof -
  consider "n = 0" | "0 < n" | "n < 0" by linarith
  moreover have "0 < (2 :: rat) powi k" by simp
  ultimately show ?thesis
  proof cases
    case 2
    then have "\<not> of_int n * (2 powi k :: rat) < 0" by (simp add: not_less)
    then show ?thesis using 2 assms dbl_pos_exact [of n k] unfolding dbl_def by simp
  next
    case 3
    then have "of_int n * (2 powi k :: rat) < 0" by (simp add: mult_less_0_iff)
    then show ?thesis using 3 assms dbl_pos_exact [of "- n" k] unfolding dbl_def by simp
  qed simp
qed

lemma dbl_of_int [simp]: "\<bar>n\<bar> \<le> 2 ^ 53 \<Longrightarrow> dbl (of_int n) = of_int n"
  using dbl_exact_scaled [of n 0] by simp

lemma dbl_half: "\<bar>n\<bar> \<le> 2 ^ 53 \<Longrightarrow> dbl (of_int n / 2) = of_int n / 2"
  using dbl_exact_scaled [of n "-1"] by (simp add: power_int_minus field_simps)

text \<open>Rounding does not cross an integer from above.\<close>

lemma dbl_ge_int:
  assumes "of_int n \<le> x" "0 \<le> n" "n \<le> 2 ^ 53"
  shows "of_int n \<le> dbl x"
proof (cases "x = 0")
  case False
  let ?s = "52 - leading_bit x"
  have pos: "0 < x" using assms False by (metis of_int_0_le_iff order_le_less order_trans)
  have "of_int n \<le> of_int (round_even (x * 2 powi ?s)) * (2 powi (- ?s) :: rat)"
  proof (cases "0 \<le> ?s")
    case True
    have "of_int (n * 2 ^ nat ?s) \<le> x * 2 powi ?s"
      using assms(1) powi_nat_of_int [OF True] by simp
    then have "n * 2 ^ nat ?s \<le> round_even (x * 2 powi ?s)" by (rule round_even_ge)
    then have "of_int (n * 2 ^ nat ?s) \<le> (of_int (round_even (x * 2 powi ?s)) :: rat)"
      by (simp only: of_int_le_iff)
    then have "of_int n * 2 powi ?s * 2 powi (- ?s)
        \<le> of_int (round_even (x * 2 powi ?s)) * (2 powi (- ?s) :: rat)"
      using powi_nat_of_int [OF True] by (intro mult_right_mono) simp_all
    then show ?thesis by (simp add: mult.assoc power_int_add [symmetric])
  next
    case False
    have "of_int (2 ^ 52) \<le> x * 2 powi ?s" using dbl_pos_shift [OF pos] by simp
    then have "2 ^ 52 \<le> round_even (x * 2 powi ?s)" by (rule round_even_ge)
    then have "(2 :: rat) ^ 52 \<le> of_int (round_even (x * 2 powi ?s))"
      by (metis of_int_le_iff of_int_numeral of_int_power)
    then have r: "2 powi 52 * 2 powi (- ?s) \<le> of_int (round_even (x * 2 powi ?s)) * (2 powi (- ?s) :: rat)"
      by (intro mult_right_mono) simp_all
    have "(of_int n :: rat) \<le> of_int (2 ^ 53)" using assms(3) by (simp only: of_int_le_iff)
    also have "of_int (2 ^ 53) = (2 :: rat) powi 53" by simp
    also have "\<dots> \<le> 2 powi (52 + - ?s)"
      using False by (intro power_int_increasing) simp_all
    also have "\<dots> = 2 powi 52 * 2 powi (- ?s)" by (rule power_int_add) simp
    finally show ?thesis using r by (rule order_trans)
  qed
  then show ?thesis using pos by (simp add: dbl_def dbl_pos_def Let_def)
qed (use assms in simp)

section \<open>The functions of the standard library\<close>

text \<open>
  \<open>Math.round\<close> rounds a half up, \<open>Math.floor\<close> down. Both results are integers the program passes
  to \<open>BigInt\<close> or compares with small integers.
\<close>

definition math_round :: "js_number \<Rightarrow> int" where
  "math_round x = \<lfloor>x + 1 / 2\<rfloor>"

definition math_floor :: "js_number \<Rightarrow> int" where
  "math_floor x = \<lfloor>x\<rfloor>"

lemma math_round_of_int [simp]: "math_round (of_int n) = n"
  by (simp add: math_round_def floor_eq_iff)

text \<open>\<open>String(n)\<close> of an integer.\<close>

fun show_nat :: "nat \<Rightarrow> string" where
  "show_nat n = (if n < 10 then [char_of (48 + n)] else show_nat (n div 10) @ [char_of (48 + n mod 10)])"

declare show_nat.simps [simp del]

definition show_int :: "int \<Rightarrow> string" where
  "show_int n = (if n < 0 then CHR ''-'' # show_nat (nat (- n)) else show_nat (nat n))"

text \<open>\<open>Number(n)\<close> of a \<open>bigint\<close>, and the arithmetic operators.\<close>

definition js_of_int :: "int \<Rightarrow> js_number" where
  "js_of_int n = dbl (of_int n)"

definition js_div :: "js_number \<Rightarrow> js_number \<Rightarrow> js_number" where
  "js_div x y = dbl (x / y)"

definition js_mul :: "js_number \<Rightarrow> js_number \<Rightarrow> js_number" where
  "js_mul x y = dbl (x * y)"

definition js_add :: "js_number \<Rightarrow> js_number \<Rightarrow> js_number" where
  "js_add x y = dbl (x + y)"

lemma js_of_int_exact [simp]: "\<bar>n\<bar> \<le> 2 ^ 53 \<Longrightarrow> js_of_int n = of_int n"
  by (simp add: js_of_int_def)

text \<open>\<open>a / b\<close> on \<open>bigint\<close>s truncates towards zero.\<close>

definition bigint_div :: "int \<Rightarrow> int \<Rightarrow> int" where
  "bigint_div a b = sgn a * sgn b * (\<bar>a\<bar> div \<bar>b\<bar>)"

lemma bigint_div_nonneg [simp]: "0 \<le> a \<Longrightarrow> 0 < b \<Longrightarrow> bigint_div a b = a div b"
  by (auto simp: bigint_div_def sgn_if)

text \<open>
  The division of an instant difference by a number of milliseconds, \<open>(b.getTime() -
  a.getTime()) / unit\<close>, compared with an integer: no double rounding decides it.
\<close>

lemma js_div_of_int_ge_iff:
  assumes "0 \<le> m" "m \<le> 2 ^ 53" "0 < u" "0 \<le> n" "n * u < 2 ^ 53"
  shows "of_int n \<le> js_div (of_int m) (of_int u) \<longleftrightarrow> n * u \<le> m"
proof
  assume "n * u \<le> m"
  then have "(of_int (n * u) :: rat) \<le> of_int m" by (simp only: of_int_le_iff)
  then have "of_int n \<le> (of_int m / of_int u :: rat)" using assms(3) by (simp add: le_divide_eq)
  moreover have "n \<le> n * u"
    using mult_left_mono [of 1 u n] assms by simp
  then have "n \<le> 2 ^ 53" using assms by linarith
  ultimately show "of_int n \<le> js_div (of_int m) (of_int u)"
    using assms(4) unfolding js_div_def by (intro dbl_ge_int) simp_all
next
  assume ge: "of_int n \<le> js_div (of_int m) (of_int u)"
  show "n * u \<le> m"
  proof (rule ccontr)
    assume "\<not> n * u \<le> m"
    then have lt: "m + 1 \<le> n * u" by simp
    let ?x = "of_int m / of_int u :: rat"
    have x: "0 \<le> ?x" using assms by simp
    have "js_div (of_int m) (of_int u) \<le> ?x + \<bar>?x\<bar> / 2 ^ 53"
      using dbl_error [of ?x] unfolding js_div_def by linarith
    then have "js_div (of_int m) (of_int u) \<le> ?x + ?x / 2 ^ 53"
      using x by (simp only: abs_of_nonneg)
    then have "of_int n * of_int u \<le> (?x + ?x / 2 ^ 53) * of_int u"
      using ge assms(3) by (intro mult_right_mono) simp_all
    also have "\<dots> = of_int m + of_int m / 2 ^ 53"
      using assms(3) by (simp add: field_simps)
    also have "of_int m / (2 ^ 53 :: rat) < 1"
    proof -
      have "m < 2 ^ 53" using lt assms by linarith
      then have "(of_int m :: rat) < of_int (2 ^ 53)" by (simp only: of_int_less_iff)
      then show ?thesis by simp
    qed
    finally have "(of_int (n * u) :: rat) < of_int (m + 1)" by simp
    then have "n * u < m + 1" by (simp only: of_int_less_iff)
    then show False using lt by simp
  qed
qed

text \<open>\<open>Math.ceil(t / step)\<close> of an instant is the exact quotient rounded up.\<close>

definition math_ceil :: "js_number \<Rightarrow> int" where
  "math_ceil x = \<lceil>x\<rceil>"

lemma js_div_of_int_gt:
  assumes "0 \<le> n" "n * u < m" "0 < u" "m < 2 ^ 53"
  shows "of_int n < js_div (of_int m) (of_int u)"
proof -
  let ?x = "of_int m / of_int u :: rat"
  have m: "0 \<le> m" using assms by (meson less_imp_le mult_nonneg_nonneg order_trans)
  then have x: "0 \<le> ?x" using assms(3) by simp
  have "?x - ?x / 2 ^ 53 \<le> js_div (of_int m) (of_int u)"
    using dbl_error [of ?x] x unfolding js_div_def by (simp add: abs_of_nonneg)
  moreover have "of_int n < ?x - ?x / 2 ^ 53"
  proof -
    have "(of_int m :: rat) < 2 ^ 53"
    proof -
      have "(of_int m :: rat) < of_int (2 ^ 53)" using assms(4) by (simp only: of_int_less_iff)
      then show ?thesis by simp
    qed
    then have "of_int m / (2 ^ 53 :: rat) < 1" by simp
    moreover have "(of_int (n * u) :: rat) + 1 \<le> of_int m"
      using assms(2) by (metis of_int_1 of_int_add of_int_le_iff zless_imp_add1_zle)
    ultimately have "of_int n * of_int u < of_int m - of_int m / (2 ^ 53 :: rat)" by simp
    also have "\<dots> = (?x - ?x / 2 ^ 53) * of_int u" using assms(3) by (simp add: field_simps)
    finally show ?thesis using assms(3) by (simp only: mult_less_cancel_right_pos of_int_0_less_iff)
  qed
  ultimately show ?thesis by linarith
qed

text \<open>A quotient in floating point, rounded up, is never short of the exact one.\<close>

lemma math_ceil_ge:
  assumes "0 \<le> m" "m < 2 ^ 53" "0 < u"
  shows "m \<le> math_ceil (js_div (js_of_int m) (of_int u)) * u"
proof (rule ccontr)
  let ?k = "math_ceil (js_div (js_of_int m) (of_int u))"
  assume "\<not> m \<le> ?k * u"
  then have lt: "?k * u < m" by simp
  have m: "js_of_int m = of_int m" using assms by simp
  have "0 \<le> js_div (of_int m) (of_int u)"
    using js_div_of_int_ge_iff [of m u 0] assms by simp
  then have "0 \<le> ?k" unfolding math_ceil_def m by linarith
  then have "of_int ?k < js_div (of_int m) (of_int u)" using js_div_of_int_gt lt assms by blast
  then show False unfolding math_ceil_def m by linarith
qed

text \<open>Hours of a whole number of half hours are exact, and so is their double.\<close>

lemma js_div_half_hours:
  assumes "\<bar>h\<bar> \<le> 2 ^ 53"
  shows "js_div (of_int (h * 1800000)) 3600000 = of_int h / 2"
  using dbl_half [OF assms] by (simp add: js_div_def)

lemma math_round_half_hours:
  assumes "\<bar>h\<bar> \<le> 2 ^ 53"
  shows "math_round (js_mul (js_div (of_int (h * 1800000)) 3600000) 2) = h"
  unfolding js_div_half_hours [OF assms] using assms by (simp add: js_mul_def)

end
