(* ===== verification/Schema.thy ===== *)
theory Schema
  imports Prelude JsNumber
begin

text \<open>
  The data model: \<open>apps/api/src/db/schema.ts\<close> and the exceptions the services throw.

  An enum of the schema is a datatype, a table row a record, a table the list of its rows in
  insertion order, the database the record of its tables. A uuid and a text are a \<open>string\<close>, a
  \<open>timestamptz\<close> the \<open>int\<close> of its milliseconds since the epoch (JavaScript's \<open>getTime\<close>), a
  \<open>bigint\<close> an \<open>int\<close> whose range the writing statement checks, a nullable column an \<open>option\<close> and a
  \<open>jsonb\<close> the datatype \<open>json\<close>. The writing statements check the constraints of the tables as
  Postgres does, on the row that is written, and answer the error Drizzle throws.
\<close>

section \<open>Values\<close>

type_synonym uuid = string
type_synonym instant = int

datatype json =
    JNull
  | JBool bool
  | JNum js_number
  | JStr string
  | JArr "json list"
  | JObj "(string \<times> json) list"

text \<open>
  A uuid column holds the canonical form, with lower-case digits. A request may spell a uuid in
  either case, and the driver's cast \<open>uuid_in\<close> of the text finds the row all the same.
\<close>

fun hex_lower :: "char \<Rightarrow> char" where
  "hex_lower c =
     (if c = CHR ''A'' then CHR ''a'' else if c = CHR ''B'' then CHR ''b''
      else if c = CHR ''C'' then CHR ''c'' else if c = CHR ''D'' then CHR ''d''
      else if c = CHR ''E'' then CHR ''e'' else if c = CHR ''F'' then CHR ''f'' else c)"

definition uuid_in :: "string \<Rightarrow> uuid" where
  "uuid_in s = map hex_lower s"

definition is_hex :: "char \<Rightarrow> bool" where
  "is_hex c \<longleftrightarrow> c \<in> set ''0123456789abcdefABCDEF''"

text \<open>\<open>/^[0-9a-f]{8}-[0-9a-f]{4}-[0-9a-f]{4}-[0-9a-f]{4}-[0-9a-f]{12}$/i\<close>\<close>

definition isUuid :: "string \<Rightarrow> bool" where
  "isUuid s \<longleftrightarrow> length s = 36
     \<and> list_all (\<lambda>i. if i \<in> {8, 13, 18, 23} then s ! i = CHR ''-'' else is_hex (s ! i)) [0..<36]"

text \<open>
  The validator's \<open>uuid()\<close> is stricter: it wants a version from 1 to 8 and the variant of RFC 9562, or
  the nil or the max uuid.
\<close>

definition zod_uuid :: "string \<Rightarrow> bool" where
  "zod_uuid s \<longleftrightarrow> isUuid s
     \<and> (s ! 14 \<in> set ''12345678'' \<and> s ! 19 \<in> set ''89abAB''
        \<or> s = ''00000000-0000-0000-0000-000000000000'' \<or> s = ''ffffffff-ffff-ffff-ffff-ffffffffffff'')"

lemma uuid_in_idem [simp]: "uuid_in (uuid_in s) = uuid_in s"
  by (simp add: uuid_in_def)

text \<open>\<open>value.key\<close> of a parsed object; \<open>None\<close> is \<open>undefined\<close>. A repeated key keeps the last value.\<close>

fun json_field :: "string \<Rightarrow> json \<Rightarrow> json option" where
  "json_field k (JObj kvs) = map_of (rev kvs) k"
| "json_field k _ = None"

section \<open>Enums\<close>

datatype user_role = CUSTOMER | VENUE_STAFF | VENUE_ADMIN | PLATFORM_ADMIN

datatype booking_status =
    DRAFT
  | HELD
  | PENDING_PAYMENT
  | CONFIRMED
  | COMPLETED
  | EXPIRED
  | FAILED
  | CANCELLED
  | REFUNDED

datatype payment_status = PayPending | PaySucceeded | PayFailed | PayRefunded

datatype audit_actor_type = ActorUser | ActorSystem | ActorPaygate

text \<open>
  Postgres orders the values of an enum type by their declaration, and that order is the
  instance of \<open>linorder\<close>.
\<close>

fun status_rank :: "booking_status \<Rightarrow> nat" where
  "status_rank DRAFT = 0"
| "status_rank HELD = 1"
| "status_rank PENDING_PAYMENT = 2"
| "status_rank CONFIRMED = 3"
| "status_rank COMPLETED = 4"
| "status_rank EXPIRED = 5"
| "status_rank FAILED = 6"
| "status_rank CANCELLED = 7"
| "status_rank REFUNDED = 8"

lemma status_rank_inject: "status_rank s = status_rank t \<longleftrightarrow> s = t"
  by (cases s; cases t) simp_all

instantiation booking_status :: linorder
begin

definition less_eq_booking_status :: "booking_status \<Rightarrow> booking_status \<Rightarrow> bool" where
  "s \<le> t \<longleftrightarrow> status_rank s \<le> status_rank t"

definition less_booking_status :: "booking_status \<Rightarrow> booking_status \<Rightarrow> bool" where
  "s < t \<longleftrightarrow> status_rank s < status_rank t"

instance
  by standard (auto simp: less_eq_booking_status_def less_booking_status_def status_rank_inject)

end

text \<open>The statuses the exclusion constraint applies to.\<close>

definition ACTIVE_BOOKING_STATUSES :: "booking_status list" where
  "ACTIVE_BOOKING_STATUSES = [HELD, PENDING_PAYMENT, CONFIRMED]"

definition is_active :: "booking_status \<Rightarrow> bool" where
  "is_active s \<longleftrightarrow> s \<in> set ACTIVE_BOOKING_STATUSES"

lemma is_active_simps [simp]:
  "\<not> is_active DRAFT" "is_active HELD" "is_active PENDING_PAYMENT" "is_active CONFIRMED"
  "\<not> is_active COMPLETED" "\<not> is_active EXPIRED" "\<not> is_active FAILED" "\<not> is_active CANCELLED"
  "\<not> is_active REFUNDED"
  by (simp_all add: is_active_def ACTIVE_BOOKING_STATUSES_def)

lemma is_active_cases: "is_active s \<longleftrightarrow> s = HELD \<or> s = PENDING_PAYMENT \<or> s = CONFIRMED"
  by (cases s) simp_all

section \<open>Rows\<close>

record venue =
  v_id :: uuid
  v_name :: string
  v_city :: string
  v_timezone :: string
  v_operating_hours :: json
  v_overbooking_buffer_pct :: int

record room =
  r_id :: uuid
  r_venue_id :: uuid
  r_name :: string
  r_capacity :: int
  r_hourly_rate_minor :: int
  r_amenities :: "string list"
  r_min_duration_minutes :: int
  r_max_duration_minutes :: int

record equipment_type =
  e_id :: uuid
  e_venue_id :: uuid
  e_name :: string
  e_hourly_rate_minor :: int
  e_units_owned :: int

record user =
  u_id :: uuid
  u_email :: string
  u_password_hash :: string
  u_role :: user_role
  u_venue_id :: "uuid option"

record cancellation_policy =
  cp_id :: uuid
  cp_venue_id :: "uuid option"
  cp_tiers :: json
  cp_created_at :: instant

record booking =
  b_id :: uuid
  b_venue_id :: uuid
  b_room_id :: uuid
  b_user_id :: uuid
  b_starts_at :: instant
  b_ends_at :: instant
  b_status :: booking_status
  b_expires_at :: "instant option"
  b_rearm_count :: int
  b_policy_snapshot :: "json option"
  b_total_minor :: int
  b_currency :: string
  b_created_at :: instant
  b_updated_at :: instant

record booking_line_item =
  li_booking_id :: uuid
  li_equipment_type_id :: uuid
  li_quantity :: int
  li_rate_minor :: int

record payment =
  p_id :: uuid
  p_booking_id :: uuid
  p_idempotency_key :: string
  p_charge_id :: "string option"
  p_amount_minor :: int
  p_status :: payment_status
  p_refund_id :: "string option"
  p_refund_idempotency_key :: "string option"
  p_refunded_minor :: int
  p_failure_reason :: "string option"
  p_created_at :: instant
  p_updated_at :: instant

record payment_event =
  pe_charge_id :: string
  pe_event :: string
  pe_occurred_at :: instant
  pe_applied_at :: instant

record webhook_delivery =
  wd_id :: uuid
  wd_delivery_id :: string
  wd_charge_id :: "string option"
  wd_reference :: "string option"
  wd_event :: "string option"
  wd_signature_valid :: bool
  wd_raw_body :: string
  wd_correlation_id :: "string option"
  wd_received_at :: instant
  wd_processed_at :: "instant option"
  wd_error :: "string option"

text \<open>
  The \<open>id\<close> of an audit event is random and never read, and its \<open>metadata\<close> is free-form evidence
  that no decision of the program reads back; both are left out. Its three nullable columns
  \<open>booking_id\<close>, \<open>from_state\<close> and \<open>to_state\<close> are set by every statement that writes one.
\<close>

record audit_event =
  ae_booking_id :: uuid
  ae_actor_type :: audit_actor_type
  ae_actor_id :: "uuid option"
  ae_from_state :: "booking_status"
  ae_to_state :: "booking_status"
  ae_reason :: string
  ae_occurred_at :: instant

record db =
  t_venues :: "venue list"
  t_rooms :: "room list"
  t_equipment_types :: "equipment_type list"
  t_users :: "user list"
  t_cancellation_policies :: "cancellation_policy list"
  t_bookings :: "booking list"
  t_booking_line_items :: "booking_line_item list"
  t_payments :: "payment list"
  t_payment_events :: "payment_event list"
  t_webhook_deliveries :: "webhook_delivery list"
  t_audit_events :: "audit_event list"

section \<open>Exceptions\<close>

text \<open>
  A driver error carries SQLSTATE and the constraint's name, and Drizzle wraps it in an error of
  its own under \<open>cause\<close>. \<open>JsErr\<close> is any such object: its \<open>code\<close>, \<open>constraint\<close> and \<open>cause\<close>
  properties where it has them.
\<close>

datatype js_err = JsErr (err_code: "string option") (err_constraint: "string option")
  (err_cause: "js_err option")

record equipment_shortfall =
  sf_equipment_type_id :: uuid
  sf_requested :: int
  sf_peak_in_use :: int
  sf_ceiling :: int

datatype conflict =
    UnexpectedStatus uuid booking_status "booking_status list"
  | IllegalTransition uuid booking_status booking_status
  | SlotTaken uuid instant instant
  | Contended uuid instant instant
  | EquipmentShortfall "equipment_shortfall list"
  | CannotCheckOut uuid booking_status
  | HoldExpired uuid
  | RearmLimit uuid int
  | LifetimeLimit uuid
  | CannotPay uuid booking_status
  | PaymentNotRecorded
  | BookingNotCreated
  | EmailTaken

datatype unprocessable =
    NoOperatingHours uuid
  | LeadTooShort instant
  | LeadTooLong instant
  | DurationOutOfRange int int
  | DurationTooLong int
  | OutsideOperatingHours instant instant
  | UnknownEquipment "uuid list"
  | ForeignEquipment "uuid list"
  | InvalidBody
  | RoomBuffer int
  | DurationsCross int int

datatype exn =
    NotFound
  | BadRequest
  | Forbidden
  | Unauthorized
  | Conflict conflict
  | Unprocessable unprocessable
  | ServiceUnavailable
  | BadGateway
  | DbError js_err
  | JsError string

text \<open>The status a handler's exception becomes on the wire; anything unnamed is a 500.\<close>

fun http_status :: "exn \<Rightarrow> nat" where
  "http_status NotFound = 404"
| "http_status BadRequest = 400"
| "http_status Forbidden = 403"
| "http_status Unauthorized = 401"
| "http_status (Conflict _) = 409"
| "http_status (Unprocessable _) = 422"
| "http_status ServiceUnavailable = 503"
| "http_status BadGateway = 502"
| "http_status (DbError _) = 500"
| "http_status (JsError _) = 500"

definition pg_error :: "string \<Rightarrow> string \<Rightarrow> exn" where
  "pg_error code cons = DbError (JsErr None None (Some (JsErr (Some code) (Some cons) None)))"

section \<open>Constraints of the tables\<close>

definition TURNAROUND_MS :: int where
  "TURNAROUND_MS = 15 * 60 * 1000"

text \<open>The generated column \<open>slot\<close>: the half-open range that carries the turnaround.\<close>

definition slot :: "booking \<Rightarrow> instant \<times> instant" where
  "slot b = (b_starts_at b, b_ends_at b + TURNAROUND_MS)"

definition ranges_overlap :: "instant \<times> instant \<Rightarrow> instant \<times> instant \<Rightarrow> bool" where
  "ranges_overlap p q \<longleftrightarrow> fst p < snd q \<and> fst q < snd p"

text \<open>Whether two rows violate \<open>no_room_overlap\<close> together.\<close>

definition rooms_clash :: "booking \<Rightarrow> booking \<Rightarrow> bool" where
  "rooms_clash a b \<longleftrightarrow> b_room_id a = b_room_id b \<and> is_active (b_status a) \<and> is_active (b_status b)
     \<and> ranges_overlap (slot a) (slot b)"

lemma rooms_clash_sym: "rooms_clash a b \<longleftrightarrow> rooms_clash b a"
  by (auto simp: rooms_clash_def ranges_overlap_def)

definition in_bigint :: "int \<Rightarrow> bool" where
  "in_bigint n \<longleftrightarrow> - (2 ^ 63) \<le> n \<and> n < 2 ^ 63"

definition in_smallint :: "int \<Rightarrow> bool" where
  "in_smallint n \<longleftrightarrow> - (2 ^ 15) \<le> n \<and> n < 2 ^ 15"

text \<open>The checks Postgres makes of a written booking row, in its order.\<close>

definition check_booking :: "booking \<Rightarrow> booking list \<Rightarrow> exn + unit" where
  "check_booking b others =
     (if \<not> in_bigint (b_total_minor b) \<or> \<not> in_smallint (b_rearm_count b)
      then Inl (pg_error ''22003'' '''')
      else if \<not> b_starts_at b < b_ends_at b then Inl (pg_error ''23514'' ''bookings_interval_ck'')
      else if b_id b \<in> b_id ` set others then Inl (pg_error ''23505'' ''bookings_pkey'')
      else if list_ex (rooms_clash b) others then Inl (pg_error ''23P01'' ''no_room_overlap'')
      else Inr ())"

definition insert_booking :: "booking \<Rightarrow> db \<Rightarrow> exn + db" where
  "insert_booking b d =
     result_bind (check_booking b (t_bookings d)) (\<lambda>_.
       if b_venue_id b \<in> v_id ` set (t_venues d) \<and> b_room_id b \<in> r_id ` set (t_rooms d)
          \<and> b_user_id b \<in> u_id ` set (t_users d)
       then Inr (d\<lparr>t_bookings := t_bookings d @ [b]\<rparr>)
       else Inl (pg_error ''23503'' ''''))"

text \<open>\<open>UPDATE bookings SET ... WHERE id = bid RETURNING *\<close>.\<close>

definition update_booking :: "uuid \<Rightarrow> (booking \<Rightarrow> booking) \<Rightarrow> db \<Rightarrow> exn + booking option \<times> db" where
  "update_booking bid f d =
     (case List.find (\<lambda>b. b_id b = bid) (t_bookings d) of
        None \<Rightarrow> Inr (None, d)
      | Some b \<Rightarrow>
          result_bind (check_booking (f b) (filter (\<lambda>b. b_id b \<noteq> bid) (t_bookings d))) (\<lambda>_.
            Inr (Some (f b),
              d\<lparr>t_bookings := update_where (\<lambda>b. b_id b = bid) (\<lambda>_. f b) (t_bookings d)\<rparr>)))"

text \<open>The four unique columns of \<open>payments\<close>, and its primary key.\<close>

definition payment_clash :: "payment \<Rightarrow> payment \<Rightarrow> bool" where
  "payment_clash p q \<longleftrightarrow> p_id p = p_id q
     \<or> p_idempotency_key p = p_idempotency_key q
     \<or> p_charge_id p \<noteq> None \<and> p_charge_id p = p_charge_id q
     \<or> p_refund_id p \<noteq> None \<and> p_refund_id p = p_refund_id q
     \<or> p_refund_idempotency_key p \<noteq> None \<and> p_refund_idempotency_key p = p_refund_idempotency_key q"

lemma payment_clash_sym: "payment_clash p q \<longleftrightarrow> payment_clash q p"
  unfolding payment_clash_def by metis

text \<open>\<open>UPDATE payments SET ... WHERE p RETURNING *\<close>, for a predicate that fixes the id.\<close>

definition update_payment :: "(payment \<Rightarrow> bool) \<Rightarrow> (payment \<Rightarrow> payment) \<Rightarrow> db
    \<Rightarrow> exn + payment option \<times> db" where
  "update_payment p f d =
     (case List.find p (t_payments d) of
        None \<Rightarrow> Inr (None, d)
      | Some r \<Rightarrow>
          if \<not> in_bigint (p_refunded_minor (f r)) then Inl (pg_error ''22003'' '''')
          else if list_ex (payment_clash (f r)) (filter (\<lambda>q. p_id q \<noteq> p_id r) (t_payments d))
          then Inl (pg_error ''23505'' '''')
          else Inr (Some (f r),
            d\<lparr>t_payments := update_where (\<lambda>q. p_id q = p_id r) (\<lambda>_. f r) (t_payments d)\<rparr>))"

text \<open>Tables that satisfy their constraints.\<close>

definition bookings_consistent :: "booking list \<Rightarrow> bool" where
  "bookings_consistent bs \<longleftrightarrow> distinct (map b_id bs)
     \<and> (\<forall>b \<in> set bs. b_starts_at b < b_ends_at b)
     \<and> (\<forall>a \<in> set bs. \<forall>b \<in> set bs. b_id a \<noteq> b_id b \<longrightarrow> \<not> rooms_clash a b)"

definition payments_consistent :: "payment list \<Rightarrow> bool" where
  "payments_consistent ps \<longleftrightarrow> distinct (map p_id ps)
     \<and> (\<forall>p \<in> set ps. \<forall>q \<in> set ps. p_id p \<noteq> p_id q \<longrightarrow> \<not> payment_clash p q)"

lemma check_booking_eq_Inr [tx_simps]:
  "check_booking b others = Inr u \<longleftrightarrow>
     in_bigint (b_total_minor b) \<and> in_smallint (b_rearm_count b) \<and> b_starts_at b < b_ends_at b
     \<and> b_id b \<notin> b_id ` set others \<and> (\<forall>c \<in> set others. \<not> rooms_clash b c)"
  by (auto simp: check_booking_def list_ex_iff)

lemma insert_booking_eq_Inr [tx_simps]:
  "insert_booking b d = Inr d' \<longleftrightarrow> check_booking b (t_bookings d) = Inr ()
     \<and> b_venue_id b \<in> v_id ` set (t_venues d) \<and> b_room_id b \<in> r_id ` set (t_rooms d)
     \<and> b_user_id b \<in> u_id ` set (t_users d)
     \<and> d' = d\<lparr>t_bookings := t_bookings d @ [b]\<rparr>"
  by (auto simp: insert_booking_def result_bind_eq_Inr split: if_splits)

lemma update_booking_eq_Inr:
  "update_booking bid f d = Inr (r, d') \<longleftrightarrow>
     (case List.find (\<lambda>b. b_id b = bid) (t_bookings d) of
        None \<Rightarrow> r = None \<and> d' = d
      | Some b \<Rightarrow> check_booking (f b) (filter (\<lambda>b. b_id b \<noteq> bid) (t_bookings d)) = Inr ()
          \<and> r = Some (f b)
          \<and> d' = d\<lparr>t_bookings := update_where (\<lambda>b. b_id b = bid) (\<lambda>_. f b) (t_bookings d)\<rparr>)"
  by (auto simp: update_booking_def result_bind_eq_Inr split: option.splits)

lemma bookings_consistent_snoc:
  assumes "bookings_consistent bs" and "check_booking b bs = Inr ()"
  shows "bookings_consistent (bs @ [b])"
  using assms rooms_clash_sym unfolding bookings_consistent_def check_booking_eq_Inr
  by (auto simp: rev_image_eqI)

text \<open>A write of one row keeps the constraints when the row passes the checks.\<close>

lemma bookings_consistent_update:
  assumes "bookings_consistent bs"
    and "check_booking b (filter (\<lambda>b. b_id b \<noteq> bid) bs) = Inr ()" and "b_id b = bid"
  shows "bookings_consistent (update_where (\<lambda>b. b_id b = bid) (\<lambda>_. b) bs)"
proof -
  have "map b_id (update_where (\<lambda>b. b_id b = bid) (\<lambda>_. b) bs) = map b_id bs"
    using assms(3) by (intro map_key_update_where) simp
  then show ?thesis
    using assms rooms_clash_sym unfolding bookings_consistent_def check_booking_eq_Inr
    by (auto simp: set_update_where split: if_splits)
qed

text \<open>A bulk write that only makes rows inactive keeps them too.\<close>

lemma bookings_consistent_deactivate:
  assumes "bookings_consistent bs"
    and "\<And>b. q b \<Longrightarrow> b_id (f b) = b_id b \<and> b_starts_at (f b) = b_starts_at b
           \<and> b_ends_at (f b) = b_ends_at b \<and> \<not> is_active (b_status (f b))"
  shows "bookings_consistent (update_where q f bs)"
proof -
  have "map b_id (update_where q f bs) = map b_id bs"
    using assms(2) by (intro map_key_update_where) simp
  moreover have "\<not> rooms_clash (f b) c" "\<not> rooms_clash c (f b)" if "q b" for b c
    using assms(2) [OF that] by (simp_all add: rooms_clash_def)
  ultimately show ?thesis
    using assms unfolding bookings_consistent_def
    by (auto simp: set_update_where split: if_splits)
qed

lemma payments_consistent_update:
  assumes "payments_consistent ps" and "p_id p = pid"
    and "\<not> list_ex (payment_clash p) (filter (\<lambda>q. p_id q \<noteq> pid) ps)"
  shows "payments_consistent (update_where (\<lambda>q. p_id q = pid) (\<lambda>_. p) ps)"
proof -
  have "map p_id (update_where (\<lambda>q. p_id q = pid) (\<lambda>_. p) ps) = map p_id ps"
    using assms(2) by (intro map_key_update_where) simp
  then show ?thesis
    using assms payment_clash_sym unfolding payments_consistent_def
    by (auto simp: set_update_where list_ex_iff split: if_splits)
qed

end
