(* ===== verification/Retry.thy ===== *)
theory Retry
  imports Schema
begin

text \<open>
  \<open>apps/api/src/common/pg-errors.ts\<close> and \<open>apps/api/src/common/retry-transaction.ts\<close>: finding the
  SQLSTATE of an exception through its cause chain, and running a transaction again when Postgres
  threw it away.

  The attempts of one operation are a function from the number of the attempt to a handler on the
  state: what differs between two attempts (the clock, a fresh id, an abort by Postgres) is in the
  number. The back-off between attempts only waits, and is left out.
\<close>

section \<open>Classifying an exception\<close>

definition CHAIN_DEPTH :: nat where
  "CHAIN_DEPTH = 8"

fun chain_code :: "nat \<Rightarrow> js_err option \<Rightarrow> string option" where
  "chain_code 0 _ = None"
| "chain_code _ None = None"
| "chain_code (Suc k) (Some (JsErr (Some c) _ _)) = Some c"
| "chain_code (Suc k) (Some (JsErr None _ cause)) = chain_code k cause"

fun chain_constraint :: "nat \<Rightarrow> js_err option \<Rightarrow> string option" where
  "chain_constraint 0 _ = None"
| "chain_constraint _ None = None"
| "chain_constraint (Suc k) (Some (JsErr _ (Some c) _)) = Some c"
| "chain_constraint (Suc k) (Some (JsErr _ None cause)) = chain_constraint k cause"

text \<open>Only an error of the driver has a \<open>code\<close> in its chain; the HTTP exceptions have none.\<close>

fun thrown :: "exn \<Rightarrow> js_err option" where
  "thrown (DbError e) = Some e"
| "thrown _ = None"

definition pgErrorCode :: "exn \<Rightarrow> string option" where
  "pgErrorCode e = chain_code CHAIN_DEPTH (thrown e)"

definition pgConstraintName :: "exn \<Rightarrow> string option" where
  "pgConstraintName e = chain_constraint CHAIN_DEPTH (thrown e)"

definition isUniqueViolation :: "exn \<Rightarrow> string option \<Rightarrow> bool" where
  "isUniqueViolation e cons \<longleftrightarrow> pgErrorCode e = Some ''23505''
     \<and> (cons = None \<or> pgConstraintName e = cons)"

definition isExclusionViolation :: "exn \<Rightarrow> bool" where
  "isExclusionViolation e \<longleftrightarrow> pgErrorCode e = Some ''23P01''"

definition isTransientRollback :: "exn \<Rightarrow> bool" where
  "isTransientRollback e \<longleftrightarrow> pgErrorCode e = Some ''40P01'' \<or> pgErrorCode e = Some ''40001''"

definition isCheckViolation :: "exn \<Rightarrow> string option \<Rightarrow> bool" where
  "isCheckViolation e cons \<longleftrightarrow> pgErrorCode e = Some ''23514''
     \<and> (cons = None \<or> pgConstraintName e = cons)"

text \<open>Wrapping an error \<open>n\<close> times in errors that carry no code of their own.\<close>

fun wrapped :: "nat \<Rightarrow> js_err \<Rightarrow> js_err" where
  "wrapped 0 e = e"
| "wrapped (Suc n) e = JsErr None None (Some (wrapped n e))"

lemma chain_code_wrapped:
  "chain_code k (Some (wrapped n (JsErr (Some c) cons cause))) = (if n < k then Some c else None)"
  by (induction k arbitrary: n) (case_tac n; simp)+

lemma chain_constraint_wrapped:
  "chain_constraint k (Some (wrapped n (JsErr code (Some c) cause))) = (if n < k then Some c else None)"
  by (induction k arbitrary: n) (case_tac n; simp)+

lemma pgErrorCode_http [simp]:
  "pgErrorCode NotFound = None" "pgErrorCode Forbidden = None" "pgErrorCode Unauthorized = None"
  "pgErrorCode (Conflict c) = None" "pgErrorCode (Unprocessable u) = None"
  "pgErrorCode ServiceUnavailable = None" "pgErrorCode BadGateway = None"
  "pgErrorCode (JsError m) = None"
  by (simp_all add: pgErrorCode_def CHAIN_DEPTH_def eval_nat_numeral)

lemma pgErrorCode_pg_error [simp]: "pgErrorCode (pg_error code cons) = Some code"
  by (simp add: pgErrorCode_def pg_error_def CHAIN_DEPTH_def eval_nat_numeral)

lemma http_not_transient [simp]:
  "\<not> isTransientRollback NotFound" "\<not> isTransientRollback Forbidden"
  "\<not> isTransientRollback Unauthorized" "\<not> isTransientRollback (Conflict c)"
  "\<not> isTransientRollback (Unprocessable u)" "\<not> isTransientRollback ServiceUnavailable"
  "\<not> isTransientRollback BadGateway" "\<not> isTransientRollback (JsError m)"
  by (simp_all add: isTransientRollback_def)

section \<open>Retrying\<close>

fun retry_loop :: "nat \<Rightarrow> nat \<Rightarrow> (nat \<Rightarrow> 's \<Rightarrow> (exn + 'a) \<times> 's) \<Rightarrow> exn \<Rightarrow> 's \<Rightarrow> (exn + 'a) \<times> 's" where
  "retry_loop 0 attempt run lastError s = (Inl lastError, s)"
| "retry_loop (Suc left) attempt run lastError s =
     (case run attempt s of
        (Inr a, s') \<Rightarrow> (Inr a, s')
      | (Inl e, s') \<Rightarrow>
          if \<not> isTransientRollback e then (Inl e, s')
          else retry_loop left (Suc attempt) run e s')"

text \<open>\<open>throw lastError\<close> with no attempt made throws \<open>undefined\<close>.\<close>

definition withTransientRetry :: "nat \<Rightarrow> (nat \<Rightarrow> 's \<Rightarrow> (exn + 'a) \<times> 's) \<Rightarrow> 's \<Rightarrow> (exn + 'a) \<times> 's" where
  "withTransientRetry attempts run s = retry_loop attempts 1 run (JsError ''undefined'') s"

text \<open>
  The contract of a runner that is safe to retry: an attempt that throws leaves the state alone.
  A database transaction keeps it, whatever its body does.
\<close>

locale rolled_back =
  fixes run :: "nat \<Rightarrow> 's \<Rightarrow> (exn + 'a) \<times> 's"
  assumes rolls_back: "run k s = (Inl e, s') \<Longrightarrow> s' = s"
begin

lemma retry_loop_outcome:
  assumes "0 < left"
  shows "\<exists>n < left.
    retry_loop left k run e0 s = run (k + n) s
    \<and> (\<forall>j < n. \<exists>e. run (k + j) s = (Inl e, s) \<and> isTransientRollback e)
    \<and> (Suc n < left \<longrightarrow> (\<forall>e. fst (run (k + n) s) = Inl e \<longrightarrow> \<not> isTransientRollback e))"
  using assms
proof (induction left arbitrary: k e0)
  case (Suc left)
  show ?case
  proof (cases "\<exists>e. run k s = (Inl e, s) \<and> isTransientRollback e \<and> 0 < left")
    case True
    then obtain e where e: "run k s = (Inl e, s)" "isTransientRollback e" "0 < left" by auto
    from Suc.IH [OF e(3), of "Suc k" e] obtain n where n: "n < left"
      "retry_loop left (Suc k) run e s = run (Suc k + n) s"
      "\<forall>j < n. \<exists>e. run (Suc k + j) s = (Inl e, s) \<and> isTransientRollback e"
      "Suc n < left \<longrightarrow> (\<forall>e. fst (run (Suc k + n) s) = Inl e \<longrightarrow> \<not> isTransientRollback e)"
      by blast
    have "\<exists>e. run (k + j) s = (Inl e, s) \<and> isTransientRollback e" if "j < Suc n" for j
      using that e n(3) by (cases j) auto
    then show ?thesis using n e by (intro exI [of _ "Suc n"]) auto
  next
    case False
    have "retry_loop (Suc left) k run e0 s = run k s"
    proof (cases "run k s")
      case (Pair r s')
      show ?thesis
      proof (cases r)
        case (Inl e)
        with Pair rolls_back have "s' = s" by blast
        with False Pair Inl show ?thesis by (cases left) auto
      qed (use Pair in simp)
    qed
    moreover have "\<not> isTransientRollback e" if "fst (run k s) = Inl e" "0 < left" for e
      using False that rolls_back by (cases "run k s") auto
    ultimately show ?thesis by (intro exI [of _ 0]) auto
  qed
qed simp

end

interpretation tx_retry: rolled_back "\<lambda>k. transaction (body k)" for body
  by unfold_locales (simp add: tx_simps)

section \<open>Properties\<close>

text \<open>
  C29. The result of a retried transaction is the result of one of its attempts, made on the state the
  operation was called with: at most \<open>attempts\<close> were made, every attempt before it was thrown away
  by Postgres and left no trace, and only the last one allowed may itself be a rollback.
\<close>

lemma withTransientRetry_once:
  assumes "0 < attempts"
  shows "\<exists>k. 1 \<le> k \<and> k \<le> attempts
    \<and> withTransientRetry attempts (\<lambda>k. transaction (body k)) s = transaction (body k) s
    \<and> (\<forall>j. 1 \<le> j \<and> j < k \<longrightarrow> (\<exists>e. body j s = Inl e \<and> isTransientRollback e))
    \<and> (k < attempts \<longrightarrow> (\<forall>e. body k s = Inl e \<longrightarrow> \<not> isTransientRollback e))"
proof -
  obtain n where n: "n < attempts"
    "retry_loop attempts 1 (\<lambda>k. transaction (body k)) (JsError ''undefined'') s = transaction (body (1 + n)) s"
    "\<forall>j < n. \<exists>e. transaction (body (1 + j)) s = (Inl e, s) \<and> isTransientRollback e"
    "Suc n < attempts \<longrightarrow> (\<forall>e. fst (transaction (body (1 + n)) s) = Inl e \<longrightarrow> \<not> isTransientRollback e)"
    using tx_retry.retry_loop_outcome [OF assms, of 1 body "JsError ''undefined''" s] by blast
  have "\<exists>e. body j s = Inl e \<and> isTransientRollback e" if "1 \<le> j" "j < Suc n" for j
    using n(3) [rule_format, of "j - 1"] that by (auto simp: tx_simps)
  then show ?thesis
    using n unfolding withTransientRetry_def by (intro exI [of _ "Suc n"]) (auto simp: transaction_def)
qed

lemma withTransientRetry_cases:
  assumes "0 < attempts" and "withTransientRetry attempts (\<lambda>k. transaction (body k)) s = (r, s')"
  obtains k where "1 \<le> k" "k \<le> attempts" "transaction (body k) s = (r, s')"
proof -
  obtain n where "n < attempts"
    "retry_loop attempts 1 (\<lambda>k. transaction (body k)) (JsError ''undefined'') s = transaction (body (1 + n)) s"
    using tx_retry.retry_loop_outcome [OF assms(1), of 1 body "JsError ''undefined''" s] by blast
  then show ?thesis using that [of "Suc n"] assms(2) by (simp add: withTransientRetry_def)
qed

end
