(* ===== verification/StateMachine.thy ===== *)
theory StateMachine
  imports Schema
begin

text \<open>
  \<open>apps/api/src/bookings/booking-state-machine.service.ts\<close>: the legality table, the operations
  that write \<open>bookings.status\<close>, and the audit row each of them writes.

  An operation runs inside the caller's transaction, so it is a function from the database to an
  exception or the result with the database after it. The instant of the transaction is the
  argument \<open>now\<close>, for \<open>new Date()\<close> and for the database's \<open>now()\<close> alike. A row lock has no effect
  of its own here: the operations of one transaction are not interleaved with another's.
\<close>

section \<open>Actors and the legality table\<close>

record actor =
  actor_type :: audit_actor_type
  actor_id :: "uuid option"

definition SYSTEM_ACTOR :: actor where
  "SYSTEM_ACTOR = \<lparr>actor_type = ActorSystem, actor_id = None\<rparr>"

definition user_actor :: "uuid \<Rightarrow> actor" where
  "user_actor uid = \<lparr>actor_type = ActorUser, actor_id = Some uid\<rparr>"

fun LEGAL_TRANSITIONS :: "booking_status \<Rightarrow> booking_status list" where
  "LEGAL_TRANSITIONS DRAFT = [HELD]"
| "LEGAL_TRANSITIONS HELD = [PENDING_PAYMENT, EXPIRED, CANCELLED]"
| "LEGAL_TRANSITIONS PENDING_PAYMENT = [CONFIRMED, FAILED, EXPIRED]"
| "LEGAL_TRANSITIONS CONFIRMED = [CANCELLED, COMPLETED]"
| "LEGAL_TRANSITIONS COMPLETED = []"
| "LEGAL_TRANSITIONS EXPIRED = []"
| "LEGAL_TRANSITIONS FAILED = []"
| "LEGAL_TRANSITIONS CANCELLED = [REFUNDED]"
| "LEGAL_TRANSITIONS REFUNDED = []"

definition isLegalTransition :: "booking_status \<Rightarrow> booking_status \<Rightarrow> bool" where
  "isLegalTransition s t \<longleftrightarrow> t \<in> set (LEGAL_TRANSITIONS s)"

fun_cases LEGAL_TRANSITIONS_elim: "LEGAL_TRANSITIONS s = ts"

lemma isLegalTransition_simps [simp]:
  "isLegalTransition DRAFT t \<longleftrightarrow> t = HELD"
  "isLegalTransition HELD t \<longleftrightarrow> t = PENDING_PAYMENT \<or> t = EXPIRED \<or> t = CANCELLED"
  "isLegalTransition PENDING_PAYMENT t \<longleftrightarrow> t = CONFIRMED \<or> t = FAILED \<or> t = EXPIRED"
  "isLegalTransition CONFIRMED t \<longleftrightarrow> t = CANCELLED \<or> t = COMPLETED"
  "\<not> isLegalTransition COMPLETED t" "\<not> isLegalTransition EXPIRED t"
  "\<not> isLegalTransition FAILED t" "isLegalTransition CANCELLED t \<longleftrightarrow> t = REFUNDED"
  "\<not> isLegalTransition REFUNDED t"
  by (simp_all add: isLegalTransition_def)

text \<open>Every legal move goes up in the order of the enum, so no sequence of moves returns.\<close>

lemma legal_increases: "isLegalTransition s t \<Longrightarrow> s < t"
  by (cases s) (auto simp: less_booking_status_def)

lemma legal_not_refl [simp]: "\<not> isLegalTransition s s"
  using legal_increases by blast

lemma legal_into_active: "isLegalTransition s t \<Longrightarrow> is_active t \<Longrightarrow> is_active s \<or> s = DRAFT"
  by (cases s) auto

section \<open>Writing a booking and its audit row\<close>

text \<open>The columns a caller may write in the same UPDATE, and never the status.\<close>

record booking_patch =
  patch_expires_at :: "instant option option"
  patch_policy_snapshot :: "json option option"
  patch_total_minor :: "int option"
  patch_rearm_count :: "int option"

definition no_patch :: booking_patch where
  "no_patch = \<lparr>patch_expires_at = None, patch_policy_snapshot = None, patch_total_minor = None,
     patch_rearm_count = None\<rparr>"

definition patched :: "'a option \<Rightarrow> 'a \<Rightarrow> 'a" where
  "patched p old = (case p of None \<Rightarrow> old | Some new \<Rightarrow> new)"

definition apply_patch :: "booking_patch \<Rightarrow> booking \<Rightarrow> booking" where
  "apply_patch p b =
     b\<lparr>b_expires_at := patched (patch_expires_at p) (b_expires_at b),
       b_policy_snapshot := patched (patch_policy_snapshot p) (b_policy_snapshot b),
       b_total_minor := patched (patch_total_minor p) (b_total_minor b),
       b_rearm_count := patched (patch_rearm_count p) (b_rearm_count b)\<rparr>"

lemma patched_simps [simp]: "patched None x = x" "patched (Some y) x = y"
  by (simp_all add: patched_def)

lemma apply_patch_sel [simp]:
  "b_id (apply_patch p b) = b_id b" "b_venue_id (apply_patch p b) = b_venue_id b"
  "b_room_id (apply_patch p b) = b_room_id b" "b_user_id (apply_patch p b) = b_user_id b"
  "b_starts_at (apply_patch p b) = b_starts_at b" "b_ends_at (apply_patch p b) = b_ends_at b"
  "b_status (apply_patch p b) = b_status b" "b_created_at (apply_patch p b) = b_created_at b"
  "b_updated_at (apply_patch p b) = b_updated_at b" "b_currency (apply_patch p b) = b_currency b"
  "b_expires_at (apply_patch p b) = patched (patch_expires_at p) (b_expires_at b)"
  "b_total_minor (apply_patch p b) = patched (patch_total_minor p) (b_total_minor b)"
  "b_rearm_count (apply_patch p b) = patched (patch_rearm_count p) (b_rearm_count b)"
  "b_policy_snapshot (apply_patch p b) = patched (patch_policy_snapshot p) (b_policy_snapshot b)"
  by (simp_all add: apply_patch_def)

lemma apply_no_patch [simp]: "apply_patch no_patch b = b"
  by (simp add: apply_patch_def no_patch_def)

definition audit :: "uuid \<Rightarrow> actor \<Rightarrow> booking_status \<Rightarrow> booking_status \<Rightarrow> string \<Rightarrow> instant
    \<Rightarrow> audit_event" where
  "audit bid who s t why ts =
     \<lparr>ae_booking_id = bid, ae_actor_type = actor_type who, ae_actor_id = actor_id who,
      ae_from_state = s, ae_to_state = t, ae_reason = why, ae_occurred_at = ts\<rparr>"

lemma audit_sel [simp]:
  "ae_booking_id (audit bid who s t why ts) = bid"
  "ae_from_state (audit bid who s t why ts) = s" "ae_to_state (audit bid who s t why ts) = t"
  "ae_reason (audit bid who s t why ts) = why"
  "ae_actor_type (audit bid who s t why ts) = actor_type who"
  by (simp_all add: audit_def)

definition add_audits :: "audit_event list \<Rightarrow> db \<Rightarrow> db" where
  "add_audits es d = d\<lparr>t_audit_events := t_audit_events d @ es\<rparr>"

lemma add_audits_sel [simp]:
  "t_audit_events (add_audits es d) = t_audit_events d @ es"
  "t_bookings (add_audits es d) = t_bookings d" "t_payments (add_audits es d) = t_payments d"
  "t_payment_events (add_audits es d) = t_payment_events d"
  "t_webhook_deliveries (add_audits es d) = t_webhook_deliveries d"
  "t_booking_line_items (add_audits es d) = t_booking_line_items d"
  "t_equipment_types (add_audits es d) = t_equipment_types d"
  "t_cancellation_policies (add_audits es d) = t_cancellation_policies d"
  "t_venues (add_audits es d) = t_venues d" "t_rooms (add_audits es d) = t_rooms d"
  "t_users (add_audits es d) = t_users d"
  by (simp_all add: add_audits_def)

definition find_booking :: "uuid \<Rightarrow> db \<Rightarrow> booking option" where
  "find_booking bid d = List.find (\<lambda>b. b_id b = bid) (t_bookings d)"

lemma find_booking_SomeD: "find_booking bid d = Some b \<Longrightarrow> b \<in> set (t_bookings d) \<and> b_id b = bid"
  unfolding find_booking_def by (rule find_SomeD)

section \<open>The operations\<close>

definition lockForUpdate :: "uuid \<Rightarrow> db \<Rightarrow> exn + booking" where
  "lockForUpdate bid d = or_throw (find_booking bid d) NotFound"

text \<open>Create a booking directly in HELD; the row's id and creation instant come from the database.\<close>

record held_values =
  hv_venue_id :: uuid
  hv_room_id :: uuid
  hv_user_id :: uuid
  hv_starts_at :: instant
  hv_ends_at :: instant
  hv_expires_at :: instant
  hv_total_minor :: int
  hv_currency :: string

definition held_booking :: "uuid \<Rightarrow> held_values \<Rightarrow> instant \<Rightarrow> booking" where
  "held_booking bid v now =
     \<lparr>b_id = bid, b_venue_id = hv_venue_id v, b_room_id = hv_room_id v, b_user_id = hv_user_id v,
      b_starts_at = hv_starts_at v, b_ends_at = hv_ends_at v, b_status = HELD,
      b_expires_at = Some (hv_expires_at v), b_rearm_count = 0, b_policy_snapshot = None,
      b_total_minor = hv_total_minor v, b_currency = hv_currency v, b_created_at = now,
      b_updated_at = now\<rparr>"

lemma held_booking_sel [simp]:
  "b_id (held_booking bid v now) = bid" "b_status (held_booking bid v now) = HELD"
  "b_room_id (held_booking bid v now) = hv_room_id v"
  "b_venue_id (held_booking bid v now) = hv_venue_id v"
  "b_user_id (held_booking bid v now) = hv_user_id v"
  "b_starts_at (held_booking bid v now) = hv_starts_at v"
  "b_ends_at (held_booking bid v now) = hv_ends_at v"
  "b_expires_at (held_booking bid v now) = Some (hv_expires_at v)"
  "b_total_minor (held_booking bid v now) = hv_total_minor v"
  "b_rearm_count (held_booking bid v now) = 0" "b_created_at (held_booking bid v now) = now"
  "b_policy_snapshot (held_booking bid v now) = None"
  by (simp_all add: held_booking_def)

definition createHeld :: "uuid \<Rightarrow> held_values \<Rightarrow> actor \<Rightarrow> string \<Rightarrow> instant \<Rightarrow> db
    \<Rightarrow> exn + booking \<times> db" where
  "createHeld bid v who why now d =
     result_bind (insert_booking (held_booking bid v now) d) (\<lambda>d1.
       Inr (held_booking bid v now, add_audits [audit bid who DRAFT HELD why now] d1))"

record transition_input =
  ti_booking_id :: uuid
  ti_to :: booking_status
  ti_actor :: actor
  ti_reason :: string
  ti_expected_from :: "booking_status list option"
  ti_patch :: booking_patch

definition expected_ok :: "booking_status list option \<Rightarrow> booking_status \<Rightarrow> bool" where
  "expected_ok es s \<longleftrightarrow> (case es of None \<Rightarrow> True | Some ss \<Rightarrow> s \<in> set ss)"

lemma expected_ok_simps [simp]: "expected_ok None s" "expected_ok (Some ss) s \<longleftrightarrow> s \<in> set ss"
  by (simp_all add: expected_ok_def)

definition moved :: "transition_input \<Rightarrow> instant \<Rightarrow> booking \<Rightarrow> booking" where
  "moved i now b = apply_patch (ti_patch i) (b\<lparr>b_status := ti_to i, b_updated_at := now\<rparr>)"

definition transition :: "transition_input \<Rightarrow> instant \<Rightarrow> db \<Rightarrow> exn + booking \<times> db" where
  "transition i now d =
     result_bind (lockForUpdate (ti_booking_id i) d) (\<lambda>locked.
     let s = b_status locked in
     result_bind (ensure (expected_ok (ti_expected_from i) s)
       (Conflict (UnexpectedStatus (ti_booking_id i) s (case ti_expected_from i of Some ss \<Rightarrow> ss | None \<Rightarrow> []))))
       (\<lambda>_.
     result_bind (ensure (isLegalTransition s (ti_to i))
       (Conflict (IllegalTransition (ti_booking_id i) s (ti_to i)))) (\<lambda>_.
     result_bind (update_booking (ti_booking_id i) (moved i now) d) (\<lambda>(row, d1).
     result_bind (or_throw row NotFound) (\<lambda>updated.
       Inr (updated,
         add_audits [audit (b_id updated) (ti_actor i) s (ti_to i) (ti_reason i) now] d1))))))"

record side_effect_input =
  se_booking_id :: uuid
  se_actor :: actor
  se_reason :: string
  se_patch :: booking_patch
  se_expected_from :: "booking_status list option"

definition recordSideEffect :: "side_effect_input \<Rightarrow> instant \<Rightarrow> db \<Rightarrow> exn + booking \<times> db" where
  "recordSideEffect i now d =
     result_bind (lockForUpdate (se_booking_id i) d) (\<lambda>locked.
     let s = b_status locked in
     result_bind (ensure (expected_ok (se_expected_from i) s)
       (Conflict (UnexpectedStatus (se_booking_id i) s (case se_expected_from i of Some ss \<Rightarrow> ss | None \<Rightarrow> []))))
       (\<lambda>_.
     result_bind (update_booking (se_booking_id i)
         (\<lambda>b. (apply_patch (se_patch i) b)\<lparr>b_updated_at := now\<rparr>) d) (\<lambda>(row, d1).
     result_bind (or_throw row NotFound) (\<lambda>updated.
       Inr (updated, add_audits [audit (b_id updated) (se_actor i) s s (se_reason i) now] d1)))))"

text \<open>A hold whose TTL has passed, in the form of the two expiry statements (\<open>expires_at < now()\<close>).\<close>

definition stale_hold :: "instant \<Rightarrow> booking \<Rightarrow> bool" where
  "stale_hold now b \<longleftrightarrow> b_status b = HELD \<and> (case b_expires_at b of None \<Rightarrow> False | Some t \<Rightarrow> t < now)"

text \<open>Flip the rows \<open>q\<close> selects to EXPIRED, in one UPDATE, and audit each of them.\<close>

definition expire_rows :: "(booking \<Rightarrow> bool) \<Rightarrow> actor \<Rightarrow> string \<Rightarrow> instant \<Rightarrow> db \<Rightarrow> uuid list \<times> db" where
  "expire_rows q who why now d =
     (let ids = map b_id (filter q (t_bookings d)) in
      (ids,
       add_audits (map (\<lambda>bid. audit bid who HELD EXPIRED why now) ids)
         (d\<lparr>t_bookings :=
            update_where q (\<lambda>b. b\<lparr>b_status := EXPIRED, b_updated_at := now\<rparr>) (t_bookings d)\<rparr>)))"

definition expireStaleHoldsForRoom :: "uuid \<Rightarrow> actor \<Rightarrow> string \<Rightarrow> instant \<Rightarrow> db \<Rightarrow> uuid list \<times> db" where
  "expireStaleHoldsForRoom rid who why now d =
     expire_rows (\<lambda>b. b_room_id b = rid \<and> stale_hold now b) who why now d"

text \<open>
  The sweeper's batch: the \<open>batch\<close> stale holds that expired first. \<open>busy\<close> are the rows another
  transaction has locked at that moment, which SKIP LOCKED passes over.
\<close>

definition stale_batch :: "nat \<Rightarrow> (booking \<Rightarrow> bool) \<Rightarrow> instant \<Rightarrow> db \<Rightarrow> uuid list" where
  "stale_batch batch busy now d =
     map b_id (take batch (sort_key (\<lambda>b. case b_expires_at b of None \<Rightarrow> 0 | Some t \<Rightarrow> t)
       (filter (\<lambda>b. stale_hold now b \<and> \<not> busy b) (t_bookings d))))"

definition expireStaleHolds :: "nat \<Rightarrow> (booking \<Rightarrow> bool) \<Rightarrow> actor \<Rightarrow> instant \<Rightarrow> db \<Rightarrow> uuid list \<times> db" where
  "expireStaleHolds batch busy who now d =
     (let ids = stale_batch batch busy now d in
      expire_rows (\<lambda>b. b_id b \<in> set ids) who ''hold.expired.sweeper'' now d)"

section \<open>What an operation does\<close>

lemma find_booking_update:
  assumes "find_booking bid d = Some b" and "b_id b' = bid"
  shows "find_booking bid (d\<lparr>t_bookings := update_where (\<lambda>b. b_id b = bid) (\<lambda>_. b') (t_bookings d)\<rparr>)
       = Some b'"
  using assms find_update_where_key [of b_id bid "\<lambda>_. b'" "t_bookings d"]
  by (simp add: find_booking_def)

lemma moved_sel [simp]:
  "b_id (moved i now b) = b_id b" "b_status (moved i now b) = ti_to i"
  "b_room_id (moved i now b) = b_room_id b" "b_venue_id (moved i now b) = b_venue_id b"
  "b_user_id (moved i now b) = b_user_id b" "b_starts_at (moved i now b) = b_starts_at b"
  "b_ends_at (moved i now b) = b_ends_at b" "b_created_at (moved i now b) = b_created_at b"
  "b_expires_at (moved i now b) = patched (patch_expires_at (ti_patch i)) (b_expires_at b)"
  "b_total_minor (moved i now b) = patched (patch_total_minor (ti_patch i)) (b_total_minor b)"
  "b_rearm_count (moved i now b) = patched (patch_rearm_count (ti_patch i)) (b_rearm_count b)"
  "b_policy_snapshot (moved i now b)
     = patched (patch_policy_snapshot (ti_patch i)) (b_policy_snapshot b)"
  by (simp_all add: moved_def)

text \<open>The database after one row has been replaced and audited.\<close>

definition booking_written :: "booking \<Rightarrow> audit_event \<Rightarrow> db \<Rightarrow> db" where
  "booking_written b e d =
     add_audits [e] (d\<lparr>t_bookings := update_where (\<lambda>c. b_id c = b_id b) (\<lambda>_. b) (t_bookings d)\<rparr>)"

lemma booking_written_sel [simp]:
  "t_bookings (booking_written b e d) = update_where (\<lambda>c. b_id c = b_id b) (\<lambda>_. b) (t_bookings d)"
  "t_audit_events (booking_written b e d) = t_audit_events d @ [e]"
  "t_payments (booking_written b e d) = t_payments d"
  "t_payment_events (booking_written b e d) = t_payment_events d"
  "t_webhook_deliveries (booking_written b e d) = t_webhook_deliveries d"
  "t_booking_line_items (booking_written b e d) = t_booking_line_items d"
  "t_equipment_types (booking_written b e d) = t_equipment_types d"
  "t_cancellation_policies (booking_written b e d) = t_cancellation_policies d"
  "t_venues (booking_written b e d) = t_venues d" "t_rooms (booking_written b e d) = t_rooms d"
  "t_users (booking_written b e d) = t_users d"
  by (simp_all add: booking_written_def)

lemma transition_eq_Inr:
  "transition i now d = Inr (b', d') \<longleftrightarrow>
     (\<exists>b. find_booking (ti_booking_id i) d = Some b
        \<and> expected_ok (ti_expected_from i) (b_status b) \<and> isLegalTransition (b_status b) (ti_to i)
        \<and> check_booking (moved i now b) (filter (\<lambda>c. b_id c \<noteq> ti_booking_id i) (t_bookings d)) = Inr ()
        \<and> b' = moved i now b
        \<and> d' = booking_written b'
                 (audit (ti_booking_id i) (ti_actor i) (b_status b) (ti_to i) (ti_reason i) now) d)"
proof (cases "find_booking (ti_booking_id i) d")
  case (Some b)
  then have id: "ti_booking_id i = b_id b" by (auto dest: find_booking_SomeD)
  show ?thesis using Some unfolding id
    by (auto simp: transition_def lockForUpdate_def result_bind_eq_Inr ensure_eq_Inr Let_def
        update_booking_eq_Inr booking_written_def find_booking_def id split: option.splits)
qed (simp add: transition_def lockForUpdate_def)

lemma recordSideEffect_eq_Inr:
  "recordSideEffect i now d = Inr (b', d') \<longleftrightarrow>
     (\<exists>b. find_booking (se_booking_id i) d = Some b
        \<and> expected_ok (se_expected_from i) (b_status b)
        \<and> check_booking b' (filter (\<lambda>c. b_id c \<noteq> se_booking_id i) (t_bookings d)) = Inr ()
        \<and> b' = (apply_patch (se_patch i) b)\<lparr>b_updated_at := now\<rparr>
        \<and> d' = booking_written b'
                 (audit (se_booking_id i) (se_actor i) (b_status b) (b_status b) (se_reason i) now) d)"
proof (cases "find_booking (se_booking_id i) d")
  case (Some b)
  then have id: "se_booking_id i = b_id b" by (auto dest: find_booking_SomeD)
  show ?thesis using Some unfolding id
    by (auto simp: recordSideEffect_def lockForUpdate_def result_bind_eq_Inr ensure_eq_Inr Let_def
        update_booking_eq_Inr booking_written_def find_booking_def id split: option.splits)
qed (simp add: recordSideEffect_def lockForUpdate_def)

lemma createHeld_eq_Inr:
  "createHeld bid v who why now d = Inr (b, d') \<longleftrightarrow>
     b = held_booking bid v now
     \<and> (\<exists>d1. insert_booking b d = Inr d1 \<and> d' = add_audits [audit bid who DRAFT HELD why now] d1)"
  by (auto simp: createHeld_def result_bind_eq_Inr)

text \<open>No row is ever persisted as DRAFT, and the totals fit their columns.\<close>

definition bookings_stored :: "booking list \<Rightarrow> bool" where
  "bookings_stored bs \<longleftrightarrow> bookings_consistent bs
     \<and> (\<forall>b \<in> set bs. b_status b \<noteq> DRAFT \<and> in_bigint (b_total_minor b) \<and> in_smallint (b_rearm_count b))"

definition patch_in_range :: "booking_patch \<Rightarrow> bool" where
  "patch_in_range p \<longleftrightarrow> (\<forall>n. patch_total_minor p = Some n \<longrightarrow> in_bigint n)
     \<and> (\<forall>n. patch_rearm_count p = Some n \<longrightarrow> in_smallint n)"

lemma no_patch_in_range [simp]: "patch_in_range no_patch"
  by (simp add: patch_in_range_def no_patch_def)

lemma patched_total_in_range:
  "patch_in_range p \<Longrightarrow> in_bigint n \<Longrightarrow> in_bigint (patched (patch_total_minor p) n)"
  by (cases "patch_total_minor p") (simp_all add: patch_in_range_def)

lemma patched_rearm_in_range:
  "patch_in_range p \<Longrightarrow> in_smallint n \<Longrightarrow> in_smallint (patched (patch_rearm_count p) n)"
  by (cases "patch_rearm_count p") (simp_all add: patch_in_range_def)

text \<open>
  A row that keeps its room, its interval and its id passes the checks unless it becomes active:
  the exclusion constraint has nothing new to object to.
\<close>

lemma check_booking_kept:
  assumes "bookings_stored bs" and "b \<in> set bs" and "b_id b' = b_id b"
    and "b_room_id b' = b_room_id b" "b_starts_at b' = b_starts_at b" "b_ends_at b' = b_ends_at b"
    and "is_active (b_status b') \<Longrightarrow> is_active (b_status b)"
    and "in_bigint (b_total_minor b')" "in_smallint (b_rearm_count b')"
  shows "check_booking b' (filter (\<lambda>c. b_id c \<noteq> b_id b) bs) = Inr ()"
proof -
  have "\<not> rooms_clash b' c" if "c \<in> set bs" "b_id c \<noteq> b_id b" for c
  proof -
    have "\<not> rooms_clash b c"
      using assms(1,2) that unfolding bookings_stored_def bookings_consistent_def by metis
    then show ?thesis using assms by (auto simp: rooms_clash_def slot_def)
  qed
  then show ?thesis
    using assms unfolding check_booking_eq_Inr bookings_stored_def bookings_consistent_def by auto
qed

lemma check_moved:
  assumes "bookings_stored (t_bookings d)" and "find_booking (ti_booking_id i) d = Some b"
    and "isLegalTransition (b_status b) (ti_to i)" and "patch_in_range (ti_patch i)"
  shows "check_booking (moved i now b) (filter (\<lambda>c. b_id c \<noteq> ti_booking_id i) (t_bookings d)) = Inr ()"
proof -
  have b: "b \<in> set (t_bookings d)" "b_id b = ti_booking_id i"
    using assms(2) by (auto dest: find_booking_SomeD)
  then have "b_status b \<noteq> DRAFT" "in_bigint (b_total_minor b)" "in_smallint (b_rearm_count b)"
    using assms(1) by (auto simp: bookings_stored_def)
  then show ?thesis
    using check_booking_kept [OF assms(1) b(1), of "moved i now b"] assms(3,4) b(2)
    by (auto simp: patched_total_in_range patched_rearm_in_range dest: legal_into_active)
qed

section \<open>The audit trail\<close>

text \<open>
  The trail of a booking is its audit rows that record a move, in the order they were written; an
  audit row from a state to itself records an event and no move.
\<close>

definition trail :: "uuid \<Rightarrow> audit_event list \<Rightarrow> (booking_status \<times> booking_status) list" where
  "trail bid es =
     map (\<lambda>e. (ae_from_state e, ae_to_state e))
       (filter (\<lambda>e. ae_booking_id e = bid \<and> ae_from_state e \<noteq> ae_to_state e) es)"

fun legal_path :: "booking_status \<Rightarrow> (booking_status \<times> booking_status) list \<Rightarrow> booking_status \<Rightarrow> bool" where
  "legal_path s [] t \<longleftrightarrow> s = t"
| "legal_path s ((u, v) # moves) t \<longleftrightarrow> u = s \<and> isLegalTransition s v \<and> legal_path v moves t"

lemma legal_path_snoc:
  "legal_path s (moves @ [(u, v)]) t \<longleftrightarrow> legal_path s moves u \<and> isLegalTransition u v \<and> t = v"
  by (induction moves arbitrary: s) auto

lemma trail_append [simp]: "trail bid (es @ es') = trail bid es @ trail bid es'"
  by (simp add: trail_def)

lemma trail_Nil [simp]: "trail bid [] = []"
  by (simp add: trail_def)

lemma trail_audit [simp]:
  "trail bid [audit bid' who s t why ts] = (if bid' = bid \<and> s \<noteq> t then [(s, t)] else [])"
  by (simp add: trail_def)

text \<open>A path of legal moves visits each status at most once, so a trail is at most eight moves.\<close>

lemma legal_path_sorted:
  "legal_path s moves t \<Longrightarrow> sorted_wrt (<) (s # map snd moves)"
proof (induction moves arbitrary: s)
  case (Cons m moves)
  obtain u v where m: "m = (u, v)" by (cases m)
  with Cons have "s < v" "sorted_wrt (<) (v # map snd moves)" by (auto dest: legal_increases)
  then show ?case by (auto simp: m)
qed simp

definition audit_inv :: "db \<Rightarrow> bool" where
  "audit_inv d \<longleftrightarrow> distinct (map b_id (t_bookings d))
     \<and> (\<forall>b \<in> set (t_bookings d). legal_path DRAFT (trail (b_id b) (t_audit_events d)) (b_status b))
     \<and> (\<forall>e \<in> set (t_audit_events d). ae_booking_id e \<in> b_id ` set (t_bookings d))"

section \<open>The steps a service composes\<close>

text \<open>
  Everything a service does to bookings and audit rows is one of these steps. A row whose status
  changes is written by the state machine alone; the rest of the database may change in any way.
\<close>

inductive sm_step :: "db \<Rightarrow> db \<Rightarrow> bool" where
  created: "createHeld bid v who why now d = Inr (b, d') \<Longrightarrow> sm_step d d'"
| moved: "transition i now d = Inr (b, d') \<Longrightarrow> sm_step d d'"
| noted: "recordSideEffect i now d = Inr (b, d') \<Longrightarrow> sm_step d d'"
| evidence: "bid \<in> b_id ` set (t_bookings d) \<Longrightarrow> sm_step d (add_audits [audit bid who s s why now] d)"
| room_expiry: "sm_step d (snd (expireStaleHoldsForRoom rid who why now d))"
| sweep: "sm_step d (snd (expireStaleHolds batch busy who now d))"
| other: "t_bookings d' = t_bookings d \<Longrightarrow> t_audit_events d' = t_audit_events d \<Longrightarrow> sm_step d d'"

abbreviation sm_steps :: "db \<Rightarrow> db \<Rightarrow> bool" where
  "sm_steps \<equiv> sm_step\<^sup>*\<^sup>*"

lemma sm_steps_refl [simp]: "sm_steps d d"
  by simp

lemmas sm_stepI = sm_step.created sm_step.moved sm_step.noted sm_step.evidence sm_step.room_expiry
  sm_step.sweep

lemma sm_steps_stepI: "sm_step d d' \<Longrightarrow> sm_steps d d'"
  by (rule r_into_rtranclp)

lemma sm_steps_other:
  "t_bookings d' = t_bookings d \<Longrightarrow> t_audit_events d' = t_audit_events d \<Longrightarrow> sm_steps d d'"
  by (rule sm_steps_stepI) (rule sm_step.other)

lemma sm_steps_trans: "sm_steps d d1 \<Longrightarrow> sm_steps d1 d2 \<Longrightarrow> sm_steps d d2"
  by (rule rtranclp_trans)

text \<open>
  The contract of a property of the bookings and their audit rows that every operation of the
  state machine keeps. A client proves the six laws once and has the property for every service.
\<close>

locale booking_property =
  fixes holds :: "db \<Rightarrow> bool"
  assumes keep_insert: "holds d \<Longrightarrow> insert_booking b d = Inr d1 \<Longrightarrow> b_status b = HELD
      \<Longrightarrow> holds (add_audits [audit (b_id b) who DRAFT HELD why now] d1)"
    and keep_move: "holds d \<Longrightarrow> find_booking bid d = Some b \<Longrightarrow> isLegalTransition (b_status b) (b_status b')
      \<Longrightarrow> b_id b' = bid \<Longrightarrow> b_room_id b' = b_room_id b \<Longrightarrow> b_starts_at b' = b_starts_at b
      \<Longrightarrow> b_ends_at b' = b_ends_at b
      \<Longrightarrow> check_booking b' (filter (\<lambda>c. b_id c \<noteq> bid) (t_bookings d)) = Inr ()
      \<Longrightarrow> holds (booking_written b' (audit bid who (b_status b) (b_status b') why now) d)"
    and keep_note: "holds d \<Longrightarrow> find_booking bid d = Some b \<Longrightarrow> b_status b' = b_status b
      \<Longrightarrow> b_id b' = bid \<Longrightarrow> b_room_id b' = b_room_id b \<Longrightarrow> b_starts_at b' = b_starts_at b
      \<Longrightarrow> b_ends_at b' = b_ends_at b
      \<Longrightarrow> check_booking b' (filter (\<lambda>c. b_id c \<noteq> bid) (t_bookings d)) = Inr ()
      \<Longrightarrow> holds (booking_written b' (audit bid who (b_status b) (b_status b) why now) d)"
    and keep_evidence: "holds d \<Longrightarrow> bid \<in> b_id ` set (t_bookings d)
      \<Longrightarrow> holds (add_audits [audit bid who s s why now] d)"
    and keep_expiry: "holds d \<Longrightarrow> (\<And>b. b \<in> set (t_bookings d) \<Longrightarrow> q b \<Longrightarrow> b_status b = HELD)
      \<Longrightarrow> holds (snd (expire_rows q who why now d))"
    and keep_other: "holds d \<Longrightarrow> t_bookings d' = t_bookings d \<Longrightarrow> t_audit_events d' = t_audit_events d
      \<Longrightarrow> holds d'"
    and ids: "holds d \<Longrightarrow> distinct (map b_id (t_bookings d))"
begin

lemma step_keeps:
  assumes "sm_step d d'" and "holds d"
  shows "holds d'"
  using assms
proof cases
  case (created bid v who why now b)
  then show ?thesis using keep_insert [OF assms(2), of b _ who why now]
    by (auto simp: createHeld_eq_Inr)
next
  case (moved i now b)
  then obtain b0 where b0: "find_booking (ti_booking_id i) d = Some b0"
    "isLegalTransition (b_status b0) (ti_to i)" "b = moved i now b0"
    "check_booking b (filter (\<lambda>c. b_id c \<noteq> ti_booking_id i) (t_bookings d)) = Inr ()"
    "d' = booking_written b
       (audit (ti_booking_id i) (ti_actor i) (b_status b0) (ti_to i) (ti_reason i) now) d"
    unfolding transition_eq_Inr by auto
  then show ?thesis
    using keep_move [OF assms(2) b0(1), of b "ti_actor i" "ti_reason i" now]
      find_booking_SomeD [OF b0(1)] by simp
next
  case (noted i now b)
  then obtain b0 where b0: "find_booking (se_booking_id i) d = Some b0"
    "b = (apply_patch (se_patch i) b0)\<lparr>b_updated_at := now\<rparr>"
    "check_booking b (filter (\<lambda>c. b_id c \<noteq> se_booking_id i) (t_bookings d)) = Inr ()"
    "d' = booking_written b
       (audit (se_booking_id i) (se_actor i) (b_status b0) (b_status b0) (se_reason i) now) d"
    unfolding recordSideEffect_eq_Inr by auto
  then show ?thesis
    using keep_note [OF assms(2) b0(1), of b "se_actor i" "se_reason i" now]
      find_booking_SomeD [OF b0(1)] by simp
next
  case (room_expiry rid who why now)
  then show ?thesis
    using keep_expiry [OF assms(2), of "\<lambda>b. b_room_id b = rid \<and> stale_hold now b"]
    by (simp add: expireStaleHoldsForRoom_def) (simp add: stale_hold_def)
next
  case (sweep batch busy who now)
  have "b_status b = HELD"
    if b: "b \<in> set (t_bookings d)" "b_id b \<in> set (stale_batch batch busy now d)" for b
  proof -
    obtain c where c: "c \<in> set (t_bookings d)" "stale_hold now c" "b_id c = b_id b"
      using b(2) unfolding stale_batch_def by (auto dest!: in_set_takeD)
    then have "c = b" using distinct_map_eqD [OF ids [OF assms(2)] c(1) b(1)] by simp
    with c show ?thesis by (simp add: stale_hold_def)
  qed
  then show ?thesis
    using sweep keep_expiry [OF assms(2)] by (simp add: expireStaleHolds_def Let_def)
qed (use assms(2) keep_evidence keep_other in blast)+

lemma steps_keep:
  assumes "sm_steps d d'" and "holds d"
  shows "holds d'"
  using assms by (induction rule: rtranclp_induct) (auto intro: step_keeps)

end

section \<open>The properties every operation keeps\<close>

text \<open>The tables satisfy their constraints: INV-1 in particular, no two active bookings clash.\<close>

definition stored_inv :: "db \<Rightarrow> bool" where
  "stored_inv d \<longleftrightarrow> bookings_stored (t_bookings d)"

lemma stored_written:
  assumes "bookings_stored bs" and "b_id b' = bid" and "b_status b' \<noteq> DRAFT"
    and "check_booking b' (filter (\<lambda>c. b_id c \<noteq> bid) bs) = Inr ()"
  shows "bookings_stored (update_where (\<lambda>c. b_id c = bid) (\<lambda>_. b') bs)"
  using assms bookings_consistent_update [of bs b' bid]
  by (auto simp: bookings_stored_def check_booking_eq_Inr set_update_where)

lemma stored_ids: "bookings_stored bs \<Longrightarrow> distinct (map b_id bs)"
  by (simp add: bookings_stored_def bookings_consistent_def)

lemma stored_expired:
  assumes "bookings_stored bs"
  shows "bookings_stored (update_where q (\<lambda>b. b\<lparr>b_status := EXPIRED, b_updated_at := now\<rparr>) bs)"
  using assms bookings_consistent_deactivate [of bs q "\<lambda>b. b\<lparr>b_status := EXPIRED, b_updated_at := now\<rparr>"]
  by (auto simp: bookings_stored_def set_update_where)

interpretation stored: booking_property stored_inv
proof
  fix d d1 b who why now
  assume "stored_inv d" "insert_booking b d = Inr d1" "b_status b = HELD"
  then show "stored_inv (add_audits [audit (b_id b) who DRAFT HELD why now] d1)"
    using bookings_consistent_snoc [of "t_bookings d" b]
    by (auto simp: stored_inv_def bookings_stored_def insert_booking_eq_Inr check_booking_eq_Inr)
next
  fix d bid who why now and b b' :: booking
  assume a: "stored_inv d" "find_booking bid d = Some b" "isLegalTransition (b_status b) (b_status b')"
    "b_id b' = bid" "check_booking b' (filter (\<lambda>c. b_id c \<noteq> bid) (t_bookings d)) = Inr ()"
  have "b_status b' \<noteq> DRAFT" using a(3) by (cases "b_status b") auto
  then show "stored_inv (booking_written b' (audit bid who (b_status b) (b_status b') why now) d)"
    using a by (auto simp: stored_inv_def intro: stored_written)
next
  fix d bid who why now and b b' :: booking
  assume a: "stored_inv d" "find_booking bid d = Some b" "b_status b' = b_status b" "b_id b' = bid"
    "check_booking b' (filter (\<lambda>c. b_id c \<noteq> bid) (t_bookings d)) = Inr ()"
  then have "b_status b' \<noteq> DRAFT"
    by (auto simp: stored_inv_def bookings_stored_def dest!: find_booking_SomeD)
  then show "stored_inv (booking_written b' (audit bid who (b_status b) (b_status b) why now) d)"
    using a by (auto simp: stored_inv_def intro: stored_written)
qed (simp_all add: stored_inv_def expire_rows_def Let_def stored_expired stored_ids)

text \<open>The audit trail of every booking is a path of legal moves from DRAFT to its status.\<close>

lemma trail_expiry:
  assumes "distinct ids"
  shows "trail bid (map (\<lambda>i. audit i who HELD EXPIRED why now) ids)
       = (if bid \<in> set ids then [(HELD, EXPIRED)] else [])"
  using assms by (induction ids) (auto simp: trail_def)

lemma audit_inv_written:
  assumes "audit_inv d" and "find_booking bid d = Some b" and "b_id b' = bid"
    and "isLegalTransition (b_status b) (b_status b') \<or> b_status b' = b_status b"
  shows "audit_inv (booking_written b' (audit bid who (b_status b) (b_status b') why now) d)"
proof -
  have b: "b \<in> set (t_bookings d)" "b_id b = bid"
    using assms(2) by (auto dest: find_booking_SomeD)
  then have p: "legal_path DRAFT (trail bid (t_audit_events d)) (b_status b)"
    using assms(1) by (auto simp: audit_inv_def)
  have k: "map b_id (update_where (\<lambda>c. b_id c = bid) (\<lambda>_. b') (t_bookings d)) = map b_id (t_bookings d)"
    using assms(3) by (intro map_key_update_where) simp
  then have "b_id ` set (update_where (\<lambda>c. b_id c = bid) (\<lambda>_. b') (t_bookings d)) = b_id ` set (t_bookings d)"
    by (metis set_map)
  show ?thesis
    unfolding audit_inv_def
  proof (intro conjI ballI)
    show "distinct (map b_id (t_bookings (booking_written b' e d)))" for e
      using assms(1,3) k by (simp add: audit_inv_def)
  next
    let ?e = "audit bid who (b_status b) (b_status b') why now"
    fix c assume "c \<in> set (t_bookings (booking_written b' ?e d))"
    then consider "c = b'" | "c \<in> set (t_bookings d)" "b_id c \<noteq> bid"
      using assms(3) by (auto simp: set_update_where split: if_splits)
    then show "legal_path DRAFT (trail (b_id c) (t_audit_events (booking_written b' ?e d))) (b_status c)"
    proof cases
      case 1
      from assms(4) show ?thesis
      proof
        assume legal: "isLegalTransition (b_status b) (b_status b')"
        then have "b_status b \<noteq> b_status b'" by auto
        then show ?thesis using 1 assms(3) p legal by (simp add: legal_path_snoc)
      next
        assume "b_status b' = b_status b"
        then show ?thesis using 1 assms(3) p by simp
      qed
    next
      case 2
      then have "legal_path DRAFT (trail (b_id c) (t_audit_events d)) (b_status c)"
        using assms(1) by (simp add: audit_inv_def)
      then show ?thesis using 2 by simp
    qed
  next
    let ?e = "audit bid who (b_status b) (b_status b') why now"
    fix e assume "e \<in> set (t_audit_events (booking_written b' ?e d))"
    then have "e \<in> set (t_audit_events d) \<or> ae_booking_id e = bid" by auto
    moreover have "bid \<in> b_id ` set (t_bookings d)" using b by auto
    ultimately show "ae_booking_id e \<in> b_id ` set (t_bookings (booking_written b' ?e d))"
      using assms(1,3) \<open>b_id ` _ = _\<close> by (auto simp: audit_inv_def)
  qed
qed

interpretation trail: booking_property audit_inv
proof
  fix d d1 b who why now
  assume a: "audit_inv d" "insert_booking b d = Inr d1" "b_status b = HELD"
  then have new: "b_id b \<notin> b_id ` set (t_bookings d)" "t_bookings d1 = t_bookings d @ [b]"
    "t_audit_events d1 = t_audit_events d"
    by (auto simp: insert_booking_eq_Inr check_booking_eq_Inr)
  then have "\<forall>e \<in> set (t_audit_events d). ae_booking_id e \<noteq> b_id b"
    using a(1) unfolding audit_inv_def by metis
  then have fresh: "trail (b_id b) (t_audit_events d) = []"
    by (auto simp: trail_def filter_empty_conv)
  show "audit_inv (add_audits [audit (b_id b) who DRAFT HELD why now] d1)"
    using a(1,3) fresh new by (auto simp: audit_inv_def)
next
  fix d q who why now
  assume a: "audit_inv d" "\<And>b. b \<in> set (t_bookings d) \<Longrightarrow> q b \<Longrightarrow> b_status b = HELD"
  let ?f = "\<lambda>b. b\<lparr>b_status := EXPIRED, b_updated_at := now\<rparr>"
  let ?ids = "map b_id (filter q (t_bookings d))"
  have ids: "map b_id (update_where q ?f (t_bookings d)) = map b_id (t_bookings d)"
    by (intro map_key_update_where) simp
  then have img: "b_id ` set (update_where q ?f (t_bookings d)) = b_id ` set (t_bookings d)"
    by (metis set_map)
  have d: "distinct ?ids" using a(1) by (auto simp: audit_inv_def distinct_map inj_on_def)
  have "b_id b \<in> set ?ids \<longleftrightarrow> q b" if "b \<in> set (t_bookings d)" for b
    using a(1) that by (auto simp: audit_inv_def dest: distinct_map_eqD)
  then show "audit_inv (snd (expire_rows q who why now d))"
    using a ids img trail_expiry [OF d]
    by (auto simp: audit_inv_def expire_rows_def Let_def set_update_where legal_path_snoc)
next
  fix d bid s who why now
  assume a: "audit_inv d" "bid \<in> b_id ` set (t_bookings d)"
  then show "audit_inv (add_audits [audit bid who s s why now] d)"
    by (auto simp: audit_inv_def)
next
  fix d bid who why now and b b' :: booking
  assume a: "audit_inv d" "find_booking bid d = Some b" "b_id b' = bid"
    "b_status b' = b_status b"
  then show "audit_inv (booking_written b' (audit bid who (b_status b) (b_status b) why now) d)"
    using audit_inv_written [OF a(1-3), of who why now] by simp
qed (blast intro: audit_inv_written, simp_all add: audit_inv_def)

text \<open>
  A booking is never deleted, never moved to another room or interval, and its status only moves
  along legal transitions; an audit row once written stays.
\<close>

definition descends_from :: "booking \<Rightarrow> audit_event list \<Rightarrow> db \<Rightarrow> bool" where
  "descends_from b0 es d \<longleftrightarrow> distinct (map b_id (t_bookings d)) \<and> (\<exists>new. t_audit_events d = es @ new)
     \<and> (\<exists>b. find_booking (b_id b0) d = Some b \<and> isLegalTransition\<^sup>*\<^sup>* (b_status b0) (b_status b)
          \<and> b_room_id b = b_room_id b0 \<and> b_starts_at b = b_starts_at b0 \<and> b_ends_at b = b_ends_at b0)"

lemma descends_written:
  fixes b' :: booking
  assumes "descends_from b0 es d" and "find_booking bid d = Some b" and "b_id b' = bid"
    and "isLegalTransition (b_status b) (b_status b') \<or> b_status b' = b_status b"
    and "b_room_id b' = b_room_id b" "b_starts_at b' = b_starts_at b" "b_ends_at b' = b_ends_at b"
  shows "descends_from b0 es (booking_written b' e d)"
proof -
  have k: "map b_id (update_where (\<lambda>c. b_id c = bid) (\<lambda>_. b') (t_bookings d)) = map b_id (t_bookings d)"
    using assms(3) by (intro map_key_update_where) simp
  have "find_booking (b_id b0) (booking_written b' e d)
      = (if b_id b0 = bid then Some b' else find_booking (b_id b0) d)"
    using assms(2,3) find_update_where_key [of b_id bid "\<lambda>_. b'" "t_bookings d"]
      find_update_where_other [of "\<lambda>c. b_id c = bid" "\<lambda>c. b_id c = b_id b0" "\<lambda>_. b'" "t_bookings d"]
    by (auto simp: find_booking_def)
  then show ?thesis using assms k
    by (auto simp: descends_from_def intro: rtranclp.rtrancl_into_rtrancl)
qed

interpretation descent: booking_property "descends_from b0 es" for b0 es
proof
  fix d d1 b who why now
  assume "descends_from b0 es d" "insert_booking b d = Inr d1"
  then show "descends_from b0 es (add_audits [audit (b_id b) who DRAFT HELD why now] d1)"
    by (auto simp: descends_from_def insert_booking_eq_Inr check_booking_eq_Inr find_booking_def
        find_append)
next
  fix d q who why now
  assume a: "descends_from b0 es d" "\<And>b. b \<in> set (t_bookings d) \<Longrightarrow> q b \<Longrightarrow> b_status b = HELD"
  let ?f = "\<lambda>b. b\<lparr>b_status := EXPIRED, b_updated_at := now\<rparr>"
  have ids: "map b_id (update_where q ?f (t_bookings d)) = map b_id (t_bookings d)"
    by (intro map_key_update_where) simp
  obtain b where b: "find_booking (b_id b0) d = Some b" "isLegalTransition\<^sup>*\<^sup>* (b_status b0) (b_status b)"
    "b_room_id b = b_room_id b0" "b_starts_at b = b_starts_at b0" "b_ends_at b = b_ends_at b0"
    using a(1) by (auto simp: descends_from_def)
  then have mem: "b \<in> set (t_bookings d)" "b_id b = b_id b0" by (auto dest: find_booking_SomeD)
  let ?b' = "if q b then ?f b else b"
  have "?b' \<in> set (update_where q ?f (t_bookings d))" using mem by (auto simp: set_update_where)
  then have "List.find (\<lambda>c. b_id c = b_id b0) (update_where q ?f (t_bookings d)) = Some ?b'"
    using mem(2) ids a(1) by (intro find_key_unique) (auto simp: descends_from_def)
  moreover have "isLegalTransition\<^sup>*\<^sup>* (b_status b0) (b_status ?b')"
    using a(2) [OF mem(1)] b(2) by (auto intro: rtranclp.rtrancl_into_rtrancl)
  ultimately show "descends_from b0 es (snd (expire_rows q who why now d))"
    using a(1) b ids
    by (auto simp: descends_from_def expire_rows_def Let_def find_booking_def)
next
  fix d bid s who why now
  assume "descends_from b0 es d"
  then show "descends_from b0 es (add_audits [audit bid who s s why now] d)"
    by (auto simp: descends_from_def find_booking_def)
next
  fix d d' :: db
  assume "descends_from b0 es d" "t_bookings d' = t_bookings d" "t_audit_events d' = t_audit_events d"
  then show "descends_from b0 es d'" by (simp add: descends_from_def find_booking_def)
qed (blast intro: descends_written, blast intro: descends_written, simp add: descends_from_def)

section \<open>Properties\<close>

lemma transition_outcome:
  assumes "stored_inv d" and "patch_in_range (ti_patch i)"
  shows "transition i now d =
    (case find_booking (ti_booking_id i) d of
       None \<Rightarrow> Inl NotFound
     | Some b \<Rightarrow>
         if \<not> expected_ok (ti_expected_from i) (b_status b)
         then Inl (Conflict (UnexpectedStatus (ti_booking_id i) (b_status b)
                (case ti_expected_from i of Some ss \<Rightarrow> ss | None \<Rightarrow> [])))
         else if \<not> isLegalTransition (b_status b) (ti_to i)
         then Inl (Conflict (IllegalTransition (ti_booking_id i) (b_status b) (ti_to i)))
         else Inr (moved i now b, booking_written (moved i now b)
                (audit (ti_booking_id i) (ti_actor i) (b_status b) (ti_to i) (ti_reason i) now) d))"
proof (cases "find_booking (ti_booking_id i) d")
  case (Some b)
  show ?thesis
  proof (cases "expected_ok (ti_expected_from i) (b_status b) \<and> isLegalTransition (b_status b) (ti_to i)")
    case True
    then have "check_booking (moved i now b)
        (filter (\<lambda>c. b_id c \<noteq> ti_booking_id i) (t_bookings d)) = Inr ()"
      using check_moved Some assms by (simp add: stored_inv_def)
    with True Some have "transition i now d = Inr (moved i now b, booking_written (moved i now b)
        (audit (ti_booking_id i) (ti_actor i) (b_status b) (ti_to i) (ti_reason i) now) d)"
      by (simp add: transition_eq_Inr)
    with True Some show ?thesis by simp
  next
    case False
    then show ?thesis using Some by (auto simp: transition_def lockForUpdate_def ensure_def Let_def)
  qed
qed (simp add: transition_def lockForUpdate_def)


lemma sm_steps_keep_stored: "sm_steps d d' \<Longrightarrow> stored_inv d \<Longrightarrow> stored_inv d'"
  by (rule stored.steps_keep)

lemma sm_steps_keep_audit: "sm_steps d d' \<Longrightarrow> audit_inv d \<Longrightarrow> audit_inv d'"
  by (rule trail.steps_keep)

lemma sm_steps_descend:
  assumes "sm_steps d d'" and "distinct (map b_id (t_bookings d))" and "find_booking bid d = Some b"
  obtains b' new where "find_booking bid d' = Some b'" "isLegalTransition\<^sup>*\<^sup>* (b_status b) (b_status b')"
    "b_room_id b' = b_room_id b" "b_starts_at b' = b_starts_at b" "b_ends_at b' = b_ends_at b"
    "t_audit_events d' = t_audit_events d @ new"
proof -
  have "descends_from b (t_audit_events d) d"
    using assms(2,3) find_booking_SomeD [OF assms(3)] by (auto simp: descends_from_def)
  then have "descends_from b (t_audit_events d) d'" by (rule descent.steps_keep [OF assms(1)])
  then show ?thesis
    using that find_booking_SomeD [OF assms(3)] by (auto simp: descends_from_def)
qed

text \<open>The statuses with no legal move: once there, a booking stays there.\<close>

lemma legal_star_terminal:
  "isLegalTransition\<^sup>*\<^sup>* s t \<Longrightarrow> LEGAL_TRANSITIONS s = [] \<Longrightarrow> t = s"
  by (erule converse_rtranclpE) (auto simp: isLegalTransition_def)

lemma terminal_stays:
  assumes "sm_steps d d'" and "stored_inv d" and "find_booking bid d = Some b"
    and "LEGAL_TRANSITIONS (b_status b) = []"
  shows "\<exists>b'. find_booking bid d' = Some b' \<and> b_status b' = b_status b"
proof -
  have "distinct (map b_id (t_bookings d))"
    using assms(2) by (simp add: stored_inv_def stored_ids)
  then obtain b' where "find_booking bid d' = Some b'" "isLegalTransition\<^sup>*\<^sup>* (b_status b) (b_status b')"
    using assms(1,3) by (blast elim: sm_steps_descend)
  then show ?thesis using legal_star_terminal assms(4) by blast
qed

text \<open>The sweeper's batch is bounded, and everything in it had lapsed.\<close>

lemma length_stale_batch: "length (stale_batch batch busy now d) \<le> batch"
  by (simp add: stale_batch_def)

lemma stale_batch_stale:
  "bid \<in> set (stale_batch batch busy now d) \<Longrightarrow>
     \<exists>b \<in> set (t_bookings d). b_id b = bid \<and> stale_hold now b \<and> \<not> busy b"
  by (auto simp: stale_batch_def dest!: in_set_takeD)

end
