(* ===== verification/Equipment.thy ===== *)
theory Equipment
  imports StateMachine
begin

text \<open>
  \<open>apps/api/src/bookings/equipment-availability.ts\<close>: locking the requested equipment types, the
  sweep-line query for the peak of concurrent usage, and the ceiling a peak is admitted against.

  The query is written as its common table expressions are. The specification is the number of
  units out at an instant, \<open>units_out\<close>; the peak the query returns is its maximum over the window.
\<close>

section \<open>The operations\<close>

text \<open>\<open>SELECT ... WHERE id = ANY(ids) ORDER BY id FOR UPDATE\<close>; an id that is no uuid throws.\<close>

definition lockEquipmentTypes :: "string list \<Rightarrow> db \<Rightarrow> exn + equipment_type list" where
  "lockEquipmentTypes ids d =
     (if ids = [] then Inr []
      else if \<not> list_all isUuid ids then Inl (JsError ''Not a UUID'')
      else Inr (sort_key e_id (filter (\<lambda>e. e_id e \<in> set (map uuid_in ids)) (t_equipment_types d))))"

text \<open>A booking that occupies equipment: active, and not a hold whose time is up.\<close>

definition live_booking :: "instant \<Rightarrow> booking \<Rightarrow> bool" where
  "live_booking now b \<longleftrightarrow> is_active (b_status b)
     \<and> \<not> (b_status b = HELD \<and> (case b_expires_at b of None \<Rightarrow> False | Some x \<Rightarrow> x \<le> now))"

type_synonym window = "instant \<times> instant \<times> int"

definition overlapping :: "uuid \<Rightarrow> instant \<Rightarrow> instant \<Rightarrow> instant \<Rightarrow> db \<Rightarrow> window list" where
  "overlapping eid s e now d =
     [(max (b_starts_at b) s, min (b_ends_at b) e, li_quantity li).
        li \<leftarrow> t_booking_line_items d, b \<leftarrow> t_bookings d,
        b_id b = li_booking_id li \<and> li_equipment_type_id li = eid \<and> live_booking now b
          \<and> b_starts_at b < e \<and> s < b_ends_at b]"

text \<open>An event is its instant, its tie break (0 releases, 1 acquires) and its delta.\<close>

type_synonym sweep_event = "instant \<times> int \<times> int"

definition events :: "window list \<Rightarrow> sweep_event list" where
  "events ws = map (\<lambda>(a, z, q). (a, 1, q)) ws @ map (\<lambda>(a, z, q). (z, 0, - q)) ws"

definition event_key :: "sweep_event \<Rightarrow> instant \<times> int" where
  "event_key ev = (fst ev, fst (snd ev))"

definition delta :: "sweep_event \<Rightarrow> int" where
  "delta ev = snd (snd ev)"

definition running :: "sweep_event list \<Rightarrow> int list" where
  "running evs = map (\<lambda>i. \<Sum>ev\<leftarrow>take (Suc i) evs. delta ev) [0..<length evs]"

definition peak_of :: "window list \<Rightarrow> int" where
  "peak_of ws =
     (let totals = running (sort_key event_key (events ws)) in
      if totals = [] then 0 else foldr max (tl totals) (hd totals))"

definition peakConcurrentUsage :: "string list \<Rightarrow> instant \<Rightarrow> instant \<Rightarrow> instant \<Rightarrow> db
    \<Rightarrow> exn + (uuid \<Rightarrow> int)" where
  "peakConcurrentUsage ids s e now d =
     (if ids = [] then Inr (\<lambda>_. 0)
      else if \<not> list_all isUuid ids then Inl (JsError ''Not a UUID'')
      else Inr (\<lambda>eid. if eid \<in> set (map uuid_in ids) then peak_of (overlapping eid s e now d) else 0))"

definition admissionCeiling :: "int \<Rightarrow> int \<Rightarrow> int" where
  "admissionCeiling units pct =
     math_floor (js_mul (js_of_int units) (js_add 1 (js_div (js_of_int pct) 100)))"

section \<open>The sweep line\<close>

text \<open>The units a list of windows has out at an instant.\<close>

definition out_at :: "instant \<Rightarrow> window list \<Rightarrow> int" where
  "out_at t ws = (\<Sum>(a, z, q)\<leftarrow>ws. if a \<le> t \<and> t < z then q else 0)"

lemma filter_sorted_take:
  assumes "sorted (map key xs)"
    and "\<And>x y. key x \<le> key y \<Longrightarrow> p y \<Longrightarrow> p x"
  shows "filter p xs = take (length (filter p xs)) xs"
  using assms(1)
proof (induction xs)
  case (Cons x xs)
  show ?case
  proof (cases "p x")
    case False
    then have "filter p xs = []"
      using Cons.prems assms(2) by (auto simp: filter_empty_conv)
    with False show ?thesis by simp
  qed (use Cons in simp)
qed simp

lemma sum_filter_events:
  assumes "\<And>a z q. (a, z, q) \<in> set ws \<Longrightarrow> a < z"
  shows "(\<Sum>ev\<leftarrow>filter (\<lambda>ev. fst ev \<le> t) (events ws). delta ev) = out_at t ws"
  using assms
proof (induction ws)
  case (Cons w ws)
  obtain a z q where w: "w = (a, z, q)" by (cases w)
  have "a < z" using Cons.prems [of a z q] w by simp
  moreover have "(\<Sum>ev\<leftarrow>filter (\<lambda>ev. fst ev \<le> t) (events ws). delta ev) = out_at t ws"
    by (rule Cons.IH) (use Cons.prems in auto)
  ultimately show ?case
    by (auto simp: w events_def out_at_def delta_def filter_map comp_def case_prod_beta)
qed (simp add: events_def out_at_def)

lemma sort_sum_filter:
  "(\<Sum>ev\<leftarrow>filter p (sort_key event_key evs). delta ev) = (\<Sum>ev\<leftarrow>filter p evs. delta ev)"
proof -
  have "mset (filter p (sort_key event_key evs)) = mset (filter p evs)" by simp
  then have "mset (map delta (filter p (sort_key event_key evs))) = mset (map delta (filter p evs))"
    by (metis mset_map)
  then show ?thesis by (metis sum_mset_sum_list)
qed

definition well_formed :: "window list \<Rightarrow> bool" where
  "well_formed ws \<longleftrightarrow> (\<forall>(a, z, q) \<in> set ws. a < z \<and> 0 \<le> q)"

lemma events_cases:
  assumes "ev \<in> set (events ws)" and "well_formed ws"
  obtains a z q where "ev = (a, 1, q)" "(a, z, q) \<in> set ws" "0 \<le> q" "a < z"
  | a z q where "ev = (z, 0, - q)" "(a, z, q) \<in> set ws" "0 \<le> q" "a < z"
  using assms by (auto simp: events_def well_formed_def)

text \<open>Between the events up to an instant and all of them, the prefix sums are the units out.\<close>

lemma prefix_is_out_at:
  assumes "well_formed ws"
  defines "xs \<equiv> sort_key event_key (events ws)"
  shows "\<exists>n \<le> length xs. (\<Sum>ev\<leftarrow>take n xs. delta ev) = out_at t ws
    \<and> (\<forall>i < length xs. i < n \<longleftrightarrow> fst (xs ! i) \<le> t)"
proof -
  let ?p = "\<lambda>ev :: sweep_event. fst ev \<le> t"
  have sorted: "sorted (map event_key xs)" by (simp add: xs_def)
  have down: "?p x" if "event_key x \<le> event_key y" "?p y" for x y
    using that by (auto simp: event_key_def)
  let ?n = "length (filter ?p xs)"
  have take: "filter ?p xs = take ?n xs" by (rule filter_sorted_take [OF sorted down])
  have n: "?n \<le> length xs" by simp
  have "(\<Sum>ev\<leftarrow>take ?n xs. delta ev) = out_at t ws"
    using take sort_sum_filter [of ?p "events ws"] sum_filter_events [of ws t] assms(1)
    by (force simp: xs_def well_formed_def)
  moreover have "i < ?n \<longleftrightarrow> ?p (xs ! i)" if i: "i < length xs" for i
  proof
    assume "i < ?n"
    then have "xs ! i = filter ?p xs ! i" using take by (metis nth_take)
    then show "?p (xs ! i)" using \<open>i < ?n\<close> nth_mem by fastforce
  next
    assume p: "?p (xs ! i)"
    show "i < ?n"
    proof (rule ccontr)
      assume ge: "\<not> i < ?n"
      have all: "?p (xs ! j)" if "j \<le> i" for j
        using sorted_nth_mono [OF sorted, of j i] i that down p by simp
      have "length (filter ?p xs) \<ge> length (filter ?p (take (Suc i) xs))"
        by (metis append_take_drop_id filter_append le_add1 length_append)
      moreover have "filter ?p (take (Suc i) xs) = take (Suc i) xs"
      proof (intro filter_True ballI)
        fix x assume "x \<in> set (take (Suc i) xs)"
        then obtain j where "j < Suc i" "x = xs ! j" by (auto simp: in_set_conv_nth)
        then show "?p x" using all [of j] by simp
      qed
      ultimately show False using ge i by simp
    qed
  qed
  ultimately show ?thesis using n by blast
qed

lemma sum_take_drop:
  assumes "m \<le> n"
  shows "(\<Sum>ev\<leftarrow>take n xs. delta ev) = (\<Sum>ev\<leftarrow>take m xs. delta ev) + (\<Sum>ev\<leftarrow>drop m (take n xs). delta ev)"
proof -
  have "take n xs = take m xs @ drop m (take n xs)"
    using assms by (metis append_take_drop_id min.absorb1 take_take)
  then show ?thesis by (metis map_append sum_list_append)
qed

lemma nth_drop_take:
  assumes "x \<in> set (drop m (take n xs))"
  obtains i where "m \<le> i" "i < n" "i < length xs" "x = xs ! i"
proof -
  obtain k where k: "k < length (drop m (take n xs))" "x = drop m (take n xs) ! k"
    using assms by (auto simp: in_set_conv_nth)
  then have "drop m (take n xs) ! k = xs ! (m + k)" by (subst nth_drop) auto
  with k show ?thesis by (intro that [of "m + k"]) auto
qed

text \<open>Every prefix sum is at most the units out at some instant of the window.\<close>

lemma running_le_out_at:
  assumes "well_formed ws" and "\<forall>w \<in> set ws. s \<le> fst w \<and> fst (snd w) \<le> e"
  defines "xs \<equiv> sort_key event_key (events ws)"
  assumes i: "i < length xs"
  shows "\<exists>t. s \<le> t \<and> t < e \<and> (\<Sum>ev\<leftarrow>take (Suc i) xs. delta ev) \<le> out_at t ws"
proof -
  have sorted: "sorted (map event_key xs)" by (simp add: xs_def)
  have mono: "event_key (xs ! j) \<le> event_key (xs ! k)" if "j \<le> k" "k < length xs" for j k
    using sorted_nth_mono [OF sorted that(1)] that by simp
  have mem: "xs ! j \<in> set (events ws)" if "j < length xs" for j
    using that nth_mem [of j xs] by (simp add: xs_def)
  from mem [OF i] assms(1) show ?thesis
  proof (cases rule: events_cases)
    case (1 a z q)
    then have t: "s \<le> a" "a < e" using assms(2) by fastforce+
    from prefix_is_out_at [OF assms(1), of a, folded xs_def]
    obtain n where n: "n \<le> length xs" "(\<Sum>ev\<leftarrow>take n xs. delta ev) = out_at a ws"
      "\<forall>j < length xs. j < n \<longleftrightarrow> fst (xs ! j) \<le> a" by blast
    then have "i < n" using i 1 by simp
    have "0 \<le> delta ev" if ev: "ev \<in> set (drop (Suc i) (take n xs))" for ev
    proof -
      obtain j where j: "Suc i \<le> j" "j < n" "j < length xs" "ev = xs ! j"
        using ev by (rule nth_drop_take)
      then have "event_key (xs ! i) \<le> event_key ev" "fst ev \<le> a"
        using mono [of i j] n(3) by auto
      then have "fst (snd ev) \<noteq> 0" using 1 by (auto simp: event_key_def)
      with mem [OF j(3)] assms(1) j(4) show ?thesis
        by (auto elim!: events_cases simp: delta_def)
    qed
    then have "0 \<le> (\<Sum>ev\<leftarrow>drop (Suc i) (take n xs). delta ev)" by (intro sum_list_nonneg) auto
    then have "(\<Sum>ev\<leftarrow>take (Suc i) xs. delta ev) \<le> out_at a ws"
      using sum_take_drop [of "Suc i" n xs] \<open>i < n\<close> n(2) by simp
    then show ?thesis using t by blast
  next
    case (2 a z q)
    then have t: "s \<le> z - 1" "z - 1 < e" using assms(2) by fastforce+
    from prefix_is_out_at [OF assms(1), of "z - 1", folded xs_def]
    obtain n where n: "n \<le> length xs" "(\<Sum>ev\<leftarrow>take n xs. delta ev) = out_at (z - 1) ws"
      "\<forall>j < length xs. j < n \<longleftrightarrow> fst (xs ! j) \<le> z - 1" by blast
    then have "\<not> i < n" using i 2 by simp
    have "delta ev \<le> 0" if ev: "ev \<in> set (drop n (take (Suc i) xs))" for ev
    proof -
      obtain j where j: "n \<le> j" "j < Suc i" "j < length xs" "ev = xs ! j"
        using ev by (rule nth_drop_take)
      then have "event_key ev \<le> event_key (xs ! i)" using mono [of j i] i by simp
      moreover have "\<not> fst ev \<le> z - 1" using n(3) j by (metis leD)
      ultimately have "event_key ev \<le> event_key (xs ! i)" "\<not> fst ev \<le> z - 1" by blast+
      then have "fst (snd ev) \<le> 0" using 2 by (auto simp: event_key_def)
      with mem [OF j(3)] assms(1) j(4) show ?thesis
        by (auto elim!: events_cases simp: delta_def)
    qed
    then have "(\<Sum>ev\<leftarrow>drop n (take (Suc i) xs). delta ev) \<le> 0" by (intro sum_list_nonpos) auto
    then have "(\<Sum>ev\<leftarrow>take (Suc i) xs. delta ev) \<le> out_at (z - 1) ws"
      using sum_take_drop [of n "Suc i" xs] \<open>\<not> i < n\<close> n(2) by simp
    then show ?thesis using t by blast
  qed
qed

lemma foldr_max_ge: "x \<in> set xs \<Longrightarrow> x \<le> foldr max xs (y :: int)" "y \<le> foldr max xs y"
  by (induction xs) auto

lemma foldr_max_in: "foldr max xs (y :: int) \<in> insert y (set xs)"
  by (induction xs) (auto simp: max_def)

lemma peak_of_eq:
  assumes "running (sort_key event_key (events ws)) \<noteq> []"
  shows "peak_of ws \<in> set (running (sort_key event_key (events ws)))"
    "x \<in> set (running (sort_key event_key (events ws))) \<Longrightarrow> x \<le> peak_of ws"
proof -
  obtain r rs where r: "running (sort_key event_key (events ws)) = r # rs"
    using assms by (cases "running (sort_key event_key (events ws))") auto
  show "peak_of ws \<in> set (running (sort_key event_key (events ws)))"
    using foldr_max_in [of rs r] by (simp add: peak_of_def r)
  show "x \<in> set (running (sort_key event_key (events ws))) \<Longrightarrow> x \<le> peak_of ws"
    using foldr_max_ge(1) [of _ rs r] foldr_max_ge(2) [of r rs] by (auto simp: peak_of_def r)
qed

text \<open>The sweep line computes the maximum of the step function.\<close>

lemma peak_of_is_max:
  assumes "well_formed ws" and "\<forall>w \<in> set ws. s \<le> fst w \<and> fst (snd w) \<le> e" and "s < e"
  shows "\<forall>t. out_at t ws \<le> peak_of ws" "\<exists>t. s \<le> t \<and> t < e \<and> out_at t ws = peak_of ws"
proof -
  let ?xs = "sort_key event_key (events ws)"
  show le: "\<forall>t. out_at t ws \<le> peak_of ws"
  proof
    fix t
    show "out_at t ws \<le> peak_of ws"
    proof (cases "ws = []")
      case True
      then show ?thesis by (simp add: out_at_def peak_of_def running_def events_def)
    next
      case False
      then have ne: "running ?xs \<noteq> []" by (simp add: running_def events_def)
      have len: "0 < length ?xs" using ne by (auto simp: running_def)
      have total: "(\<Sum>ev\<leftarrow>?xs. delta ev) = 0"
      proof -
        have "(\<Sum>ev\<leftarrow>events ws. delta ev) = 0"
          by (induction ws) (auto simp: events_def delta_def)
        then show ?thesis using sort_sum_filter [of "\<lambda>_. True" "events ws"] by simp
      qed
      obtain n where n: "n \<le> length ?xs" "(\<Sum>ev\<leftarrow>take n ?xs. delta ev) = out_at t ws"
        using prefix_is_out_at [OF assms(1), of t] by blast
      show ?thesis
      proof (cases n)
        case 0
        have "(\<Sum>ev\<leftarrow>take (Suc (length ?xs - 1)) ?xs. delta ev) \<in> set (running ?xs)"
          using len unfolding running_def set_map
          by (intro imageI) (simp del: take_Suc)
        then have "0 \<le> peak_of ws" using peak_of_eq(2) [OF ne] total len by simp
        then show ?thesis using n 0 by simp
      next
        case (Suc m)
        then have "out_at t ws \<in> set (running ?xs)"
          using n by (auto simp: running_def simp flip: n(2))
        then show ?thesis by (rule peak_of_eq(2) [OF ne])
      qed
    qed
  qed
  show "\<exists>t. s \<le> t \<and> t < e \<and> out_at t ws = peak_of ws"
  proof (cases "ws = []")
    case True
    then show ?thesis using assms(3)
      by (intro exI [of _ s]) (simp add: out_at_def peak_of_def running_def events_def)
  next
    case False
    then have ne: "running ?xs \<noteq> []" by (simp add: running_def events_def)
    then obtain i where i: "i < length ?xs" "peak_of ws = (\<Sum>ev\<leftarrow>take (Suc i) ?xs. delta ev)"
      using peak_of_eq(1) [OF ne] by (auto simp: running_def)
    obtain t where "s \<le> t" "t < e" "(\<Sum>ev\<leftarrow>take (Suc i) ?xs. delta ev) \<le> out_at t ws"
      using running_le_out_at [OF assms(1,2) i(1)] by blast
    then show ?thesis using i(2) le by (metis order_antisym)
  qed
qed

section \<open>Units out\<close>

text \<open>The units of a type that live bookings have out at an instant.\<close>

definition units_out :: "uuid \<Rightarrow> instant \<Rightarrow> instant \<Rightarrow> db \<Rightarrow> int" where
  "units_out eid now t d =
     (\<Sum>li\<leftarrow>t_booking_line_items d. \<Sum>b\<leftarrow>t_bookings d.
        if b_id b = li_booking_id li \<and> li_equipment_type_id li = eid \<and> live_booking now b
           \<and> b_starts_at b \<le> t \<and> t < b_ends_at b
        then li_quantity li else 0)"

lemma out_at_append [simp]: "out_at t (xs @ ys) = out_at t xs + out_at t ys"
  by (simp add: out_at_def)

lemma out_at_Nil [simp]: "out_at t [] = 0"
  by (simp add: out_at_def)

lemma out_at_concat: "out_at t (concat (map f xs)) = (\<Sum>x\<leftarrow>xs. out_at t (f x))"
  by (induction xs) simp_all

lemma out_at_overlapping:
  assumes "s \<le> t" "t < e"
  shows "out_at t (overlapping eid s e now d) = units_out eid now t d"
  unfolding overlapping_def units_out_def out_at_concat
  using assms by (intro arg_cong [where f = sum_list] map_cong refl) (simp add: out_at_def)

lemma overlapping_windows:
  "\<forall>w \<in> set (overlapping eid s e now d). s \<le> fst w \<and> fst (snd w) \<le> e"
  by (auto simp: overlapping_def)

definition quantities_positive :: "db \<Rightarrow> bool" where
  "quantities_positive d \<longleftrightarrow> (\<forall>li \<in> set (t_booking_line_items d). 0 < li_quantity li)"

lemma overlapping_well_formed:
  assumes "bookings_consistent (t_bookings d)" and "quantities_positive d" and "s < e"
  shows "well_formed (overlapping eid s e now d)"
  using assms by (auto simp: well_formed_def overlapping_def bookings_consistent_def
      quantities_positive_def intro: less_imp_le)

section \<open>The ceiling\<close>

text \<open>The factor of each buffer, evaluated: never below the exact one, and close to it.\<close>

definition buffer_tight :: "int \<Rightarrow> bool" where
  "buffer_tight pct \<longleftrightarrow>
     (let c = js_add 1 (js_div (js_of_int pct) 100); x = of_int (100 + pct) / 100 in
      x \<le> c \<and> c \<le> x + 1 / 2 ^ 52)"

lemma buffer_tight_0: "buffer_tight 0" by code_simp
lemma buffer_tight_1: "buffer_tight 1" by code_simp
lemma buffer_tight_2: "buffer_tight 2" by code_simp
lemma buffer_tight_3: "buffer_tight 3" by code_simp
lemma buffer_tight_4: "buffer_tight 4" by code_simp
lemma buffer_tight_5: "buffer_tight 5" by code_simp
lemma buffer_tight_6: "buffer_tight 6" by code_simp
lemma buffer_tight_7: "buffer_tight 7" by code_simp
lemma buffer_tight_8: "buffer_tight 8" by code_simp
lemma buffer_tight_9: "buffer_tight 9" by code_simp
lemma buffer_tight_10: "buffer_tight 10" by code_simp

lemmas buffer_tight_all = buffer_tight_0 buffer_tight_1 buffer_tight_2 buffer_tight_3 buffer_tight_4 buffer_tight_5
  buffer_tight_6 buffer_tight_7 buffer_tight_8 buffer_tight_9 buffer_tight_10

lemma buffer_factor:
  assumes "0 \<le> pct" "pct \<le> 10"
  shows "of_int (100 + pct) / 100 \<le> js_add 1 (js_div (js_of_int pct) 100)
    \<and> js_add 1 (js_div (js_of_int pct) 100) \<le> of_int (100 + pct) / 100 + 1 / 2 ^ 52"
proof -
  have "pct = 0 \<or> pct = 1 \<or> pct = 2 \<or> pct = 3 \<or> pct = 4 \<or> pct = 5 \<or> pct = 6 \<or> pct = 7 \<or> pct = 8
      \<or> pct = 9 \<or> pct = 10"
    using assms by presburger
  then have "buffer_tight pct" using buffer_tight_all by blast
  then show ?thesis by (simp only: buffer_tight_def Let_def)
qed

section \<open>Properties\<close>

lemma peak_usage_exact:
  assumes "bookings_consistent (t_bookings d)" and "quantities_positive d" and "s < e"
    and "peakConcurrentUsage ids s e now d = Inr peaks" and "eid \<in> uuid_in ` set ids"
  shows "(\<forall>t. s \<le> t \<and> t < e \<longrightarrow> units_out eid now t d \<le> peaks eid)
    \<and> (\<exists>t. s \<le> t \<and> t < e \<and> units_out eid now t d = peaks eid)"
proof -
  have ids: "ids \<noteq> []" using assms(5) by auto
  then have peak: "peaks eid = peak_of (overlapping eid s e now d)"
    using assms(4,5) by (auto simp: peakConcurrentUsage_def split: if_splits)
  note m = peak_of_is_max [OF overlapping_well_formed [OF assms(1-3)] overlapping_windows assms(3)]
  have "units_out eid now t d \<le> peaks eid" if "s \<le> t" "t < e" for t
    using m(1) out_at_overlapping [OF that, of eid now d] peak by metis
  moreover obtain t where "s \<le> t" "t < e" "out_at t (overlapping eid s e now d) = peaks eid"
    using m(2) peak by metis
  then have "\<exists>t. s \<le> t \<and> t < e \<and> units_out eid now t d = peaks eid"
    using out_at_overlapping by metis
  ultimately show ?thesis by blast
qed

text \<open>
  C19. The peak the query reports is exact: no instant of the requested window has more units out, and
  some instant has that many.
\<close>

lemma peak_is_exact:
  assumes "bookings_consistent (t_bookings d)" and "quantities_positive d" and "s < e"
    and "peakConcurrentUsage ids s e now d = Inr peaks" and "eid \<in> uuid_in ` set ids"
  shows "(\<forall>t. s \<le> t \<and> t < e \<longrightarrow> units_out eid now t d \<le> peaks eid)
    \<and> (\<exists>t. s \<le> t \<and> t < e \<and> units_out eid now t d = peaks eid)"
  by (rule peak_usage_exact [OF assms])

text \<open>
  The ceiling is computed in floating point and floored, and is nevertheless the exact one for
  every stock an \<open>integer\<close> column holds and every buffer the check on \<open>venues\<close> allows.
\<close>

lemma admissionCeiling_exact:
  assumes "0 \<le> units" "units < 2 ^ 31" and "0 \<le> pct" "pct \<le> 10"
  shows "admissionCeiling units pct = units * (100 + pct) div 100"
proof -
  let ?c = "js_add 1 (js_div (js_of_int pct) 100)"
  let ?m = "units * (100 + pct) div 100"
  let ?y = "of_int units * ?c"
  have u: "js_of_int units = of_int units" using assms by simp
  have c: "of_int (100 + pct) / 100 \<le> ?c" "?c \<le> of_int (100 + pct) / 100 + 1 / 2 ^ 52"
    using buffer_factor [OF assms(3,4)] by blast+
  have u0: "(0 :: rat) \<le> of_int units" using assms(1) by simp
  have u31: "(of_int units :: rat) \<le> 2 ^ 31"
    using assms(2) by (metis less_imp_le of_int_le_iff of_int_numeral of_int_power)
  have m: "of_int (100 * ?m) \<le> (of_int (units * (100 + pct)) :: rat)"
    "(of_int (units * (100 + pct)) :: rat) \<le> of_int (100 * ?m + 99)"
    by (simp_all only: of_int_le_iff)
  have lo: "of_int units * (of_int (100 + pct) / 100) \<le> ?y"
    by (intro mult_left_mono c u0)
  have "?y \<le> of_int units * (of_int (100 + pct) / 100 + 1 / 2 ^ 52)"
    by (intro mult_left_mono c u0)
  then have hi: "?y \<le> of_int units * (of_int (100 + pct) / 100) + of_int units / 2 ^ 52"
    by (simp add: algebra_simps)
  have "of_int ?m \<le> ?y" using m(1) lo by simp
  moreover have "0 \<le> ?m" using assms by (simp add: pos_imp_zdiv_nonneg_iff)
  moreover have "?m \<le> 2 ^ 53"
  proof -
    have "units * (100 + pct) \<le> 2 ^ 31 * 110" using assms by (intro mult_mono) simp_all
    then show ?thesis by simp
  qed
  ultimately have ge: "of_int ?m \<le> dbl ?y" by (rule dbl_ge_int)
  have y: "0 \<le> ?y" "?y \<le> of_int ?m + 99 / 100 + 1 / 2 ^ 21"
    using hi m u31 lo u0 assms \<open>of_int ?m \<le> ?y\<close> \<open>0 \<le> ?m\<close> by (simp_all add: field_simps)
  have "(of_int ?m :: rat) \<le> 2 ^ 32"
  proof -
    have "units * (100 + pct) \<le> 2 ^ 31 * 110" using assms by (intro mult_mono) simp_all
    then have "?m \<le> 2 ^ 32" by simp
    then show ?thesis by (metis of_int_le_iff of_int_numeral of_int_power)
  qed
  then have "?y / 2 ^ 53 \<le> 1 / 2 ^ 20" using y by (simp add: field_simps)
  moreover have "dbl ?y \<le> ?y + \<bar>?y\<bar> / 2 ^ 53" using dbl_error [of ?y] by linarith
  ultimately have lt: "dbl ?y < of_int ?m + 1" using y by simp
  show ?thesis
    unfolding admissionCeiling_def js_mul_def math_floor_def u
    using ge lt by (simp add: floor_eq_iff)
qed

end
