(* ===== verification/RefundPolicy.thy ===== *)
theory RefundPolicy
  imports Schema
begin

text \<open>
  \<open>apps/api/src/payments/refund-policy.ts\<close>, the split of a total in
  \<open>apps/api/src/payments/payments.service.ts\<close>, and the preview of a refund the console computes
  for itself in \<open>apps/web/lib/refund.ts\<close>.

  Amounts are minor units and unbounded integers, percentages small integers, and the lead time is
  a JavaScript number of hours. A policy is read from a \<open>jsonb\<close> column through its schema.
\<close>

section \<open>Policies\<close>

record tier =
  min_hours_before :: js_number
  room_refund_pct :: int
  equipment_refund_pct :: int

fun json_number :: "json option \<Rightarrow> js_number option" where
  "json_number (Some (JNum x)) = Some x"
| "json_number _ = None"

fun json_string :: "json option \<Rightarrow> string option" where
  "json_string (Some (JStr s)) = Some s"
| "json_string _ = None"

text \<open>\<open>z.number().int().min(0).max(100)\<close>\<close>

definition json_pct :: "json option \<Rightarrow> int option" where
  "json_pct v = (case json_number v of
       None \<Rightarrow> None
     | Some x \<Rightarrow> if x = of_int \<lfloor>x\<rfloor> \<and> 0 \<le> x \<and> x \<le> 100 then Some \<lfloor>x\<rfloor> else None)"

definition TierSchema :: "json \<Rightarrow> tier option" where
  "TierSchema j =
     (case (json_number (json_field ''min_hours_before'' j),
            json_pct (json_field ''room_refund_pct'' j),
            json_pct (json_field ''equipment_refund_pct'' j)) of
        (Some h, Some r, Some e) \<Rightarrow>
          if 0 \<le> h
          then Some \<lparr>min_hours_before = h, room_refund_pct = r, equipment_refund_pct = e\<rparr> else None
      | _ \<Rightarrow> None)"

text \<open>The refinements of the array: strictly descending, and down to zero hours.\<close>

fun descending :: "tier list \<Rightarrow> bool" where
  "descending (s # t # ts) \<longleftrightarrow> min_hours_before t < min_hours_before s \<and> descending (t # ts)"
| "descending _ \<longleftrightarrow> True"

definition total_ladder :: "tier list \<Rightarrow> bool" where
  "total_ladder ts \<longleftrightarrow> ts \<noteq> [] \<and> descending ts \<and> min_hours_before (last ts) = 0"

definition tier_ok :: "tier \<Rightarrow> bool" where
  "tier_ok t \<longleftrightarrow> 0 \<le> min_hours_before t \<and> 0 \<le> room_refund_pct t \<and> room_refund_pct t \<le> 100
     \<and> 0 \<le> equipment_refund_pct t \<and> equipment_refund_pct t \<le> 100"

fun all_some :: "'a option list \<Rightarrow> 'a list option" where
  "all_some [] = Some []"
| "all_some (x # xs) = (case (x, all_some xs) of (Some y, Some ys) \<Rightarrow> Some (y # ys) | _ \<Rightarrow> None)"

fun TiersSchema :: "json \<Rightarrow> tier list option" where
  "TiersSchema (JArr js) =
     (case all_some (map TierSchema js) of
        Some ts \<Rightarrow> if total_ladder ts then Some ts else None
      | None \<Rightarrow> None)"
| "TiersSchema _ = None"

datatype policy_source = FromVenue | FromPlatform

record policy_snapshot =
  ps_tiers :: "tier list"
  ps_policy_id :: string
  ps_resolved_from :: policy_source
  ps_snapshot_at :: string

fun json_source :: "json option \<Rightarrow> policy_source option" where
  "json_source (Some (JStr s)) =
     (if s = ''venue'' then Some FromVenue else if s = ''platform'' then Some FromPlatform else None)"
| "json_source _ = None"

definition parseSnapshot :: "json \<Rightarrow> policy_snapshot option" where
  "parseSnapshot j =
     (case (Option.bind (json_field ''tiers'' j) TiersSchema,
            json_string (json_field ''policy_id'' j),
            json_source (json_field ''resolved_from'' j),
            json_string (json_field ''snapshot_at'' j)) of
        (Some ts, Some pid, Some src, Some t) \<Rightarrow>
          Some \<lparr>ps_tiers = ts, ps_policy_id = pid, ps_resolved_from = src, ps_snapshot_at = t\<rparr>
      | _ \<Rightarrow> None)"

text \<open>The object written into the \<open>jsonb\<close> column.\<close>

definition tier_json :: "tier \<Rightarrow> json" where
  "tier_json t = JObj [(''min_hours_before'', JNum (min_hours_before t)),
     (''room_refund_pct'', JNum (of_int (room_refund_pct t))),
     (''equipment_refund_pct'', JNum (of_int (equipment_refund_pct t)))]"

definition tiers_json :: "tier list \<Rightarrow> json" where
  "tiers_json ts = JArr (map tier_json ts)"

fun source_string :: "policy_source \<Rightarrow> string" where
  "source_string FromVenue = ''venue''"
| "source_string FromPlatform = ''platform''"

definition snapshot_json :: "policy_snapshot \<Rightarrow> json" where
  "snapshot_json s = JObj [(''tiers'', tiers_json (ps_tiers s)),
     (''policy_id'', JStr (ps_policy_id s)),
     (''resolved_from'', JStr (source_string (ps_resolved_from s))),
     (''snapshot_at'', JStr (ps_snapshot_at s))]"

section \<open>What a cancellation is worth\<close>

definition no_tier :: exn where
  "no_tier = JsError ''policy has no tier for the requested lead time''"

fun selectTier :: "tier list \<Rightarrow> js_number \<Rightarrow> exn + tier" where
  "selectTier [] h = Inl no_tier"
| "selectTier (t # ts) h = (if min_hours_before t \<le> h then Inr t else selectTier ts h)"

definition MS_PER_HOUR :: int where
  "MS_PER_HOUR = 3600000"

text \<open>\<open>Math.max(0, (startsAt.getTime() - at.getTime()) / 3_600_000)\<close>\<close>

definition hours_before :: "instant \<Rightarrow> instant \<Rightarrow> js_number" where
  "hours_before starts ts = max 0 (js_div (js_of_int (starts - ts)) (of_int MS_PER_HOUR))"

record refund_breakdown =
  rb_hours_before :: js_number
  rb_tier :: tier
  rb_room_refund_minor :: int
  rb_equipment_refund_minor :: int
  rb_total_refund_minor :: int

definition computeRefund :: "int \<Rightarrow> int \<Rightarrow> tier list \<Rightarrow> instant \<Rightarrow> instant \<Rightarrow> exn + refund_breakdown" where
  "computeRefund room equip ts starts cancelled =
     (let h = hours_before starts cancelled in
      result_bind (selectTier ts h) (\<lambda>t.
        let r = bigint_div (room * room_refund_pct t) 100;
            e = bigint_div (equip * equipment_refund_pct t) 100 in
        Inr \<lparr>rb_hours_before = h, rb_tier = t, rb_room_refund_minor = r,
          rb_equipment_refund_minor = e, rb_total_refund_minor = r + e\<rparr>))"

section \<open>Splitting a total\<close>

text \<open>\<open>BigInt(Math.round(((endsAt - startsAt) / 3_600_000) * 2))\<close>\<close>

definition duration_hours :: "instant \<Rightarrow> instant \<Rightarrow> js_number" where
  "duration_hours starts ends = js_div (js_of_int (ends - starts)) (of_int MS_PER_HOUR)"

definition half_hours :: "instant \<Rightarrow> instant \<Rightarrow> int" where
  "half_hours starts ends = math_round (js_mul (duration_hours starts ends) 2)"

definition line_total :: "int \<Rightarrow> int \<Rightarrow> int \<Rightarrow> int" where
  "line_total halves rate quantity = bigint_div (halves * rate * quantity) 2"

definition splitTotals :: "booking \<Rightarrow> booking_line_item list \<Rightarrow> int \<times> int" where
  "splitTotals b items =
     (let halves = half_hours (b_starts_at b) (b_ends_at b);
          equip = (\<Sum>i\<leftarrow>items. line_total halves (li_rate_minor i) (li_quantity i));
          room = b_total_minor b - equip in
      (if room < 0 then 0 else room, equip))"

section \<open>The console's preview\<close>

text \<open>
  A booking as the console holds it: the instants behind its ISO strings, and the integers behind
  its decimal strings. The tiers are read off the snapshot without a schema.
\<close>

record web_line_item =
  wl_quantity :: int
  wl_rate_minor :: int

record web_booking =
  wb_status :: booking_status
  wb_starts_at :: instant
  wb_ends_at :: instant
  wb_total_minor :: int
  wb_tiers :: "tier list option"
  wb_line_items :: "web_line_item list"

record refund_preview =
  rp_hours_before :: js_number
  rp_tier :: tier
  rp_room_minor :: int
  rp_equipment_minor :: int
  rp_room_refund_minor :: int
  rp_equipment_refund_minor :: int
  rp_total_refund_minor :: int
  rp_forfeited_minor :: int

fun web_selectTier :: "tier list \<Rightarrow> js_number \<Rightarrow> tier option" where
  "web_selectTier [] h = None"
| "web_selectTier (t # ts) h = (if min_hours_before t \<le> h then Some t else web_selectTier ts h)"

definition web_splitTotals :: "web_booking \<Rightarrow> int \<times> int" where
  "web_splitTotals b =
     (let halves = math_round (js_mul (js_div (js_of_int (wb_ends_at b - wb_starts_at b)) 3600000) 2);
          equip = (\<Sum>i\<leftarrow>wb_line_items b. bigint_div (halves * wl_rate_minor i * wl_quantity i) 2);
          room = wb_total_minor b - equip in
      (if room < 0 then 0 else room, equip))"

definition previewRefund :: "web_booking \<Rightarrow> instant \<Rightarrow> refund_preview option" where
  "previewRefund b now =
     (case wb_tiers b of
        None \<Rightarrow> None
      | Some ts \<Rightarrow>
          if ts = [] then None
          else
            let h = max 0 (js_div (js_of_int (wb_starts_at b - now)) 3600000) in
            case web_selectTier ts h of
              None \<Rightarrow> None
            | Some t \<Rightarrow>
                let (room, equip) = web_splitTotals b;
                    r = bigint_div (room * room_refund_pct t) 100;
                    e = bigint_div (equip * equipment_refund_pct t) 100 in
                Some \<lparr>rp_hours_before = h, rp_tier = t, rp_room_minor = room,
                  rp_equipment_minor = equip, rp_room_refund_minor = r,
                  rp_equipment_refund_minor = e, rp_total_refund_minor = r + e,
                  rp_forfeited_minor = wb_total_minor b - (r + e)\<rparr>)"

definition wasCharged :: "booking_status \<Rightarrow> bool" where
  "wasCharged s \<longleftrightarrow> s = CONFIRMED \<or> s = COMPLETED"

text \<open>What the API sends the console of a booking and its line items.\<close>

definition web_view :: "booking \<Rightarrow> booking_line_item list \<Rightarrow> tier list option \<Rightarrow> web_booking" where
  "web_view b items ts =
     \<lparr>wb_status = b_status b, wb_starts_at = b_starts_at b, wb_ends_at = b_ends_at b,
      wb_total_minor = b_total_minor b, wb_tiers = ts,
      wb_line_items = map (\<lambda>i. \<lparr>wl_quantity = li_quantity i, wl_rate_minor = li_rate_minor i\<rparr>) items\<rparr>"

section \<open>Lemmas\<close>

lemma all_some_map_Some [simp]: "all_some (map Some ys) = Some ys"
  by (induction ys) simp_all

lemma all_some_eq_Some: "all_some xs = Some ys \<longleftrightarrow> xs = map Some ys"
proof
  show "all_some xs = Some ys \<Longrightarrow> xs = map Some ys"
    by (induction xs arbitrary: ys) (auto split: option.splits)
qed simp

lemma TierSchema_ok: "TierSchema j = Some t \<Longrightarrow> tier_ok t"
  by (auto simp: TierSchema_def json_pct_def tier_ok_def floor_le_iff le_floor_iff
      split: option.splits if_splits)

lemma TierSchema_tier_json: "tier_ok t \<Longrightarrow> TierSchema (tier_json t) = Some t"
  by (cases t) (simp add: TierSchema_def tier_json_def json_pct_def tier_ok_def)

lemma TiersSchema_SomeD:
  assumes "TiersSchema j = Some ts"
  shows "total_ladder ts" "\<And>t. t \<in> set ts \<Longrightarrow> tier_ok t"
proof -
  obtain js where j: "j = JArr js" "all_some (map TierSchema js) = Some ts" "total_ladder ts"
    using assms by (cases j) (auto split: option.splits if_splits)
  then have m: "map TierSchema js = map Some ts" by (simp add: all_some_eq_Some)
  show "total_ladder ts" by (rule j(3))
  show "tier_ok t" if "t \<in> set ts" for t
  proof -
    have "Some t \<in> set (map TierSchema js)" using that m by simp
    then show ?thesis by (auto intro: TierSchema_ok)
  qed
qed

lemma TiersSchema_tiers_json:
  assumes "total_ladder ts" and "\<And>t. t \<in> set ts \<Longrightarrow> tier_ok t"
  shows "TiersSchema (tiers_json ts) = Some ts"
proof -
  have "map TierSchema (map tier_json ts) = map Some ts"
    using assms(2) by (auto simp: TierSchema_tier_json)
  then have "all_some (map TierSchema (map tier_json ts)) = Some ts"
    by (simp only: all_some_map_Some)
  then show ?thesis using assms(1) by (simp add: tiers_json_def)
qed

lemma json_source_string [simp]: "json_source (Some (JStr (source_string s))) = Some s"
  by (cases s) simp_all

lemma parseSnapshot_snapshot_json:
  assumes "total_ladder (ps_tiers s)" and "\<And>t. t \<in> set (ps_tiers s) \<Longrightarrow> tier_ok t"
  shows "parseSnapshot (snapshot_json s) = Some s"
  using TiersSchema_tiers_json [OF assms]
  by (cases s; cases "ps_resolved_from s") (simp_all add: parseSnapshot_def snapshot_json_def)

lemma descending_head: "descending (t # ts) \<Longrightarrow> u \<in> set ts \<Longrightarrow> min_hours_before u < min_hours_before t"
  by (induction ts arbitrary: t) (auto intro: less_trans)

lemma total_ladder_Cons:
  "total_ladder (t # u # ts) \<longleftrightarrow> min_hours_before u < min_hours_before t \<and> total_ladder (u # ts)"
  by (auto simp: total_ladder_def)

text \<open>A ladder that passed the schema always has a tier, and it is the highest one that is met.\<close>

lemma selectTier_highest:
  assumes "total_ladder ts" and "0 \<le> h"
  shows "\<exists>t \<in> set ts. selectTier ts h = Inr t \<and> min_hours_before t \<le> h
    \<and> (\<forall>u \<in> set ts. min_hours_before u \<le> h \<longrightarrow> min_hours_before u \<le> min_hours_before t)"
  using assms
proof (induction ts)
  case (Cons t ts)
  show ?case
  proof (cases "min_hours_before t \<le> h")
    case True
    have "descending (t # ts)" using Cons.prems(1) by (simp add: total_ladder_def)
    then have "min_hours_before u \<le> min_hours_before t" if "u \<in> set (t # ts)" for u
      using descending_head [of t ts u] that by auto
    then show ?thesis using True by auto
  next
    case False
    then have "ts \<noteq> []" using Cons.prems by (auto simp: total_ladder_def)
    then have "total_ladder ts" using Cons.prems(1) by (cases ts) (auto simp: total_ladder_Cons)
    from Cons.IH [OF this Cons.prems(2)] show ?thesis using False by auto
  qed
qed (simp add: total_ladder_def)

lemma hours_before_nonneg [simp]: "0 \<le> hours_before s c"
  by (simp add: hours_before_def)

text \<open>The floating-point lead time meets a whole number of hours exactly when the instants do.\<close>

lemma hours_before_ge_iff:
  assumes "\<bar>starts - ts\<bar> \<le> 2 ^ 53" and "0 < n" and "n * MS_PER_HOUR < 2 ^ 53"
  shows "of_int n \<le> hours_before starts ts \<longleftrightarrow> n * MS_PER_HOUR \<le> starts - ts"
proof (cases "0 \<le> starts - ts")
  case True
  have "of_int n \<le> hours_before starts ts
      \<longleftrightarrow> of_int n \<le> js_div (of_int (starts - ts)) (of_int MS_PER_HOUR)"
    using assms(1,2) by (simp add: hours_before_def le_max_iff_disj)
  also have "\<dots> \<longleftrightarrow> n * MS_PER_HOUR \<le> starts - ts"
    using js_div_of_int_ge_iff [of "starts - ts" MS_PER_HOUR n] True assms
    by (simp add: MS_PER_HOUR_def)
  finally show ?thesis .
next
  case False
  have "dbl (of_int (starts - ts) / of_int MS_PER_HOUR) \<le> 0"
  proof -
    let ?x = "of_int (starts - ts) / of_int MS_PER_HOUR :: rat"
    have "?x < 0" using False by (simp add: MS_PER_HOUR_def divide_less_0_iff del: of_int_diff)
    then show ?thesis using dbl_error [of ?x] by (simp add: abs_if split: if_splits)
  qed
  then have "hours_before starts ts = 0"
    using assms(1) by (simp add: hours_before_def js_div_def max_def)
  moreover have "starts - ts < n * MS_PER_HOUR"
    using False assms(2) by (simp add: MS_PER_HOUR_def)
  ultimately show ?thesis using assms(2) by simp
qed

lemma pct_div_le:
  assumes "0 \<le> a" "0 \<le> p" "p \<le> (100 :: int)"
  shows "0 \<le> bigint_div (a * p) 100" "bigint_div (a * p) 100 \<le> a"
    "100 * bigint_div (a * p) 100 \<le> a * p" "a * p < 100 * (bigint_div (a * p) 100 + 1)"
proof -
  have "a * p \<le> a * 100" using assms by (intro mult_left_mono) simp_all
  then show "bigint_div (a * p) 100 \<le> a" using assms by simp
qed (use assms in \<open>simp_all add: pos_imp_zdiv_nonneg_iff\<close>)

lemma computeRefund_eq_Inr:
  "computeRefund room equip ts starts cancelled = Inr r \<longleftrightarrow>
     selectTier ts (hours_before starts cancelled) = Inr (rb_tier r)
     \<and> rb_hours_before r = hours_before starts cancelled
     \<and> rb_room_refund_minor r = bigint_div (room * room_refund_pct (rb_tier r)) 100
     \<and> rb_equipment_refund_minor r = bigint_div (equip * equipment_refund_pct (rb_tier r)) 100
     \<and> rb_total_refund_minor r = rb_room_refund_minor r + rb_equipment_refund_minor r"
  by (cases r) (auto simp: computeRefund_def Let_def result_bind_eq_Inr)

lemma web_selectTier_eq: "web_selectTier ts h = (case selectTier ts h of Inl _ \<Rightarrow> None | Inr t \<Rightarrow> Some t)"
  by (induction ts) auto

lemma web_splitTotals_view: "web_splitTotals (web_view b items ts) = splitTotals b items"
  by (simp add: web_splitTotals_def splitTotals_def web_view_def half_hours_def duration_hours_def
      MS_PER_HOUR_def line_total_def comp_def)

lemma line_total_nonneg: "0 \<le> h \<Longrightarrow> 0 \<le> r \<Longrightarrow> 0 \<le> q \<Longrightarrow> 0 \<le> line_total h r q"
  by (simp add: line_total_def)

lemma half_hours_grid:
  assumes "ends - starts = h * 1800000" and "\<bar>h * 1800000\<bar> \<le> 2 ^ 53"
  shows "half_hours starts ends = h" "duration_hours starts ends = of_int h / 2"
proof -
  have "\<bar>h\<bar> \<le> 2 ^ 53" using assms(2) by (simp add: abs_mult)
  then show "half_hours starts ends = h" "duration_hours starts ends = of_int h / 2"
    using assms js_div_half_hours [of h] math_round_half_hours [of h]
    unfolding half_hours_def duration_hours_def assms(1) js_of_int_exact [OF assms(2)] MS_PER_HOUR_def
    by simp_all
qed

lemma computeRefund_bounds:
  assumes "TiersSchema j = Some ts" and "0 \<le> room" and "0 \<le> equip"
    and "computeRefund room equip ts starts cancelled = Inr r"
  shows "0 \<le> rb_total_refund_minor r" "rb_total_refund_minor r \<le> room + equip"
proof -
  obtain t where "t \<in> set ts" "selectTier ts (hours_before starts cancelled) = Inr t"
    using selectTier_highest [OF TiersSchema_SomeD(1) [OF assms(1)] hours_before_nonneg] by blast
  then have "rb_tier r \<in> set ts" using assms(4) by (simp add: computeRefund_eq_Inr)
  then have "tier_ok (rb_tier r)" by (rule TiersSchema_SomeD(2) [OF assms(1)])
  then have p: "0 \<le> room_refund_pct (rb_tier r)" "room_refund_pct (rb_tier r) \<le> 100"
    "0 \<le> equipment_refund_pct (rb_tier r)" "equipment_refund_pct (rb_tier r) \<le> 100"
    by (auto simp: tier_ok_def)
  show "0 \<le> rb_total_refund_minor r" "rb_total_refund_minor r \<le> room + equip"
    using assms(4) pct_div_le(1,2) [OF assms(2) p(1,2)] pct_div_le(1,2) [OF assms(3) p(3,4)]
    by (auto simp: computeRefund_eq_Inr)
qed

section \<open>Properties\<close>

text \<open>
  C17. A policy the schema accepts prices every cancellation, before the start and after it: the refund
  exists, each component is the component's percentage rounded down by less than one minor unit,
  and the whole is never negative and never more than what was charged.
\<close>

lemma computeRefund_total:
  assumes "TiersSchema j = Some ts" and "0 \<le> room" and "0 \<le> equip"
  shows "\<exists>r. computeRefund room equip ts starts cancelled = Inr r
    \<and> rb_tier r \<in> set ts
    \<and> 0 \<le> rb_total_refund_minor r \<and> rb_total_refund_minor r \<le> room + equip
    \<and> 100 * rb_room_refund_minor r \<le> room * room_refund_pct (rb_tier r)
    \<and> room * room_refund_pct (rb_tier r) < 100 * (rb_room_refund_minor r + 1)
    \<and> 100 * rb_equipment_refund_minor r \<le> equip * equipment_refund_pct (rb_tier r)
    \<and> equip * equipment_refund_pct (rb_tier r) < 100 * (rb_equipment_refund_minor r + 1)"
proof -
  obtain t where t: "t \<in> set ts" "selectTier ts (hours_before starts cancelled) = Inr t"
    using selectTier_highest [OF TiersSchema_SomeD(1) [OF assms(1)] hours_before_nonneg] by blast
  then have "tier_ok t" using TiersSchema_SomeD(2) [OF assms(1)] by blast
  then have p: "0 \<le> room_refund_pct t" "room_refund_pct t \<le> 100" "0 \<le> equipment_refund_pct t"
    "equipment_refund_pct t \<le> 100"
    by (auto simp: tier_ok_def)
  let ?r = "bigint_div (room * room_refund_pct t) 100"
  let ?e = "bigint_div (equip * equipment_refund_pct t) 100"
  have "0 \<le> ?r + ?e" "?r + ?e \<le> room + equip"
    using pct_div_le(1,2) [OF assms(2) p(1,2)] pct_div_le(1,2) [OF assms(3) p(3,4)] by linarith+
  then show ?thesis
    using t pct_div_le(3,4) [OF assms(2) p(1,2)] pct_div_le(3,4) [OF assms(3) p(3,4)]
    by (simp add: computeRefund_def Let_def)
qed

text \<open>
  The tier is chosen by the instants alone: with thresholds in whole hours, the lead time in
  floating-point hours never picks a tier that exact arithmetic would not.
\<close>

lemma computeRefund_exact_tier:
  assumes "TiersSchema j = Some ts" and "\<bar>starts - cancelled\<bar> \<le> 2 ^ 53"
    and "\<And>t. t \<in> set ts \<Longrightarrow>
      \<exists>n. min_hours_before t = of_int n \<and> n * MS_PER_HOUR < 2 ^ 53"
    and "computeRefund room equip ts starts cancelled = Inr r"
  shows "(\<forall>t \<in> set ts. min_hours_before (rb_tier r) < min_hours_before t \<longrightarrow>
      of_int (starts - cancelled) < min_hours_before t * of_int MS_PER_HOUR)
    \<and> (0 < min_hours_before (rb_tier r) \<longrightarrow>
      min_hours_before (rb_tier r) * of_int MS_PER_HOUR \<le> of_int (starts - cancelled))"
proof (intro conjI)
  have sel: "selectTier ts (hours_before starts cancelled) = Inr (rb_tier r)"
    using assms(4) by (simp add: computeRefund_eq_Inr)
  then have top: "rb_tier r \<in> set ts" "min_hours_before (rb_tier r) \<le> hours_before starts cancelled"
    "\<forall>u \<in> set ts. min_hours_before u \<le> hours_before starts cancelled
       \<longrightarrow> min_hours_before u \<le> min_hours_before (rb_tier r)"
    using selectTier_highest [OF TiersSchema_SomeD(1) [OF assms(1)], of "hours_before starts cancelled"]
    by auto
  have iff: "min_hours_before t \<le> hours_before starts cancelled
      \<longleftrightarrow> min_hours_before t * of_int MS_PER_HOUR \<le> of_int (starts - cancelled)"
    if t: "t \<in> set ts" "0 < min_hours_before t" for t
  proof -
    obtain n where n: "min_hours_before t = of_int n" "n * MS_PER_HOUR < 2 ^ 53"
      using assms(3) [OF t(1)] by auto
    then have "0 < n" using t(2) by simp
    have "of_int (n * MS_PER_HOUR) \<le> (of_int (starts - cancelled) :: rat)
        \<longleftrightarrow> n * MS_PER_HOUR \<le> starts - cancelled"
      by (simp only: of_int_le_iff)
    then show ?thesis using hours_before_ge_iff [OF assms(2) \<open>0 < n\<close> n(2)] n(1) by simp
  qed
  show "\<forall>t \<in> set ts. min_hours_before (rb_tier r) < min_hours_before t \<longrightarrow>
      of_int (starts - cancelled) < min_hours_before t * of_int MS_PER_HOUR"
  proof (intro ballI impI)
    fix t assume t: "t \<in> set ts" "min_hours_before (rb_tier r) < min_hours_before t"
    have "0 \<le> min_hours_before (rb_tier r)"
      using TiersSchema_SomeD(2) [OF assms(1) top(1)] by (simp add: tier_ok_def)
    with t have "0 < min_hours_before t" by linarith
    moreover have "\<not> min_hours_before t \<le> hours_before starts cancelled" using top(3) t by force
    ultimately show "of_int (starts - cancelled) < min_hours_before t * of_int MS_PER_HOUR"
      using iff [OF t(1)] by auto
  qed
  show "0 < min_hours_before (rb_tier r) \<longrightarrow>
      min_hours_before (rb_tier r) * of_int MS_PER_HOUR \<le> of_int (starts - cancelled)"
    using iff [OF top(1)] top(2) by blast
qed

text \<open>
  C33. The two implementations agree: for a snapshot the API can read, the console quotes exactly the
  breakdown the cancellation computes at the same instant.
\<close>

lemma previewRefund_agrees:
  assumes "parseSnapshot j = Some snap"
  shows "previewRefund (web_view b items (Some (ps_tiers snap))) now =
    (case splitTotals b items of (room, equip) \<Rightarrow>
      (case computeRefund room equip (ps_tiers snap) (b_starts_at b) now of
         Inl _ \<Rightarrow> None
       | Inr r \<Rightarrow> Some \<lparr>rp_hours_before = rb_hours_before r, rp_tier = rb_tier r,
           rp_room_minor = room, rp_equipment_minor = equip,
           rp_room_refund_minor = rb_room_refund_minor r,
           rp_equipment_refund_minor = rb_equipment_refund_minor r,
           rp_total_refund_minor = rb_total_refund_minor r,
           rp_forfeited_minor = b_total_minor b - rb_total_refund_minor r\<rparr>))"
proof -
  have "\<exists>jt. TiersSchema jt = Some (ps_tiers snap)"
    using assms by (auto simp: parseSnapshot_def Option.bind_eq_Some_conv split: option.splits)
  then have "ps_tiers snap \<noteq> []" using TiersSchema_SomeD(1) by (auto simp: total_ladder_def)
  then show ?thesis
    unfolding previewRefund_def web_selectTier_eq computeRefund_def web_splitTotals_view
    by (simp add: web_view_def hours_before_def MS_PER_HOUR_def Let_def split: sum.split prod.split)
qed

end
