(* ===== verification/ZonedTime.thy ===== *)
theory ZonedTime
  imports Schema
begin

text \<open>
  \<open>apps/api/src/common/time/zoned-time.ts\<close> and \<open>apps/api/src/common/time/operating-hours.ts\<close>:
  wall-clock readings in a venue's time zone, the instant of a wall-clock reading, and the windows
  a venue is open.

  The time zone database behind \<open>Intl.DateTimeFormat\<close> is a parameter: \<open>off tz i\<close> is the number of
  milliseconds zone \<open>tz\<close> is ahead of UTC at instant \<open>i\<close>. The proleptic Gregorian calendar of
  \<open>Date.UTC\<close> is computed on days since 1970-01-01.
\<close>

section \<open>The calendar\<close>

definition MS_PER_MINUTE :: int where
  "MS_PER_MINUTE = 60000"

definition MS_PER_DAY :: int where
  "MS_PER_DAY = 86400000"

definition days_from_civil :: "int \<Rightarrow> int \<Rightarrow> int \<Rightarrow> int" where
  "days_from_civil y m d =
     (let y' = if m \<le> 2 then y - 1 else y;
          era = y' div 400; yoe = y' mod 400;
          doy = (153 * ((m + 9) mod 12) + 2) div 5 + d - 1;
          doe = yoe * 365 + yoe div 4 - yoe div 100 + doy in
      era * 146097 + doe - 719468)"

definition civil_from_days :: "int \<Rightarrow> int \<times> int \<times> int" where
  "civil_from_days z =
     (let z' = z + 719468;
          era = z' div 146097; doe = z' mod 146097;
          yoe = (doe - doe div 1460 + doe div 36524 - doe div 146096) div 365;
          doy = doe - (365 * yoe + yoe div 4 - yoe div 100);
          mp = (5 * doy + 2) div 153;
          d = doy - (153 * mp + 2) div 5 + 1;
          m = if mp < 10 then mp + 3 else mp - 9 in
      (yoe + era * 400 + (if m \<le> 2 then 1 else 0), m, d))"

text \<open>\<open>Date.UTC\<close>, with the month from 1; years 0 to 99 are read as 1900 to 1999.\<close>

definition date_utc :: "int \<Rightarrow> int \<Rightarrow> int \<Rightarrow> int \<Rightarrow> int \<Rightarrow> int \<Rightarrow> instant" where
  "date_utc y m d h mi s =
     (let y' = if 0 \<le> y \<and> y \<le> 99 then 1900 + y else y in
      ((days_from_civil y' m d * 24 + h) * 60 + mi) * MS_PER_MINUTE + s * 1000)"

text \<open>\<open>Date.prototype.toISOString\<close>: digits padded with zeros, and a signed year of six digits outside 0 to 9999.\<close>

fun padded :: "nat \<Rightarrow> int \<Rightarrow> string" where
  "padded 0 n = []"
| "padded (Suc k) n = padded k (n div 10) @ [char_of (48 + nat (n mod 10))]"

definition toISOString :: "instant \<Rightarrow> string" where
  "toISOString i =
     (let (y, m, d) = civil_from_days (i div MS_PER_DAY); ms = i mod MS_PER_DAY in
      (if 0 \<le> y \<and> y \<le> 9999 then padded 4 y else (if y < 0 then ''-'' else ''+'') @ padded 6 \<bar>y\<bar>)
      @ ''-'' @ padded 2 m @ ''-'' @ padded 2 d @ ''T'' @ padded 2 (ms div 3600000) @ '':''
      @ padded 2 (ms div 60000 mod 60) @ '':'' @ padded 2 (ms div 1000 mod 60) @ ''.''
      @ padded 3 (ms mod 1000) @ ''Z'')"

section \<open>Wall-clock readings\<close>

text \<open>The index of a weekday in \<open>WEEKDAY_KEYS\<close>, from Sunday.\<close>

record local_parts =
  lp_year :: int
  lp_month :: int
  lp_day :: int
  lp_hour :: int
  lp_minute :: int
  lp_second :: int
  lp_weekday :: nat

definition WEEKDAY_KEYS :: "string list" where
  "WEEKDAY_KEYS = [''sun'', ''mon'', ''tue'', ''wed'', ''thu'', ''fri'', ''sat'']"

type_synonym zone_offsets = "string \<Rightarrow> instant \<Rightarrow> int"

definition toLocalParts :: "zone_offsets \<Rightarrow> instant \<Rightarrow> string \<Rightarrow> local_parts" where
  "toLocalParts off i tz =
     (let secs = (i + off tz i) div 1000;
          day = secs div 86400; sod = secs mod 86400;
          (y, m, d) = civil_from_days day in
      \<lparr>lp_year = y, lp_month = m, lp_day = d, lp_hour = sod div 3600 mod 24,
       lp_minute = sod mod 3600 div 60, lp_second = sod mod 60,
       lp_weekday = nat ((day + 4) mod 7)\<rparr>)"

definition zoneOffsetMs :: "zone_offsets \<Rightarrow> instant \<Rightarrow> string \<Rightarrow> int" where
  "zoneOffsetMs off i tz =
     (let p = toLocalParts off i tz in
      date_utc (lp_year p) (lp_month p) (lp_day p) (lp_hour p) (lp_minute p) (lp_second p)
      - i div 1000 * 1000)"

text \<open>One guess and at most three corrections.\<close>

fun correct :: "nat \<Rightarrow> zone_offsets \<Rightarrow> string \<Rightarrow> instant \<Rightarrow> instant \<Rightarrow> instant" where
  "correct 0 off tz target utc = utc"
| "correct (Suc k) off tz target utc =
     (let next = target - zoneOffsetMs off utc tz in
      if next = utc then utc else correct k off tz target next)"

definition fromLocalParts :: "zone_offsets \<Rightarrow> int \<Rightarrow> int \<Rightarrow> int \<Rightarrow> int \<Rightarrow> int \<Rightarrow> string \<Rightarrow> instant" where
  "fromLocalParts off y m d h mi tz =
     (let target = date_utc y m d h mi 0 in correct 3 off tz target target)"

definition digit :: "char \<Rightarrow> int option" where
  "digit c = (if c \<in> set ''0123456789'' then Some (of_char c - 48) else None)"

text \<open>\<open>/^(\d{2}):(\d{2})$/\<close>, up to 24:00.\<close>

fun parseClock :: "string \<Rightarrow> int option" where
  "parseClock [a, b, c, x, y] =
     (if c \<noteq> CHR '':'' then None
      else case (digit a, digit b, digit x, digit y) of
        (Some a', Some b', Some x', Some y') \<Rightarrow>
          let h = 10 * a' + b'; m = 10 * x' + y' in
          if m > 59 then None
          else if h > 24 \<or> h = 24 \<and> m \<noteq> 0 then None
          else Some (h * 60 + m)
      | _ \<Rightarrow> None)"
| "parseClock _ = None"

definition localMinutesOfDay :: "zone_offsets \<Rightarrow> instant \<Rightarrow> string \<Rightarrow> int" where
  "localMinutesOfDay off i tz =
     (let p = toLocalParts off i tz in lp_hour p * 60 + lp_minute p)"

definition addMinutes :: "instant \<Rightarrow> int \<Rightarrow> instant" where
  "addMinutes i n = i + n * MS_PER_MINUTE"

section \<open>Operating hours\<close>

record day_hours =
  dh_open :: string
  dh_close :: string

text \<open>One entry for each of \<open>WEEKDAY_KEYS\<close>; \<open>None\<close> is a day the venue is closed.\<close>

type_synonym operating_hours = "day_hours option list"

fun DayHoursSchema :: "json option \<Rightarrow> day_hours option option" where
  "DayHoursSchema (Some JNull) = Some None"
| "DayHoursSchema (Some j) =
     (case (json_field ''open'' j, json_field ''close'' j) of
        (Some (JStr op), Some (JStr cl)) \<Rightarrow> Some (Some \<lparr>dh_open = op, dh_close = cl\<rparr>)
      | _ \<Rightarrow> None)"
| "DayHoursSchema None = None"

fun parse_days :: "string list \<Rightarrow> json \<Rightarrow> operating_hours option" where
  "parse_days [] j = Some []"
| "parse_days (k # ks) j =
     (case (DayHoursSchema (json_field k j), parse_days ks j) of
        (Some h, Some hs) \<Rightarrow> Some (h # hs)
      | _ \<Rightarrow> None)"

definition parseOperatingHours :: "json \<Rightarrow> operating_hours option" where
  "parseOperatingHours j = parse_days WEEKDAY_KEYS j"

record open_window =
  ow_opens_at :: instant
  ow_closes_at :: instant

definition nextLocalDay :: "zone_offsets \<Rightarrow> string \<Rightarrow> int \<Rightarrow> int \<Rightarrow> int \<Rightarrow> int \<times> int \<times> int" where
  "nextLocalDay off tz y m d =
     (let noon = fromLocalParts off y m d 12 0 tz;
          p = toLocalParts off (addMinutes noon (24 * 60)) tz in
      (lp_year p, lp_month p, lp_day p))"

definition windowForLocalDate :: "zone_offsets \<Rightarrow> operating_hours \<Rightarrow> string \<Rightarrow> int \<Rightarrow> int \<Rightarrow> int \<Rightarrow> nat
    \<Rightarrow> open_window option" where
  "windowForLocalDate off hours tz y m d weekday =
     (case hours ! weekday of
        None \<Rightarrow> None
      | Some spec \<Rightarrow>
          (case (parseClock (dh_open spec), parseClock (dh_close spec)) of
             (Some op, Some cl) \<Rightarrow>
               let opensAt = fromLocalParts off y m d (op div 60) (op mod 60) tz;
                   crosses = cl \<le> op;
                   (cy, cm, cd) = (if crosses then nextLocalDay off tz y m d else (y, m, d));
                   closesAt = fromLocalParts off cy cm cd (cl div 60 mod 24) (cl mod 60) tz in
               if \<not> crosses \<and> closesAt \<le> opensAt
               then
                 let (ny, nm, nd) = nextLocalDay off tz y m d in
                 Some \<lparr>ow_opens_at = opensAt, ow_closes_at = fromLocalParts off ny nm nd 0 0 tz\<rparr>
               else Some \<lparr>ow_opens_at = opensAt, ow_closes_at = closesAt\<rparr>
           | _ \<Rightarrow> None))"

definition windowForLocalDay :: "zone_offsets \<Rightarrow> operating_hours \<Rightarrow> string \<Rightarrow> instant
    \<Rightarrow> open_window option" where
  "windowForLocalDay off hours tz anchor =
     (let p = toLocalParts off anchor tz in
      windowForLocalDate off hours tz (lp_year p) (lp_month p) (lp_day p) (lp_weekday p))"

definition window_covers :: "instant \<Rightarrow> instant \<Rightarrow> open_window option \<Rightarrow> bool" where
  "window_covers s e w \<longleftrightarrow>
     (case w of None \<Rightarrow> False | Some w' \<Rightarrow> ow_opens_at w' \<le> s \<and> e \<le> ow_closes_at w')"

definition isWithinOperatingHours :: "zone_offsets \<Rightarrow> operating_hours \<Rightarrow> string \<Rightarrow> instant \<Rightarrow> instant
    \<Rightarrow> bool" where
  "isWithinOperatingHours off hours tz s e \<longleftrightarrow>
     window_covers s e (windowForLocalDay off hours tz s)
     \<or> window_covers s e (windowForLocalDay off hours tz (addMinutes s (- (24 * 60))))"

definition date_key :: "local_parts \<Rightarrow> int" where
  "date_key p = lp_year p * 10000 + lp_month p * 100 + lp_day p"

text \<open>The walk over the local calendar, bounded by the source's guard.\<close>

fun walk_days :: "nat \<Rightarrow> zone_offsets \<Rightarrow> operating_hours \<Rightarrow> string \<Rightarrow> instant \<Rightarrow> instant \<Rightarrow> int
    \<Rightarrow> local_parts \<Rightarrow> open_window list" where
  "walk_days 0 off hours tz start stop stop_key cursor = []"
| "walk_days (Suc guard) off hours tz start stop stop_key cursor =
     (if stop_key < date_key cursor then []
      else
        let w = windowForLocalDate off hours tz (lp_year cursor) (lp_month cursor) (lp_day cursor)
                  (lp_weekday cursor);
            here = (case w of None \<Rightarrow> []
                    | Some w' \<Rightarrow> if start < ow_closes_at w' \<and> ow_opens_at w' < stop then [w'] else []);
            (ny, nm, nd) = nextLocalDay off tz (lp_year cursor) (lp_month cursor) (lp_day cursor);
            cursor' = toLocalParts off (fromLocalParts off ny nm nd 12 0 tz) tz in
        here @ walk_days guard off hours tz start stop stop_key cursor')"

definition openWindowsBetween :: "zone_offsets \<Rightarrow> operating_hours \<Rightarrow> string \<Rightarrow> instant \<Rightarrow> instant
    \<Rightarrow> open_window list" where
  "openWindowsBetween off hours tz start stop =
     sort_key ow_opens_at
       (walk_days 800 off hours tz start stop
         (date_key (toLocalParts off (addMinutes stop (24 * 60)) tz))
         (toLocalParts off (addMinutes start (- (24 * 60))) tz))"

section \<open>Properties\<close>

lemma openWindowsBetween_overlap:
  assumes "w \<in> set (openWindowsBetween off hours tz start stop)"
  shows "start < ow_closes_at w \<and> ow_opens_at w < stop"
proof -
  have "start < ow_closes_at w \<and> ow_opens_at w < stop"
    if "w \<in> set (walk_days guard off hours tz start stop k cursor)" for guard k cursor
    using that by (induction guard arbitrary: cursor)
      (auto simp: Let_def split: if_splits option.splits prod.splits)
  then show ?thesis using assms by (simp add: openWindowsBetween_def)
qed

text \<open>
  Around London's two clock changes of 2026, with the offsets of the time zone database: BST from
  01:00 UTC on 29 March to 01:00 UTC on 25 October.
\<close>

definition london :: zone_offsets where
  "london tz i =
     (if date_utc 2026 3 29 1 0 0 \<le> i \<and> i < date_utc 2026 10 25 1 0 0 then 3600000 else 0)"

text \<open>
  A repeated wall-clock reading is taken at its second occurrence, and a skipped one before the
  gap, at a reading that never was asked for: 01:30 on 29 March becomes 00:30. The comment on
  \<open>fromLocalParts\<close> promises the first occurrence, and forward past the gap.
\<close>

lemma fromLocalParts_clock_change:
  "fromLocalParts london 2026 10 25 1 30 tz = date_utc 2026 10 25 1 30 0
   \<and> localMinutesOfDay london (date_utc 2026 10 25 0 30 0) tz = 90
   \<and> localMinutesOfDay london (date_utc 2026 10 25 1 30 0) tz = 90
   \<and> fromLocalParts london 2026 3 29 1 30 tz = date_utc 2026 3 29 0 30 0
   \<and> localMinutesOfDay london (date_utc 2026 3 29 0 30 0) tz = 30"
  by code_simp

end
