(* ===== verification/Bookings.thy ===== *)
theory Bookings
  imports Retry Equipment RefundPolicy ZonedTime
begin

text \<open>
  \<open>apps/api/src/bookings/bookings.service.ts\<close> and its wire schemas in \<open>bookings.schemas.ts\<close>: the
  hold path, the checkout re-arm, the cancellation's state change, and the scoped reads.

  A transaction body is a handler on the database. What one attempt of a transaction draws from
  its surroundings is an \<open>attempt\<close>: the instant, the id Postgres generates, and whether Postgres
  aborts the attempt. The advisory lock of the hold path only orders transactions and has no effect
  of its own. Response messages and log lines are not modelled.
\<close>

section \<open>Requests, principals and configuration\<close>

record principal =
  pr_user_id :: uuid
  pr_role :: user_role
  pr_venue_id :: "uuid option"

record hold_env =
  HOLD_TTL_SECONDS :: int
  CHECKOUT_REARM_SECONDS :: int
  MAX_HOLD_REARMS :: int
  MAX_HOLD_LIFETIME_SECONDS :: int
  TRANSIENT_RETRY_ATTEMPTS :: nat

record attempt =
  at_now :: instant
  at_id :: uuid
  at_abort :: "js_err option"

definition THIRTY_MINUTES_MS :: int where
  "THIRTY_MINUTES_MS = 30 * 60 * 1000"

definition MIN_DURATION_MINUTES :: int where "MIN_DURATION_MINUTES = 60"
definition MAX_DURATION_MINUTES :: int where "MAX_DURATION_MINUTES = 480"
definition MIN_LEAD_MINUTES :: int where "MIN_LEAD_MINUTES = 60"
definition MAX_LEAD_DAYS :: int where "MAX_LEAD_DAYS = 90"

record hold_input =
  hi_room_id :: string
  hi_starts_at :: instant
  hi_ends_at :: instant
  hi_line_items :: "(string \<times> int) list"

definition minutes_between :: "instant \<Rightarrow> instant \<Rightarrow> js_number" where
  "minutes_between a b = js_div (js_of_int (b - a)) 60000"

definition OnTheHalfHour :: "instant \<Rightarrow> bool" where
  "OnTheHalfHour t \<longleftrightarrow> t mod THIRTY_MINUTES_MS = 0"

definition LineItemSchema :: "string \<times> int \<Rightarrow> bool" where
  "LineItemSchema li \<longleftrightarrow> zod_uuid (fst li) \<and> 0 < snd li \<and> snd li \<le> 1000"

definition HoldSchema :: "hold_input \<Rightarrow> bool" where
  "HoldSchema i \<longleftrightarrow> zod_uuid (hi_room_id i)
     \<and> OnTheHalfHour (hi_starts_at i) \<and> OnTheHalfHour (hi_ends_at i)
     \<and> length (hi_line_items i) \<le> 50 \<and> list_all LineItemSchema (hi_line_items i)
     \<and> 0 < minutes_between (hi_starts_at i) (hi_ends_at i)
     \<and> of_int MIN_DURATION_MINUTES \<le> minutes_between (hi_starts_at i) (hi_ends_at i)
     \<and> minutes_between (hi_starts_at i) (hi_ends_at i) \<le> of_int MAX_DURATION_MINUTES
     \<and> distinct (map fst (hi_line_items i))"

section \<open>Scope\<close>

text \<open>The rows a principal may see; the filter is built before the statement runs, and may throw.\<close>

definition scopeFilter :: "principal \<Rightarrow> exn + (booking \<Rightarrow> bool)" where
  "scopeFilter p =
     (case pr_role p of
        PLATFORM_ADMIN \<Rightarrow> Inr (\<lambda>_. True)
      | CUSTOMER \<Rightarrow> Inr (\<lambda>b. b_user_id b = pr_user_id p)
      | _ \<Rightarrow> (case pr_venue_id p of None \<Rightarrow> Inl Forbidden | Some v \<Rightarrow> Inr (\<lambda>b. b_venue_id b = v)))"

definition loadOwnedBooking :: "string \<Rightarrow> principal \<Rightarrow> db \<Rightarrow> exn + booking" where
  "loadOwnedBooking bid p d =
     result_bind (scopeFilter p) (\<lambda>q.
       or_throw (List.find (\<lambda>b. b_id b = uuid_in bid \<and> q b) (t_bookings d)) NotFound)"

section \<open>The rules that need the venue\<close>

record room_context =
  rc_venue_id :: uuid
  rc_hourly_rate_minor :: int
  rc_min_duration_minutes :: int
  rc_max_duration_minutes :: int
  rc_timezone :: string
  rc_overbooking_buffer_pct :: int
  rc_hours :: operating_hours
  rc_currency :: string

definition loadRoomContext :: "string \<Rightarrow> db \<Rightarrow> exn + room_context" where
  "loadRoomContext rid d =
     (case List.find (\<lambda>r. r_id r = uuid_in rid) (t_rooms d) of
        None \<Rightarrow> Inl NotFound
      | Some r \<Rightarrow>
          (case List.find (\<lambda>v. v_id v = r_venue_id r) (t_venues d) of
             None \<Rightarrow> Inl NotFound
           | Some v \<Rightarrow>
               (case parseOperatingHours (v_operating_hours v) of
                  None \<Rightarrow> Inl (Unprocessable (NoOperatingHours (r_venue_id r)))
                | Some hours \<Rightarrow>
                    Inr \<lparr>rc_venue_id = r_venue_id r, rc_hourly_rate_minor = r_hourly_rate_minor r,
                      rc_min_duration_minutes = r_min_duration_minutes r,
                      rc_max_duration_minutes = r_max_duration_minutes r,
                      rc_timezone = v_timezone v,
                      rc_overbooking_buffer_pct = v_overbooking_buffer_pct v,
                      rc_hours = hours, rc_currency = ''PKR''\<rparr>)))"

definition assertBookable :: "zone_offsets \<Rightarrow> instant \<Rightarrow> hold_input \<Rightarrow> room_context \<Rightarrow> exn + unit" where
  "assertBookable off now i ctx =
     (let lead = minutes_between now (hi_starts_at i);
          duration = minutes_between (hi_starts_at i) (hi_ends_at i) in
      result_bind (ensure (\<not> lead < of_int MIN_LEAD_MINUTES)
        (Unprocessable (LeadTooShort (hi_starts_at i)))) (\<lambda>_.
      result_bind (ensure (\<not> of_int (MAX_LEAD_DAYS * 24 * 60) < lead)
        (Unprocessable (LeadTooLong (hi_starts_at i)))) (\<lambda>_.
      result_bind (ensure (\<not> (duration < of_int (rc_min_duration_minutes ctx)
            \<or> of_int (rc_max_duration_minutes ctx) < duration))
        (Unprocessable (DurationOutOfRange (rc_min_duration_minutes ctx) (rc_max_duration_minutes ctx))))
        (\<lambda>_.
      ensure (isWithinOperatingHours off (rc_hours ctx) (rc_timezone ctx) (hi_starts_at i) (hi_ends_at i))
        (Unprocessable (OutsideOperatingHours (hi_starts_at i) (hi_ends_at i)))))))"

section \<open>Equipment admission\<close>

record priced_item =
  pi_equipment_type_id :: uuid
  pi_quantity :: int
  pi_rate_minor :: int
  pi_line_total_minor :: int

text \<open>\<open>new Map(entries)\<close>: a repeated key keeps its last value.\<close>

definition requested_quantities :: "hold_input \<Rightarrow> string \<Rightarrow> int option" where
  "requested_quantities i = map_of (rev (hi_line_items i))"

definition requested_ids :: "hold_input \<Rightarrow> string list" where
  "requested_ids i = sort (remdups (map fst (hi_line_items i)))"

definition wanted :: "hold_input \<Rightarrow> uuid \<Rightarrow> int" where
  "wanted i eid = (case requested_quantities i eid of None \<Rightarrow> 0 | Some q \<Rightarrow> q)"

definition shortfalls :: "hold_input \<Rightarrow> int \<Rightarrow> (uuid \<Rightarrow> int) \<Rightarrow> equipment_type list
    \<Rightarrow> equipment_shortfall list" where
  "shortfalls i pct peaks locked =
     map (\<lambda>e. \<lparr>sf_equipment_type_id = e_id e, sf_requested = wanted i (e_id e),
            sf_peak_in_use = peaks (e_id e), sf_ceiling = admissionCeiling (e_units_owned e) pct\<rparr>)
       (filter (\<lambda>e. admissionCeiling (e_units_owned e) pct < peaks (e_id e) + wanted i (e_id e)) locked)"

definition priced :: "hold_input \<Rightarrow> js_number \<Rightarrow> equipment_type \<Rightarrow> priced_item" where
  "priced i hours e =
     \<lparr>pi_equipment_type_id = e_id e, pi_quantity = wanted i (e_id e),
      pi_rate_minor = e_hourly_rate_minor e,
      pi_line_total_minor =
        bigint_div (math_round (js_mul hours 2) * e_hourly_rate_minor e * wanted i (e_id e)) 2\<rparr>"

definition admitEquipment :: "hold_input \<Rightarrow> uuid \<Rightarrow> int \<Rightarrow> js_number \<Rightarrow> instant \<Rightarrow> db
    \<Rightarrow> exn + priced_item list" where
  "admitEquipment i venue pct hours now d =
     (if hi_line_items i = [] then Inr []
      else
        let ids = requested_ids i in
        result_bind (lockEquipmentTypes ids d) (\<lambda>locked.
        result_bind (ensure (length locked = length ids)
          (Unprocessable (UnknownEquipment
             (filter (\<lambda>k. k \<notin> e_id ` set locked) ids)))) (\<lambda>_.
        result_bind (ensure (filter (\<lambda>e. e_venue_id e \<noteq> venue) locked = [])
          (Unprocessable (ForeignEquipment
             (map e_id (filter (\<lambda>e. e_venue_id e \<noteq> venue) locked))))) (\<lambda>_.
        result_bind (peakConcurrentUsage ids (hi_starts_at i) (hi_ends_at i) now d) (\<lambda>peaks.
        result_bind (ensure (shortfalls i pct peaks locked = [])
          (Conflict (EquipmentShortfall (shortfalls i pct peaks locked)))) (\<lambda>_.
        Inr (map (priced i hours) locked)))))))"

section \<open>The hold path\<close>

record hold_result =
  hr_booking :: booking
  hr_line_items :: "(uuid \<times> int \<times> int) list"
  hr_expired_stale_holds :: nat

definition line_item_rows :: "uuid \<Rightarrow> priced_item list \<Rightarrow> booking_line_item list" where
  "line_item_rows bid = map (\<lambda>p.
     \<lparr>li_booking_id = bid, li_equipment_type_id = pi_equipment_type_id p,
      li_quantity = pi_quantity p, li_rate_minor = pi_rate_minor p\<rparr>)"

text \<open>The INSERT of the line items, with the check on their quantity.\<close>

definition insert_line_items :: "booking_line_item list \<Rightarrow> db \<Rightarrow> exn + db" where
  "insert_line_items lis d =
     (if list_all (\<lambda>li. 0 < li_quantity li) lis
      then Inr (d\<lparr>t_booking_line_items := t_booking_line_items d @ lis\<rparr>)
      else Inl (pg_error ''23514'' ''booking_line_items_qty_ck''))"

definition room_total :: "int \<Rightarrow> js_number \<Rightarrow> int" where
  "room_total rate hours = bigint_div (rate * math_round (js_mul hours 2)) 2"

text \<open>\<open>catch (err) { if (isExclusionViolation(err)) throw new ConflictException(...); throw err; }\<close>\<close>

definition slot_taken :: "hold_input \<Rightarrow> exn + 'a \<Rightarrow> exn + 'a" where
  "slot_taken i r =
     (case r of
        Inl e \<Rightarrow>
          if isExclusionViolation e
          then Inl (Conflict (SlotTaken (uuid_in (hi_room_id i)) (hi_starts_at i) (hi_ends_at i)))
          else Inl e
      | Inr a \<Rightarrow> Inr a)"

definition held_of :: "hold_env \<Rightarrow> hold_input \<Rightarrow> room_context \<Rightarrow> principal \<Rightarrow> instant \<Rightarrow> int
    \<Rightarrow> held_values" where
  "held_of env i ctx p now amount =
     \<lparr>hv_venue_id = rc_venue_id ctx, hv_room_id = uuid_in (hi_room_id i),
      hv_user_id = pr_user_id p, hv_starts_at = hi_starts_at i, hv_ends_at = hi_ends_at i,
      hv_expires_at = now + HOLD_TTL_SECONDS env * 1000, hv_total_minor = amount,
      hv_currency = rc_currency ctx\<rparr>"

definition hold_total :: "room_context \<Rightarrow> js_number \<Rightarrow> priced_item list \<Rightarrow> int" where
  "hold_total ctx hours items =
     room_total (rc_hourly_rate_minor ctx) hours + (\<Sum>p\<leftarrow>items. pi_line_total_minor p)"

definition holdOnce :: "hold_env \<Rightarrow> hold_input \<Rightarrow> room_context \<Rightarrow> js_number \<Rightarrow> principal \<Rightarrow> attempt \<Rightarrow> db
    \<Rightarrow> exn + hold_result \<times> db" where
  "holdOnce env i ctx hours p a d =
     (let (expired, d1) = expireStaleHoldsForRoom (uuid_in (hi_room_id i)) SYSTEM_ACTOR
            ''hold.expired.in_transaction'' (at_now a) d in
      result_bind (admitEquipment i (rc_venue_id ctx) (rc_overbooking_buffer_pct ctx) hours (at_now a) d1)
        (\<lambda>items.
      result_bind (slot_taken i (createHeld (at_id a)
          (held_of env i ctx p (at_now a) (hold_total ctx hours items))
          (user_actor (pr_user_id p)) ''hold.created'' (at_now a) d1)) (\<lambda>(booking, d2).
      result_bind (if items = [] then Inr d2
          else insert_line_items (line_item_rows (b_id booking) items) d2) (\<lambda>d3.
      Inr (\<lparr>hr_booking = booking,
        hr_line_items = map (\<lambda>q. (pi_equipment_type_id q, pi_quantity q, pi_rate_minor q)) items,
        hr_expired_stale_holds = length expired\<rparr>, d3)))))"

text \<open>An attempt Postgres aborts throws the driver's error instead of running to its end.\<close>

definition attempted :: "attempt \<Rightarrow> ('s \<Rightarrow> exn + 'a \<times> 's) \<Rightarrow> 's \<Rightarrow> exn + 'a \<times> 's" where
  "attempted a body s = (case at_abort a of Some e \<Rightarrow> Inl (DbError e) | None \<Rightarrow> body s)"

definition hold :: "hold_env \<Rightarrow> zone_offsets \<Rightarrow> hold_input \<Rightarrow> principal \<Rightarrow> instant \<Rightarrow> (nat \<Rightarrow> attempt)
    \<Rightarrow> db \<Rightarrow> (exn + hold_result) \<times> db" where
  "hold env off i p now att d =
     (case result_bind (loadRoomContext (hi_room_id i) d) (\<lambda>ctx.
             result_bind (assertBookable off now i ctx) (\<lambda>_. Inr ctx)) of
        Inl e \<Rightarrow> (Inl e, d)
      | Inr ctx \<Rightarrow>
          (case withTransientRetry (TRANSIENT_RETRY_ATTEMPTS env)
                  (\<lambda>k. transaction (attempted (att k)
                     (holdOnce env i ctx (duration_hours (hi_starts_at i) (hi_ends_at i)) p (att k)))) d of
             (Inl e, d') \<Rightarrow>
               if isTransientRollback e
               then (Inl (Conflict (Contended (uuid_in (hi_room_id i)) (hi_starts_at i) (hi_ends_at i))), d')
               else (Inl e, d')
           | (Inr r, d') \<Rightarrow> (Inr r, d')))"

section \<open>Checkout re-arm and cancellation\<close>

definition lapsed :: "instant \<Rightarrow> booking \<Rightarrow> bool" where
  "lapsed now b \<longleftrightarrow> (case b_expires_at b of None \<Rightarrow> False | Some t \<Rightarrow> t \<le> now)"

definition checkout_body :: "hold_env \<Rightarrow> string \<Rightarrow> principal \<Rightarrow> instant \<Rightarrow> db \<Rightarrow> exn + booking \<times> db" where
  "checkout_body env bid p now d =
     result_bind (loadOwnedBooking bid p d) (\<lambda>b.
     result_bind (ensure (is_active (b_status b) \<and> b_status b \<noteq> CONFIRMED)
       (Conflict (CannotCheckOut bid (b_status b)))) (\<lambda>_.
     if lapsed now b
     then result_bind (transition \<lparr>ti_booking_id = uuid_in bid, ti_to = EXPIRED,
            ti_actor = SYSTEM_ACTOR, ti_reason = ''hold.expired.on_checkout'',
            ti_expected_from = Some [HELD, PENDING_PAYMENT], ti_patch = no_patch\<rparr> now d) (\<lambda>_.
          Inl (Conflict (HoldExpired bid)))
     else
       result_bind (ensure (b_rearm_count b < MAX_HOLD_REARMS env)
         (Conflict (RearmLimit bid (b_rearm_count b)))) (\<lambda>_.
       let cap = b_created_at b + MAX_HOLD_LIFETIME_SECONDS env * 1000;
           requested = now + CHECKOUT_REARM_SECONDS env * 1000 in
       result_bind (ensure (now < cap) (Conflict (LifetimeLimit bid))) (\<lambda>_.
       recordSideEffect \<lparr>se_booking_id = uuid_in bid, se_actor = user_actor (pr_user_id p),
         se_reason = ''hold.rearmed'',
         se_patch = no_patch\<lparr>patch_expires_at := Some (Some (min requested cap)),
           patch_rearm_count := Some (b_rearm_count b + 1)\<rparr>,
         se_expected_from = Some [HELD, PENDING_PAYMENT]\<rparr> now d))))"

definition checkout :: "hold_env \<Rightarrow> string \<Rightarrow> principal \<Rightarrow> instant \<Rightarrow> db \<Rightarrow> (exn + booking) \<times> db" where
  "checkout env bid p now d = transaction (checkout_body env bid p now) d"

definition CancelSchema :: "string \<Rightarrow> bool" where
  "CancelSchema reason \<longleftrightarrow> 1 \<le> length reason \<and> length reason \<le> 500"

definition cancel_body :: "string \<Rightarrow> string \<Rightarrow> principal \<Rightarrow> instant \<Rightarrow> db \<Rightarrow> exn + booking \<times> db" where
  "cancel_body bid why p now d =
     result_bind (loadOwnedBooking bid p d) (\<lambda>b.
       transition \<lparr>ti_booking_id = b_id b, ti_to = CANCELLED,
         ti_actor = user_actor (pr_user_id p), ti_reason = why, ti_expected_from = None,
         ti_patch = no_patch\<rparr> now d)"

definition cancel :: "string \<Rightarrow> string \<Rightarrow> principal \<Rightarrow> instant \<Rightarrow> db \<Rightarrow> (exn + booking) \<times> db" where
  "cancel bid why p now d = transaction (cancel_body bid why p now) d"

section \<open>Reads\<close>

record list_query =
  lq_status :: "booking_status option"
  lq_from :: "instant option"
  lq_to :: "instant option"
  lq_page :: nat
  lq_page_size :: nat

definition ListBookingsSchema :: "list_query \<Rightarrow> bool" where
  "ListBookingsSchema q \<longleftrightarrow> 1 \<le> lq_page q \<and> 1 \<le> lq_page_size q \<and> lq_page_size q \<le> 100"

definition list_where :: "list_query \<Rightarrow> (booking \<Rightarrow> bool) \<Rightarrow> booking \<Rightarrow> bool" where
  "list_where q scope b \<longleftrightarrow> scope b
     \<and> (case lq_status q of None \<Rightarrow> True | Some s \<Rightarrow> b_status b = s)
     \<and> (case lq_from q of None \<Rightarrow> True | Some t \<Rightarrow> t \<le> b_starts_at b)
     \<and> (case lq_to q of None \<Rightarrow> True | Some t \<Rightarrow> b_starts_at b \<le> t)"

definition joined :: "db \<Rightarrow> booking \<Rightarrow> bool" where
  "joined d b \<longleftrightarrow> b_room_id b \<in> r_id ` set (t_rooms d) \<and> b_venue_id b \<in> v_id ` set (t_venues d)"

record booking_page =
  bp_data :: "booking list"
  bp_page :: nat
  bp_page_size :: nat
  bp_total :: nat

text \<open>The rows stand for their projections; every column of the response is one of the row's or of its join.\<close>

definition list_bookings :: "list_query \<Rightarrow> principal \<Rightarrow> db \<Rightarrow> exn + booking_page" where
  "list_bookings q p d =
     result_bind (scopeFilter p) (\<lambda>scope.
       let rows = sort_key (\<lambda>b. - b_starts_at b)
             (filter (joined d) (filter (list_where q scope) (t_bookings d))) in
       Inr \<lparr>bp_data = take (lq_page_size q) (drop ((lq_page q - 1) * lq_page_size q) rows),
         bp_page = lq_page q, bp_page_size = lq_page_size q,
         bp_total = length (filter (list_where q scope) (t_bookings d))\<rparr>)"

record booking_view =
  bv_booking :: booking
  bv_room_name :: "string option"
  bv_venue_name :: "string option"
  bv_timezone :: string
  bv_line_items :: "(booking_line_item \<times> string) list"
  bv_payment :: "payment option"

definition newest_payment :: "uuid \<Rightarrow> db \<Rightarrow> payment option" where
  "newest_payment bid d =
     (case sort_key (\<lambda>p. - p_created_at p) (filter (\<lambda>p. p_booking_id p = bid) (t_payments d)) of
        [] \<Rightarrow> None | p # _ \<Rightarrow> Some p)"

definition booking_items :: "uuid \<Rightarrow> db \<Rightarrow> (booking_line_item \<times> string) list" where
  "booking_items bid d =
     [(li, e_name e). li \<leftarrow> t_booking_line_items d, e \<leftarrow> t_equipment_types d,
        li_booking_id li = bid \<and> e_id e = li_equipment_type_id li]"

definition booking_view_of :: "uuid \<Rightarrow> booking \<Rightarrow> db \<Rightarrow> booking_view" where
  "booking_view_of bid b d =
     (let room = List.find (\<lambda>r. r_id r = b_room_id b) (t_rooms d);
          venue = Option.bind room (\<lambda>r. List.find (\<lambda>v. v_id v = r_venue_id r) (t_venues d)) in
      \<lparr>bv_booking = b,
       bv_room_name = Option.bind venue (\<lambda>_. map_option r_name room),
       bv_venue_name = map_option v_name venue,
       bv_timezone = (case venue of None \<Rightarrow> ''UTC'' | Some v \<Rightarrow> v_timezone v),
       bv_line_items = booking_items bid d,
       bv_payment = newest_payment bid d\<rparr>)"

lemma bv_booking_of [simp]: "bv_booking (booking_view_of bid b d) = b"
  by (simp add: booking_view_of_def Let_def)

definition findOne :: "string \<Rightarrow> principal \<Rightarrow> db \<Rightarrow> exn + booking_view" where
  "findOne bid p d =
     result_bind (scopeFilter p) (\<lambda>scope.
     result_bind (or_throw (List.find (\<lambda>b. b_id b = uuid_in bid \<and> scope b) (t_bookings d)) NotFound)
       (\<lambda>b. Inr (booking_view_of (uuid_in bid) b d)))"

section \<open>The writes of a hold\<close>

lemma expire_for_room_sel [simp]:
  "t_booking_line_items (snd (expireStaleHoldsForRoom rid who why now d)) = t_booking_line_items d"
  "t_equipment_types (snd (expireStaleHoldsForRoom rid who why now d)) = t_equipment_types d"
  "t_payments (snd (expireStaleHoldsForRoom rid who why now d)) = t_payments d"
  by (simp_all add: expireStaleHoldsForRoom_def expire_rows_def Let_def)

lemma slot_taken_eq_Inr [tx_simps]: "slot_taken i r = Inr a \<longleftrightarrow> r = Inr a"
  by (cases r) (auto simp: slot_taken_def)

lemma insert_line_items_eq_Inr [tx_simps]:
  "insert_line_items lis d = Inr d' \<longleftrightarrow> list_all (\<lambda>li. 0 < li_quantity li) lis
     \<and> d' = d\<lparr>t_booking_line_items := t_booking_line_items d @ lis\<rparr>"
  by (auto simp: insert_line_items_def)

lemma insert_no_line_items:
  "(if items = [] then Inr d else insert_line_items (line_item_rows bid items) d)
   = insert_line_items (line_item_rows bid items) d"
  by (simp add: line_item_rows_def insert_line_items_def)

text \<open>What a hold that returns has done, step by step.\<close>

lemma holdOnce_eq_Inr:
  "holdOnce env i ctx hours p a d = Inr (r, d') \<longleftrightarrow>
     (\<exists>ids d1 items b d2.
        expireStaleHoldsForRoom (uuid_in (hi_room_id i)) SYSTEM_ACTOR ''hold.expired.in_transaction''
          (at_now a) d = (ids, d1)
      \<and> admitEquipment i (rc_venue_id ctx) (rc_overbooking_buffer_pct ctx) hours (at_now a) d1 = Inr items
      \<and> createHeld (at_id a) (held_of env i ctx p (at_now a) (hold_total ctx hours items))
          (user_actor (pr_user_id p)) ''hold.created'' (at_now a) d1 = Inr (b, d2)
      \<and> list_all (\<lambda>li. 0 < li_quantity li) (line_item_rows (b_id b) items)
      \<and> d' = d2\<lparr>t_booking_line_items := t_booking_line_items d2 @ line_item_rows (b_id b) items\<rparr>
      \<and> r = \<lparr>hr_booking = b,
          hr_line_items = map (\<lambda>q. (pi_equipment_type_id q, pi_quantity q, pi_rate_minor q)) items,
          hr_expired_stale_holds = length ids\<rparr>)"
  unfolding holdOnce_def insert_no_line_items
  by (cases "expireStaleHoldsForRoom (uuid_in (hi_room_id i)) SYSTEM_ACTOR
        ''hold.expired.in_transaction'' (at_now a) d")
    (auto simp: result_bind_eq_Inr slot_taken_eq_Inr insert_line_items_eq_Inr)

lemma holdOnce_steps:
  assumes "holdOnce env i ctx hours p a d = Inr (r, d')"
  shows "sm_steps d d'"
proof -
  obtain ids d1 items b d2 where s:
    "expireStaleHoldsForRoom (uuid_in (hi_room_id i)) SYSTEM_ACTOR ''hold.expired.in_transaction''
       (at_now a) d = (ids, d1)"
    "createHeld (at_id a) (held_of env i ctx p (at_now a) (hold_total ctx hours items))
       (user_actor (pr_user_id p)) ''hold.created'' (at_now a) d1 = Inr (b, d2)"
    "d' = d2\<lparr>t_booking_line_items := t_booking_line_items d2 @ line_item_rows (b_id b) items\<rparr>"
    using assms unfolding holdOnce_eq_Inr by blast
  have "sm_step d d1"
    using s(1) sm_step.room_expiry [of d "uuid_in (hi_room_id i)" SYSTEM_ACTOR
        "''hold.expired.in_transaction''" "at_now a"] by simp
  moreover have "sm_step d1 d2" using s(2) by (rule sm_step.created)
  moreover have "sm_step d2 d'" unfolding s(3) by (rule sm_step.other) simp_all
  ultimately show ?thesis by (meson rtranclp.rtrancl_into_rtrancl rtranclp.rtrancl_refl)
qed

lemma attempted_eq_Inr [tx_simps]: "attempted a body s = Inr r \<longleftrightarrow> at_abort a = None \<and> body s = Inr r"
  by (simp add: attempted_def split: option.splits)

text \<open>A hold that returns is one attempt that ran to its end, and one that throws changes nothing.\<close>

lemma hold_cases:
  assumes "hold env off i p now att d = (r, d')" and "0 < TRANSIENT_RETRY_ATTEMPTS env"
  obtains (thrown) e where "r = Inl e" "d' = d"
  | (held) ctx k h where "loadRoomContext (hi_room_id i) d = Inr ctx"
      "assertBookable off now i ctx = Inr ()" "1 \<le> k" "k \<le> TRANSIENT_RETRY_ATTEMPTS env"
      "holdOnce env i ctx (duration_hours (hi_starts_at i) (hi_ends_at i)) p (att k) d = Inr (h, d')"
      "r = Inr h"
proof -
  let ?pre = "result_bind (loadRoomContext (hi_room_id i) d) (\<lambda>ctx.
             result_bind (assertBookable off now i ctx) (\<lambda>_. Inr ctx))"
  show ?thesis
  proof (cases ?pre)
    case (Inl e)
    then show ?thesis using assms(1) by (intro thrown [of e]) (simp_all add: hold_def)
  next
    case (Inr ctx)
    let ?body = "\<lambda>k. attempted (att k)
      (holdOnce env i ctx (duration_hours (hi_starts_at i) (hi_ends_at i)) p (att k))"
    obtain q d1 where w: "withTransientRetry (TRANSIENT_RETRY_ATTEMPTS env) (\<lambda>k. transaction (?body k)) d = (q, d1)"
      by (cases "withTransientRetry (TRANSIENT_RETRY_ATTEMPTS env) (\<lambda>k. transaction (?body k)) d")
    obtain k where k: "1 \<le> k" "k \<le> TRANSIENT_RETRY_ATTEMPTS env" "transaction (?body k) d = (q, d1)"
      using withTransientRetry_cases [OF assms(2) w] .
    show ?thesis
    proof (cases q)
      case (Inl e)
      then have "d1 = d" using k(3) by (simp add: tx_simps)
      then show ?thesis
        using assms(1) w Inr Inl thrown by (auto simp: hold_def split: if_splits)
    next
      case (Inr h)
      then have "holdOnce env i ctx (duration_hours (hi_starts_at i) (hi_ends_at i)) p (att k) d = Inr (h, d1)"
        using k(3) by (simp add: tx_simps)
      then show ?thesis
        using assms(1) w Inr \<open>?pre = Inr ctx\<close> k(1,2)
        by (intro held [of ctx k h]) (auto simp: hold_def tx_simps)
    qed
  qed
qed

lemma hold_steps:
  assumes "0 < TRANSIENT_RETRY_ATTEMPTS env"
  shows "sm_steps d (snd (hold env off i p now att d))"
proof -
  obtain r d' where h: "hold env off i p now att d = (r, d')"
    by (cases "hold env off i p now att d")
  from h assms have "sm_steps d d'"
    by (cases rule: hold_cases) (auto intro: holdOnce_steps)
  then show ?thesis using h by simp
qed

section \<open>Checkout and cancellation as steps\<close>

lemma checkout_body_eq_Inr:
  "checkout_body env bid p now d = Inr (b', d') \<longleftrightarrow>
     (\<exists>b. loadOwnedBooking bid p d = Inr b \<and> (b_status b = HELD \<or> b_status b = PENDING_PAYMENT)
        \<and> \<not> lapsed now b \<and> b_rearm_count b < MAX_HOLD_REARMS env
        \<and> now < b_created_at b + MAX_HOLD_LIFETIME_SECONDS env * 1000
        \<and> recordSideEffect \<lparr>se_booking_id = uuid_in bid, se_actor = user_actor (pr_user_id p),
             se_reason = ''hold.rearmed'',
             se_patch = no_patch\<lparr>patch_expires_at := Some (Some
                 (min (now + CHECKOUT_REARM_SECONDS env * 1000)
                    (b_created_at b + MAX_HOLD_LIFETIME_SECONDS env * 1000))),
               patch_rearm_count := Some (b_rearm_count b + 1)\<rparr>,
             se_expected_from = Some [HELD, PENDING_PAYMENT]\<rparr> now d = Inr (b', d'))"
  by (auto simp: checkout_body_def tx_simps Let_def is_active_cases split: if_splits)

lemma checkout_steps: "sm_steps d (snd (checkout env bid p now d))"
  unfolding checkout_def
  by (rule transaction_keeps)
    (auto simp: checkout_body_eq_Inr intro: sm_steps_stepI sm_step.noted)

lemma cancel_steps: "sm_steps d (snd (cancel bid why p now d))"
  unfolding cancel_def
  by (rule transaction_keeps)
    (auto simp: cancel_body_def tx_simps intro: sm_steps_stepI sm_step.moved)

end
