(* ===== verification/HoldProperties.thy ===== *)
theory HoldProperties
  imports Bookings
begin

text \<open>
  What makes the hold path of the theory \<open>Bookings\<close> correct: the room decision of the INSERT, the
  units of equipment out after a hold, the price of a hold and its split, the bounds of the
  checkout re-arm, and the isolation of the reads.
\<close>

section \<open>The room decision\<close>

lemma expired_for_room:
  "t_bookings (snd (expireStaleHoldsForRoom rid who why now d))
   = update_where (\<lambda>b. b_room_id b = rid \<and> stale_hold now b)
       (\<lambda>b. b\<lparr>b_status := EXPIRED, b_updated_at := now\<rparr>) (t_bookings d)"
  by (simp add: expireStaleHoldsForRoom_def expire_rows_def Let_def)

lemma expired_for_room_tables [simp]:
  "t_venues (snd (expireStaleHoldsForRoom rid who why now d)) = t_venues d"
  "t_rooms (snd (expireStaleHoldsForRoom rid who why now d)) = t_rooms d"
  "t_users (snd (expireStaleHoldsForRoom rid who why now d)) = t_users d"
  by (simp_all add: expireStaleHoldsForRoom_def expire_rows_def Let_def)

lemma room_clash_after_expiry:
  assumes "b_room_id b = rid"
  shows "(\<exists>c \<in> set (t_bookings (snd (expireStaleHoldsForRoom rid who why now d))). rooms_clash b c)
     \<longleftrightarrow> (\<exists>c \<in> set (t_bookings d). rooms_clash b c \<and> \<not> stale_hold now c)"
proof -
  have "rooms_clash b c \<longrightarrow> b_room_id c = rid" for c using assms by (auto simp: rooms_clash_def)
  moreover have "\<not> rooms_clash b (c\<lparr>b_status := EXPIRED, b_updated_at := now\<rparr>)" for c
    by (simp add: rooms_clash_def)
  ultimately show ?thesis
    unfolding expired_for_room set_update_where by (auto split: if_splits)
qed


section \<open>Equipment after a hold\<close>

definition line_items_inv :: "db \<Rightarrow> bool" where
  "line_items_inv d \<longleftrightarrow> quantities_positive d
     \<and> (\<forall>li \<in> set (t_booking_line_items d). li_booking_id li \<in> b_id ` set (t_bookings d))"

definition claims :: "uuid \<Rightarrow> instant \<Rightarrow> instant \<Rightarrow> booking list \<Rightarrow> booking_line_item \<Rightarrow> int" where
  "claims eid now t bs li =
     (\<Sum>b\<leftarrow>bs. if b_id b = li_booking_id li \<and> li_equipment_type_id li = eid \<and> live_booking now b
           \<and> b_starts_at b \<le> t \<and> t < b_ends_at b
        then li_quantity li else 0)"

lemma units_out_claims: "units_out eid now t d = (\<Sum>li\<leftarrow>t_booking_line_items d. claims eid now t (t_bookings d) li)"
  by (simp add: units_out_def claims_def)

lemma claims_append [simp]: "claims eid now t (bs @ cs) li = claims eid now t bs li + claims eid now t cs li"
  by (simp add: claims_def)

lemma claims_absent:
  assumes "li_booking_id li \<notin> b_id ` set bs"
  shows "claims eid now t bs li = 0"
  using assms by (induction bs) (auto simp: claims_def)

lemma stale_not_live: "stale_hold now b \<Longrightarrow> \<not> live_booking now b"
  by (auto simp: stale_hold_def live_booking_def split: option.splits)

lemma claims_expire:
  assumes "\<And>b. b \<in> set bs \<Longrightarrow> q b \<Longrightarrow> \<not> live_booking now b"
  shows "claims eid now t (update_where q (\<lambda>b. b\<lparr>b_status := EXPIRED, b_updated_at := now'\<rparr>) bs) li
       = claims eid now t bs li"
  using assms by (induction bs) (auto simp: claims_def live_booking_def)

text \<open>A hold adds its own quantities, inside its own interval, and nothing else.\<close>

lemma units_out_hold:
  assumes "line_items_inv d"
    and "createHeld bid v who why now d = Inr (b, d2)" and "now < hv_expires_at v"
    and "d' = d2\<lparr>t_booking_line_items := t_booking_line_items d2 @ line_item_rows bid items\<rparr>"
  shows "units_out eid now t d' = units_out eid now t d
     + (if hv_starts_at v \<le> t \<and> t < hv_ends_at v
        then (\<Sum>p\<leftarrow>items. if pi_equipment_type_id p = eid then pi_quantity p else 0) else 0)"
proof -
  have b: "b = held_booking bid v now" "bid \<notin> b_id ` set (t_bookings d)"
    "t_bookings d' = t_bookings d @ [b]"
    "t_booking_line_items d' = t_booking_line_items d @ line_item_rows bid items"
    using assms(2,4) by (auto simp: createHeld_eq_Inr insert_booking_eq_Inr check_booking_eq_Inr)
  have live: "live_booking now b" using assms(3) by (simp add: b(1) live_booking_def)
  have old: "claims eid now t (t_bookings d @ [b]) li = claims eid now t (t_bookings d) li"
    if "li \<in> set (t_booking_line_items d)" for li
  proof -
    have "li_booking_id li \<noteq> bid" using that assms(1) b(2) by (auto simp: line_items_inv_def)
    then show ?thesis using claims_absent [of li "[b]"] by (simp add: b(1))
  qed
  have new: "(\<Sum>li\<leftarrow>line_item_rows bid items. claims eid now t (t_bookings d @ [b]) li)
      = (if hv_starts_at v \<le> t \<and> t < hv_ends_at v
         then (\<Sum>p\<leftarrow>items. if pi_equipment_type_id p = eid then pi_quantity p else 0) else 0)"
  proof (induction items)
    case (Cons p ps)
    let ?li = "\<lparr>li_booking_id = bid, li_equipment_type_id = pi_equipment_type_id p,
      li_quantity = pi_quantity p, li_rate_minor = pi_rate_minor p\<rparr>"
    have "claims eid now t (t_bookings d) ?li = 0" using b(2) by (intro claims_absent) simp
    moreover have "claims eid now t [b] ?li =
        (if hv_starts_at v \<le> t \<and> t < hv_ends_at v
         then if pi_equipment_type_id p = eid then pi_quantity p else 0 else 0)"
      using live by (simp add: claims_def b(1))
    ultimately show ?case using Cons by (simp add: line_item_rows_def)
  qed (simp add: line_item_rows_def)
  have "(\<Sum>li\<leftarrow>t_booking_line_items d. claims eid now t (t_bookings d @ [b]) li)
      = (\<Sum>li\<leftarrow>t_booking_line_items d. claims eid now t (t_bookings d) li)"
    using old by (intro arg_cong [where f = sum_list] map_cong refl) auto
  then show ?thesis using new by (simp add: units_out_claims b(3,4))
qed

lemma lockEquipmentTypes_eq_Inr:
  assumes "lockEquipmentTypes ids d = Inr locked"
  shows "set locked = {e \<in> set (t_equipment_types d). e_id e \<in> uuid_in ` set ids}"
  using assms by (auto simp: lockEquipmentTypes_def split: if_splits)

lemma lockEquipmentTypes_distinct:
  assumes "lockEquipmentTypes ids d = Inr locked" and "distinct (map e_id (t_equipment_types d))"
  shows "distinct (map e_id locked)"
proof -
  let ?f = "filter (\<lambda>e. e_id e \<in> uuid_in ` set ids) (t_equipment_types d)"
  have "mset locked = mset ?f \<or> locked = []"
    using assms(1) by (auto simp: lockEquipmentTypes_def split: if_splits)
  then have "mset (map e_id locked) = mset (map e_id ?f) \<or> locked = []" by auto
  moreover have "distinct (map e_id ?f)" using assms(2) by (simp add: distinct_map_filter)
  ultimately show ?thesis by (metis distinct.simps(1) list.simps(8) mset_eq_imp_distinct_iff)
qed

lemma admitEquipment_eq_Inr:
  "admitEquipment i venue pct hours now d = Inr items \<longleftrightarrow>
     hi_line_items i = [] \<and> items = []
   \<or> hi_line_items i \<noteq> [] \<and> (\<exists>locked peaks.
        lockEquipmentTypes (requested_ids i) d = Inr locked
      \<and> length locked = length (requested_ids i) \<and> (\<forall>e \<in> set locked. e_venue_id e = venue)
      \<and> peakConcurrentUsage (requested_ids i) (hi_starts_at i) (hi_ends_at i) now d = Inr peaks
      \<and> (\<forall>e \<in> set locked. peaks (e_id e) + wanted i (e_id e) \<le> admissionCeiling (e_units_owned e) pct)
      \<and> items = map (priced i hours) locked)"
  by (auto simp: admitEquipment_def tx_simps Let_def shortfalls_def filter_empty_conv not_less)

lemma priced_sel [simp]:
  "pi_equipment_type_id (priced i hours e) = e_id e" "pi_quantity (priced i hours e) = wanted i (e_id e)"
  "pi_rate_minor (priced i hours e) = e_hourly_rate_minor e"
  by (simp_all add: priced_def)

lemma sum_priced:
  assumes "distinct (map e_id locked)" and "e \<in> set locked"
  shows "(\<Sum>p\<leftarrow>map (priced i hours) locked. if pi_equipment_type_id p = e_id e then pi_quantity p else 0)
       = wanted i (e_id e)"
  using assms
proof (induction locked)
  case (Cons f fs)
  have rest: "(\<Sum>p\<leftarrow>map (priced i hours) fs. if pi_equipment_type_id p = e_id e then pi_quantity p else 0)
      = 0" if "e_id e \<notin> e_id ` set fs" for fs
    using that by (induction fs) auto
  show ?case
  proof (cases "e = f")
    case True
    then have "e_id e \<notin> e_id ` set fs" using Cons.prems(1) by auto
    then show ?thesis using rest [of fs] True by simp
  next
    case False
    then have "e_id f \<noteq> e_id e" using Cons.prems by (auto simp: rev_image_eqI)
    then show ?thesis using Cons False by simp
  qed
qed simp

lemma units_out_expiry:
  "units_out eid now t (snd (expireStaleHoldsForRoom rid who why now d)) = units_out eid now t d"
proof -
  have "claims eid now t (t_bookings (snd (expireStaleHoldsForRoom rid who why now d))) li
      = claims eid now t (t_bookings d) li" for li
    unfolding expired_for_room by (rule claims_expire) (auto dest: stale_not_live)
  then show ?thesis by (simp add: units_out_claims)
qed

lemma line_items_inv_expiry:
  "line_items_inv d \<Longrightarrow> line_items_inv (snd (expireStaleHoldsForRoom rid who why now d))"
proof -
  have "b_id ` set (t_bookings (snd (expireStaleHoldsForRoom rid who why now d))) = b_id ` set (t_bookings d)"
    unfolding expired_for_room set_update_where image_image by (rule image_cong) simp_all
  then show "line_items_inv d \<Longrightarrow> ?thesis" by (simp add: line_items_inv_def quantities_positive_def)
qed

text \<open>
  C2. INV-2. When a hold returns, no instant of its interval has more units of a requested type out
  than the ceiling, and the units out of every other type, and at every other instant, are what
  they were.
\<close>

lemma hold_never_oversells:
  assumes "stored_inv d" and "line_items_inv d" and "distinct (map e_id (t_equipment_types d))"
    and "0 < HOLD_TTL_SECONDS env"
    and "holdOnce env i ctx hours p a d = Inr (h, d')"
    and "e \<in> set (t_equipment_types d)"
  shows "if e_id e \<in> uuid_in ` fst ` set (hi_line_items i) \<and> hi_starts_at i \<le> t \<and> t < hi_ends_at i
    then units_out (e_id e) (at_now a) t d' \<le> admissionCeiling (e_units_owned e) (rc_overbooking_buffer_pct ctx)
    else units_out (e_id e) (at_now a) t d' = units_out (e_id e) (at_now a) t d"
proof -
  obtain ids d1 items b d2 where s:
    "expireStaleHoldsForRoom (uuid_in (hi_room_id i)) SYSTEM_ACTOR ''hold.expired.in_transaction''
       (at_now a) d = (ids, d1)"
    "admitEquipment i (rc_venue_id ctx) (rc_overbooking_buffer_pct ctx) hours (at_now a) d1 = Inr items"
    "createHeld (at_id a) (held_of env i ctx p (at_now a) (hold_total ctx hours items))
       (user_actor (pr_user_id p)) ''hold.created'' (at_now a) d1 = Inr (b, d2)"
    "d' = d2\<lparr>t_booking_line_items := t_booking_line_items d2 @ line_item_rows (b_id b) items\<rparr>"
    using assms(5) unfolding holdOnce_eq_Inr by blast
  have d1: "d1 = snd (expireStaleHoldsForRoom (uuid_in (hi_room_id i)) SYSTEM_ACTOR
      ''hold.expired.in_transaction'' (at_now a) d)"
    using s(1) by simp
  have inv1: "line_items_inv d1" unfolding d1 by (rule line_items_inv_expiry [OF assms(2)])
  have st1: "stored_inv d1"
    unfolding d1 by (rule stored.step_keeps [OF sm_step.room_expiry assms(1)])
  have types: "t_equipment_types d1 = t_equipment_types d" by (simp add: d1)
  have bid: "b_id b = at_id a" using s(3) by (simp add: createHeld_eq_Inr)
  have later: "units_out (e_id e) (at_now a) t d' = units_out (e_id e) (at_now a) t d
     + (if hi_starts_at i \<le> t \<and> t < hi_ends_at i
        then (\<Sum>p\<leftarrow>items. if pi_equipment_type_id p = e_id e then pi_quantity p else 0) else 0)"
    using units_out_hold [OF inv1 s(3), of d' items "e_id e" t] s(4) assms(4) bid
      units_out_expiry [of "e_id e" "at_now a" t] by (simp add: held_of_def d1)
  show ?thesis
  proof (cases "e_id e \<in> uuid_in ` fst ` set (hi_line_items i)")
    case True
    then have "hi_line_items i \<noteq> []" by auto
    then obtain locked peaks where l: "lockEquipmentTypes (requested_ids i) d1 = Inr locked"
      "peakConcurrentUsage (requested_ids i) (hi_starts_at i) (hi_ends_at i) (at_now a) d1 = Inr peaks"
      "\<forall>e \<in> set locked. peaks (e_id e) + wanted i (e_id e)
         \<le> admissionCeiling (e_units_owned e) (rc_overbooking_buffer_pct ctx)"
      "items = map (priced i hours) locked"
      using s(2) unfolding admitEquipment_eq_Inr by blast
    have req: "e_id e \<in> uuid_in ` set (requested_ids i)" using True by (simp add: requested_ids_def)
    have mem: "e \<in> set locked"
      using lockEquipmentTypes_eq_Inr [OF l(1)] assms(6) req types by simp
    have qty: "(\<Sum>p\<leftarrow>items. if pi_equipment_type_id p = e_id e then pi_quantity p else 0) = wanted i (e_id e)"
      unfolding l(4) using lockEquipmentTypes_distinct [OF l(1)] assms(3) mem types
      by (intro sum_priced) simp_all
    have "hi_starts_at i < hi_ends_at i"
      using s(3) by (auto simp: createHeld_eq_Inr insert_booking_eq_Inr check_booking_eq_Inr held_of_def)
    then have "units_out (e_id e) (at_now a) t d1 \<le> peaks (e_id e)"
      if "hi_starts_at i \<le> t" "t < hi_ends_at i"
      using peak_usage_exact [OF _ _ _ l(2) req] st1 inv1 that
      by (auto simp: stored_inv_def bookings_stored_def line_items_inv_def)
    then have "units_out (e_id e) (at_now a) t d \<le> peaks (e_id e)"
      if "hi_starts_at i \<le> t" "t < hi_ends_at i"
      using that units_out_expiry [of "e_id e" "at_now a" t] by (simp add: d1)
    moreover have "peaks (e_id e) + wanted i (e_id e)
        \<le> admissionCeiling (e_units_owned e) (rc_overbooking_buffer_pct ctx)"
      using l(3) mem by blast
    ultimately show ?thesis using True later qty by (cases "hi_starts_at i \<le> t \<and> t < hi_ends_at i") auto
  next
    case False
    have "(\<Sum>p\<leftarrow>items. if pi_equipment_type_id p = e_id e then pi_quantity p else 0) = 0"
    proof (cases "hi_line_items i = []")
      case False
      then obtain locked where l: "lockEquipmentTypes (requested_ids i) d1 = Inr locked"
        "items = map (priced i hours) locked"
        using s(2) unfolding admitEquipment_eq_Inr by blast
      have "e_id e \<notin> e_id ` set locked"
        using lockEquipmentTypes_eq_Inr [OF l(1)] \<open>e_id e \<notin> _\<close>
        by (auto simp: requested_ids_def image_iff)
      then show ?thesis unfolding l(2) by (induction locked) auto
    qed (use s(2) in \<open>simp add: admitEquipment_eq_Inr\<close>)
    then show ?thesis using later False by simp
  qed
qed

section \<open>The price of a hold\<close>

text \<open>
  The total of a hold is the room's half hours plus the line items', and the split a later
  cancellation makes of it, from the stored rows alone, gives back exactly those two amounts.
\<close>

lemma hold_price_splits:
  assumes "holdOnce env i ctx (duration_hours (hi_starts_at i) (hi_ends_at i)) p a d = Inr (h, d')"
    and "line_items_inv d" and "0 \<le> rc_hourly_rate_minor ctx"
    and "0 \<le> half_hours (hi_starts_at i) (hi_ends_at i)"
  shows "splitTotals (hr_booking h)
       (filter (\<lambda>li. li_booking_id li = b_id (hr_booking h)) (t_booking_line_items d'))
     = (rc_hourly_rate_minor ctx * half_hours (hi_starts_at i) (hi_ends_at i) div 2,
        b_total_minor (hr_booking h)
          - rc_hourly_rate_minor ctx * half_hours (hi_starts_at i) (hi_ends_at i) div 2)"
proof -
  let ?halves = "half_hours (hi_starts_at i) (hi_ends_at i)"
  let ?hours = "duration_hours (hi_starts_at i) (hi_ends_at i)"
  obtain ids d1 items b d2 where s:
    "expireStaleHoldsForRoom (uuid_in (hi_room_id i)) SYSTEM_ACTOR ''hold.expired.in_transaction''
       (at_now a) d = (ids, d1)"
    "admitEquipment i (rc_venue_id ctx) (rc_overbooking_buffer_pct ctx) ?hours (at_now a) d1 = Inr items"
    "createHeld (at_id a) (held_of env i ctx p (at_now a) (hold_total ctx ?hours items))
       (user_actor (pr_user_id p)) ''hold.created'' (at_now a) d1 = Inr (b, d2)"
    "d' = d2\<lparr>t_booking_line_items := t_booking_line_items d2 @ line_item_rows (b_id b) items\<rparr>"
    "hr_booking h = b"
    using assms(1) unfolding holdOnce_eq_Inr by auto
  have d1: "d1 = snd (expireStaleHoldsForRoom (uuid_in (hi_room_id i)) SYSTEM_ACTOR
      ''hold.expired.in_transaction'' (at_now a) d)"
    using s(1) by simp
  have inv1: "line_items_inv d1" unfolding d1 by (rule line_items_inv_expiry [OF assms(2)])
  have b: "b = held_booking (at_id a) (held_of env i ctx p (at_now a) (hold_total ctx ?hours items)) (at_now a)"
    "b_id b \<notin> b_id ` set (t_bookings d1)" "t_booking_line_items d2 = t_booking_line_items d1"
    using s(3) by (auto simp: createHeld_eq_Inr insert_booking_eq_Inr check_booking_eq_Inr)
  have own: "filter (\<lambda>li. li_booking_id li = b_id b) (t_booking_line_items d') = line_item_rows (b_id b) items"
  proof -
    have "\<forall>li \<in> set (t_booking_line_items d1). li_booking_id li \<noteq> b_id b"
      using inv1 b(2) unfolding line_items_inv_def by metis
    then have "filter (\<lambda>li. li_booking_id li = b_id b) (t_booking_line_items d1) = []"
      by (simp add: filter_empty_conv)
    moreover have "filter (\<lambda>li. li_booking_id li = b_id b) (line_item_rows (b_id b) items)
        = line_item_rows (b_id b) items"
      by (simp add: line_item_rows_def filter_map comp_def)
    ultimately show ?thesis by (simp add: s(4) b(3))
  qed
  have equip: "(\<Sum>li\<leftarrow>line_item_rows (b_id b) items. line_total ?halves (li_rate_minor li) (li_quantity li))
      = (\<Sum>p\<leftarrow>items. pi_line_total_minor p)"
  proof (cases "hi_line_items i = []")
    case False
    then obtain locked where l: "items = map (priced i ?hours) locked"
      using s(2) unfolding admitEquipment_eq_Inr by blast
    show ?thesis unfolding l
      by (simp add: line_item_rows_def comp_def priced_def line_total_def half_hours_def)
  qed (use s(2) in \<open>simp add: admitEquipment_eq_Inr line_item_rows_def\<close>)
  have room: "room_total (rc_hourly_rate_minor ctx) ?hours = rc_hourly_rate_minor ctx * ?halves div 2"
    using assms(3,4) by (simp add: room_total_def half_hours_def)
  have "0 \<le> rc_hourly_rate_minor ctx * ?halves div 2"
    using assms(3,4) by (simp add: pos_imp_zdiv_nonneg_iff)
  then show ?thesis
    unfolding s(5) own splitTotals_def
    using equip room by (simp add: b(1) held_of_def hold_total_def Let_def)
qed

section \<open>Checkout\<close>

text \<open>
  C31. A re-arm that succeeds keeps the status, counts itself against the limit, and gives the hold an
  expiry that is still ahead and never beyond its lifetime; one on a lapsed hold answers that the
  hold has expired, and leaves the database as it was: the EXPIRED written on the way is rolled
  back with the exception.
\<close>

lemma checkout_answers:
  assumes "stored_inv d" and "0 < CHECKOUT_REARM_SECONDS env"
    and "loadOwnedBooking bid p d = Inr b"
    and "b_status b = HELD \<or> b_status b = PENDING_PAYMENT"
  shows "if lapsed now b
    then checkout env bid p now d = (Inl (Conflict (HoldExpired bid)), d)
    else (\<forall>b' d'. checkout env bid p now d = (Inr b', d') \<longrightarrow>
        b_status b' = b_status b \<and> b_rearm_count b' = b_rearm_count b + 1
        \<and> b_rearm_count b' \<le> MAX_HOLD_REARMS env
        \<and> (\<exists>t. b_expires_at b' = Some t \<and> now < t
             \<and> t \<le> b_created_at b + MAX_HOLD_LIFETIME_SECONDS env * 1000
             \<and> t \<le> now + CHECKOUT_REARM_SECONDS env * 1000))"
proof -
  have found: "find_booking (uuid_in bid) d = Some b"
  proof -
    obtain q where "List.find (\<lambda>b. b_id b = uuid_in bid \<and> q b) (t_bookings d) = Some b"
      using assms(3) by (auto simp: loadOwnedBooking_def tx_simps)
    then have "b \<in> set (t_bookings d)" "b_id b = uuid_in bid" by (auto dest: find_SomeD)
    then show ?thesis
      using assms(1) unfolding find_booking_def
      by (intro find_key_unique) (auto simp: stored_inv_def stored_ids)
  qed
  show ?thesis
  proof (cases "lapsed now b")
    case True
    have "\<exists>r. transition \<lparr>ti_booking_id = uuid_in bid, ti_to = EXPIRED,
            ti_actor = SYSTEM_ACTOR, ti_reason = ''hold.expired.on_checkout'',
            ti_expected_from = Some [HELD, PENDING_PAYMENT], ti_patch = no_patch\<rparr> now d = Inr r"
      using found assms(4) by (subst transition_outcome [OF assms(1)]) auto
    then have "checkout_body env bid p now d = Inl (Conflict (HoldExpired bid))"
      using True assms(3,4) by (auto simp: checkout_body_def is_active_cases)
    then show ?thesis using True by (simp add: checkout_def)
  next
    case False
    then show ?thesis using assms(2,3) found
      by (auto simp: checkout_def tx_simps checkout_body_eq_Inr recordSideEffect_eq_Inr)
  qed
qed

section \<open>Isolation of the reads\<close>

definition in_scope :: "principal \<Rightarrow> booking \<Rightarrow> bool" where
  "in_scope p b \<longleftrightarrow>
     (case pr_role p of
        PLATFORM_ADMIN \<Rightarrow> True
      | CUSTOMER \<Rightarrow> b_user_id b = pr_user_id p
      | _ \<Rightarrow> pr_venue_id p = Some (b_venue_id b))"

lemma scopeFilter_in_scope: "scopeFilter p = Inr q \<Longrightarrow> q = in_scope p"
  by (rule ext) (auto simp: scopeFilter_def in_scope_def split: user_role.splits option.splits)

text \<open>
  INV-6. Nothing a read returns lies outside the scope of the caller's token, no operation finds a
  booking outside it, and a page never counts one.
\<close>

lemma reads_in_scope:
  "(\<forall>pg. list_bookings q p d = Inr pg \<longrightarrow>
      (\<forall>b \<in> set (bp_data pg). in_scope p b) \<and> length (bp_data pg) \<le> lq_page_size q
      \<and> bp_total pg \<le> length (filter (in_scope p) (t_bookings d)))
   \<and> (\<forall>v. findOne bid p d = Inr v \<longrightarrow> in_scope p (bv_booking v) \<and> b_id (bv_booking v) = uuid_in bid)
   \<and> (\<forall>b. loadOwnedBooking bid p d = Inr b \<longrightarrow> in_scope p b \<and> b_id b = uuid_in bid)"
proof (intro conjI allI impI ballI)
  fix pg assume l: "list_bookings q p d = Inr pg"
  then obtain sc where sc: "scopeFilter p = Inr sc" by (auto simp: list_bookings_def tx_simps)
  then have eq: "sc = in_scope p" by (rule scopeFilter_in_scope)
  show "length (bp_data pg) \<le> lq_page_size q" using l sc by (auto simp: list_bookings_def)
  show "in_scope p b" if "b \<in> set (bp_data pg)" for b
    using l sc that by (auto simp: list_bookings_def list_where_def eq dest!: in_set_takeD in_set_dropD)
  have "length (filter (list_where q (in_scope p)) bs) \<le> length (filter (in_scope p) bs)" for bs
    by (induction bs) (auto simp: list_where_def)
  then show "bp_total pg \<le> length (filter (in_scope p) (t_bookings d))"
    using l sc by (auto simp: list_bookings_def eq)
next
  fix v assume "findOne bid p d = Inr v"
  then show "in_scope p (bv_booking v)" "b_id (bv_booking v) = uuid_in bid"
    by (auto simp: findOne_def tx_simps Let_def dest!: find_SomeD scopeFilter_in_scope)
next
  fix b assume "loadOwnedBooking bid p d = Inr b"
  then show "in_scope p b" "b_id b = uuid_in bid"
    by (auto simp: loadOwnedBooking_def tx_simps dest!: find_SomeD scopeFilter_in_scope)
qed

section \<open>Spelling of ids\<close>

text \<open>
  The schema accepts an equipment id in capitals, the lock finds its row, and the quantities are
  then looked up under the row's own spelling: such a request is admitted for zero units, and the
  INSERT of its line items violates their check. It is never held, and when the room is free the
  answer is a 500.
\<close>

lemma hold_capital_equipment_id:
  assumes "distinct (map e_id (t_equipment_types d))"
    and "k \<in> fst ` set (hi_line_items i)" and "uuid_in k \<noteq> k"
    and "admitEquipment i venue pct hours now d = Inr items"
  shows "insert_line_items (line_item_rows bid items) d2 = Inl (pg_error ''23514'' ''booking_line_items_qty_ck'')
    \<and> http_status (pg_error ''23514'' ''booking_line_items_qty_ck'') = 500"
proof -
  have "hi_line_items i \<noteq> []" using assms(2) by auto
  then obtain locked where l: "lockEquipmentTypes (requested_ids i) d = Inr locked"
    "length locked = length (requested_ids i)" "items = map (priced i hours) locked"
    using assms(4) unfolding admitEquipment_eq_Inr by blast
  have dl: "distinct (map e_id locked)" using lockEquipmentTypes_distinct l(1) assms(1) by blast
  have sub: "e_id ` set locked \<subseteq> uuid_in ` set (requested_ids i)"
    using lockEquipmentTypes_eq_Inr [OF l(1)] by auto
  have card: "card (e_id ` set locked) = card (set (requested_ids i))"
    using dl l(2) distinct_card [of "map e_id locked"] distinct_card [of "requested_ids i"]
    by (simp add: requested_ids_def)
  then have "card (set (requested_ids i)) \<le> card (uuid_in ` set (requested_ids i))"
    using card_mono [OF _ sub] by simp
  then have inj: "inj_on uuid_in (set (requested_ids i))"
    by (simp add: card_image_le eq_card_imp_inj_on le_antisym)
  have "e_id ` set locked = uuid_in ` set (requested_ids i)"
    using sub card card_image [OF inj] by (intro card_subset_eq) simp_all
  moreover have k: "k \<in> set (requested_ids i)" using assms(2) by (simp add: requested_ids_def)
  ultimately obtain e where e: "e \<in> set locked" "e_id e = uuid_in k" by (metis imageE imageI)
  have "uuid_in k \<notin> set (requested_ids i)"
    using inj k assms(3) by (metis inj_on_def uuid_in_idem)
  then have "requested_quantities i (uuid_in k) = None"
    by (simp add: requested_quantities_def requested_ids_def map_of_eq_None_iff)
  then have "\<not> 0 < pi_quantity (priced i hours e)" using e by (simp add: wanted_def)
  then have "\<not> list_all (\<lambda>li. 0 < li_quantity li) (line_item_rows bid items)"
    using e(1) by (auto simp: l(3) line_item_rows_def list_all_iff)
  then show ?thesis by (simp add: insert_line_items_def pg_error_def)
qed

end
