(* ===== verification/Fixtures.thy ===== *)
theory Fixtures
  imports Bookings
begin

text \<open>
  A small venue, for the concrete instances of the theorems: one room, one equipment type of two
  units, two customers, a platform policy, and three bookings of the room: a confirmed one from
  04:00 to 06:00 that takes one unit, a live hold from 12:00 to 14:00, and a hold from 08:00 to
  10:00 whose time was up at 00:01.
\<close>

definition hour :: int where "hour = 3600000"

definition sample_room_id :: uuid where
  "sample_room_id = ''00000000-0000-4000-8000-00000000000a''"
definition sample_camera_id :: uuid where
  "sample_camera_id = ''00000000-0000-4000-8000-00000000000e''"

definition sample_venue :: venue where
  "sample_venue = \<lparr>v_id = ''v'', v_name = ''Hall'', v_city = ''Karachi'', v_timezone = ''UTC'',
     v_operating_hours = JObj (map (\<lambda>k. (k, JObj [(''open'', JStr ''00:00''), (''close'', JStr ''24:00'')]))
        WEEKDAY_KEYS),
     v_overbooking_buffer_pct = 10\<rparr>"

definition sample_room :: room where
  "sample_room = \<lparr>r_id = sample_room_id, r_venue_id = ''v'', r_name = ''Room'', r_capacity = 10,
     r_hourly_rate_minor = 4501, r_amenities = [''wifi''], r_min_duration_minutes = 60,
     r_max_duration_minutes = 480\<rparr>"

definition sample_camera :: equipment_type where
  "sample_camera = \<lparr>e_id = sample_camera_id, e_venue_id = ''v'', e_name = ''Camera'',
     e_hourly_rate_minor = 333, e_units_owned = 2\<rparr>"

definition sample_user :: "uuid \<Rightarrow> user" where
  "sample_user uid = \<lparr>u_id = uid, u_email = uid, u_password_hash = '''', u_role = CUSTOMER,
     u_venue_id = None\<rparr>"

definition sample_tiers :: "tier list" where
  "sample_tiers =
     [\<lparr>min_hours_before = 48, room_refund_pct = 100, equipment_refund_pct = 100\<rparr>,
      \<lparr>min_hours_before = 24, room_refund_pct = 50, equipment_refund_pct = 100\<rparr>,
      \<lparr>min_hours_before = 2, room_refund_pct = 0, equipment_refund_pct = 100\<rparr>,
      \<lparr>min_hours_before = 0, room_refund_pct = 0, equipment_refund_pct = 0\<rparr>]"

definition sample_booking :: "uuid \<Rightarrow> uuid \<Rightarrow> instant \<Rightarrow> instant \<Rightarrow> booking_status \<Rightarrow> instant option \<Rightarrow> booking" where
  "sample_booking bid uid s e st ex =
     \<lparr>b_id = bid, b_venue_id = ''v'', b_room_id = sample_room_id, b_user_id = uid,
      b_starts_at = s, b_ends_at = e, b_status = st, b_expires_at = ex, b_rearm_count = 0,
      b_policy_snapshot = None, b_total_minor = 9002, b_currency = ''PKR'', b_created_at = 0,
      b_updated_at = 0\<rparr>"

definition sample_bookings :: "booking list" where
  "sample_bookings =
     [sample_booking ''b1'' ''u1'' (4 * hour) (6 * hour) CONFIRMED None,
      sample_booking ''b2'' ''u2'' (12 * hour) (14 * hour) HELD (Some 480000),
      sample_booking ''b3'' ''u2'' (8 * hour) (10 * hour) HELD (Some 60000)]"

definition sample_policy :: cancellation_policy where
  "sample_policy = \<lparr>cp_id = ''p'', cp_venue_id = None, cp_tiers = tiers_json sample_tiers,
     cp_created_at = 0\<rparr>"

definition sample_db :: db where
  "sample_db =
     \<lparr>t_venues = [sample_venue], t_rooms = [sample_room], t_equipment_types = [sample_camera],
      t_users = [sample_user ''u1'', sample_user ''u2''],
      t_cancellation_policies = [sample_policy],
      t_bookings = sample_bookings,
      t_booking_line_items = [\<lparr>li_booking_id = ''b1'', li_equipment_type_id = sample_camera_id,
         li_quantity = 1, li_rate_minor = 333\<rparr>],
      t_payments = [], t_payment_events = [], t_webhook_deliveries = [],
      t_audit_events =
        [audit ''b1'' (user_actor ''u1'') DRAFT HELD ''hold.created'' 0,
         audit ''b1'' (user_actor ''u1'') HELD PENDING_PAYMENT ''payment.initiated'' 0,
         audit ''b1'' SYSTEM_ACTOR PENDING_PAYMENT CONFIRMED ''payment.captured'' 0,
         audit ''b2'' (user_actor ''u2'') DRAFT HELD ''hold.created'' 0,
         audit ''b3'' (user_actor ''u2'') DRAFT HELD ''hold.created'' 0]\<rparr>"

definition sample_env :: hold_env where
  "sample_env = \<lparr>HOLD_TTL_SECONDS = 480, CHECKOUT_REARM_SECONDS = 600, MAX_HOLD_REARMS = 2,
     MAX_HOLD_LIFETIME_SECONDS = 1800, TRANSIENT_RETRY_ATTEMPTS = 3\<rparr>"

definition sample_principal :: principal where
  "sample_principal = \<lparr>pr_user_id = ''u1'', pr_role = CUSTOMER, pr_venue_id = None\<rparr>"

definition sample_attempt :: attempt where
  "sample_attempt = \<lparr>at_now = 120000, at_id = ''b4'', at_abort = None\<rparr>"

definition sample_utc :: zone_offsets where
  "sample_utc tz i = 0"

text \<open>A hold from 08:00 to 10:00, over the stale one, with one camera.\<close>

definition sample_hold :: hold_input where
  "sample_hold = \<lparr>hi_room_id = sample_room_id, hi_starts_at = 8 * hour, hi_ends_at = 10 * hour,
     hi_line_items = [(sample_camera_id, 1)]\<rparr>"

definition sample_context :: room_context where
  "sample_context = \<lparr>rc_venue_id = ''v'', rc_hourly_rate_minor = 4501,
     rc_min_duration_minutes = 60, rc_max_duration_minutes = 480, rc_timezone = ''UTC'',
     rc_overbooking_buffer_pct = 10,
     rc_hours = replicate 7 (Some \<lparr>dh_open = ''00:00'', dh_close = ''24:00''\<rparr>), rc_currency = ''PKR''\<rparr>"

lemma sample_stored: "stored_inv sample_db"
  by code_simp

lemma sample_audit: "audit_inv sample_db"
  by code_simp

lemma sample_quantities: "quantities_positive sample_db"
  by code_simp

lemma sample_consistent: "bookings_consistent (t_bookings sample_db)"
  using sample_stored by (simp add: stored_inv_def bookings_stored_def)

lemma sample_line_items: "\<forall>li \<in> set (t_booking_line_items sample_db).
    li_booking_id li \<in> b_id ` set (t_bookings sample_db)"
  by code_simp

lemma sample_types_distinct: "distinct (map e_id (t_equipment_types sample_db))"
  by code_simp

lemma sample_hold_ok: "HoldSchema sample_hold"
  by code_simp

lemma sample_room_context: "loadRoomContext (hi_room_id sample_hold) sample_db = Inr sample_context"
  by code_simp

lemma sample_bookable: "assertBookable sample_utc 120000 sample_hold sample_context = Inr ()"
  by code_simp

lemma sample_held: "\<not> isl (holdOnce sample_env sample_hold sample_context
    (duration_hours (hi_starts_at sample_hold) (hi_ends_at sample_hold)) sample_principal sample_attempt sample_db)"
  by code_simp

end
