(* ===== verification/Availability.thy ===== *)
theory Availability
  imports Bookings Fixtures
begin

text \<open>
  \<open>apps/api/src/rooms/availability.service.ts\<close> with its query schema: the free slots of a room and the
  free rooms of a search. Both are reads, and neither decides anything: the theorems compare what
  they advertise with what the exclusion constraint and the hold path accept.

  \<open>turnaround\<close> is \<open>ROOM_TURNAROUND_MINUTES\<close> of the environment; the constraint's own turnaround is the
  constant of the generated column.
\<close>

section \<open>Queries\<close>

record availability_query =
  aq_from :: instant
  aq_to :: instant
  aq_duration_minutes :: "int option"

definition AvailabilitySchema :: "availability_query \<Rightarrow> bool" where
  "AvailabilitySchema q \<longleftrightarrow>
     (case aq_duration_minutes q of None \<Rightarrow> True
      | Some m \<Rightarrow> MIN_DURATION_MINUTES \<le> m \<and> m \<le> MAX_DURATION_MINUTES)
     \<and> aq_from q < aq_to q \<and> aq_to q - aq_from q \<le> 31 * 24 * 60 * 60 * 1000"

section \<open>Busy intervals and free slots\<close>

definition busyIntervals :: "string \<Rightarrow> instant \<Rightarrow> instant \<Rightarrow> instant \<Rightarrow> db \<Rightarrow> (instant \<times> instant) list" where
  "busyIntervals rid from to now d =
     sort_key fst (map slot (filter (\<lambda>b. b_room_id b = uuid_in rid \<and> live_booking now b
       \<and> ranges_overlap (slot b) (from, to)) (t_bookings d)))"

definition ceilToGrid :: "instant \<Rightarrow> int \<Rightarrow> instant" where
  "ceilToGrid t step = math_ceil (js_div (js_of_int t) (of_int (step * 60000))) * (step * 60000)"

text \<open>The inner loop: the candidate starts of one window from \<open>cursor\<close> on.\<close>

function slots_of_window :: "instant \<Rightarrow> instant \<Rightarrow> int \<Rightarrow> int \<Rightarrow> (instant \<times> instant) list \<Rightarrow> instant \<Rightarrow> instant
    \<Rightarrow> (instant \<times> instant) list" where
  "slots_of_window closes to duration turnaround busy earliest cursor =
     (let slot_end = addMinutes cursor duration in
      if closes < slot_end \<or> to < slot_end then []
      else
        let occupied_end = addMinutes slot_end turnaround;
            clashes = list_ex (\<lambda>(f, t). f < occupied_end \<and> cursor < t) busy;
            here = (if \<not> clashes \<and> earliest \<le> cursor then [(cursor, slot_end)] else []);
            next = addMinutes cursor 30
        in if closes \<le> next then here
           else here @ slots_of_window closes to duration turnaround busy earliest next)"
  by pat_completeness auto

termination
  by (relation "measure (\<lambda>(closes, _, _, _, _, _, cursor). nat (closes - cursor))")
    (auto simp: addMinutes_def MS_PER_MINUTE_def)

declare slots_of_window.simps [simp del]

definition enumerate :: "zone_offsets \<Rightarrow> operating_hours \<Rightarrow> string \<Rightarrow> instant \<Rightarrow> instant \<Rightarrow> int \<Rightarrow> int
    \<Rightarrow> (instant \<times> instant) list \<Rightarrow> instant \<Rightarrow> (instant \<times> instant) list" where
  "enumerate off hours tz from to duration turnaround busy earliest =
     concat (map (\<lambda>w. slots_of_window (ow_closes_at w) to duration turnaround busy earliest
         (ceilToGrid (max (ow_opens_at w) from) 30))
       (openWindowsBetween off hours tz from to))"

record availability =
  av_room_id :: string
  av_timezone :: string
  av_duration_minutes :: int
  av_granularity_minutes :: int
  av_turnaround_minutes :: int
  av_free_slots :: "(instant \<times> instant) list"
  av_busy :: "(instant \<times> instant) list"

definition forRoom :: "zone_offsets \<Rightarrow> int \<Rightarrow> string \<Rightarrow> availability_query \<Rightarrow> instant \<Rightarrow> db \<Rightarrow> exn + availability" where
  "forRoom off turnaround rid q now d =
     result_bind (loadRoomContext rid d) (\<lambda>ctx.
     let duration = (case aq_duration_minutes q of Some m \<Rightarrow> m | None \<Rightarrow> rc_min_duration_minutes ctx) in
     result_bind (ensure (duration \<le> rc_max_duration_minutes ctx)
       (Unprocessable (DurationTooLong (rc_max_duration_minutes ctx)))) (\<lambda>_.
     let busy = busyIntervals rid (aq_from q) (aq_to q) now d in
     Inr \<lparr>av_room_id = rid, av_timezone = rc_timezone ctx, av_duration_minutes = duration,
       av_granularity_minutes = 30, av_turnaround_minutes = turnaround,
       av_free_slots = enumerate off (rc_hours ctx) (rc_timezone ctx) (aq_from q) (aq_to q) duration
         turnaround busy (addMinutes now MIN_LEAD_MINUTES),
       av_busy = busy\<rparr>))"

definition freeRoomIds :: "int \<Rightarrow> string list \<Rightarrow> instant \<Rightarrow> instant \<Rightarrow> instant \<Rightarrow> db \<Rightarrow> string set" where
  "freeRoomIds turnaround rids from to now d =
     (let busy = map b_room_id (filter (\<lambda>b. b_room_id b \<in> uuid_in ` set rids \<and> live_booking now b
            \<and> ranges_overlap (slot b) (from, addMinutes to turnaround)) (t_bookings d)) in
      {r \<in> set rids. r \<notin> set busy})"

section \<open>What is advertised\<close>

lemma ceilToGrid_ge:
  assumes "0 \<le> t" "t < 2 ^ 53"
  shows "t \<le> ceilToGrid t 30" "ceilToGrid t 30 mod 1800000 = 0"
  using math_ceil_ge [OF assms, of 1800000] by (simp_all add: ceilToGrid_def)

lemma slots_of_window_sound:
  assumes "(s, e) \<in> set (slots_of_window closes to duration turnaround busy earliest cursor)"
    and "cursor mod 1800000 = 0"
  shows "e = addMinutes s duration \<and> cursor \<le> s \<and> s mod 1800000 = 0 \<and> e \<le> closes \<and> e \<le> to \<and> earliest \<le> s
    \<and> (\<forall>(f, t) \<in> set busy. \<not> (f < addMinutes e turnaround \<and> s < t))"
  using assms
proof (induction closes to duration turnaround busy earliest cursor rule: slots_of_window.induct)
  case (1 closes to duration turnaround busy earliest cursor)
  let ?e = "addMinutes cursor duration" and ?n = "addMinutes cursor 30"
  have open': "\<not> (closes < ?e \<or> to < ?e)"
    using "1.prems"(1) by (subst (asm) slots_of_window.simps) (auto simp: Let_def split: if_splits)
  have n: "?n mod 1800000 = 0" "cursor \<le> ?n"
    using "1.prems"(2) by (simp_all add: addMinutes_def MS_PER_MINUTE_def mod_add_eq)
  consider (here) "s = cursor" "e = ?e" "\<not> list_ex (\<lambda>(f, t). f < addMinutes ?e turnaround \<and> cursor < t) busy" "earliest \<le> cursor"
    | (later) "\<not> closes \<le> ?n" "(s, e) \<in> set (slots_of_window closes to duration turnaround busy earliest ?n)"
    using "1.prems"(1) open' by (subst (asm) slots_of_window.simps) (auto simp: Let_def split: if_splits)
  then show ?case
  proof cases
    case here
    then show ?thesis using open' "1.prems"(2) by (auto simp: list_ex_iff)
  next
    case later
    then show ?thesis using "1.IH" [OF refl open' refl refl refl refl] n by auto
  qed
qed

lemma enumerate_sound:
  assumes "(s, e) \<in> set (enumerate off hours tz from to duration turnaround busy earliest)"
    and "0 \<le> from" and "\<And>w. w \<in> set (openWindowsBetween off hours tz from to) \<Longrightarrow> max (ow_opens_at w) from < 2 ^ 53"
  shows "\<exists>w \<in> set (openWindowsBetween off hours tz from to). ow_opens_at w \<le> s \<and> e \<le> ow_closes_at w"
    "e = addMinutes s duration" "from \<le> s" "s mod 1800000 = 0" "e \<le> to" "earliest \<le> s"
    "\<forall>(f, t) \<in> set busy. \<not> (f < addMinutes e turnaround \<and> s < t)"
proof -
  obtain w where w: "w \<in> set (openWindowsBetween off hours tz from to)"
    "(s, e) \<in> set (slots_of_window (ow_closes_at w) to duration turnaround busy earliest
       (ceilToGrid (max (ow_opens_at w) from) 30))"
    using assms(1) by (auto simp: enumerate_def)
  have "0 \<le> max (ow_opens_at w) from" using assms(2) by simp
  note c = ceilToGrid_ge [OF this assms(3) [OF w(1)]]
  note b = c slots_of_window_sound [OF w(2) c(2)]
  show "\<exists>w \<in> set (openWindowsBetween off hours tz from to). ow_opens_at w \<le> s \<and> e \<le> ow_closes_at w"
    using w(1) b by (intro bexI [of _ w]) auto
  show "e = addMinutes s duration" "from \<le> s" "s mod 1800000 = 0" "e \<le> to" "earliest \<le> s"
    "\<forall>(f, t) \<in> set busy. \<not> (f < addMinutes e turnaround \<and> s < t)"
    using b by auto
qed

text \<open>
  C34. Every slot the endpoint offers starts on the half-hour grid, far enough ahead, inside an open
  window and inside the range asked for, and for the busy intervals it knows of it leaves the
  turnaround on both sides: no live booking whose own interval meets the range is in the way.
\<close>

lemma offered_slots_sound:
  assumes "forRoom off turnaround rid q now d = Inr a" and "(s, e) \<in> set (av_free_slots a)"
    and "loadRoomContext rid d = Inr ctx" and "0 \<le> aq_from q"
    and "\<And>w. w \<in> set (openWindowsBetween off (rc_hours ctx) (rc_timezone ctx) (aq_from q) (aq_to q))
      \<Longrightarrow> max (ow_opens_at w) (aq_from q) < 2 ^ 53"
  shows "e = addMinutes s (av_duration_minutes a) \<and> s mod 1800000 = 0
    \<and> addMinutes now MIN_LEAD_MINUTES \<le> s \<and> aq_from q \<le> s \<and> e \<le> aq_to q
    \<and> (\<exists>w \<in> set (openWindowsBetween off (rc_hours ctx) (rc_timezone ctx) (aq_from q) (aq_to q)).
         ow_opens_at w \<le> s \<and> e \<le> ow_closes_at w)
    \<and> (\<forall>b \<in> set (t_bookings d). b_room_id b = uuid_in rid \<and> live_booking now b
         \<and> ranges_overlap (slot b) (aq_from q, aq_to q)
         \<longrightarrow> \<not> ranges_overlap (slot b) (s, addMinutes e turnaround))"
proof -
  let ?busy = "busyIntervals rid (aq_from q) (aq_to q) now d"
  have a: "(s, e) \<in> set (enumerate off (rc_hours ctx) (rc_timezone ctx) (aq_from q) (aq_to q)
      (av_duration_minutes a) turnaround ?busy (addMinutes now MIN_LEAD_MINUTES))"
    using assms(1-3) by (auto simp: forRoom_def tx_simps Let_def)
  note E = enumerate_sound [OF a assms(4,5)]
  have "\<not> ranges_overlap (slot b) (s, addMinutes e turnaround)"
    if "b \<in> set (t_bookings d)" "b_room_id b = uuid_in rid" "live_booking now b"
      "ranges_overlap (slot b) (aq_from q, aq_to q)" for b
  proof -
    have "slot b \<in> set ?busy" using that by (simp add: busyIntervals_def)
    then show ?thesis using E(7) by (auto simp: ranges_overlap_def)
  qed
  then show ?thesis using E(1-6) by blast
qed

text \<open>
  C35. The search agrees with the hold path. With the turnaround of the constraint, a room is listed as
  free exactly when a hold of the interval, after the stale holds of the room have been expired,
  meets no booking the exclusion constraint compares it with. The two differ only for a hold that
  expires at this very instant.
\<close>

lemma freeRoomIds_agrees_with_constraint:
  assumes "rid \<in> set rids" "uuid_in rid = rid" and "turnaround * MS_PER_MINUTE = TURNAROUND_MS"
    and "b_room_id new = rid" "is_active (b_status new)" "b_starts_at new = from" "b_ends_at new = to"
    and "\<And>b. b \<in> set (t_bookings d) \<Longrightarrow> b_expires_at b \<noteq> Some now"
  shows "rid \<in> freeRoomIds turnaround rids from to now d \<longleftrightarrow>
    (\<forall>b \<in> set (t_bookings (snd (expireStaleHoldsForRoom rid who why now d))). \<not> rooms_clash new b)"
proof -
  have stale: "stale_hold now b \<longleftrightarrow> is_active (b_status b) \<and> \<not> live_booking now b" if "b \<in> set (t_bookings d)" for b
    using assms(8) [OF that] by (auto simp: stale_hold_def live_booking_def split: option.splits)
  have new: "slot new = (from, addMinutes to turnaround)"
    using assms(3,6,7) by (simp add: slot_def addMinutes_def)
  have "rid \<in> freeRoomIds turnaround rids from to now d \<longleftrightarrow>
      (\<forall>b \<in> set (t_bookings d). \<not> (b_room_id b = rid \<and> live_booking now b \<and> ranges_overlap (slot b) (slot new)))"
    using assms(1,2) by (auto simp: freeRoomIds_def new rev_image_eqI)
  moreover have "rooms_clash new (if b_room_id b = rid \<and> stale_hold now b
        then b\<lparr>b_status := EXPIRED, b_updated_at := now\<rparr> else b)
      \<longleftrightarrow> b_room_id b = rid \<and> live_booking now b \<and> ranges_overlap (slot b) (slot new)"
    if "b \<in> set (t_bookings d)" for b
    using stale [OF that] assms(4,5)
    by (auto simp: rooms_clash_def ranges_overlap_def live_booking_def slot_def)
  ultimately show ?thesis
    by (simp add: expireStaleHoldsForRoom_def expire_rows_def Let_def set_update_where
        del: if_image_distrib)
qed

section \<open>Slots that are advertised and refused\<close>

definition sample_query :: availability_query where
  "sample_query = \<lparr>aq_from = 2 * hour, aq_to = 4 * hour, aq_duration_minutes = Some 60\<rparr>"

definition sample_slot :: booking where
  "sample_slot = sample_booking ''b4'' ''u1'' (3 * hour) (4 * hour) HELD (Some (8 * hour))"

lemma walk_days_step:
  assumes "date_key cursor \<le> stop_key"
    and "windowForLocalDate off hours tz (lp_year cursor) (lp_month cursor) (lp_day cursor) (lp_weekday cursor) = Some w"
    and "nextLocalDay off tz (lp_year cursor) (lp_month cursor) (lp_day cursor) = (y, m, d)"
    and "toLocalParts off (fromLocalParts off y m d 12 0 tz) tz = cursor'"
  shows "walk_days (Suc guard) off hours tz start stop stop_key cursor =
    (if start < ow_closes_at w \<and> ow_opens_at w < stop then [w] else [])
    @ walk_days guard off hours tz start stop stop_key cursor'"
  using assms by (simp add: Let_def)

lemma walk_days_end:
  "\<not> date_key c \<le> stop_key \<Longrightarrow> walk_days n off hours tz start stop stop_key c = []"
  by (cases n) simp_all

lemma sample_day:
  assumes "weekday < 7" and "fromLocalParts sample_utc y m d 0 0 ''UTC'' = t"
    and "nextLocalDay sample_utc ''UTC'' y m d = (y', m', d')" and "fromLocalParts sample_utc y' m' d' 0 0 ''UTC'' = t'"
  shows "windowForLocalDate sample_utc (rc_hours sample_context) ''UTC'' y m d weekday
    = Some \<lparr>ow_opens_at = t, ow_closes_at = t'\<rparr>"
proof -
  have c: "parseClock ''00:00'' = Some 0" "parseClock ''24:00'' = Some 1440" by code_simp+
  have "rc_hours sample_context ! weekday = Some \<lparr>dh_open = ''00:00'', dh_close = ''24:00''\<rparr>"
    using assms(1) by (simp add: sample_context_def)
  then show ?thesis using assms(2-4) by (simp add: windowForLocalDate_def c del: parseClock.simps)
qed

lemma sample_walk:
  assumes "lp_year c = y" "lp_month c = m" "lp_day c = d" "lp_weekday c < 7" "date_key c \<le> stop_key"
    and "fromLocalParts sample_utc y m d 0 0 ''UTC'' = t"
    and "nextLocalDay sample_utc ''UTC'' y m d = (y', m', d')"
    and "fromLocalParts sample_utc y' m' d' 0 0 ''UTC'' = t'"
    and "toLocalParts sample_utc (fromLocalParts sample_utc y' m' d' 12 0 ''UTC'') ''UTC'' = c'"
  shows "walk_days (Suc guard) sample_utc (rc_hours sample_context) ''UTC'' start stop stop_key c =
    (if start < t' \<and> t < stop then [\<lparr>ow_opens_at = t, ow_closes_at = t'\<rparr>] else [])
    @ walk_days guard sample_utc (rc_hours sample_context) ''UTC'' start stop stop_key c'"
  using walk_days_step [OF assms(5), of sample_utc "rc_hours sample_context" "''UTC''", OF _ _ assms(9)]
    sample_day [OF assms(4) assms(6-8)] assms(1-3,7)
  by simp

definition sample_noon :: "int \<Rightarrow> int \<Rightarrow> int \<Rightarrow> nat \<Rightarrow> local_parts" where
  "sample_noon y m d w = \<lparr>lp_year = y, lp_month = m, lp_day = d, lp_hour = 12, lp_minute = 0,
     lp_second = 0, lp_weekday = w\<rparr>"

lemma sample_midnights:
  "fromLocalParts sample_utc 1969 12 31 0 0 ''UTC'' = - 86400000"
  "fromLocalParts sample_utc 1970 1 1 0 0 ''UTC'' = 0"
  "fromLocalParts sample_utc 1970 1 2 0 0 ''UTC'' = 86400000"
  "fromLocalParts sample_utc 1970 1 3 0 0 ''UTC'' = 172800000"
  by code_simp+

lemma sample_next_days:
  "nextLocalDay sample_utc ''UTC'' 1969 12 31 = (1970, 1, 1)"
  "nextLocalDay sample_utc ''UTC'' 1970 1 1 = (1970, 1, 2)"
  "nextLocalDay sample_utc ''UTC'' 1970 1 2 = (1970, 1, 3)"
  by code_simp+

lemma sample_noons:
  "toLocalParts sample_utc (fromLocalParts sample_utc 1970 1 1 12 0 ''UTC'') ''UTC'' = sample_noon 1970 1 1 4"
  "toLocalParts sample_utc (fromLocalParts sample_utc 1970 1 2 12 0 ''UTC'') ''UTC'' = sample_noon 1970 1 2 5"
  "toLocalParts sample_utc (fromLocalParts sample_utc 1970 1 3 12 0 ''UTC'') ''UTC'' = sample_noon 1970 1 3 6"
  by code_simp+

lemma sample_open_windows:
  "openWindowsBetween sample_utc (rc_hours sample_context) ''UTC'' (2 * hour) (4 * hour)
   = [\<lparr>ow_opens_at = 0, ow_closes_at = 86400000\<rparr>]"
proof -
  let ?walk = "\<lambda>n. walk_days n sample_utc (rc_hours sample_context) ''UTC'' (2 * hour) (4 * hour) 19700102"
  have k: "date_key (toLocalParts sample_utc (addMinutes (4 * hour) 1440) ''UTC'') = 19700102" by code_simp
  have c: "toLocalParts sample_utc (addMinutes (2 * hour) (- 1440)) ''UTC''
      = \<lparr>lp_year = 1969, lp_month = 12, lp_day = 31, lp_hour = 2, lp_minute = 0, lp_second = 0, lp_weekday = 3\<rparr>"
    by code_simp
  have h: "hour = 3600000" by (simp add: hour_def)
  have keys: "date_key (sample_noon 1970 1 1 4) \<le> 19700102" "date_key (sample_noon 1970 1 2 5) \<le> 19700102"
    "\<not> date_key (sample_noon 1970 1 3 6) \<le> 19700102"
    by (simp_all add: date_key_def sample_noon_def)
  have "?walk (Suc 799) \<lparr>lp_year = 1969, lp_month = 12, lp_day = 31, lp_hour = 2, lp_minute = 0,
      lp_second = 0, lp_weekday = 3\<rparr> = ?walk 799 (sample_noon 1970 1 1 4)"
    by (subst sample_walk [OF _ _ _ _ _ sample_midnights(1) sample_next_days(1) sample_midnights(2) sample_noons(1)])
      (simp_all add: date_key_def h)
  moreover have "?walk (Suc 798) (sample_noon 1970 1 1 4)
      = \<lparr>ow_opens_at = 0, ow_closes_at = 86400000\<rparr> # ?walk 798 (sample_noon 1970 1 2 5)"
    by (subst sample_walk [OF _ _ _ _ _ sample_midnights(2) sample_next_days(2) sample_midnights(3) sample_noons(2)])
      (simp_all add: keys h, simp_all add: sample_noon_def)
  moreover have "?walk (Suc 797) (sample_noon 1970 1 2 5) = ?walk 797 (sample_noon 1970 1 3 6)"
    by (subst sample_walk [OF _ _ _ _ _ sample_midnights(3) sample_next_days(3) sample_midnights(4) sample_noons(3)])
      (simp_all add: keys h, simp_all add: sample_noon_def)
  moreover have "?walk 797 (sample_noon 1970 1 3 6) = []"
    using keys(3) by (rule walk_days_end)
  ultimately show ?thesis by (simp add: openWindowsBetween_def k c)
qed

lemma sample_slots:
  "enumerate sample_utc (rc_hours sample_context) ''UTC'' (2 * hour) (4 * hour) 60 15 [] 3600000
   = [(2 * hour, 3 * hour), (9000000, 12600000), (3 * hour, 4 * hour)]"
proof -
  have "slots_of_window 86400000 (4 * hour) 60 15 [] 3600000 (ceilToGrid (max 0 (2 * hour)) 30)
      = [(2 * hour, 3 * hour), (9000000, 12600000), (3 * hour, 4 * hour)]"
    by code_simp
  then show ?thesis by (simp add: enumerate_def sample_open_windows)
qed

lemma sample_forRoom:
  assumes "loadRoomContext sample_room_id d = Inr ctx" and "rc_hours ctx = rc_hours sample_context"
    and "rc_timezone ctx = ''UTC''" and "rc_max_duration_minutes ctx = 480"
    and "busyIntervals sample_room_id (2 * hour) (4 * hour) 0 d = []"
  shows "\<exists>a. forRoom sample_utc 15 sample_room_id sample_query 0 d = Inr a
    \<and> av_free_slots a = [(2 * hour, 3 * hour), (9000000, 12600000), (3 * hour, 4 * hour)]"
  using assms by (simp add: forRoom_def sample_query_def Let_def sample_slots
      addMinutes_def MIN_LEAD_MINUTES_def MS_PER_MINUTE_def)

text \<open>
  A booking that starts when the range ends does not overlap the range, so it is not read, and the
  last slot of the range is offered although its turnaround runs into that booking: the range from
  02:00 to 04:00 offers 03:00 to 04:00 in front of the booking at 04:00, and the exclusion
  constraint refuses it.
\<close>

lemma advertised_slot_refused:
  "(\<exists>a. forRoom sample_utc 15 sample_room_id sample_query 0 sample_db = Inr a
      \<and> (3 * hour, 4 * hour) \<in> set (av_free_slots a))
   \<and> insert_booking sample_slot sample_db = Inl (pg_error ''23P01'' ''no_room_overlap'')"
proof -
  have "loadRoomContext sample_room_id sample_db = Inr sample_context"
    "busyIntervals sample_room_id (2 * hour) (4 * hour) 0 sample_db = []"
    by code_simp+
  moreover have "insert_booking sample_slot sample_db = Inl (pg_error ''23P01'' ''no_room_overlap'')"
    by code_simp
  ultimately show ?thesis
    using sample_forRoom [of sample_db sample_context] by (auto simp: sample_context_def)
qed

definition long_room_db :: db where
  "long_room_db = sample_db\<lparr>t_rooms := [sample_room\<lparr>r_min_duration_minutes := 120\<rparr>]\<rparr>"

definition long_room_context :: room_context where
  "long_room_context = sample_context\<lparr>rc_min_duration_minutes := 120\<rparr>"

text \<open>
  A duration below the minimum of the room is served: only the maximum is checked. The slots offered
  are ones the hold path answers 422.
\<close>

lemma short_slot_advertised:
  "(\<exists>a. forRoom sample_utc 15 sample_room_id sample_query 0 long_room_db = Inr a
      \<and> (2 * hour, 3 * hour) \<in> set (av_free_slots a))
   \<and> loadRoomContext sample_room_id long_room_db = Inr long_room_context
   \<and> assertBookable sample_utc 0 \<lparr>hi_room_id = sample_room_id, hi_starts_at = 2 * hour,
       hi_ends_at = 3 * hour, hi_line_items = []\<rparr> long_room_context
     = Inl (Unprocessable (DurationOutOfRange 120 480))"
proof -
  have "loadRoomContext sample_room_id long_room_db = Inr long_room_context"
    "busyIntervals sample_room_id (2 * hour) (4 * hour) 0 long_room_db = []"
    by code_simp+
  moreover have "minutes_between 0 (2 * hour) = 120" "minutes_between (2 * hour) (3 * hour) = 60"
    by code_simp+
  then have "assertBookable sample_utc 0 \<lparr>hi_room_id = sample_room_id, hi_starts_at = 2 * hour,
       hi_ends_at = 3 * hour, hi_line_items = []\<rparr> long_room_context
     = Inl (Unprocessable (DurationOutOfRange 120 480))"
    by (simp add: assertBookable_def long_room_context_def sample_context_def MIN_LEAD_MINUTES_def
        MAX_LEAD_DAYS_def)
  ultimately show ?thesis
    using sample_forRoom [of long_room_db long_room_context]
    by (auto simp: long_room_context_def sample_context_def)
qed

end
