(* ===== verification/BookingWitnesses.thy ===== *)
theory BookingWitnesses
  imports HoldProperties Fixtures Availability
begin

text \<open>
  The theorems on bookings, equipment, refunds and availability at the sample venue: each instance
  applies a theorem where all its hypotheses hold, so none of them is vacuous.
\<close>

section \<open>Transactions and transitions\<close>

definition sample_flaky :: "nat \<Rightarrow> db \<Rightarrow> exn + nat \<times> db" where
  "sample_flaky k d = (if k < 2 then Inl (pg_error ''40P01'' ''deadlock'') else Inr (k, d\<lparr>t_bookings := []\<rparr>))"

lemma withTransientRetry_once_witness:
  "\<exists>k. 1 \<le> k \<and> k \<le> 3
    \<and> withTransientRetry 3 (\<lambda>k. transaction (sample_flaky k)) sample_db = transaction (sample_flaky k) sample_db
    \<and> (\<forall>j. 1 \<le> j \<and> j < k \<longrightarrow> (\<exists>e. sample_flaky j sample_db = Inl e \<and> isTransientRollback e))
    \<and> (k < 3 \<longrightarrow> (\<forall>e. sample_flaky k sample_db = Inl e \<longrightarrow> \<not> isTransientRollback e))"
  by (rule withTransientRetry_once) simp

definition sample_to_payment :: transition_input where
  "sample_to_payment = \<lparr>ti_booking_id = ''b2'', ti_to = PENDING_PAYMENT, ti_actor = user_actor ''u2'',
     ti_reason = ''payment.initiated'', ti_expected_from = Some [HELD], ti_patch = no_patch\<rparr>"


section \<open>Holds\<close>

lemma hold_never_oversells_witness:
  "\<exists>h d'. holdOnce sample_env sample_hold sample_context
      (duration_hours (hi_starts_at sample_hold) (hi_ends_at sample_hold)) sample_principal sample_attempt sample_db
      = Inr (h, d')
    \<and> units_out sample_camera_id 120000 (8 * hour) d' \<le> admissionCeiling 2 10"
proof -
  obtain h d' where h: "holdOnce sample_env sample_hold sample_context
      (duration_hours (hi_starts_at sample_hold) (hi_ends_at sample_hold)) sample_principal sample_attempt sample_db
      = Inr (h, d')"
    using sample_held by (cases "holdOnce sample_env sample_hold sample_context
      (duration_hours (hi_starts_at sample_hold) (hi_ends_at sample_hold)) sample_principal sample_attempt sample_db") auto
  have "line_items_inv sample_db" using sample_quantities sample_line_items by (simp add: line_items_inv_def)
  moreover have "0 < HOLD_TTL_SECONDS sample_env" by (simp add: sample_env_def)
  moreover have "sample_camera \<in> set (t_equipment_types sample_db)" by (simp add: sample_db_def)
  moreover have "e_id sample_camera \<in> uuid_in ` fst ` set (hi_line_items sample_hold)"
    "hi_starts_at sample_hold \<le> 8 * hour" "8 * hour < hi_ends_at sample_hold"
    by code_simp+
  ultimately have "units_out sample_camera_id 120000 (8 * hour) d' \<le> admissionCeiling 2 10"
    using hold_never_oversells [OF sample_stored _ sample_types_distinct _ h, of sample_camera "8 * hour"]
    by (simp add: sample_camera_def sample_attempt_def sample_context_def)
  then show ?thesis using h by blast
qed

lemma hold_price_splits_witness:
  "\<exists>h d'. holdOnce sample_env sample_hold sample_context
      (duration_hours (hi_starts_at sample_hold) (hi_ends_at sample_hold)) sample_principal sample_attempt sample_db
      = Inr (h, d')
    \<and> splitTotals (hr_booking h) (filter (\<lambda>li. li_booking_id li = b_id (hr_booking h)) (t_booking_line_items d'))
      = (9002, b_total_minor (hr_booking h) - 9002)"
proof -
  obtain h d' where h: "holdOnce sample_env sample_hold sample_context
      (duration_hours (hi_starts_at sample_hold) (hi_ends_at sample_hold)) sample_principal sample_attempt sample_db
      = Inr (h, d')"
    using sample_held by (cases "holdOnce sample_env sample_hold sample_context
      (duration_hours (hi_starts_at sample_hold) (hi_ends_at sample_hold)) sample_principal sample_attempt sample_db") auto
  have "line_items_inv sample_db" using sample_quantities sample_line_items by (simp add: line_items_inv_def)
  moreover have "half_hours (hi_starts_at sample_hold) (hi_ends_at sample_hold) = 4" by code_simp
  ultimately show ?thesis
    using h hold_price_splits [OF h] by (simp add: sample_context_def)
qed

definition sample_customer :: principal where
  "sample_customer = \<lparr>pr_user_id = ''u2'', pr_role = CUSTOMER, pr_venue_id = None\<rparr>"

lemma checkout_answers_witness:
  "checkout sample_env ''b3'' sample_customer 120000 sample_db = (Inl (Conflict (HoldExpired ''b3'')), sample_db)"
proof -
  let ?b = "sample_booking ''b3'' ''u2'' (8 * hour) (10 * hour) HELD (Some 60000)"
  have b: "loadOwnedBooking ''b3'' sample_customer sample_db = Inr ?b" by code_simp
  have c: "0 < CHECKOUT_REARM_SECONDS sample_env" "b_status ?b = HELD" "lapsed 120000 ?b"
    by (simp_all add: sample_env_def sample_booking_def lapsed_def)
  show ?thesis using checkout_answers [OF sample_stored c(1) b disjI1 [OF c(2)], of 120000]
    unfolding if_P [OF c(3)] .
qed

definition sample_new_hold :: held_values where
  "sample_new_hold = \<lparr>hv_venue_id = ''v'', hv_room_id = sample_room_id, hv_user_id = ''u1'',
     hv_starts_at = 5 * hour, hv_ends_at = 7 * hour, hv_expires_at = 600000, hv_total_minor = 9002,
     hv_currency = ''PKR''\<rparr>"


section \<open>Reads and equipment\<close>

definition sample_list :: list_query where
  "sample_list = \<lparr>lq_status = None, lq_from = None, lq_to = None, lq_page = 1, lq_page_size = 20\<rparr>"

lemma reads_in_scope_witness:
  "\<exists>b. loadOwnedBooking ''b2'' sample_customer sample_db = Inr b \<and> in_scope sample_customer b"
proof -
  have "loadOwnedBooking ''b2'' sample_customer sample_db
      = Inr (sample_booking ''b2'' ''u2'' (12 * hour) (14 * hour) HELD (Some 480000))"
    by code_simp
  then show ?thesis using reads_in_scope [of sample_list sample_customer sample_db "''b2''"] by blast
qed

lemma peak_is_exact_witness:
  "\<exists>peaks. peakConcurrentUsage [sample_camera_id] (3 * hour) (5 * hour) 120000 sample_db = Inr peaks
    \<and> units_out sample_camera_id 120000 (4 * hour) sample_db \<le> peaks sample_camera_id"
proof -
  have "\<not> isl (peakConcurrentUsage [sample_camera_id] (3 * hour) (5 * hour) 120000 sample_db)"
    by (simp add: peakConcurrentUsage_def) code_simp
  then obtain peaks where p: "peakConcurrentUsage [sample_camera_id] (3 * hour) (5 * hour) 120000 sample_db = Inr peaks"
    by (cases "peakConcurrentUsage [sample_camera_id] (3 * hour) (5 * hour) 120000 sample_db") auto
  have m: "sample_camera_id \<in> uuid_in ` set [sample_camera_id]" "3 * hour < 5 * hour" by code_simp+
  then have "\<forall>t. 3 * hour \<le> t \<and> t < 5 * hour \<longrightarrow> units_out sample_camera_id 120000 t sample_db \<le> peaks sample_camera_id"
    using peak_is_exact [OF sample_consistent sample_quantities m(2) p m(1)] by blast
  then show ?thesis using p by (auto simp: hour_def)
qed

lemma admissionCeiling_exact_witness: "admissionCeiling 7 10 = 7"
  using admissionCeiling_exact [of 7 10] by simp

section \<open>Refunds\<close>

lemma sample_tiers_schema: "TiersSchema (tiers_json sample_tiers) = Some sample_tiers"
  by code_simp

lemma computeRefund_total_witness:
  "\<exists>r. computeRefund 9001 333 sample_tiers (100 * hour) (70 * hour) = Inr r \<and> rb_total_refund_minor r \<le> 9001 + 333"
  using computeRefund_total [OF sample_tiers_schema, of 9001 333 "100 * hour" "70 * hour"] by auto

lemma computeRefund_exact_tier_witness:
  "\<exists>r. computeRefund 9001 333 sample_tiers (100 * hour) (70 * hour) = Inr r
    \<and> (\<forall>t \<in> set sample_tiers. min_hours_before (rb_tier r) < min_hours_before t \<longrightarrow>
        of_int (100 * hour - 70 * hour) < min_hours_before t * of_int MS_PER_HOUR)"
proof -
  have "\<not> isl (computeRefund 9001 333 sample_tiers (100 * hour) (70 * hour))" by code_simp
  then obtain r where r: "computeRefund 9001 333 sample_tiers (100 * hour) (70 * hour) = Inr r"
    by (cases "computeRefund 9001 333 sample_tiers (100 * hour) (70 * hour)") auto
  have "\<exists>n. min_hours_before t = of_int n \<and> n * MS_PER_HOUR < 2 ^ 53" if "t \<in> set sample_tiers" for t
    using that unfolding sample_tiers_def
    by (auto simp: MS_PER_HOUR_def intro: exI [of _ 48] exI [of _ 24] exI [of _ 2] exI [of _ 0])
  moreover have "\<bar>100 * hour - 70 * hour\<bar> \<le> 2 ^ 53" by (simp add: hour_def)
  ultimately show ?thesis
    using computeRefund_exact_tier [OF sample_tiers_schema _ _ r] r by blast
qed

definition sample_snapshot :: policy_snapshot where
  "sample_snapshot = \<lparr>ps_tiers = sample_tiers, ps_policy_id = ''p'', ps_resolved_from = FromPlatform,
     ps_snapshot_at = ''1970-01-01T00:00:00.000Z''\<rparr>"

lemma sample_snapshot_parsed: "parseSnapshot (snapshot_json sample_snapshot) = Some sample_snapshot"
  by code_simp

lemma previewRefund_agrees_witness:
  "previewRefund (web_view (hd sample_bookings) [] (Some (ps_tiers sample_snapshot))) 0 =
    (case splitTotals (hd sample_bookings) [] of (room, equip) \<Rightarrow>
      (case computeRefund room equip (ps_tiers sample_snapshot) (b_starts_at (hd sample_bookings)) 0 of
         Inl _ \<Rightarrow> None
       | Inr r \<Rightarrow> Some \<lparr>rp_hours_before = rb_hours_before r, rp_tier = rb_tier r,
           rp_room_minor = room, rp_equipment_minor = equip,
           rp_room_refund_minor = rb_room_refund_minor r,
           rp_equipment_refund_minor = rb_equipment_refund_minor r,
           rp_total_refund_minor = rb_total_refund_minor r,
           rp_forfeited_minor = b_total_minor (hd sample_bookings) - rb_total_refund_minor r\<rparr>))"
  by (rule previewRefund_agrees [OF sample_snapshot_parsed])

section \<open>Availability\<close>

lemma offered_slots_sound_witness:
  "\<exists>a. forRoom sample_utc 15 sample_room_id sample_query 0 sample_db = Inr a
    \<and> (\<forall>(s, e) \<in> set (av_free_slots a). s mod 1800000 = 0 \<and> 2 * hour \<le> s \<and> e \<le> 4 * hour)"
proof -
  have ctx: "loadRoomContext sample_room_id sample_db = Inr sample_context" by code_simp
  moreover have "busyIntervals sample_room_id (2 * hour) (4 * hour) 0 sample_db = []" by code_simp
  ultimately obtain a where a: "forRoom sample_utc 15 sample_room_id sample_query 0 sample_db = Inr a"
    using sample_forRoom [of sample_db sample_context] by (auto simp: sample_context_def)
  have w: "max (ow_opens_at w) (aq_from sample_query) < 2 ^ 53"
    if "w \<in> set (openWindowsBetween sample_utc (rc_hours sample_context) (rc_timezone sample_context)
      (aq_from sample_query) (aq_to sample_query))" for w
    using that sample_open_windows by (simp add: sample_query_def hour_def) (simp add: sample_context_def)
  have q: "0 \<le> aq_from sample_query" "aq_from sample_query = 2 * hour" "aq_to sample_query = 4 * hour"
    by (simp_all add: sample_query_def hour_def)
  show ?thesis using offered_slots_sound [OF a _ ctx q(1) w] a q(2,3) by auto
qed

lemma freeRoomIds_agrees_with_constraint_witness:
  "sample_room_id \<in> freeRoomIds 15 [sample_room_id] (8 * hour) (10 * hour) 120000 sample_db \<longleftrightarrow>
    (\<forall>b \<in> set (t_bookings (snd (expireStaleHoldsForRoom sample_room_id SYSTEM_ACTOR ''x'' 120000 sample_db))).
      \<not> rooms_clash (sample_booking ''b4'' ''u1'' (8 * hour) (10 * hour) HELD (Some 600000)) b)"
proof -
  have e: "b_expires_at b \<noteq> Some 120000" if "b \<in> set (t_bookings sample_db)" for b
    using that by (auto simp: sample_db_def sample_bookings_def sample_booking_def)
  show ?thesis
    by (rule freeRoomIds_agrees_with_constraint [OF _ _ _ _ _ _ _ e])
      (simp_all add: sample_booking_def, code_simp+)
qed

end
