(* ===== verification/Payments.thy ===== *)
theory Payments
  imports Bookings
begin

text \<open>
  \<open>apps/api/src/payments/payments.service.ts\<close>, with the interface of the provider from
  \<open>payment-provider.ts\<close>: charging a hold, recording and applying webhook deliveries, refunds,
  cancellations, and the two polls that settle what a lost webhook never told.

  The provider is a record of functions. \<open>JSON.parse\<close>, the HMAC digest, the parsing of a date string
  and the message of an exception are the parameters of \<open>host\<close>. Every transaction is a handler; a
  statement outside a transaction is one of its own. Between two transactions of one operation other
  transactions may run: \<open>pay\<close> takes what they do as its argument \<open>meanwhile\<close>.
\<close>

section \<open>The provider and the host\<close>

record charge_request =
  cq_idempotency_key :: string
  cq_booking_id :: string
  cq_amount_minor :: int
  cq_currency :: string

record refund_request =
  rq_idempotency_key :: string
  rq_charge_id :: string
  rq_amount_minor :: int
  rq_reason :: string

datatype charge_outcome = ChargeProcessing | ChargeSucceeded | ChargeFailed
datatype refund_outcome = RefundProcessing | RefundSucceeded

record charge_state =
  cs_charge_id :: "string option"
  cs_reference :: string
  cs_amount_minor :: int
  cs_status :: charge_outcome

record refund_state =
  rs_refund_id :: "string option"
  rs_charge_id :: string
  rs_amount_minor :: int
  rs_status :: refund_outcome

text \<open>\<open>PaymentProvider\<close>; a \<open>None\<close> id is an \<open>undefined\<close> property of the answer.\<close>

record provider =
  pv_charge :: "charge_request \<Rightarrow> exn + string"
  pv_refund :: "refund_request \<Rightarrow> exn + string"
  pv_get_charge :: "string \<Rightarrow> exn + charge_state option"
  pv_get_refund :: "string \<Rightarrow> exn + refund_state option"

record host =
  h_json_parse :: "string \<Rightarrow> json option"
  h_hmac_hex :: "string \<Rightarrow> string \<Rightarrow> string"
  h_date_parse :: "string \<Rightarrow> instant option"
  h_message :: "exn \<Rightarrow> string"

section \<open>Keys and helpers\<close>

definition chargeKey :: "string \<Rightarrow> string" where
  "chargeKey bid = ''charge:'' @ bid"

definition refundKey :: "string \<Rightarrow> string" where
  "refundKey cid = ''refund:'' @ cid"

lemma chargeKey_inject [simp]: "chargeKey a = chargeKey b \<longleftrightarrow> a = b"
  by (simp add: chargeKey_def)

lemma refundKey_inject [simp]: "refundKey a = refundKey b \<longleftrightarrow> a = b"
  by (simp add: refundKey_def)

definition verifySignature :: "host \<Rightarrow> string \<Rightarrow> string \<Rightarrow> string option \<Rightarrow> bool" where
  "verifySignature h raw secret sig =
     (case sig of
        None \<Rightarrow> False
      | Some s \<Rightarrow> s \<noteq> [] \<and> length s = length (h_hmac_hex h secret raw) \<and> s = h_hmac_hex h secret raw)"

definition pay_scopeFilter :: "principal \<Rightarrow> booking \<Rightarrow> bool" where
  "pay_scopeFilter p b =
     (case pr_role p of
        PLATFORM_ADMIN \<Rightarrow> True
      | CUSTOMER \<Rightarrow> b_user_id b = pr_user_id p
      | _ \<Rightarrow> (case pr_venue_id p of None \<Rightarrow> False | Some v \<Rightarrow> b_venue_id b = v))"

fun asString :: "json option \<Rightarrow> string option" where
  "asString (Some (JStr s)) = (if s = [] then None else Some s)"
| "asString _ = None"

fun parseDate :: "host \<Rightarrow> json option \<Rightarrow> instant option" where
  "parseDate h (Some (JStr s)) = h_date_parse h s"
| "parseDate h _ = None"

definition PAYGATE_ACTOR :: actor where
  "PAYGATE_ACTOR = \<lparr>actor_type = ActorPaygate, actor_id = None\<rparr>"

definition SUPPORTED_EVENTS :: "string set" where
  "SUPPORTED_EVENTS = {''charge.succeeded'', ''charge.failed'', ''refund.succeeded''}"

text \<open>The fields of a parsed body; reading a property of \<open>null\<close> throws.\<close>

definition body_of :: "host \<Rightarrow> string \<Rightarrow> exn + json" where
  "body_of h raw =
     result_bind (or_throw (h_json_parse h raw) (JsError ''SyntaxError'')) (\<lambda>j.
       if j = JNull then Inl (JsError ''TypeError'') else Inr j)"

section \<open>Rows\<close>

definition loadOwned :: "string \<Rightarrow> principal \<Rightarrow> db \<Rightarrow> exn + booking" where
  "loadOwned bid p d =
     or_throw (List.find (\<lambda>b. b_id b = uuid_in bid \<and> pay_scopeFilter p b) (t_bookings d)) NotFound"

definition findPaymentByKey :: "string \<Rightarrow> db \<Rightarrow> payment option" where
  "findPaymentByKey k d = List.find (\<lambda>p. p_idempotency_key p = k) (t_payments d)"

definition findPaymentById :: "uuid \<Rightarrow> db \<Rightarrow> payment option" where
  "findPaymentById pid d = List.find (\<lambda>p. p_id p = pid) (t_payments d)"

definition findPaymentByChargeId :: "string \<Rightarrow> db \<Rightarrow> payment option" where
  "findPaymentByChargeId cid d = List.find (\<lambda>p. p_charge_id p = Some cid) (t_payments d)"

definition findCapturedPayment :: "uuid \<Rightarrow> db \<Rightarrow> payment option" where
  "findCapturedPayment bid d =
     List.find (\<lambda>p. p_booking_id p = bid \<and> p_status p = PaySucceeded) (t_payments d)"

definition new_payment :: "uuid \<Rightarrow> uuid \<Rightarrow> string \<Rightarrow> int \<Rightarrow> instant \<Rightarrow> payment" where
  "new_payment pid bid k amount now =
     \<lparr>p_id = pid, p_booking_id = bid, p_idempotency_key = k, p_charge_id = None,
      p_amount_minor = amount, p_status = PayPending, p_refund_id = None,
      p_refund_idempotency_key = None, p_refunded_minor = 0, p_failure_reason = None,
      p_created_at = now, p_updated_at = now\<rparr>"

text \<open>\<open>INSERT INTO payments ... ON CONFLICT (idempotency_key) DO NOTHING\<close>\<close>

definition insert_payment :: "payment \<Rightarrow> db \<Rightarrow> exn + db" where
  "insert_payment p d =
     (if findPaymentByKey (p_idempotency_key p) d \<noteq> None then Inr d
      else if p_id p \<in> p_id ` set (t_payments d) then Inl (pg_error ''23505'' ''payments_pkey'')
      else Inr (d\<lparr>t_payments := t_payments d @ [p]\<rparr>))"

definition insert_payment_event :: "string \<Rightarrow> string \<Rightarrow> instant \<Rightarrow> instant \<Rightarrow> db \<Rightarrow> bool \<times> db" where
  "insert_payment_event cid ev occurred now d =
     (if \<exists>e \<in> set (t_payment_events d). pe_charge_id e = cid \<and> pe_event e = ev then (False, d)
      else (True, d\<lparr>t_payment_events := t_payment_events d @
        [\<lparr>pe_charge_id = cid, pe_event = ev, pe_occurred_at = occurred, pe_applied_at = now\<rparr>]\<rparr>))"

section \<open>Charging a hold\<close>

text \<open>
  The part of the first transaction that runs for a booking with no settled payment. The key is
  built from the id as the request spelt it.
\<close>

definition pay_claim :: "string \<Rightarrow> principal \<Rightarrow> attempt \<Rightarrow> booking \<Rightarrow> db
    \<Rightarrow> exn + (booking \<times> payment \<times> bool) \<times> db" where
  "pay_claim bid p a b d =
     (if b_status b = HELD \<and> lapsed (at_now a) b
      then result_bind (transition \<lparr>ti_booking_id = uuid_in bid, ti_to = EXPIRED,
             ti_actor = SYSTEM_ACTOR, ti_reason = ''hold.expired.on_pay'',
             ti_expected_from = Some [HELD], ti_patch = no_patch\<rparr> (at_now a) d) (\<lambda>_.
           Inl (Conflict (HoldExpired bid)))
      else if b_status b \<noteq> HELD \<and> b_status b \<noteq> PENDING_PAYMENT
      then Inl (Conflict (CannotPay bid (b_status b)))
      else
        result_bind (insert_payment
          (new_payment (at_id a) (uuid_in bid) (chargeKey bid) (b_total_minor b) (at_now a)) d) (\<lambda>d1.
        result_bind (or_throw (findPaymentByKey (chargeKey bid) d1) (Conflict PaymentNotRecorded))
          (\<lambda>payment.
        if b_status b = HELD
        then result_bind (transition \<lparr>ti_booking_id = uuid_in bid, ti_to = PENDING_PAYMENT,
               ti_actor = user_actor (pr_user_id p), ti_reason = ''payment.initiated'',
               ti_expected_from = Some [HELD], ti_patch = no_patch\<rparr> (at_now a) d1) (\<lambda>(_, d2).
             Inr ((b, payment, False), d2))
        else Inr ((b, payment, False), d1))))"

definition pay_prepare :: "string \<Rightarrow> principal \<Rightarrow> attempt \<Rightarrow> db \<Rightarrow> exn + (booking \<times> payment \<times> bool) \<times> db" where
  "pay_prepare bid p a d =
     result_bind (loadOwned bid p d) (\<lambda>b.
     case findPaymentByKey (chargeKey bid) d of
       Some existing \<Rightarrow>
         if p_status existing \<noteq> PayPending then Inr ((b, existing, True), d)
         else pay_claim bid p a b d
     | None \<Rightarrow> pay_claim bid p a b d)"

datatype pay_outcome = Accepted | Replayed

record payment_view =
  pv_payment :: payment
  pv_outcome :: pay_outcome

definition presentPayment :: "payment \<Rightarrow> pay_outcome \<Rightarrow> payment_view" where
  "presentPayment p o' = \<lparr>pv_payment = p, pv_outcome = o'\<rparr>"

definition charge_request_of :: "string \<Rightarrow> booking \<Rightarrow> payment \<Rightarrow> charge_request" where
  "charge_request_of bid b p =
     \<lparr>cq_idempotency_key = chargeKey bid, cq_booking_id = bid,
      cq_amount_minor = p_amount_minor p, cq_currency = b_currency b\<rparr>"

text \<open>The statement after the answer: the id is written unless a webhook already has.\<close>

definition pay_record :: "uuid \<Rightarrow> string \<Rightarrow> instant \<Rightarrow> db \<Rightarrow> exn + payment option \<times> db" where
  "pay_record pid cid now d =
     update_payment (\<lambda>p. p_id p = pid \<and> p_charge_id p = None)
       (\<lambda>p. p\<lparr>p_charge_id := Some cid, p_updated_at := now\<rparr>) d"

definition pay :: "nat \<Rightarrow> provider \<Rightarrow> (db \<Rightarrow> db) \<Rightarrow> string \<Rightarrow> principal \<Rightarrow> (nat \<Rightarrow> attempt) \<Rightarrow> instant \<Rightarrow> db
    \<Rightarrow> (exn + payment_view) \<times> db" where
  "pay attempts pv meanwhile bid p att later d =
     (case withTransientRetry attempts
             (\<lambda>k. transaction (attempted (att k) (pay_prepare bid p (att k)))) d of
        (Inl e, d1) \<Rightarrow> (Inl e, d1)
      | (Inr (b, payment, settled), d1) \<Rightarrow>
          if settled then (Inr (presentPayment payment Replayed), d1)
          else
            let d2 = meanwhile d1 in
            case pv_charge pv (charge_request_of bid b payment) of
              Inl e \<Rightarrow> (Inl e, d2)
            | Inr cid \<Rightarrow>
                (case transaction (pay_record (p_id payment) cid later) d2 of
                   (Inl e, d3) \<Rightarrow> (Inl e, d3)
                 | (Inr row, d3) \<Rightarrow>
                     (Inr (presentPayment
                        (case row of Some q \<Rightarrow> q
                         | None \<Rightarrow> (case findPaymentById (p_id payment) d3 of Some q \<Rightarrow> q | None \<Rightarrow> payment))
                        Accepted), d3)))"

section \<open>Recording a delivery\<close>

definition recordDelivery :: "webhook_delivery \<Rightarrow> db \<Rightarrow> exn + uuid option \<times> db" where
  "recordDelivery w d =
     (if wd_delivery_id w \<in> wd_delivery_id ` set (t_webhook_deliveries d) then Inr (None, d)
      else if wd_id w \<in> wd_id ` set (t_webhook_deliveries d)
      then Inl (pg_error ''23505'' ''webhook_deliveries_pkey'')
      else Inr (Some (wd_id w), d\<lparr>t_webhook_deliveries := t_webhook_deliveries d @ [w]\<rparr>))"

datatype ingest_status = IngestAccepted | IngestDuplicate

text \<open>
  \<open>row\<close> is the id of the row, \<open>rnd\<close> the random part of an unsigned delivery's id, \<open>corr\<close> the
  correlation id the request arrived with.
\<close>

definition delivery_row :: "uuid \<Rightarrow> string \<Rightarrow> string option \<Rightarrow> string option \<Rightarrow> string option \<Rightarrow> bool
    \<Rightarrow> string \<Rightarrow> string option \<Rightarrow> instant \<Rightarrow> instant option \<Rightarrow> string option \<Rightarrow> webhook_delivery" where
  "delivery_row row did cid ref ev sig raw corr now processed err =
     \<lparr>wd_id = row, wd_delivery_id = did, wd_charge_id = cid, wd_reference = ref, wd_event = ev,
      wd_signature_valid = sig, wd_raw_body = raw, wd_correlation_id = corr, wd_received_at = now,
      wd_processed_at = processed, wd_error = err\<rparr>"

definition ingest :: "host \<Rightarrow> string option \<Rightarrow> string \<Rightarrow> string option \<Rightarrow> string option \<Rightarrow> string option
    \<Rightarrow> uuid \<Rightarrow> string \<Rightarrow> instant \<Rightarrow> db \<Rightarrow> (exn + uuid option \<times> ingest_status) \<times> db" where
  "ingest h secret raw sig header corr row rnd now d =
     (case secret of
        None \<Rightarrow> (Inl ServiceUnavailable, d)
      | Some sec \<Rightarrow>
          if sec = [] then (Inl ServiceUnavailable, d)
          else
            let did = (case header of Some x \<Rightarrow> x | None \<Rightarrow> ''unsigned-'' @ rnd) in
            if \<not> verifySignature h raw sec sig
            then
              (case transaction (recordDelivery (delivery_row row did None None None False raw corr now
                       (Some now) (Some ''invalid_signature''))) d of
                 (Inl e, d1) \<Rightarrow> (Inl e, d1)
               | (Inr _, d1) \<Rightarrow> (Inl Unauthorized, d1))
            else
              (case h_json_parse h raw of
                 None \<Rightarrow>
                   (case transaction (recordDelivery (delivery_row row did None None None True raw corr now
                            (Some now) (Some ''unparseable_body''))) d of
                      (Inl e, d1) \<Rightarrow> (Inl e, d1)
                    | (Inr _, d1) \<Rightarrow> (Inr (None, IngestAccepted), d1))
               | Some body \<Rightarrow>
                   if body = JNull then (Inl (JsError ''TypeError''), d)
                   else
                   let cid = asString (json_field ''charge_id'' body);
                       ref = asString (json_field ''reference'' body);
                       ev = asString (json_field ''event'' body);
                       odd = (case ev of None \<Rightarrow> False | Some e \<Rightarrow> e \<notin> SUPPORTED_EVENTS) in
                   (case transaction (recordDelivery (delivery_row row did cid ref ev True raw corr now
                            (if odd then Some now else None)
                            (if odd then Some ''unsupported_event'' else None))) d of
                      (Inl e, d1) \<Rightarrow> (Inl e, d1)
                    | (Inr None, d1) \<Rightarrow> (Inr (None, IngestDuplicate), d1)
                    | (Inr (Some rid), d1) \<Rightarrow> (Inr (Some rid, IngestAccepted), d1))))"

section \<open>Policy resolution\<close>

definition newest_policy :: "uuid option \<Rightarrow> db \<Rightarrow> cancellation_policy option" where
  "newest_policy venue d =
     (case sort_key (\<lambda>c. - cp_created_at c)
             (filter (\<lambda>c. cp_venue_id c = venue) (t_cancellation_policies d)) of
        [] \<Rightarrow> None | c # _ \<Rightarrow> Some c)"

definition parsed_tiers :: "cancellation_policy \<Rightarrow> policy_source \<Rightarrow> exn + tier list \<times> uuid \<times> policy_source" where
  "parsed_tiers c src =
     result_bind (or_throw (TiersSchema (cp_tiers c)) (JsError ''ZodError'')) (\<lambda>ts. Inr (ts, cp_id c, src))"

definition resolveTiers :: "uuid option \<Rightarrow> db \<Rightarrow> exn + tier list \<times> uuid \<times> policy_source" where
  "resolveTiers venue d =
     (case (if venue = None then None else newest_policy venue d) of
        Some c \<Rightarrow> parsed_tiers c FromVenue
      | None \<Rightarrow>
          (case newest_policy None d of
             None \<Rightarrow> Inl ServiceUnavailable
           | Some c \<Rightarrow> parsed_tiers c FromPlatform))"

definition resolvePolicySnapshot :: "uuid \<Rightarrow> instant \<Rightarrow> db \<Rightarrow> exn + policy_snapshot" where
  "resolvePolicySnapshot venue now d =
     result_bind (resolveTiers (Some venue) d) (\<lambda>(ts, pid, src).
       Inr \<lparr>ps_tiers = ts, ps_policy_id = pid, ps_resolved_from = src, ps_snapshot_at = toISOString now\<rparr>)"

section \<open>The effects of an event\<close>

record refund_instruction =
  ri_payment_id :: uuid
  ri_charge_id :: string
  ri_booking_id :: uuid
  ri_amount_minor :: int
  ri_idempotency_key :: string
  ri_reason :: string

definition set_payment :: "uuid \<Rightarrow> (payment \<Rightarrow> payment) \<Rightarrow> db \<Rightarrow> exn + db" where
  "set_payment pid f d = result_bind (update_payment (\<lambda>p. p_id p = pid) f d) (\<lambda>(_, d1). Inr d1)"

text \<open>\<open>UPDATE payments SET refund_idempotency_key = ... WHERE id = ... AND refund_idempotency_key IS NULL\<close>\<close>

definition mint_refund_key :: "uuid \<Rightarrow> string \<Rightarrow> instant \<Rightarrow> db \<Rightarrow> exn + db" where
  "mint_refund_key pid k now d =
     result_bind (update_payment (\<lambda>p. p_id p = pid \<and> p_refund_idempotency_key p = None)
       (\<lambda>p. p\<lparr>p_refund_idempotency_key := Some k, p_updated_at := now\<rparr>) d) (\<lambda>(_, d1). Inr d1)"

definition onChargeSucceeded :: "payment \<Rightarrow> string \<Rightarrow> instant \<Rightarrow> db \<Rightarrow> exn + refund_instruction option \<times> db" where
  "onChargeSucceeded p cid now d =
     result_bind (set_payment (p_id p)
       (\<lambda>q. q\<lparr>p_status := PaySucceeded, p_charge_id := Some cid, p_updated_at := now\<rparr>) d) (\<lambda>d1.
     result_bind (lockForUpdate (p_booking_id p) d1) (\<lambda>b.
     if b_status b = PENDING_PAYMENT \<and> \<not> lapsed now b
     then
       result_bind (resolvePolicySnapshot (b_venue_id b) now d1) (\<lambda>snap.
       result_bind (transition \<lparr>ti_booking_id = b_id b, ti_to = CONFIRMED, ti_actor = PAYGATE_ACTOR,
           ti_reason = ''payment.captured'', ti_expected_from = Some [PENDING_PAYMENT],
           ti_patch = no_patch\<lparr>patch_expires_at := Some None,
             patch_policy_snapshot := Some (Some (snapshot_json snap))\<rparr>\<rparr> now d1) (\<lambda>(_, d2).
       Inr (None, d2)))
     else
       result_bind (if b_status b = PENDING_PAYMENT
         then result_bind (transition \<lparr>ti_booking_id = b_id b, ti_to = EXPIRED, ti_actor = SYSTEM_ACTOR,
                ti_reason = ''hold.expired.payment_arrived_late'',
                ti_expected_from = Some [PENDING_PAYMENT], ti_patch = no_patch\<rparr> now d1) (\<lambda>(_, d2). Inr d2)
         else Inr d1) (\<lambda>d2.
       result_bind (mint_refund_key (p_id p) (refundKey cid) now d2) (\<lambda>d3.
       Inr (Some \<lparr>ri_payment_id = p_id p, ri_charge_id = cid, ri_booking_id = b_id b,
              ri_amount_minor = p_amount_minor p, ri_idempotency_key = refundKey cid,
              ri_reason = ''hold_not_confirmable''\<rparr>,
            add_audits [audit (b_id b) SYSTEM_ACTOR (b_status b) (b_status b)
              ''refund.initiated.unconfirmable_hold'' now] d3)))))"

definition onChargeFailed :: "payment \<Rightarrow> instant \<Rightarrow> db \<Rightarrow> exn + db" where
  "onChargeFailed p now d =
     result_bind (set_payment (p_id p) (\<lambda>q. q\<lparr>p_status := PayFailed,
       p_failure_reason := Some ''provider_declined'', p_updated_at := now\<rparr>) d) (\<lambda>d1.
     case find_booking (p_booking_id p) d1 of
       None \<Rightarrow> Inr d1
     | Some b \<Rightarrow>
         if b_status b = PENDING_PAYMENT
         then result_bind (transition \<lparr>ti_booking_id = b_id b, ti_to = FAILED, ti_actor = PAYGATE_ACTOR,
                ti_reason = ''payment.declined'', ti_expected_from = Some [PENDING_PAYMENT],
                ti_patch = no_patch\<rparr> now d1) (\<lambda>(_, d2). Inr d2)
         else Inr d1)"

text \<open>The amount of a refund event: a JSON number, rounded, or the amount of the charge.\<close>

fun refunded_amount :: "json option \<Rightarrow> payment \<Rightarrow> int" where
  "refunded_amount (Some (JNum x)) p = math_round x"
| "refunded_amount _ p = p_amount_minor p"

definition onRefundSucceeded :: "payment \<Rightarrow> string option \<Rightarrow> json option \<Rightarrow> instant \<Rightarrow> db \<Rightarrow> exn + db" where
  "onRefundSucceeded p rid amount now d =
     result_bind (set_payment (p_id p) (\<lambda>q. q\<lparr>p_status := PayRefunded,
       p_refund_id := (if rid = None then p_refund_id p else rid),
       p_refunded_minor := refunded_amount amount p, p_updated_at := now\<rparr>) d) (\<lambda>d1.
     case find_booking (p_booking_id p) d1 of
       None \<Rightarrow> Inr d1
     | Some b \<Rightarrow>
         if b_status b = CANCELLED
         then result_bind (transition \<lparr>ti_booking_id = b_id b, ti_to = REFUNDED, ti_actor = PAYGATE_ACTOR,
                ti_reason = ''refund.settled'', ti_expected_from = Some [CANCELLED],
                ti_patch = no_patch\<rparr> now d1) (\<lambda>(_, d2). Inr d2)
         else Inr (add_audits [audit (b_id b) PAYGATE_ACTOR (b_status b) (b_status b)
                ''refund.settled.terminal_booking'' now] d1))"

section \<open>Applying a delivery\<close>

definition finishDelivery :: "uuid \<Rightarrow> string option \<Rightarrow> instant \<Rightarrow> db \<Rightarrow> db" where
  "finishDelivery row err now d =
     d\<lparr>t_webhook_deliveries := update_where (\<lambda>w. wd_id w = row)
        (\<lambda>w. w\<lparr>wd_processed_at := Some now, wd_error := err\<rparr>) (t_webhook_deliveries d)\<rparr>"

definition adoptChargeByReference :: "string \<Rightarrow> string \<Rightarrow> instant \<Rightarrow> db \<Rightarrow> exn + payment option \<times> db" where
  "adoptChargeByReference ref cid now d =
     (if \<not> isUuid ref then Inr (None, d)
      else
        case List.find (\<lambda>p. p_booking_id p = uuid_in ref \<and> p_idempotency_key p = chargeKey ref)
               (t_payments d) of
          None \<Rightarrow> Inr (None, d)
        | Some row \<Rightarrow>
            if p_charge_id row = None
            then result_bind (update_payment (\<lambda>p. p_id p = p_id row \<and> p_charge_id p = None)
                   (\<lambda>p. p\<lparr>p_charge_id := Some cid, p_updated_at := now\<rparr>) d) (\<lambda>(adopted, d1).
                 Inr (Some (case adopted of Some q \<Rightarrow> q | None \<Rightarrow> row), d1))
            else Inr (if p_charge_id row = Some cid then Some row else None, d))"

definition find_or_adopt :: "string \<Rightarrow> string option \<Rightarrow> instant \<Rightarrow> db \<Rightarrow> exn + payment option \<times> db" where
  "find_or_adopt cid ref now d =
     (case findPaymentByChargeId cid d of
        Some p \<Rightarrow> Inr (Some p, d)
      | None \<Rightarrow> (case ref of None \<Rightarrow> Inr (None, d) | Some r \<Rightarrow> adoptChargeByReference r cid now d))"

definition apply_event :: "string \<Rightarrow> payment \<Rightarrow> string \<Rightarrow> json \<Rightarrow> instant \<Rightarrow> db
    \<Rightarrow> exn + refund_instruction option \<times> db" where
  "apply_event ev p cid body now d =
     (if ev = ''charge.succeeded'' then onChargeSucceeded p cid now d
      else if ev = ''charge.failed'' then result_bind (onChargeFailed p now d) (\<lambda>d1. Inr (None, d1))
      else result_bind (onRefundSucceeded p (asString (json_field ''refund_id'' body))
             (json_field ''amount_minor'' body) now d) (\<lambda>d1. Inr (None, d1)))"

text \<open>The event is claimed, and its effect runs when the claim wrote the row.\<close>

definition apply_claimed :: "uuid \<Rightarrow> string \<Rightarrow> string \<Rightarrow> instant \<Rightarrow> json \<Rightarrow> instant \<Rightarrow> payment \<Rightarrow> db
    \<Rightarrow> exn + refund_instruction option \<times> db" where
  "apply_claimed row cid ev occurred body now p d =
     (case insert_payment_event cid ev occurred now d of
        (False, d1) \<Rightarrow> Inr (None, finishDelivery row (Some ''duplicate_effect'') now d1)
      | (True, d1) \<Rightarrow>
          result_bind (apply_event ev p cid body now d1) (\<lambda>(instr, d2).
            Inr (instr, finishDelivery row None now d2)))"

text \<open>A charge no payment answers to is noted on the delivery, which stays unprocessed.\<close>

definition mark_unknown :: "uuid \<Rightarrow> string \<Rightarrow> string option \<Rightarrow> db \<Rightarrow> db" where
  "mark_unknown row cid ref d =
     d\<lparr>t_webhook_deliveries := update_where (\<lambda>w. wd_id w = row)
        (\<lambda>w. w\<lparr>wd_charge_id := Some cid, wd_reference := ref, wd_error := Some ''unknown_charge''\<rparr>)
        (t_webhook_deliveries d)\<rparr>"

definition apply_supported :: "uuid \<Rightarrow> string \<Rightarrow> string \<Rightarrow> string option \<Rightarrow> instant \<Rightarrow> json \<Rightarrow> instant \<Rightarrow> db
    \<Rightarrow> exn + refund_instruction option \<times> db" where
  "apply_supported row cid ev ref occurred body now d =
     result_bind (find_or_adopt cid ref now d) (\<lambda>(found, d1).
     case found of
       None \<Rightarrow> Inr (None, mark_unknown row cid ref d1)
     | Some p \<Rightarrow> apply_claimed row cid ev occurred body now p d1)"

definition applyInTransaction :: "host \<Rightarrow> uuid \<Rightarrow> instant \<Rightarrow> db \<Rightarrow> exn + refund_instruction option \<times> db" where
  "applyInTransaction h row now d =
     (case List.find (\<lambda>w. wd_id w = row) (t_webhook_deliveries d) of
        None \<Rightarrow> Inr (None, d)
      | Some w \<Rightarrow>
          if wd_processed_at w \<noteq> None then Inr (None, d)
          else
            result_bind (body_of h (wd_raw_body w)) (\<lambda>body.
            let ref = asString (json_field ''reference'' body);
                occurred = (case parseDate h (json_field ''occurred_at'' body) of Some t \<Rightarrow> t | None \<Rightarrow> now) in
            case (asString (json_field ''charge_id'' body), asString (json_field ''event'' body)) of
              (Some cid, Some ev) \<Rightarrow>
                if ev \<notin> SUPPORTED_EVENTS
                then Inr (None, finishDelivery row (Some ''unsupported_event'') now d)
                else apply_supported row cid ev ref occurred body now d
            | _ \<Rightarrow> Inr (None, finishDelivery row (Some ''unsupported_event'') now d)))"

section \<open>Refunds\<close>

definition settleRefund :: "host \<Rightarrow> provider \<Rightarrow> refund_instruction \<Rightarrow> instant \<Rightarrow> db \<Rightarrow> db" where
  "settleRefund h pv i now d =
     (if ri_amount_minor i \<le> 0 then d
      else
        let failed = (\<lambda>e. snd (transaction (update_payment (\<lambda>p. p_id p = ri_payment_id i)
              (\<lambda>p. p\<lparr>p_failure_reason := Some (''refund rejected: '' @ h_message h e), p_updated_at := now\<rparr>)) d)) in
        case pv_refund pv \<lparr>rq_idempotency_key = ri_idempotency_key i, rq_charge_id = ri_charge_id i,
               rq_amount_minor = ri_amount_minor i, rq_reason = ri_reason i\<rparr> of
          Inl e \<Rightarrow> failed e
        | Inr rid \<Rightarrow>
            (case transaction (update_payment (\<lambda>p. p_id p = ri_payment_id i \<and> p_refund_id p = None)
                    (\<lambda>p. p\<lparr>p_refund_id := Some rid, p_updated_at := now\<rparr>)) d of
               (Inl e, d1) \<Rightarrow> failed e
             | (Inr _, d1) \<Rightarrow> d1))"

definition applyDelivery :: "host \<Rightarrow> provider \<Rightarrow> nat \<Rightarrow> (nat \<Rightarrow> attempt) \<Rightarrow> uuid \<Rightarrow> instant \<Rightarrow> db
    \<Rightarrow> (exn + unit) \<times> db" where
  "applyDelivery h pv attempts att row later d =
     (case withTransientRetry attempts
             (\<lambda>k. transaction (attempted (att k) (applyInTransaction h row (at_now (att k))))) d of
        (Inl e, d1) \<Rightarrow> (Inl e, d1)
      | (Inr None, d1) \<Rightarrow> (Inr (), d1)
      | (Inr (Some i), d1) \<Rightarrow> (Inr (), settleRefund h pv i later d1))"

definition cancellation_body :: "uuid \<Rightarrow> instant \<Rightarrow> db
    \<Rightarrow> exn + (refund_instruction \<times> refund_breakdown) option \<times> db" where
  "cancellation_body bid now d =
     (case find_booking bid d of
        None \<Rightarrow> Inr (None, d)
      | Some b \<Rightarrow>
          (case findCapturedPayment bid d of
             None \<Rightarrow> Inr (None, d)
           | Some p \<Rightarrow>
               (case p_charge_id p of
                  None \<Rightarrow> Inr (None, d)
                | Some cid \<Rightarrow>
                    if p_status p = PayRefunded \<or> p_refund_idempotency_key p \<noteq> None then Inr (None, d)
                    else
                      (case Option.bind (b_policy_snapshot b) parseSnapshot of
                         None \<Rightarrow> Inr (None, d)
                       | Some snap \<Rightarrow>
                           let (room, equip) = splitTotals b
                                 (filter (\<lambda>li. li_booking_id li = b_id b) (t_booking_line_items d)) in
                           result_bind (computeRefund room equip (ps_tiers snap) (b_starts_at b) now) (\<lambda>rb.
                           result_bind (mint_refund_key (p_id p) (refundKey cid) now d) (\<lambda>d1.
                           Inr (Some (\<lparr>ri_payment_id = p_id p, ri_charge_id = cid, ri_booking_id = bid,
                                  ri_amount_minor = rb_total_refund_minor rb,
                                  ri_idempotency_key = refundKey cid, ri_reason = ''cancellation''\<rparr>, rb),
                                add_audits [audit bid SYSTEM_ACTOR (b_status b) (b_status b)
                                  ''refund.initiated.cancellation'' now] d1)))))))"

definition settleCancellation :: "host \<Rightarrow> provider \<Rightarrow> nat \<Rightarrow> (nat \<Rightarrow> attempt) \<Rightarrow> uuid \<Rightarrow> instant \<Rightarrow> db
    \<Rightarrow> (exn + refund_breakdown option) \<times> db" where
  "settleCancellation h pv attempts att bid later d =
     (case withTransientRetry attempts
             (\<lambda>k. transaction (attempted (att k) (cancellation_body bid (at_now (att k))))) d of
        (Inl e, d1) \<Rightarrow> (Inl e, d1)
      | (Inr None, d1) \<Rightarrow> (Inr None, d1)
      | (Inr (Some (i, rb)), d1) \<Rightarrow> (Inr (Some rb), settleRefund h pv i later d1))"

section \<open>The polls\<close>

text \<open>
  The rows a poll looks at, in table order: the statement has a LIMIT and no ORDER BY. An exception
  of one row is caught and logged, and the loop goes on with the next.
\<close>

definition stale_charges :: "int \<Rightarrow> nat \<Rightarrow> instant \<Rightarrow> db \<Rightarrow> payment list" where
  "stale_charges older batch now d =
     take batch (filter (\<lambda>p. p_status p = PayPending \<and> p_charge_id p \<noteq> None
       \<and> p_created_at p < now - older * 1000) (t_payments d))"

definition unknown_charge_reason :: string where
  "unknown_charge_reason =
     ''provider does not recognise this charge id. It was issued by the provider, so this is unexplained rather than absent -- reconciliation reports it as charge_accepted_not_settled.''"

definition charge_poll_body :: "payment \<Rightarrow> string \<Rightarrow> bool \<Rightarrow> instant \<Rightarrow> db
    \<Rightarrow> exn + (bool \<times> refund_instruction option) \<times> db" where
  "charge_poll_body p cid succeeded now d =
     (case insert_payment_event cid (if succeeded then ''charge.succeeded'' else ''charge.failed'') now now d of
        (False, d1) \<Rightarrow> Inr ((False, None), d1)
      | (True, d1) \<Rightarrow>
          if \<not> succeeded then result_bind (onChargeFailed p now d1) (\<lambda>d2. Inr ((True, None), d2))
          else result_bind (onChargeSucceeded p cid now d1) (\<lambda>(i, d2). Inr ((True, i), d2)))"

definition poll_charge :: "host \<Rightarrow> provider \<Rightarrow> nat \<Rightarrow> (nat \<Rightarrow> attempt) \<Rightarrow> instant \<Rightarrow> payment \<Rightarrow> db \<Rightarrow> nat \<times> db" where
  "poll_charge h pv attempts att now p d =
     (case p_charge_id p of
        None \<Rightarrow> (0, d)
      | Some cid \<Rightarrow>
          (case pv_get_charge pv cid of
             Inl e \<Rightarrow> (0, d)
           | Inr None \<Rightarrow>
               (0, snd (transaction (update_payment (\<lambda>q. p_id q = p_id p)
                  (\<lambda>q. q\<lparr>p_failure_reason := Some unknown_charge_reason, p_updated_at := now\<rparr>)) d))
           | Inr (Some st) \<Rightarrow>
               if cs_status st = ChargeProcessing then (0, d)
               else
                 (case withTransientRetry attempts (\<lambda>k. transaction (attempted (att k)
                         (charge_poll_body p cid (cs_status st = ChargeSucceeded) (at_now (att k))))) d of
                    (Inl e, d1) \<Rightarrow> (0, d1)
                  | (Inr (False, _), d1) \<Rightarrow> (0, d1)
                  | (Inr (True, None), d1) \<Rightarrow> (1, d1)
                  | (Inr (True, Some i), d1) \<Rightarrow> (1, settleRefund h pv i now d1))))"

fun poll_all :: "(payment \<Rightarrow> db \<Rightarrow> nat \<times> db) \<Rightarrow> payment list \<Rightarrow> db \<Rightarrow> nat \<times> db" where
  "poll_all step [] d = (0, d)"
| "poll_all step (p # ps) d =
     (let (n, d1) = step p d; (m, d2) = poll_all step ps d1 in (n + m, d2))"

definition settleAcceptedCharges :: "host \<Rightarrow> provider \<Rightarrow> nat \<Rightarrow> (nat \<Rightarrow> attempt) \<Rightarrow> int \<Rightarrow> nat \<Rightarrow> instant \<Rightarrow> db
    \<Rightarrow> nat \<times> db" where
  "settleAcceptedCharges h pv attempts att older batch now d =
     poll_all (poll_charge h pv attempts att now) (stale_charges older batch now d) d"

definition stale_refunds :: "int \<Rightarrow> nat \<Rightarrow> instant \<Rightarrow> db \<Rightarrow> payment list" where
  "stale_refunds older batch now d =
     take batch (filter (\<lambda>p. p_refund_id p \<noteq> None \<and> p_status p \<noteq> PayRefunded
       \<and> p_updated_at p < now - older * 1000) (t_payments d))"

definition refund_poll_body :: "payment \<Rightarrow> string \<Rightarrow> refund_state \<Rightarrow> instant \<Rightarrow> db \<Rightarrow> exn + bool \<times> db" where
  "refund_poll_body p cid st now d =
     (case insert_payment_event cid ''refund.succeeded'' now now d of
        (False, d1) \<Rightarrow> Inr (False, d1)
      | (True, d1) \<Rightarrow>
          result_bind (onRefundSucceeded p (rs_refund_id st)
            (Some (JNum (js_of_int (rs_amount_minor st)))) now d1) (\<lambda>d2. Inr (True, d2)))"

definition poll_refund :: "provider \<Rightarrow> nat \<Rightarrow> (nat \<Rightarrow> attempt) \<Rightarrow> payment \<Rightarrow> db \<Rightarrow> nat \<times> db" where
  "poll_refund pv attempts att p d =
     (case (p_refund_id p, p_charge_id p) of
        (Some rid, Some cid) \<Rightarrow>
          (case pv_get_refund pv rid of
             Inl e \<Rightarrow> (0, d)
           | Inr None \<Rightarrow> (0, d)
           | Inr (Some st) \<Rightarrow>
               if rs_status st \<noteq> RefundSucceeded then (0, d)
               else
                 (case withTransientRetry attempts (\<lambda>k. transaction (attempted (att k)
                         (refund_poll_body p cid st (at_now (att k))))) d of
                    (Inl e, d1) \<Rightarrow> (0, d1)
                  | (Inr False, d1) \<Rightarrow> (0, d1)
                  | (Inr True, d1) \<Rightarrow> (1, d1)))
      | _ \<Rightarrow> (0, d))"

definition settleAcceptedRefunds :: "provider \<Rightarrow> nat \<Rightarrow> (nat \<Rightarrow> attempt) \<Rightarrow> int \<Rightarrow> nat \<Rightarrow> instant \<Rightarrow> db
    \<Rightarrow> nat \<times> db" where
  "settleAcceptedRefunds pv attempts att older batch now d =
     poll_all (poll_refund pv attempts att) (stale_refunds older batch now d) d"

end
