(* ===== verification/PaymentSteps.thy ===== *)
theory PaymentSteps
  imports Payments
begin

text \<open>
  The steps every handler of \<open>Payments\<close> and \<open>Bookings\<close> is composed of, on bookings, audit rows,
  payments and applied events together. Each handler is shown to be a sequence of them once; what
  the steps keep, every handler keeps.
\<close>

section \<open>A claim that is won once\<close>

text \<open>
  The contract of an insert on a unique key with ON CONFLICT DO NOTHING: it reports whether it
  wrote the row, and the key is taken from then on.
\<close>

locale claim_gate =
  fixes claim :: "'k \<Rightarrow> 's \<Rightarrow> bool \<times> 's" and claimed :: "'s \<Rightarrow> 'k set"
  assumes won_iff: "fst (claim k s) \<longleftrightarrow> k \<notin> claimed s"
    and marks: "claimed (snd (claim k s)) = insert k (claimed s)"
begin

lemma never_won_again:
  assumes "claimed (snd (claim k s)) \<subseteq> claimed t"
  shows "\<not> fst (claim k t)"
  using assms marks won_iff by blast

lemma won_by_first: "fst (claim k s) \<Longrightarrow> j \<noteq> k \<Longrightarrow> fst (claim j (snd (claim k s))) \<longleftrightarrow> fst (claim j s)"
  using marks won_iff by blast

end

definition applied_events :: "db \<Rightarrow> (string \<times> string) set" where
  "applied_events d = (\<lambda>e. (pe_charge_id e, pe_event e)) ` set (t_payment_events d)"

interpretation event_gate: claim_gate "\<lambda>(cid, ev) d. insert_payment_event cid ev t now d" applied_events
  for t now
  by unfold_locales (auto simp: insert_payment_event_def applied_events_def split: prod.splits)

definition claim_delivery :: "webhook_delivery \<Rightarrow> string \<Rightarrow> db \<Rightarrow> bool \<times> db" where
  "claim_delivery w did d =
     (if did \<in> wd_delivery_id ` set (t_webhook_deliveries d) then (False, d)
      else (True, d\<lparr>t_webhook_deliveries := t_webhook_deliveries d @ [w\<lparr>wd_delivery_id := did\<rparr>]\<rparr>))"

interpretation delivery_gate: claim_gate "claim_delivery w"
    "\<lambda>d. wd_delivery_id ` set (t_webhook_deliveries d)" for w
  by unfold_locales (auto simp: claim_delivery_def)

lemma recordDelivery_claims:
  assumes "wd_id w \<notin> wd_id ` set (t_webhook_deliveries d)"
  shows "recordDelivery w d = (case claim_delivery w (wd_delivery_id w) d of
     (won, d1) \<Rightarrow> Inr (if won then Some (wd_id w) else None, d1))"
  using assms by (simp add: recordDelivery_def claim_delivery_def)

section \<open>Statements on payments\<close>

text \<open>
  What every UPDATE of the service leaves alone in the rows it selects: the identity of the payment,
  its key and its amount, and a refund key that has been minted.
\<close>

definition same_payment :: "payment \<Rightarrow> payment \<Rightarrow> bool" where
  "same_payment p q \<longleftrightarrow> p_id q = p_id p \<and> p_booking_id q = p_booking_id p
     \<and> p_idempotency_key q = p_idempotency_key p \<and> p_amount_minor q = p_amount_minor p
     \<and> (p_refund_idempotency_key p \<noteq> None \<longrightarrow> p_refund_idempotency_key q = p_refund_idempotency_key p)"

lemma same_payment_refl [simp]: "same_payment p p"
  by (simp add: same_payment_def)

lemma same_payment_trans: "same_payment p q \<Longrightarrow> same_payment q r \<Longrightarrow> same_payment p r"
  by (auto simp: same_payment_def)

definition keeps_identity :: "(payment \<Rightarrow> bool) \<Rightarrow> (payment \<Rightarrow> payment) \<Rightarrow> bool" where
  "keeps_identity w f \<longleftrightarrow> (\<forall>q. w q \<longrightarrow> same_payment q (f q))"

lemma update_payment_eq_Inr:
  "update_payment p f d = Inr (r, d') \<longleftrightarrow>
     (case List.find p (t_payments d) of
        None \<Rightarrow> r = None \<and> d' = d
      | Some q \<Rightarrow> in_bigint (p_refunded_minor (f q))
          \<and> \<not> list_ex (payment_clash (f q)) (filter (\<lambda>x. p_id x \<noteq> p_id q) (t_payments d))
          \<and> r = Some (f q)
          \<and> d' = d\<lparr>t_payments := update_where (\<lambda>x. p_id x = p_id q) (\<lambda>_. f q) (t_payments d)\<rparr>)"
  by (auto simp: update_payment_def split: option.splits)

lemma update_payment_frame:
  assumes "update_payment p f d = Inr (r, d')"
  shows "t_bookings d' = t_bookings d" "t_audit_events d' = t_audit_events d"
    "t_payment_events d' = t_payment_events d" "t_webhook_deliveries d' = t_webhook_deliveries d"
    "t_booking_line_items d' = t_booking_line_items d"
    "t_cancellation_policies d' = t_cancellation_policies d"
    "t_equipment_types d' = t_equipment_types d"
  using assms by (auto simp: update_payment_eq_Inr split: option.splits)

lemma insert_payment_frame:
  assumes "insert_payment p d = Inr d'"
  shows "t_bookings d' = t_bookings d" "t_audit_events d' = t_audit_events d"
    "t_payment_events d' = t_payment_events d" "t_webhook_deliveries d' = t_webhook_deliveries d"
    "t_cancellation_policies d' = t_cancellation_policies d"
  using assms by (auto simp: insert_payment_def split: if_splits)

lemma insert_payment_event_frame:
  "t_bookings (snd (insert_payment_event cid ev t now d)) = t_bookings d"
  "t_audit_events (snd (insert_payment_event cid ev t now d)) = t_audit_events d"
  "t_payments (snd (insert_payment_event cid ev t now d)) = t_payments d"
  "t_webhook_deliveries (snd (insert_payment_event cid ev t now d)) = t_webhook_deliveries d"
  by (simp_all add: insert_payment_event_def)

section \<open>Service steps\<close>

definition fresh_payment :: "payment \<Rightarrow> bool" where
  "fresh_payment p \<longleftrightarrow> p_charge_id p = None \<and> p_refund_id p = None
     \<and> p_refund_idempotency_key p = None \<and> p_status p = PayPending \<and> p_refunded_minor p = 0"

inductive svc_step :: "db \<Rightarrow> db \<Rightarrow> bool" where
  on_booking: "sm_steps d d' \<Longrightarrow> t_payments d' = t_payments d
    \<Longrightarrow> t_payment_events d' = t_payment_events d \<Longrightarrow> svc_step d d'"
| on_payment: "update_payment q f d = Inr (r, d') \<Longrightarrow> keeps_identity q f \<Longrightarrow> svc_step d d'"
| new_payment: "insert_payment p d = Inr d' \<Longrightarrow> fresh_payment p \<Longrightarrow> svc_step d d'"
| new_event: "svc_step d (snd (insert_payment_event cid ev t now d))"

abbreviation svc_steps :: "db \<Rightarrow> db \<Rightarrow> bool" where
  "svc_steps \<equiv> svc_step\<^sup>*\<^sup>*"

lemma svc_stepsI: "svc_step d d' \<Longrightarrow> svc_steps d d'"
  by (rule r_into_rtranclp)

lemma svc_steps_trans: "svc_steps d d1 \<Longrightarrow> svc_steps d1 d2 \<Longrightarrow> svc_steps d d2"
  by (rule rtranclp_trans)

lemma svc_step_sm: "svc_step d d' \<Longrightarrow> sm_steps d d'"
  by (induction rule: svc_step.induct)
    (auto intro: sm_steps_other
       simp: update_payment_frame insert_payment_frame insert_payment_event_frame)

lemma svc_steps_sm: "svc_steps d d' \<Longrightarrow> sm_steps d d'"
  by (induction rule: rtranclp_induct) (auto intro: sm_steps_trans svc_step_sm)

lemma sm_frame_transition:
  assumes "transition i now d = Inr (b, d')"
  shows "t_payments d' = t_payments d" "t_payment_events d' = t_payment_events d"
    "t_webhook_deliveries d' = t_webhook_deliveries d"
    "t_cancellation_policies d' = t_cancellation_policies d"
    "b_id ` set (t_bookings d') = b_id ` set (t_bookings d)"
proof -
  obtain b0 where b0: "find_booking (ti_booking_id i) d = Some b0" "b = moved i now b0"
    "d' = booking_written b (audit (ti_booking_id i) (ti_actor i) (b_status b0) (ti_to i) (ti_reason i) now) d"
    using assms unfolding transition_eq_Inr by auto
  show "t_payments d' = t_payments d" "t_payment_events d' = t_payment_events d"
    "t_webhook_deliveries d' = t_webhook_deliveries d"
    "t_cancellation_policies d' = t_cancellation_policies d"
    by (simp_all add: b0(3))
  have "map b_id (update_where (\<lambda>c. b_id c = b_id b) (\<lambda>_. b) (t_bookings d)) = map b_id (t_bookings d)"
    by (rule map_key_update_where) simp
  then show "b_id ` set (t_bookings d') = b_id ` set (t_bookings d)"
    by (simp add: b0(3) flip: set_map)
qed

lemma svc_transition: "transition i now d = Inr (b, d') \<Longrightarrow> svc_steps d d'"
  by (rule svc_stepsI, rule svc_step.on_booking) (auto intro: sm_steps_stepI sm_step.moved simp: sm_frame_transition)

lemma svc_evidence:
  "bid \<in> b_id ` set (t_bookings d) \<Longrightarrow> svc_steps d (add_audits [audit bid who s s why now] d)"
  by (rule svc_stepsI, rule svc_step.on_booking) (auto intro: sm_steps_stepI sm_step.evidence)

lemma svc_other:
  assumes "t_bookings d' = t_bookings d" "t_audit_events d' = t_audit_events d"
    "t_payments d' = t_payments d" "t_payment_events d' = t_payment_events d"
  shows "svc_steps d d'"
  using assms by (intro svc_stepsI svc_step.on_booking sm_steps_other)

lemma svc_update: "update_payment q f d = Inr (r, d') \<Longrightarrow> keeps_identity q f \<Longrightarrow> svc_steps d d'"
  by (rule svc_stepsI) (rule svc_step.on_payment)

section \<open>What the steps keep\<close>

text \<open>The contract of a property of payments and applied events.\<close>

locale payment_property =
  fixes holds :: "db \<Rightarrow> bool"
  assumes keep_update: "holds d \<Longrightarrow> keeps_identity q f \<Longrightarrow> update_payment q f d = Inr (r, d') \<Longrightarrow> holds d'"
    and keep_insert: "holds d \<Longrightarrow> fresh_payment p \<Longrightarrow> insert_payment p d = Inr d' \<Longrightarrow> holds d'"
    and keep_event: "holds d \<Longrightarrow> holds (snd (insert_payment_event cid ev t now d))"
    and keep_rest: "holds d \<Longrightarrow> t_payments d' = t_payments d \<Longrightarrow> t_payment_events d' = t_payment_events d
      \<Longrightarrow> holds d'"
begin

lemma svc_step_keeps: "svc_step d d' \<Longrightarrow> holds d \<Longrightarrow> holds d'"
  by (induction rule: svc_step.induct) (auto intro: keep_update keep_insert keep_event keep_rest)

lemma svc_steps_keep: "svc_steps d d' \<Longrightarrow> holds d \<Longrightarrow> holds d'"
  by (induction rule: rtranclp_induct) (auto intro: svc_step_keeps)

end

definition payments_inv :: "db \<Rightarrow> bool" where
  "payments_inv d \<longleftrightarrow> payments_consistent (t_payments d)
     \<and> (\<forall>p \<in> set (t_payments d). in_bigint (p_refunded_minor p))"

lemma payments_inv_update:
  assumes "payments_inv d" and "keeps_identity q f" and "update_payment q f d = Inr (r, d')"
  shows "payments_inv d'"
proof (cases "List.find q (t_payments d)")
  case (Some x)
  then have "p_id (f x) = p_id x"
    using assms(2) find_SomeD [OF Some] by (simp add: keeps_identity_def same_payment_def)
  then show ?thesis using assms Some
    by (auto simp: payments_inv_def update_payment_eq_Inr set_update_where intro: payments_consistent_update)
qed (use assms in \<open>simp add: update_payment_eq_Inr\<close>)

lemma payments_inv_insert:
  assumes "payments_inv d" and "fresh_payment p" and "insert_payment p d = Inr d'"
  shows "payments_inv d'"
proof (cases "findPaymentByKey (p_idempotency_key p) d")
  case None
  have key: "p_idempotency_key q \<noteq> p_idempotency_key p" if "q \<in> set (t_payments d)" for q
    using find_NoneD [OF None [unfolded findPaymentByKey_def] that] .
  have d': "p_id p \<notin> p_id ` set (t_payments d)" "t_payments d' = t_payments d @ [p]"
    using assms(3) None by (auto simp: insert_payment_def split: if_splits)
  have "\<not> payment_clash p q" if "q \<in> set (t_payments d)" for q
    using key [OF that] d'(1) that assms(2) by (auto simp: payment_clash_def fresh_payment_def)
  then show ?thesis using assms(1,2) d' payment_clash_sym
    unfolding payments_inv_def payments_consistent_def
    by (auto simp: rev_image_eqI fresh_payment_def in_bigint_def)
qed (use assms in \<open>simp add: insert_payment_def\<close>)

interpretation payments_kept: payment_property payments_inv
proof (unfold_locales, goal_cases)
  case 1 then show ?case by (rule payments_inv_update)
next
  case 2 then show ?case by (rule payments_inv_insert)
qed (simp_all add: payments_inv_def insert_payment_event_frame)

text \<open>An applied event stays applied.\<close>

definition has_applied :: "(string \<times> string) set \<Rightarrow> db \<Rightarrow> bool" where
  "has_applied es d \<longleftrightarrow> es \<subseteq> applied_events d"

interpretation applied_kept: payment_property "has_applied es" for es
proof (unfold_locales, goal_cases)
  case (1 d f q r d')
  then show ?case using update_payment_frame(3) [OF 1(3)] by (simp add: has_applied_def applied_events_def)
next
  case (2 d p d')
  then show ?case using insert_payment_frame(3) [OF 2(3)] by (simp add: has_applied_def applied_events_def)
next
  case (3 d cid ev t now)
  then show ?case by (auto simp: has_applied_def applied_events_def insert_payment_event_def)
qed (simp add: has_applied_def applied_events_def)

text \<open>A payment row is never deleted, and keeps its booking, its key and its amount.\<close>

definition has_unique_payment :: "payment \<Rightarrow> db \<Rightarrow> bool" where
  "has_unique_payment p d \<longleftrightarrow> payments_inv d \<and> (\<exists>q \<in> set (t_payments d). same_payment p q)"

lemma has_unique_payment_update:
  assumes "has_unique_payment p d" and "keeps_identity q f" and "update_payment q f d = Inr (r, d')"
  shows "has_unique_payment p d'"
proof -
  obtain x where x: "x \<in> set (t_payments d)" "same_payment p x"
    using assms(1) by (auto simp: has_unique_payment_def)
  have "\<exists>y \<in> set (t_payments d'). same_payment p y"
  proof (cases "List.find q (t_payments d)")
    case None
    then show ?thesis using assms(3) x by (auto simp: update_payment_eq_Inr)
  next
    case (Some z)
    then have z: "z \<in> set (t_payments d)" "q z" by (auto dest: find_SomeD)
    have d': "t_payments d' = update_where (\<lambda>x. p_id x = p_id z) (\<lambda>_. f z) (t_payments d)"
      using assms(3) Some by (simp add: update_payment_eq_Inr)
    show ?thesis
    proof (cases "p_id x = p_id z")
      case True
      then have "x = z"
        using assms(1) x z
        by (auto simp: has_unique_payment_def payments_inv_def payments_consistent_def
            dest: distinct_map_eqD)
      then have "same_payment p (f z)" using x z assms(2) by (auto simp: keeps_identity_def intro: same_payment_trans)
      then show ?thesis using z by (auto simp: d' set_update_where)
    next
      case False
      then show ?thesis using x by (auto simp: d' set_update_where)
    qed
  qed
  then show ?thesis
    using assms payments_inv_update by (auto simp: has_unique_payment_def)
qed

lemma has_unique_payment_insert:
  assumes "has_unique_payment p d" and "fresh_payment q" and "insert_payment q d = Inr d'"
  shows "has_unique_payment p d'"
proof -
  have "set (t_payments d) \<subseteq> set (t_payments d')"
    using assms(3) by (auto simp: insert_payment_def split: if_splits)
  then show ?thesis using assms payments_inv_insert by (auto simp: has_unique_payment_def)
qed

interpretation payment_rows: payment_property "has_unique_payment p" for p
proof (unfold_locales, goal_cases)
  case 1 then show ?case by (rule has_unique_payment_update)
next
  case 2 then show ?case by (rule has_unique_payment_insert)
qed (simp_all add: has_unique_payment_def payments_inv_def insert_payment_event_frame)

section \<open>The handlers as steps\<close>

lemma set_payment_steps:
  assumes "set_payment pid f d = Inr d'" and "keeps_identity (\<lambda>p. p_id p = pid) f"
  shows "svc_steps d d'" "t_bookings d' = t_bookings d"
    "t_cancellation_policies d' = t_cancellation_policies d" "t_audit_events d' = t_audit_events d"
    "t_payment_events d' = t_payment_events d" "t_booking_line_items d' = t_booking_line_items d"
    "t_webhook_deliveries d' = t_webhook_deliveries d"
  using assms by (auto simp: set_payment_def tx_simps split: prod.splits
      intro: svc_update dest: update_payment_frame)

lemma mint_refund_key_steps:
  assumes "mint_refund_key pid k now d = Inr d'"
  shows "svc_steps d d'" "t_bookings d' = t_bookings d" "t_audit_events d' = t_audit_events d"
proof -
  obtain r where r: "update_payment (\<lambda>p. p_id p = pid \<and> p_refund_idempotency_key p = None)
       (\<lambda>p. p\<lparr>p_refund_idempotency_key := Some k, p_updated_at := now\<rparr>) d = Inr (r, d')"
    using assms by (auto simp: mint_refund_key_def tx_simps split: prod.splits)
  show "svc_steps d d'" using r by (rule svc_update) (simp add: keeps_identity_def same_payment_def)
  show "t_bookings d' = t_bookings d" "t_audit_events d' = t_audit_events d"
    using update_payment_frame [OF r] by simp_all
qed

lemma keeps_identity_simps [simp]:
  "keeps_identity w (\<lambda>q. q\<lparr>p_status := s, p_charge_id := c, p_updated_at := now\<rparr>)"
  "keeps_identity w (\<lambda>q. q\<lparr>p_status := s, p_failure_reason := fr, p_updated_at := now\<rparr>)"
  "keeps_identity w (\<lambda>q. q\<lparr>p_status := s, p_refund_id := ri, p_refunded_minor := n, p_updated_at := now\<rparr>)"
  "keeps_identity w (\<lambda>p. p\<lparr>p_charge_id := c, p_updated_at := now\<rparr>)"
  "keeps_identity w (\<lambda>p. p\<lparr>p_refund_id := ri, p_updated_at := now\<rparr>)"
  "keeps_identity w (\<lambda>p. p\<lparr>p_failure_reason := fr, p_updated_at := now\<rparr>)"
  by (simp_all add: keeps_identity_def same_payment_def)

lemma onChargeSucceeded_steps:
  assumes "onChargeSucceeded p cid now d = Inr (i, d')"
  shows "svc_steps d d'"
proof -
  obtain d1 b where s1: "set_payment (p_id p)
       (\<lambda>q. q\<lparr>p_status := PaySucceeded, p_charge_id := Some cid, p_updated_at := now\<rparr>) d = Inr d1"
    "find_booking (p_booking_id p) d1 = Some b"
    using assms by (auto simp: onChargeSucceeded_def tx_simps lockForUpdate_def)
  then have st: "svc_steps d d1" by (auto intro: set_payment_steps(1))
  have mem: "b_id b \<in> b_id ` set (t_bookings d1)" using s1(2) by (auto dest: find_booking_SomeD)
  show ?thesis
  proof (cases "b_status b = PENDING_PAYMENT \<and> \<not> lapsed now b")
    case True
    then obtain j c where "transition j now d1 = Inr (c, d')"
      using assms s1 by (auto simp: onChargeSucceeded_def tx_simps lockForUpdate_def split: prod.splits)
    then show ?thesis using st by (blast intro: svc_steps_trans svc_transition)
  next
    case False
    then obtain d2 d3 where s2: "(if b_status b = PENDING_PAYMENT
         then result_bind (transition \<lparr>ti_booking_id = b_id b, ti_to = EXPIRED, ti_actor = SYSTEM_ACTOR,
                ti_reason = ''hold.expired.payment_arrived_late'',
                ti_expected_from = Some [PENDING_PAYMENT], ti_patch = no_patch\<rparr> now d1) (\<lambda>(_, d2). Inr d2)
         else Inr d1) = Inr d2" "mint_refund_key (p_id p) (refundKey cid) now d2 = Inr d3"
      "d' = add_audits [audit (b_id b) SYSTEM_ACTOR (b_status b) (b_status b)
              ''refund.initiated.unconfirmable_hold'' now] d3"
      using assms s1 unfolding onChargeSucceeded_def
      by (simp add: lockForUpdate_def del: split_paired_Ex) (auto simp: tx_simps)
    have "svc_steps d1 d2 \<and> b_id ` set (t_bookings d2) = b_id ` set (t_bookings d1)"
    proof (cases "b_status b = PENDING_PAYMENT")
      case True
      then obtain j c where "transition j now d1 = Inr (c, d2)"
        using s2(1) by (auto simp: tx_simps)
      then show ?thesis using svc_transition sm_frame_transition(5) by blast
    qed (use s2(1) in simp)
    moreover have "svc_steps d2 d3" "t_bookings d3 = t_bookings d2"
      using mint_refund_key_steps [OF s2(2)] by simp_all
    moreover have "svc_steps d3 d'"
      unfolding s2(3) using calculation mem by (intro svc_evidence) simp
    ultimately show ?thesis using st by (meson svc_steps_trans)
  qed
qed

lemma onChargeFailed_steps:
  assumes "onChargeFailed p now d = Inr d'"
  shows "svc_steps d d'"
proof -
  obtain d1 where s: "set_payment (p_id p) (\<lambda>q. q\<lparr>p_status := PayFailed,
       p_failure_reason := Some ''provider_declined'', p_updated_at := now\<rparr>) d = Inr d1"
    using assms by (auto simp: onChargeFailed_def tx_simps)
  then have "svc_steps d d1" by (rule set_payment_steps(1)) simp
  moreover have "svc_steps d1 d'"
    using assms s by (auto simp: onChargeFailed_def tx_simps split: option.splits if_splits prod.splits
        intro: svc_transition)
  ultimately show ?thesis by (rule svc_steps_trans)
qed

lemma onRefundSucceeded_steps:
  assumes "onRefundSucceeded p rid amount now d = Inr d'"
  shows "svc_steps d d'"
proof -
  obtain d1 where s: "set_payment (p_id p) (\<lambda>q. q\<lparr>p_status := PayRefunded,
       p_refund_id := (if rid = None then p_refund_id p else rid),
       p_refunded_minor := refunded_amount amount p, p_updated_at := now\<rparr>) d = Inr d1"
    using assms by (auto simp: onRefundSucceeded_def tx_simps)
  then have "svc_steps d d1" by (rule set_payment_steps(1)) simp
  moreover have "svc_steps d1 d'"
    using assms s by (auto simp: onRefundSucceeded_def tx_simps split: option.splits if_splits prod.splits
        intro: svc_transition svc_evidence dest: find_booking_SomeD)
  ultimately show ?thesis by (rule svc_steps_trans)
qed


text \<open>What every attempt keeps when it returns, the retried transaction keeps whatever it does.\<close>

lemma retried_keeps:
  assumes "P s" and "\<And>k a s'. body k s = Inr (a, s') \<Longrightarrow> P s'"
  shows "P (snd (withTransientRetry n (\<lambda>k. transaction (body k)) s))"
proof (cases n)
  case (Suc m)
  obtain r s' where w: "withTransientRetry n (\<lambda>k. transaction (body k)) s = (r, s')" by force
  then obtain k where k: "transaction (body k) s = (r, s')"
    using withTransientRetry_cases [of n body s r s'] Suc by blast
  have "P (snd (transaction (body k) s))" by (rule transaction_keeps) (use assms in auto)
  then show ?thesis by (simp add: w k)
qed (use assms in \<open>simp add: withTransientRetry_def\<close>)

lemma pay_claim_steps:
  assumes "pay_claim bid p a b d = Inr (r, d')"
  shows "svc_steps d d'"
proof -
  obtain d1 where d1: "insert_payment (new_payment (at_id a) (uuid_in bid) (chargeKey bid)
      (b_total_minor b) (at_now a)) d = Inr d1"
    using assms by (auto simp: pay_claim_def tx_simps split: if_splits)
  then have "svc_steps d d1"
    by (intro svc_stepsI svc_step.new_payment) (auto simp: fresh_payment_def new_payment_def)
  moreover have "svc_steps d1 d'"
    using assms d1 by (auto simp: pay_claim_def tx_simps split: if_splits prod.splits intro: svc_transition)
  ultimately show ?thesis by (rule svc_steps_trans)
qed

lemma pay_prepare_steps: "pay_prepare bid p a d = Inr (r, d') \<Longrightarrow> svc_steps d d'"
  by (auto simp: pay_prepare_def tx_simps split: option.splits if_splits intro: pay_claim_steps)

lemma pay_record_steps: "pay_record pid cid now d = Inr (r, d') \<Longrightarrow> svc_steps d d'"
  by (auto simp: pay_record_def intro: svc_update)

lemma pay_steps:
  assumes "\<And>d. svc_steps d (meanwhile d)"
  shows "svc_steps d (snd (pay n pv meanwhile bid p att later d))"
proof -
  obtain r d1 where w: "withTransientRetry n
      (\<lambda>k. transaction (attempted (att k) (pay_prepare bid p (att k)))) d = (r, d1)" by force
  have "svc_steps d (snd (withTransientRetry n
      (\<lambda>k. transaction (attempted (att k) (pay_prepare bid p (att k)))) d))"
    by (rule retried_keeps) (auto simp: attempted_eq_Inr intro: pay_prepare_steps)
  then have s1: "svc_steps d d1" by (simp add: w)
  then have s2: "svc_steps d (meanwhile d1)" using assms by (blast intro: svc_steps_trans)
  have s3: "svc_steps d (snd (transaction (pay_record pid cid later) (meanwhile d1)))" for pid cid
    by (rule transaction_keeps) (auto intro: svc_steps_trans s2 pay_record_steps)
  show ?thesis
    using s1 s2 s3 by (auto simp: pay_def w Let_def split: sum.splits prod.splits if_splits)
      (metis snd_conv)+
qed

lemma recordDelivery_steps: "recordDelivery w d = Inr (r, d') \<Longrightarrow> svc_steps d d'"
  by (auto simp: recordDelivery_def split: if_splits intro: svc_other)

text \<open>A request to \<open>ingest\<close> leaves the tables as they are or records one delivery.\<close>

lemma ingest_state:
  obtains "snd (ingest h secret raw sig header corr row rnd now d) = d"
  | w where "snd (ingest h secret raw sig header corr row rnd now d) = snd (transaction (recordDelivery w) d)"
proof (cases "secret = None \<or> secret = Some []")
  case True
  then show ?thesis using that(1) by (auto simp: ingest_def)
next
  case False
  then obtain sec where sec: "secret = Some sec" "sec \<noteq> []" by auto
  let ?did = "case header of Some x \<Rightarrow> x | None \<Rightarrow> ''unsigned-'' @ rnd"
  have tx: "snd (case t of (Inl e, d1) \<Rightarrow> (Inl e, d1) | (Inr x, d1) \<Rightarrow> (f x, d1)) = snd t"
    for t :: "(exn + uuid option) \<times> db" and f :: "uuid option \<Rightarrow> exn + uuid option \<times> ingest_status"
    by (cases t; cases "fst t") auto
  have tx': "snd (case t of (Inl e, d1) \<Rightarrow> (Inl e, d1) | (Inr None, d1) \<Rightarrow> (x, d1) | (Inr (Some y), d1) \<Rightarrow> (g y, d1)) = snd t"
    for t :: "(exn + uuid option) \<times> db" and x :: "exn + uuid option \<times> ingest_status" and g
    by (cases t; cases "fst t"; cases "projr (fst t)") auto
  show ?thesis
  proof (cases "verifySignature h raw sec sig")
    case False
    show ?thesis by (rule that(2)) (simp add: ingest_def sec False tx)
  next
    case True
    show ?thesis
    proof (cases "h_json_parse h raw")
      case None
      show ?thesis by (rule that(2)) (simp add: ingest_def sec True None tx)
    next
      case (Some body)
      show ?thesis
      proof (cases "body = JNull")
        case True
        then show ?thesis using Some sec \<open>verifySignature h raw sec sig\<close>
          by (intro that(1)) (simp add: ingest_def)
      next
        case nn: False
        show ?thesis
          by (rule that(2)) (simp add: ingest_def sec True Some Let_def nn tx')
      qed
    qed
  qed
qed

lemma ingest_steps: "svc_steps d (snd (ingest h secret raw sig header corr row rnd now d))"
proof -
  have "svc_steps d (snd (transaction (recordDelivery w) d))" for w
    by (rule transaction_keeps) (auto intro: recordDelivery_steps)
  then show ?thesis
    by (cases rule: ingest_state [of h secret raw sig header corr row rnd now d]) simp_all
qed

lemma finishDelivery_steps: "svc_steps d (finishDelivery row err now d)"
  by (rule svc_other) (simp_all add: finishDelivery_def)

lemma find_or_adopt_steps: "find_or_adopt cid ref now d = Inr (r, d') \<Longrightarrow> svc_steps d d'"
  by (auto simp: find_or_adopt_def adoptChargeByReference_def tx_simps
      split: option.splits if_splits prod.splits intro: svc_update)

lemma apply_event_steps: "apply_event ev p cid body now d = Inr (r, d') \<Longrightarrow> svc_steps d d'"
  by (auto simp: apply_event_def tx_simps split: if_splits
      intro: onChargeSucceeded_steps onChargeFailed_steps onRefundSucceeded_steps)

lemma apply_claimed_steps:
  assumes "apply_claimed row cid ev occurred body now p d = Inr (r, d')"
  shows "svc_steps d d'"
proof -
  obtain won d1 where e: "insert_payment_event cid ev occurred now d = (won, d1)" by force
  then have s1: "svc_steps d d1"
    using svc_step.new_event [of d cid ev occurred now] by (auto intro: svc_stepsI)
  show ?thesis
  proof (cases won)
    case True
    then obtain d2 where "apply_event ev p cid body now d1 = Inr (r, d2)" "d' = finishDelivery row None now d2"
      using assms e by (auto simp: apply_claimed_def tx_simps)
    then show ?thesis using s1 by (meson apply_event_steps finishDelivery_steps svc_steps_trans)
  next
    case False
    then show ?thesis using assms e s1
      by (auto simp: apply_claimed_def intro: svc_steps_trans finishDelivery_steps)
  qed
qed

lemma apply_supported_steps:
  assumes "apply_supported row cid ev ref occurred body now d = Inr (r, d')"
  shows "svc_steps d d'"
proof -
  obtain found d1 where f: "find_or_adopt cid ref now d = Inr (found, d1)"
    using assms by (auto simp: apply_supported_def tx_simps)
  then have s1: "svc_steps d d1" by (rule find_or_adopt_steps)
  show ?thesis
  proof (cases found)
    case None
    then have "d' = mark_unknown row cid ref d1" using assms f by (simp add: apply_supported_def)
    moreover have "svc_steps d1 (mark_unknown row cid ref d1)"
      by (rule svc_other) (simp_all add: mark_unknown_def)
    ultimately show ?thesis using s1 by (auto intro: svc_steps_trans)
  next
    case (Some p)
    then have "apply_claimed row cid ev occurred body now p d1 = Inr (r, d')"
      using assms f by (simp add: apply_supported_def)
    then show ?thesis using s1 by (blast intro: svc_steps_trans apply_claimed_steps)
  qed
qed

lemma applyInTransaction_cases:
  assumes "applyInTransaction h row now d = Inr (r, d')"
  obtains (settled) "r = None" "d' = d"
  | (unsupported) "r = None" "d' = finishDelivery row (Some ''unsupported_event'') now d"
  | (supported) w body cid ev ref occurred where
      "List.find (\<lambda>w. wd_id w = row) (t_webhook_deliveries d) = Some w" "wd_processed_at w = None"
      "body_of h (wd_raw_body w) = Inr body" "asString (json_field ''charge_id'' body) = Some cid"
      "asString (json_field ''event'' body) = Some ev" "ev \<in> SUPPORTED_EVENTS"
      "apply_supported row cid ev ref occurred body now d = Inr (r, d')"
proof (cases "List.find (\<lambda>w. wd_id w = row) (t_webhook_deliveries d)")
  case None
  then show ?thesis using assms that(1) by (simp add: applyInTransaction_def)
next
  case (Some w)
  show ?thesis
  proof (cases "wd_processed_at w = None")
    case False
    then show ?thesis using assms Some that(1) by (simp add: applyInTransaction_def)
  next
    case True
    then obtain body where body: "body_of h (wd_raw_body w) = Inr body"
      using assms Some by (auto simp: applyInTransaction_def tx_simps)
    show ?thesis
    proof (cases "asString (json_field ''charge_id'' body)")
      case None
      then show ?thesis using assms Some True body that(2) by (simp add: applyInTransaction_def)
    next
      case cid: (Some cid)
      show ?thesis
      proof (cases "asString (json_field ''event'' body)")
        case None
        then show ?thesis using assms Some True body cid that(2) by (simp add: applyInTransaction_def)
      next
        case ev: (Some ev)
        then show ?thesis using assms Some True body cid that(2) that(3) [OF Some True body cid ev]
          by (cases "ev \<in> SUPPORTED_EVENTS") (simp_all add: applyInTransaction_def Let_def)
      qed
    qed
  qed
qed

lemma applyInTransaction_steps:
  assumes "applyInTransaction h row now d = Inr (r, d')"
  shows "svc_steps d d'"
  using assms by (cases rule: applyInTransaction_cases) (auto intro: finishDelivery_steps apply_supported_steps)

lemma settleRefund_steps: "svc_steps d (settleRefund h pv i now d)"
proof -
  have u: "svc_steps d (snd (transaction (update_payment q f) d))" if "keeps_identity q f" for q f
    by (rule transaction_keeps) (auto intro: svc_update that)
  show ?thesis
    unfolding settleRefund_def Let_def
    using u [of _ "\<lambda>p. p\<lparr>p_failure_reason := x, p_updated_at := now\<rparr>" for x]
    by (auto simp: tx_simps split: sum.splits prod.splits intro: svc_update)
qed

lemma applyDelivery_steps: "svc_steps d (snd (applyDelivery h pv n att row later d))"
proof -
  let ?run = "withTransientRetry n
    (\<lambda>k. transaction (attempted (att k) (applyInTransaction h row (at_now (att k))))) d"
  obtain r d1 where w: "?run = (r, d1)" by force
  have "svc_steps d (snd ?run)"
    by (rule retried_keeps) (auto simp: attempted_eq_Inr intro: applyInTransaction_steps)
  then show ?thesis
    by (auto simp: applyDelivery_def w split: sum.splits option.splits
        intro: svc_steps_trans settleRefund_steps)
qed

text \<open>A cancellation that refunds has read a captured payment, its snapshot, and minted the key.\<close>

lemma cancellation_body_eq_Some:
  "cancellation_body bid now d = Inr (Some (i, rb), d') \<longleftrightarrow>
     (\<exists>b p cid snap d1. find_booking bid d = Some b \<and> findCapturedPayment bid d = Some p
        \<and> p_charge_id p = Some cid \<and> p_status p \<noteq> PayRefunded \<and> p_refund_idempotency_key p = None
        \<and> Option.bind (b_policy_snapshot b) parseSnapshot = Some snap
        \<and> (case splitTotals b (filter (\<lambda>li. li_booking_id li = b_id b) (t_booking_line_items d)) of
             (room, equip) \<Rightarrow> computeRefund room equip (ps_tiers snap) (b_starts_at b) now) = Inr rb
        \<and> mint_refund_key (p_id p) (refundKey cid) now d = Inr d1
        \<and> i = \<lparr>ri_payment_id = p_id p, ri_charge_id = cid, ri_booking_id = bid,
               ri_amount_minor = rb_total_refund_minor rb, ri_idempotency_key = refundKey cid,
               ri_reason = ''cancellation''\<rparr>
        \<and> d' = add_audits [audit bid SYSTEM_ACTOR (b_status b) (b_status b)
                 ''refund.initiated.cancellation'' now] d1)"
  by (auto simp: cancellation_body_def tx_simps split: option.splits prod.splits)

lemma cancellation_body_eq_None:
  "cancellation_body bid now d = Inr (None, d') \<Longrightarrow> d' = d"
  by (auto simp: cancellation_body_def tx_simps split: option.splits prod.splits if_splits)

lemma cancellation_body_steps:
  assumes "cancellation_body bid now d = Inr (r, d')"
  shows "svc_steps d d'"
proof (cases r)
  case (Some x)
  then obtain i rb where "cancellation_body bid now d = Inr (Some (i, rb), d')"
    using assms by (cases x) simp
  then obtain b and p :: payment and cid d1 where b: "find_booking bid d = Some b"
    and m: "mint_refund_key (p_id p) (refundKey cid) now d = Inr d1"
    and d': "d' = add_audits [audit bid SYSTEM_ACTOR (b_status b) (b_status b)
                 ''refund.initiated.cancellation'' now] d1"
    unfolding cancellation_body_eq_Some by blast
  have "bid \<in> b_id ` set (t_bookings d1)"
    using b mint_refund_key_steps(2) [OF m] by (auto dest: find_booking_SomeD)
  then show ?thesis
    using mint_refund_key_steps(1) [OF m] unfolding d' by (blast intro: svc_steps_trans svc_evidence)
qed (use assms cancellation_body_eq_None in fastforce)

lemma settleCancellation_steps: "svc_steps d (snd (settleCancellation h pv n att bid later d))"
proof -
  let ?run = "withTransientRetry n
    (\<lambda>k. transaction (attempted (att k) (cancellation_body bid (at_now (att k))))) d"
  obtain r d1 where w: "?run = (r, d1)" by force
  have "svc_steps d (snd ?run)"
    by (rule retried_keeps) (auto simp: attempted_eq_Inr intro: cancellation_body_steps)
  then show ?thesis
    by (auto simp: settleCancellation_def w split: sum.splits option.splits
        intro: svc_steps_trans settleRefund_steps)
qed

lemma charge_poll_body_steps: "charge_poll_body p cid ok now d = Inr (r, d') \<Longrightarrow> svc_steps d d'"
proof -
  assume a: "charge_poll_body p cid ok now d = Inr (r, d')"
  let ?ev = "if ok then ''charge.succeeded'' else ''charge.failed''"
  obtain won d1 where e: "insert_payment_event cid ?ev now now d = (won, d1)" by force
  then have "svc_steps d d1"
    using svc_step.new_event [of d cid ?ev now now] by (auto intro: svc_stepsI)
  moreover have "svc_steps d1 d'"
    using a e by (auto simp: charge_poll_body_def tx_simps split: bool.splits if_splits
        intro: onChargeSucceeded_steps onChargeFailed_steps)
  ultimately show ?thesis by (rule svc_steps_trans)
qed

lemma refund_poll_body_steps: "refund_poll_body p cid st now d = Inr (r, d') \<Longrightarrow> svc_steps d d'"
proof -
  assume a: "refund_poll_body p cid st now d = Inr (r, d')"
  obtain won d1 where e: "insert_payment_event cid ''refund.succeeded'' now now d = (won, d1)" by force
  then have "svc_steps d d1"
    using svc_step.new_event [of d cid "''refund.succeeded''" now now] by (auto intro: svc_stepsI)
  moreover have "svc_steps d1 d'"
    using a e by (auto simp: refund_poll_body_def tx_simps split: bool.splits intro: onRefundSucceeded_steps)
  ultimately show ?thesis by (rule svc_steps_trans)
qed

lemma poll_charge_steps: "svc_steps d (snd (poll_charge h pv n att now p d))"
proof -
  have u: "svc_steps d (snd (transaction (update_payment q f) d))" if "keeps_identity q f" for q f
    by (rule transaction_keeps) (auto intro: svc_update that)
  have s: "svc_steps d d1" if "withTransientRetry n (\<lambda>k. transaction (attempted (att k)
       (charge_poll_body p cid ok (at_now (att k))))) d = (r, d1)" for r d1 cid ok
  proof -
    have "svc_steps d (snd (withTransientRetry n (\<lambda>k. transaction (attempted (att k)
       (charge_poll_body p cid ok (at_now (att k))))) d))"
      by (rule retried_keeps) (auto simp: attempted_eq_Inr intro: charge_poll_body_steps)
    then show ?thesis by (simp add: that)
  qed
  show ?thesis
    unfolding poll_charge_def
    by (auto split: option.splits sum.splits prod.splits bool.splits
        intro: s u svc_steps_trans [OF s settleRefund_steps])
qed

lemma poll_refund_steps: "svc_steps d (snd (poll_refund pv n att p d))"
proof -
  have s: "svc_steps d d1" if "withTransientRetry n (\<lambda>k. transaction (attempted (att k)
       (refund_poll_body p cid st (at_now (att k))))) d = (r, d1)" for r d1 cid st
  proof -
    have "svc_steps d (snd (withTransientRetry n (\<lambda>k. transaction (attempted (att k)
       (refund_poll_body p cid st (at_now (att k))))) d))"
      by (rule retried_keeps) (auto simp: attempted_eq_Inr intro: refund_poll_body_steps)
    then show ?thesis by (simp add: that)
  qed
  show ?thesis
    unfolding poll_refund_def
    by (auto split: option.splits sum.splits prod.splits bool.splits intro: s)
qed

lemma poll_all_steps:
  assumes "\<And>p d. svc_steps d (snd (step p d))"
  shows "svc_steps d (snd (poll_all step ps d))"
proof (induction ps arbitrary: d)
  case (Cons p ps)
  have "svc_steps d (snd (step p d))" by (rule assms)
  moreover have "svc_steps (snd (step p d)) (snd (poll_all step ps (snd (step p d))))" by (rule Cons)
  ultimately show ?case by (auto simp: split_beta Let_def intro: svc_steps_trans)
qed simp

lemma settleAcceptedCharges_steps: "svc_steps d (snd (settleAcceptedCharges h pv n att older batch now d))"
  unfolding settleAcceptedCharges_def by (intro poll_all_steps poll_charge_steps)

lemma settleAcceptedRefunds_steps: "svc_steps d (snd (settleAcceptedRefunds pv n att older batch now d))"
  unfolding settleAcceptedRefunds_def by (intro poll_all_steps poll_refund_steps)

end
