(* ===== verification/PaymentProperties.thy ===== *)
theory PaymentProperties
  imports PaymentSteps
begin

text \<open>
  What the payments service promises: a charge is prepared durably before the provider is called and
  prepared once, the effect of a provider event happens once however often it is delivered, a
  captured charge confirms the hold or is refunded in full, and a cancellation is refunded once
  within the total of the booking.
\<close>

section \<open>Writing one payment\<close>

lemma find_payment_eq:
  "findPaymentById pid d = Some p \<Longrightarrow> p \<in> set (t_payments d) \<and> p_id p = pid"
  unfolding findPaymentById_def by (rule find_SomeD)

definition with_payment :: "payment \<Rightarrow> db \<Rightarrow> db" where
  "with_payment p d = d\<lparr>t_payments := update_where (\<lambda>q. p_id q = p_id p) (\<lambda>_. p) (t_payments d)\<rparr>"

lemma with_payment_sel [simp]:
  "t_bookings (with_payment p d) = t_bookings d" "t_audit_events (with_payment p d) = t_audit_events d"
  "t_payment_events (with_payment p d) = t_payment_events d"
  "t_webhook_deliveries (with_payment p d) = t_webhook_deliveries d"
  "t_cancellation_policies (with_payment p d) = t_cancellation_policies d"
  "t_booking_line_items (with_payment p d) = t_booking_line_items d"
  "find_booking bid (with_payment p d) = find_booking bid d"
  "stored_inv (with_payment p d) = stored_inv d"
  by (simp_all add: with_payment_def find_booking_def stored_inv_def)

lemma find_with_payment:
  "findPaymentById (p_id p) d \<noteq> None \<Longrightarrow> findPaymentById (p_id p) (with_payment p d) = Some p"
  using find_update_where_key [of p_id "p_id p" "\<lambda>_. p" "t_payments d"]
  by (auto simp: findPaymentById_def with_payment_def)

lemma find_payment_other_tables:
  "t_payments d' = t_payments d \<Longrightarrow> findPaymentById pid d' = findPaymentById pid d"
  by (simp add: findPaymentById_def)

text \<open>An UPDATE of one payment goes through when its new columns are free.\<close>

lemma set_payment_writes:
  assumes "findPaymentById (p_id p) d = Some p" and "p_id (f p) = p_id p"
    and "in_bigint (p_refunded_minor (f p))"
    and "\<And>q. q \<in> set (t_payments d) \<Longrightarrow> p_id q \<noteq> p_id p \<Longrightarrow> \<not> payment_clash (f p) q"
  shows "set_payment (p_id p) f d = Inr (with_payment (f p) d)"
  using assms by (auto simp: set_payment_def update_payment_def findPaymentById_def with_payment_def list_ex_iff)

lemma payment_no_clash:
  assumes "payments_inv d" and "findPaymentById (p_id p) d = Some p"
    and "q \<in> set (t_payments d)" and "p_id q \<noteq> p_id p"
  shows "\<not> payment_clash p q"
  using assms find_payment_eq [OF assms(2)] unfolding payments_inv_def payments_consistent_def by metis

lemma transition_goes_through:
  assumes "stored_inv d" and "find_booking (ti_booking_id i) d = Some b"
    and "patch_in_range (ti_patch i)" and "expected_ok (ti_expected_from i) (b_status b)"
    and "isLegalTransition (b_status b) (ti_to i)"
  shows "transition i now d = Inr (moved i now b, booking_written (moved i now b)
     (audit (ti_booking_id i) (ti_actor i) (b_status b) (ti_to i) (ti_reason i) now) d)"
  using assms by (simp add: transition_outcome)

lemma find_booking_written:
  assumes "find_booking (b_id b) d \<noteq> None"
  shows "find_booking (b_id b) (booking_written b e d) = Some b"
  using assms find_update_where_key [of b_id "b_id b" "\<lambda>_. b" "t_bookings d"]
  by (auto simp: find_booking_def)

section \<open>A captured charge\<close>

lemma resolvePolicySnapshot_cong:
  "t_cancellation_policies d' = t_cancellation_policies d
     \<Longrightarrow> resolvePolicySnapshot v now d' = resolvePolicySnapshot v now d"
  by (simp add: resolvePolicySnapshot_def resolveTiers_def newest_policy_def cong: option.case_cong)

text \<open>A resolved snapshot is one the refund will be able to read back.\<close>

lemma resolved_snapshot_parses:
  assumes "resolvePolicySnapshot v now d = Inr snap"
  shows "parseSnapshot (snapshot_json snap) = Some snap"
proof -
  have "\<exists>j. TiersSchema j = Some (ps_tiers snap)"
    using assms by (auto simp: resolvePolicySnapshot_def resolveTiers_def parsed_tiers_def tx_simps
        split: option.splits if_splits)
  then obtain j where "TiersSchema j = Some (ps_tiers snap)" by blast
  then show ?thesis using TiersSchema_SomeD by (intro parseSnapshot_snapshot_json) auto
qed

definition captured :: "string \<Rightarrow> instant \<Rightarrow> payment \<Rightarrow> payment" where
  "captured cid now p = p\<lparr>p_status := PaySucceeded, p_charge_id := Some cid, p_updated_at := now\<rparr>"

lemma captured_sel [simp]:
  "p_id (captured cid now p) = p_id p" "p_status (captured cid now p) = PaySucceeded"
  "p_charge_id (captured cid now p) = Some cid"
  "p_refund_idempotency_key (captured cid now p) = p_refund_idempotency_key p"
  "p_refunded_minor (captured cid now p) = p_refunded_minor p"
  "p_booking_id (captured cid now p) = p_booking_id p"
  "p_amount_minor (captured cid now p) = p_amount_minor p"
  by (simp_all add: captured_def)

lemma captured_clash: "p_charge_id p = Some cid \<Longrightarrow> payment_clash (captured cid now p) q \<longleftrightarrow> payment_clash p q"
  by (simp add: payment_clash_def captured_def)

lemma set_payment_captured:
  assumes "payments_inv d" and "findPaymentById (p_id p) d = Some p" and "p_charge_id p = Some cid"
  shows "set_payment (p_id p)
      (\<lambda>q. q\<lparr>p_status := PaySucceeded, p_charge_id := Some cid, p_updated_at := now\<rparr>) d
    = Inr (with_payment (captured cid now p) d)"
proof -
  have "in_bigint (p_refunded_minor p)"
    using assms(1) find_payment_eq [OF assms(2)] by (simp add: payments_inv_def)
  then have "set_payment (p_id p) (captured cid now) d = Inr (with_payment (captured cid now p) d)"
    using payment_no_clash [OF assms(1,2)]
    by (intro set_payment_writes assms(2)) (simp_all add: captured_clash [OF assms(3)])
  then show ?thesis by (simp only: captured_def [abs_def])
qed

text \<open>C8. A hold still waiting for its payment is confirmed, under the policy of that moment.\<close>

lemma captured_confirms:
  assumes "stored_inv d" "payments_inv d" "findPaymentById (p_id p) d = Some p" "p_charge_id p = Some cid"
    and "find_booking (p_booking_id p) d = Some b" "b_status b = PENDING_PAYMENT" "\<not> lapsed now b"
    and "resolvePolicySnapshot (b_venue_id b) now d = Inr snap"
  shows "\<exists>b' d'. onChargeSucceeded p cid now d = Inr (None, d')
    \<and> find_booking (p_booking_id p) d' = Some b' \<and> b_status b' = CONFIRMED \<and> b_expires_at b' = None
    \<and> Option.bind (b_policy_snapshot b') parseSnapshot = Some snap
    \<and> findPaymentById (p_id p) d' = Some (captured cid now p)"
proof -
  let ?d1 = "with_payment (captured cid now p) d"
  let ?i = "\<lparr>ti_booking_id = b_id b, ti_to = CONFIRMED, ti_actor = PAYGATE_ACTOR,
    ti_reason = ''payment.captured'', ti_expected_from = Some [PENDING_PAYMENT],
    ti_patch = no_patch\<lparr>patch_expires_at := Some None, patch_policy_snapshot := Some (Some (snapshot_json snap))\<rparr>\<rparr>"
  have id: "b_id b = p_booking_id p" using assms(5) by (auto dest: find_booking_SomeD)
  have p: "findPaymentById (p_id p) ?d1 = Some (captured cid now p)"
    using find_with_payment [of "captured cid now p" d] assms(3) by simp
  have t: "transition ?i now ?d1 = Inr (moved ?i now b, booking_written (moved ?i now b)
     (audit (b_id b) PAYGATE_ACTOR PENDING_PAYMENT CONFIRMED ''payment.captured'' now) ?d1)"
    using transition_goes_through [of ?d1 ?i b now] assms id
    by (simp add: patch_in_range_def no_patch_def)
  have "onChargeSucceeded p cid now d = Inr (None, booking_written (moved ?i now b)
     (audit (b_id b) PAYGATE_ACTOR PENDING_PAYMENT CONFIRMED ''payment.captured'' now) ?d1)"
    using assms t resolvePolicySnapshot_cong [of ?d1 d]
    by (simp add: onChargeSucceeded_def set_payment_captured lockForUpdate_def)
  moreover have "find_booking (p_booking_id p) (booking_written (moved ?i now b) e ?d1) = Some (moved ?i now b)" for e
    using find_booking_written [of "moved ?i now b" ?d1 e] assms(5) id by simp
  ultimately show ?thesis
    using p resolved_snapshot_parses [OF assms(8)]
    by (simp add: find_payment_other_tables [of "booking_written _ _ _" ?d1] no_patch_def)
qed

lemma mint_refund_key_writes:
  assumes "payments_inv d" and "findPaymentById (p_id p) d = Some p"
    and "\<And>q. q \<in> set (t_payments d) \<Longrightarrow> p_refund_idempotency_key q = Some k \<Longrightarrow> p_id q = p_id p"
  shows "\<exists>p'. mint_refund_key (p_id p) k now d = Inr (with_payment p' d) \<and> p_id p' = p_id p
    \<and> p_status p' = p_status p \<and> p_charge_id p' = p_charge_id p
    \<and> p_refund_idempotency_key p' = (if p_refund_idempotency_key p = None then Some k else p_refund_idempotency_key p)"
proof -
  have mem: "p \<in> set (t_payments d)" using find_payment_eq [OF assms(2)] by simp
  have dist: "distinct (map p_id (t_payments d))"
    using assms(1) by (simp add: payments_inv_def payments_consistent_def)
  let ?w = "\<lambda>q. p_id q = p_id p \<and> p_refund_idempotency_key q = None"
  show ?thesis
  proof (cases "p_refund_idempotency_key p")
    case None
    let ?f = "\<lambda>p. p\<lparr>p_refund_idempotency_key := Some k, p_updated_at := now\<rparr>"
    have "List.find ?w (t_payments d) = Some p"
    proof -
      have "\<exists>q. List.find ?w (t_payments d) = Some q"
        using mem None by (cases "List.find ?w (t_payments d)") (auto simp: find_None_iff)
      then obtain q where q: "List.find ?w (t_payments d) = Some q" by blast
      then have "q = p" using find_SomeD [OF q] distinct_map_eqD [OF dist] mem by auto
      then show ?thesis using q by simp
    qed
    moreover have "\<not> payment_clash (?f p) q" if "q \<in> set (t_payments d)" "p_id q \<noteq> p_id p" for q
      using payment_no_clash [OF assms(1,2) that] assms(3) [OF that(1)] that(2)
      by (auto simp: payment_clash_def)
    moreover have "in_bigint (p_refunded_minor (?f p))" using assms(1) mem by (simp add: payments_inv_def)
    ultimately have "mint_refund_key (p_id p) k now d = Inr (with_payment (?f p) d)"
      by (auto simp: mint_refund_key_def update_payment_def with_payment_def list_ex_iff)
    then show ?thesis using None by (intro exI [of _ "?f p"]) simp
  next
    case (Some k')
    have "List.find ?w (t_payments d) = None"
      using Some mem distinct_map_eqD [OF dist] by (force simp: find_None_iff)
    moreover have "with_payment p d = d"
    proof -
      have "update_where (\<lambda>q. p_id q = p_id p) (\<lambda>_. p) (t_payments d) = t_payments d"
        unfolding update_where_def by (rule map_idI) (use distinct_map_eqD [OF dist _ mem] in auto)
      then show ?thesis by (simp add: with_payment_def)
    qed
    ultimately have "mint_refund_key (p_id p) k now d = Inr (with_payment p d)"
      by (simp add: mint_refund_key_def update_payment_def)
    then show ?thesis using Some by (intro exI [of _ p]) simp
  qed
qed

lemma payments_inv_captured:
  assumes "payments_inv d" "findPaymentById (p_id p) d = Some p" "p_charge_id p = Some cid"
  shows "payments_inv (with_payment (captured cid now p) d)"
proof -
  have "svc_steps d (with_payment (captured cid now p) d)"
    using set_payment_captured [OF assms] by (rule set_payment_steps(1)) simp
  then show ?thesis using assms(1) by (rule payments_kept.svc_steps_keep)
qed

text \<open>
  C9. Any other hold is refunded in full: it is never confirmed, a lapsed one is expired, the refund key
  is minted on the payment, and a row of evidence is written. That row carries the status the
  booking had when it was locked, which for a lapsed hold is not the status it has by then.
\<close>

lemma captured_refunds:
  assumes "stored_inv d" "payments_inv d" "findPaymentById (p_id p) d = Some p" "p_charge_id p = Some cid"
    and "find_booking (p_booking_id p) d = Some b" "\<not> (b_status b = PENDING_PAYMENT \<and> \<not> lapsed now b)"
    and "\<And>q. q \<in> set (t_payments d) \<Longrightarrow> p_refund_idempotency_key q = Some (refundKey cid) \<Longrightarrow> p_id q = p_id p"
  shows "\<exists>b' p' d' es. onChargeSucceeded p cid now d =
      Inr (Some \<lparr>ri_payment_id = p_id p, ri_charge_id = cid, ri_booking_id = p_booking_id p,
        ri_amount_minor = p_amount_minor p, ri_idempotency_key = refundKey cid,
        ri_reason = ''hold_not_confirmable''\<rparr>, d')
    \<and> find_booking (p_booking_id p) d' = Some b'
    \<and> b_status b' = (if b_status b = PENDING_PAYMENT then EXPIRED else b_status b)
    \<and> findPaymentById (p_id p) d' = Some p' \<and> p_status p' = PaySucceeded
    \<and> p_refund_idempotency_key p'
        = (if p_refund_idempotency_key p = None then Some (refundKey cid) else p_refund_idempotency_key p)
    \<and> t_audit_events d' = es @ [audit (p_booking_id p) SYSTEM_ACTOR (b_status b) (b_status b)
         ''refund.initiated.unconfirmable_hold'' now]"
proof -
  let ?d1 = "with_payment (captured cid now p) d"
  let ?i = "\<lparr>ti_booking_id = b_id b, ti_to = EXPIRED, ti_actor = SYSTEM_ACTOR,
    ti_reason = ''hold.expired.payment_arrived_late'', ti_expected_from = Some [PENDING_PAYMENT],
    ti_patch = no_patch\<rparr>"
  let ?d2 = "if b_status b = PENDING_PAYMENT then booking_written (moved ?i now b)
     (audit (b_id b) SYSTEM_ACTOR PENDING_PAYMENT EXPIRED ''hold.expired.payment_arrived_late'' now) ?d1
     else ?d1"
  have id: "b_id b = p_booking_id p" using assms(5) by (auto dest: find_booking_SomeD)
  have t: "b_status b = PENDING_PAYMENT \<Longrightarrow> transition ?i now ?d1 = Inr (moved ?i now b, ?d2)"
    using transition_goes_through [of ?d1 ?i b now] assms id by simp
  have pay: "t_payments ?d2 = t_payments ?d1" by simp
  have p1: "findPaymentById (p_id p) ?d2 = Some (captured cid now p)"
    using find_with_payment [of "captured cid now p" d] assms(3) find_payment_other_tables [OF pay] by simp
  have inv: "payments_inv ?d2"
    using payments_inv_captured [OF assms(2,3,4)] pay by (simp add: payments_inv_def)
  have key: "p_id q = p_id p" if "q \<in> set (t_payments ?d2)" "p_refund_idempotency_key q = Some (refundKey cid)" for q
    using that assms(7) unfolding pay by (auto simp: with_payment_def set_update_where split: if_splits)
  obtain p' where m: "mint_refund_key (p_id p) (refundKey cid) now ?d2 = Inr (with_payment p' ?d2)"
    "p_id p' = p_id p" "p_status p' = PaySucceeded" "p_refund_idempotency_key p'
        = (if p_refund_idempotency_key p = None then Some (refundKey cid) else p_refund_idempotency_key p)"
    using mint_refund_key_writes [OF inv, of "captured cid now p" "refundKey cid" now] p1 key by auto
  let ?d' = "add_audits [audit (b_id b) SYSTEM_ACTOR (b_status b) (b_status b)
     ''refund.initiated.unconfirmable_hold'' now] (with_payment p' ?d2)"
  have "onChargeSucceeded p cid now d = Inr (Some \<lparr>ri_payment_id = p_id p, ri_charge_id = cid,
      ri_booking_id = b_id b, ri_amount_minor = p_amount_minor p, ri_idempotency_key = refundKey cid,
      ri_reason = ''hold_not_confirmable''\<rparr>, ?d')"
    using assms(5,6) t m(1) unfolding onChargeSucceeded_def set_payment_captured [OF assms(2,3,4)]
    by (auto simp: lockForUpdate_def split: if_splits)
  moreover have "\<exists>b'. find_booking (p_booking_id p) ?d' = Some b'
      \<and> b_status b' = (if b_status b = PENDING_PAYMENT then EXPIRED else b_status b)"
    using assms(5) id find_booking_written [of "moved ?i now b" ?d1] by (auto simp: find_booking_def)
  moreover have "findPaymentById (p_id p) ?d' = Some p'"
    using find_with_payment [of p' ?d2] p1 m(2) find_payment_other_tables [of ?d' "with_payment p' ?d2"]
    by simp
  ultimately show ?thesis using m id by (auto simp del: id)
qed

section \<open>A settled refund\<close>

text \<open>
  A refund the provider reports as done makes the payment REFUNDED, with the amount the event names
  or the whole charge, and moves a cancelled booking to REFUNDED. A booking in any other state is
  left where it is: the refund is recorded as evidence on its trail.
\<close>

lemma refund_settles:
  assumes "stored_inv d" "payments_inv d" "findPaymentById (p_id p) d = Some p"
    and "find_booking (p_booking_id p) d = Some b" and "in_bigint (refunded_amount amount p)"
    and "\<And>q. q \<in> set (t_payments d) \<Longrightarrow> p_id q \<noteq> p_id p \<Longrightarrow> rid \<noteq> None \<Longrightarrow> p_refund_id q \<noteq> rid"
  shows "\<exists>d' b' p'. onRefundSucceeded p rid amount now d = Inr d'
    \<and> find_booking (p_booking_id p) d' = Some b'
    \<and> b_status b' = (if b_status b = CANCELLED then REFUNDED else b_status b)
    \<and> findPaymentById (p_id p) d' = Some p' \<and> p_status p' = PayRefunded
    \<and> p_refunded_minor p' = refunded_amount amount p
    \<and> p_refund_id p' = (if rid = None then p_refund_id p else rid)"
proof -
  let ?f = "\<lambda>q. q\<lparr>p_status := PayRefunded, p_refund_id := (if rid = None then p_refund_id p else rid),
    p_refunded_minor := refunded_amount amount p, p_updated_at := now\<rparr>"
  let ?d1 = "with_payment (?f p) d"
  let ?i = "\<lparr>ti_booking_id = b_id b, ti_to = REFUNDED, ti_actor = PAYGATE_ACTOR,
    ti_reason = ''refund.settled'', ti_expected_from = Some [CANCELLED], ti_patch = no_patch\<rparr>"
  have id: "b_id b = p_booking_id p" using assms(4) by (auto dest: find_booking_SomeD)
  have "\<not> payment_clash (?f p) q" if q: "q \<in> set (t_payments d)" "p_id q \<noteq> p_id p" for q
    using payment_no_clash [OF assms(2,3) q] assms(6) [OF q] by (cases rid) (auto simp: payment_clash_def)
  then have s: "set_payment (p_id p) ?f d = Inr ?d1"
    using assms(5) by (intro set_payment_writes assms(3)) simp_all
  have p: "findPaymentById (p_id p) d' = Some (?f p)" if "t_payments d' = t_payments ?d1" for d'
    using find_with_payment [of "?f p" d] assms(3) find_payment_other_tables [OF that] by simp
  show ?thesis
  proof (cases "b_status b = CANCELLED")
    case True
    let ?d' = "booking_written (moved ?i now b)
      (audit (b_id b) PAYGATE_ACTOR CANCELLED REFUNDED ''refund.settled'' now) ?d1"
    have "transition ?i now ?d1 = Inr (moved ?i now b, ?d')"
      using transition_goes_through [of ?d1 ?i b now] assms id True by simp
    then have "onRefundSucceeded p rid amount now d = Inr ?d'"
      using assms(4) True by (simp add: onRefundSucceeded_def s)
    moreover have "find_booking (p_booking_id p) ?d' = Some (moved ?i now b)"
      using find_booking_written [of "moved ?i now b" ?d1] assms(4) id by simp
    ultimately show ?thesis using True p [of ?d'] by simp
  next
    case False
    let ?d' = "add_audits [audit (b_id b) PAYGATE_ACTOR (b_status b) (b_status b)
      ''refund.settled.terminal_booking'' now] ?d1"
    have "onRefundSucceeded p rid amount now d = Inr ?d'"
      using assms(4) False by (simp add: onRefundSucceeded_def s)
    moreover have "find_booking (p_booking_id p) ?d' = Some b" using assms(4) by (simp add: find_booking_def)
    ultimately show ?thesis using False p [of ?d'] by simp
  qed
qed

section \<open>A cancellation\<close>

text \<open>
  C12. A cancellation refunds within the booking: with a total that covers its equipment the refund is
  never negative and never above the total, and it is sent under the key of the charge.
\<close>

lemma cancellation_refund_bounded:
  assumes "stored_inv d" and "cancellation_body bid now d = Inr (Some (i, rb), d')"
    and "find_booking bid d = Some b"
    and "\<forall>li \<in> set (t_booking_line_items d). 0 \<le> li_rate_minor li \<and> 0 \<le> li_quantity li"
    and "0 \<le> half_hours (b_starts_at b) (b_ends_at b)"
    and "snd (splitTotals b (filter (\<lambda>li. li_booking_id li = bid) (t_booking_line_items d))) \<le> b_total_minor b"
  shows "0 \<le> ri_amount_minor i \<and> ri_amount_minor i \<le> b_total_minor b
    \<and> ri_idempotency_key i = refundKey (ri_charge_id i)"
proof -
  obtain snap where snap: "Option.bind (b_policy_snapshot b) parseSnapshot = Some snap"
    and rb: "(case splitTotals b (filter (\<lambda>li. li_booking_id li = b_id b) (t_booking_line_items d)) of
       (room, equip) \<Rightarrow> computeRefund room equip (ps_tiers snap) (b_starts_at b) now) = Inr rb"
    and i: "ri_amount_minor i = rb_total_refund_minor rb" "ri_idempotency_key i = refundKey (ri_charge_id i)"
    using assms(2,3) by (auto simp: cancellation_body_eq_Some)
  have id: "b_id b = bid" using assms(3) by (auto dest: find_booking_SomeD)
  obtain js where "parseSnapshot js = Some snap" using snap by (cases "b_policy_snapshot b") auto
  then have "\<exists>j. TiersSchema j = Some (ps_tiers snap)"
    by (auto simp: parseSnapshot_def Option.bind_eq_Some_conv split: option.splits)
  then obtain j where j: "TiersSchema j = Some (ps_tiers snap)" by blast
  let ?items = "filter (\<lambda>li. li_booking_id li = bid) (t_booking_line_items d)"
  obtain room equip where re: "splitTotals b ?items = (room, equip)" by force
  have "0 \<le> equip"
    using re assms(4,5) by (auto simp: splitTotals_def Let_def intro!: sum_list_nonneg line_total_nonneg)
  moreover have "0 \<le> room" "room + equip = b_total_minor b"
    using re assms(6) by (auto simp: splitTotals_def Let_def split: if_splits)
  ultimately show ?thesis
    using computeRefund_bounds [OF j, of room equip "b_starts_at b" now] rb re id i by auto
qed

lemma minted_key:
  assumes "payments_inv d" and "p \<in> set (t_payments d)" and "p_refund_idempotency_key p = None"
    and "mint_refund_key (p_id p) k now d = Inr d'"
  shows "\<exists>q \<in> set (t_payments d'). p_id q = p_id p \<and> p_refund_idempotency_key q = Some k"
proof -
  have dist: "distinct (map p_id (t_payments d))"
    using assms(1) by (simp add: payments_inv_def payments_consistent_def)
  let ?w = "\<lambda>q. p_id q = p_id p \<and> p_refund_idempotency_key q = None"
  obtain q where q: "List.find ?w (t_payments d) = Some q"
    using assms(2,3) by (cases "List.find ?w (t_payments d)") (auto simp: find_None_iff)
  then have "q \<in> set (t_payments d)" "p_id q = p_id p" by (auto dest: find_SomeD)
  then show ?thesis
    using assms(4) q
    by (intro bexI [of _ "q\<lparr>p_refund_idempotency_key := Some k, p_updated_at := now\<rparr>"])
      (auto simp: mint_refund_key_def tx_simps update_payment_eq_Inr set_update_where intro!: rev_image_eqI)
qed

lemma key_stays:
  assumes "payments_inv d" and "svc_steps d d'" and "q \<in> set (t_payments d)"
    and "p_refund_idempotency_key q \<noteq> None"
  shows "\<forall>q' \<in> set (t_payments d'). p_id q' = p_id q \<longrightarrow> p_refund_idempotency_key q' \<noteq> None"
proof -
  have "has_unique_payment q d" using assms(1,3) unfolding has_unique_payment_def by (intro conjI bexI [of _ q]) simp_all
  then have u: "has_unique_payment q d'" by (rule payment_rows.svc_steps_keep [OF assms(2)])
  then have "distinct (map p_id (t_payments d'))"
    by (simp add: has_unique_payment_def payments_inv_def payments_consistent_def)
  then show ?thesis
    using u assms(4) by (auto simp: has_unique_payment_def same_payment_def dest: distinct_map_eqD)
qed

text \<open>
  C13. A payment is refunded by one cancellation at most: once an instruction has been issued for it, no
  later request issues another, whatever the service did in between.
\<close>

lemma cancellation_refunds_once:
  assumes "payments_inv d" and "cancellation_body bid now d = Inr (Some (i, rb), d1)"
    and "svc_steps d1 d2" and "cancellation_body bid2 now2 d2 = Inr (Some (i2, rb2), d3)"
  shows "ri_payment_id i2 \<noteq> ri_payment_id i"
proof -
  obtain p :: payment and cid dm es where p: "findCapturedPayment bid d = Some p"
    "p_refund_idempotency_key p = None" "mint_refund_key (p_id p) (refundKey cid) now d = Inr dm"
    "ri_payment_id i = p_id p" "d1 = add_audits es dm"
    using assms(2) by (auto simp: cancellation_body_eq_Some)
  obtain p2 :: payment where p2: "findCapturedPayment bid2 d2 = Some p2"
    "p_refund_idempotency_key p2 = None" "ri_payment_id i2 = p_id p2"
    using assms(4) by (auto simp: cancellation_body_eq_Some)
  have mem: "p \<in> set (t_payments d)" "p2 \<in> set (t_payments d2)"
    using p(1) p2(1) by (auto simp: findCapturedPayment_def dest: find_SomeD)
  obtain q where q: "q \<in> set (t_payments dm)" "p_id q = p_id p" "p_refund_idempotency_key q \<noteq> None"
    using minted_key [OF assms(1) mem(1) p(2,3)] by auto
  have "svc_steps d dm" using p(3) by (rule mint_refund_key_steps)
  then have "payments_inv d1"
    using payments_kept.svc_steps_keep assms(1) by (simp add: p(5) payments_inv_def)
  then show ?thesis
    using key_stays [OF _ assms(3), of q] q mem(2) p2 p(4,5) by auto
qed

lemma find_update_same:
  assumes "List.find w rows = Some r" and "distinct (map key rows)" and "w r'"
  shows "List.find w (update_where (\<lambda>x. key x = key r) (\<lambda>_. r') rows) = Some r'"
  using assms
proof (induction rows)
  case (Cons x rows)
  show ?case
  proof (cases "w x")
    case False
    then have "List.find w rows = Some r" using Cons.prems by simp
    moreover have "key x \<noteq> key r" using Cons.prems False by (auto dest!: find_SomeD)
    ultimately show ?thesis using Cons False by simp
  qed (use Cons.prems in auto)
qed simp

text \<open>
  A cancellation that refunds nothing is never settled: no request goes to the provider, the booking
  is not moved, a second request finds the key already minted, and the refund poll does not select
  the payment.
\<close>

lemma zero_refund_never_settles:
  assumes "payments_inv d" and "cancellation_body bid now d = Inr (Some (i, rb), d1)"
    and "ri_amount_minor i = 0"
    and "\<forall>q \<in> set (t_payments d). p_id q = ri_payment_id i \<longrightarrow> p_refund_id q = None"
  shows "settleRefund h pv i later d1 = d1 \<and> t_bookings d1 = t_bookings d
    \<and> cancellation_body bid now2 d1 = Inr (None, d1)
    \<and> ri_payment_id i \<notin> p_id ` set (stale_refunds older batch now2 d1)"
proof -
  obtain b :: booking and p :: payment and cid dm es where
    p: "find_booking bid d = Some b" "findCapturedPayment bid d = Some p"
    "p_refund_idempotency_key p = None" "mint_refund_key (p_id p) (refundKey cid) now d = Inr dm"
    "ri_payment_id i = p_id p" "d1 = add_audits es dm"
    using assms(2) by (auto simp: cancellation_body_eq_Some)
  have dist: "distinct (map p_id (t_payments d))"
    using assms(1) by (simp add: payments_inv_def payments_consistent_def)
  have mem: "p \<in> set (t_payments d)" and cap: "p_booking_id p = bid" "p_status p = PaySucceeded"
    using p(2) by (auto simp: findCapturedPayment_def dest: find_SomeD)
  let ?w = "\<lambda>q. p_id q = p_id p \<and> p_refund_idempotency_key q = None"
  let ?p' = "p\<lparr>p_refund_idempotency_key := Some (refundKey cid), p_updated_at := now\<rparr>"
  have "\<exists>q. List.find ?w (t_payments d) = Some q"
    using mem p(3) by (cases "List.find ?w (t_payments d)") (auto simp: find_None_iff)
  then obtain q where q: "List.find ?w (t_payments d) = Some q" by blast
  then have "q = p" using find_SomeD [OF q] distinct_map_eqD [OF dist] mem by auto
  then have dm: "t_payments dm = update_where (\<lambda>x. p_id x = p_id p) (\<lambda>_. ?p') (t_payments d)"
    using p(4) q by (auto simp: mint_refund_key_def tx_simps update_payment_eq_Inr)
  have "findCapturedPayment bid d1 = Some ?p'"
    using find_update_same [OF p(2) [unfolded findCapturedPayment_def] dist, of ?p'] cap dm p(6)
    by (simp add: findCapturedPayment_def)
  moreover have "find_booking bid d1 = Some b"
    using p(1) mint_refund_key_steps(2) [OF p(4)] p(6) by (simp add: find_booking_def)
  ultimately have "cancellation_body bid now2 d1 = Inr (None, d1)"
    by (simp add: cancellation_body_def split: option.split)
  moreover have "p_refund_id r = None" if "r \<in> set (t_payments d1)" "p_id r = p_id p" for r
    using that assms(4) dm p(5,6) mem by (auto simp: set_update_where split: if_splits)
  then have "ri_payment_id i \<notin> p_id ` set (stale_refunds older batch now2 d1)"
    using p(5) by (auto simp: stale_refunds_def dest!: in_set_takeD)
  moreover have "t_bookings d1 = t_bookings d"
    using mint_refund_key_steps(2) [OF p(4)] by (simp add: p(6))
  ultimately show ?thesis using assms(3) by (simp add: settleRefund_def)
qed

section \<open>Preparing a charge\<close>

lemma loadOwned_found:
  assumes "stored_inv d" and "loadOwned bid p d = Inr b"
  shows "find_booking (uuid_in bid) d = Some b"
proof -
  have "b \<in> set (t_bookings d)" "b_id b = uuid_in bid"
    using assms(2) by (auto simp: loadOwned_def tx_simps dest: find_SomeD)
  then show ?thesis
    using assms(1) unfolding find_booking_def
    by (intro find_key_unique) (auto simp: stored_inv_def stored_ids)
qed

lemma inserted_payment:
  assumes "insert_payment p d = Inr d1"
  shows "findPaymentByKey (p_idempotency_key p) d1 =
    (case findPaymentByKey (p_idempotency_key p) d of Some q \<Rightarrow> Some q | None \<Rightarrow> Some p)"
  using assms
  by (auto simp: insert_payment_def findPaymentByKey_def find_append split: option.splits if_splits)

text \<open>The claim that returns, spelt out.\<close>

lemma pay_claim_eq_Inr:
  "pay_claim bid p a b d = Inr ((b', q, s), d') \<Longrightarrow>
     b' = b \<and> \<not> s \<and> (b_status b = HELD \<or> b_status b = PENDING_PAYMENT)
     \<and> \<not> (b_status b = HELD \<and> lapsed (at_now a) b)
     \<and> (\<exists>d1. insert_payment (new_payment (at_id a) (uuid_in bid) (chargeKey bid) (b_total_minor b) (at_now a)) d = Inr d1
        \<and> findPaymentByKey (chargeKey bid) d1 = Some q
        \<and> (if b_status b = HELD then \<exists>r. transition \<lparr>ti_booking_id = uuid_in bid, ti_to = PENDING_PAYMENT,
               ti_actor = user_actor (pr_user_id p), ti_reason = ''payment.initiated'',
               ti_expected_from = Some [HELD], ti_patch = no_patch\<rparr> (at_now a) d1 = Inr (r, d')
           else d' = d1))"
  by (auto simp: pay_claim_def tx_simps split: if_splits)

lemma pay_claim_payments:
  assumes "pay_claim bid p a b d = Inr ((b', q, s), d')"
  shows "findPaymentByKey (chargeKey bid) d' = Some q"
    "findPaymentByKey (chargeKey bid) d = Some q \<or> findPaymentByKey (chargeKey bid) d = None
       \<and> q = new_payment (at_id a) (uuid_in bid) (chargeKey bid) (b_total_minor b) (at_now a)"
proof -
  obtain d1 where d1: "insert_payment (new_payment (at_id a) (uuid_in bid) (chargeKey bid) (b_total_minor b) (at_now a)) d = Inr d1"
    "findPaymentByKey (chargeKey bid) d1 = Some q" "t_payments d' = t_payments d1"
    using pay_claim_eq_Inr [OF assms] by (auto split: if_splits dest: sm_frame_transition)
  show "findPaymentByKey (chargeKey bid) d' = Some q" using d1(2,3) by (simp add: findPaymentByKey_def)
  show "findPaymentByKey (chargeKey bid) d = Some q \<or> findPaymentByKey (chargeKey bid) d = None
       \<and> q = new_payment (at_id a) (uuid_in bid) (chargeKey bid) (b_total_minor b) (at_now a)"
    using inserted_payment [OF d1(1)] d1(2) by (auto simp: new_payment_def split: option.splits)
qed

lemma pay_prepare_payments:
  assumes "pay_prepare bid p a d = Inr ((b, q, s), d')"
  shows "loadOwned bid p d = Inr b" "findPaymentByKey (chargeKey bid) d' = Some q"
    "s \<Longrightarrow> d' = d \<and> p_status q \<noteq> PayPending"
    "\<not> s \<Longrightarrow> pay_claim bid p a b d = Inr ((b, q, s), d')"
    "\<not> s \<Longrightarrow> findPaymentByKey (chargeKey bid) d = Some q \<and> p_status q = PayPending
       \<or> findPaymentByKey (chargeKey bid) d = None
         \<and> q = new_payment (at_id a) (uuid_in bid) (chargeKey bid) (b_total_minor b) (at_now a)"
proof -
  obtain b0 where b0: "loadOwned bid p d = Inr b0" using assms by (auto simp: pay_prepare_def tx_simps)
  consider (old) e where "findPaymentByKey (chargeKey bid) d = Some e" "p_status e \<noteq> PayPending"
      "b = b0" "q = e" "s" "d' = d"
    | (pending) e where "findPaymentByKey (chargeKey bid) d = Some e" "p_status e = PayPending"
      "pay_claim bid p a b0 d = Inr ((b, q, s), d')"
    | (new) "findPaymentByKey (chargeKey bid) d = None" "pay_claim bid p a b0 d = Inr ((b, q, s), d')"
    using assms b0 by (auto simp: pay_prepare_def split: option.splits if_splits)
  then have "b = b0 \<and> findPaymentByKey (chargeKey bid) d' = Some q
    \<and> (s \<longrightarrow> d' = d \<and> p_status q \<noteq> PayPending) \<and> (\<not> s \<longrightarrow> pay_claim bid p a b d = Inr ((b, q, s), d'))
    \<and> (\<not> s \<longrightarrow> findPaymentByKey (chargeKey bid) d = Some q \<and> p_status q = PayPending
       \<or> findPaymentByKey (chargeKey bid) d = None
         \<and> q = new_payment (at_id a) (uuid_in bid) (chargeKey bid) (b_total_minor b) (at_now a))"
  proof cases
    case pending
    then show ?thesis using pay_claim_eq_Inr [OF pending(3)] pay_claim_payments [OF pending(3)] by auto
  next
    case new
    then show ?thesis using pay_claim_eq_Inr [OF new(2)] pay_claim_payments [OF new(2)] by auto
  qed auto
  then show "loadOwned bid p d = Inr b" "findPaymentByKey (chargeKey bid) d' = Some q"
    "s \<Longrightarrow> d' = d \<and> p_status q \<noteq> PayPending"
    "\<not> s \<Longrightarrow> pay_claim bid p a b d = Inr ((b, q, s), d')"
    "\<not> s \<Longrightarrow> findPaymentByKey (chargeKey bid) d = Some q \<and> p_status q = PayPending
       \<or> findPaymentByKey (chargeKey bid) d = None
         \<and> q = new_payment (at_id a) (uuid_in bid) (chargeKey bid) (b_total_minor b) (at_now a)"
    using b0 by auto
qed

text \<open>
  Before the provider is called, the attempt is durable: the payment is on record under the key of
  the request, PENDING, and the booking is PENDING_PAYMENT. A first attempt asks for the total of
  the booking.
\<close>

lemma pay_prepares:
  assumes "stored_inv d" and "pay_prepare bid p a d = Inr ((b, q, False), d')"
  shows "findPaymentByKey (chargeKey bid) d' = Some q \<and> p_status q = PayPending
    \<and> (\<exists>b'. find_booking (uuid_in bid) d' = Some b' \<and> b_status b' = PENDING_PAYMENT)
    \<and> (findPaymentByKey (chargeKey bid) d = None \<longrightarrow>
         p_booking_id q = uuid_in bid \<and> p_amount_minor q = b_total_minor b \<and> p_charge_id q = None)"
proof -
  note q = pay_prepare_payments [OF assms(2)]
  have b: "find_booking (uuid_in bid) d = Some b" by (rule loadOwned_found [OF assms(1) q(1)])
  have c: "pay_claim bid p a b d = Inr ((b, q, False), d')" using q(4) by simp
  obtain d1 where d1: "insert_payment (new_payment (at_id a) (uuid_in bid) (chargeKey bid) (b_total_minor b) (at_now a)) d = Inr d1"
    and t: "if b_status b = HELD then \<exists>r. transition \<lparr>ti_booking_id = uuid_in bid, ti_to = PENDING_PAYMENT,
               ti_actor = user_actor (pr_user_id p), ti_reason = ''payment.initiated'',
               ti_expected_from = Some [HELD], ti_patch = no_patch\<rparr> (at_now a) d1 = Inr (r, d')
           else d' = d1"
    and st: "b_status b = HELD \<or> b_status b = PENDING_PAYMENT"
    using pay_claim_eq_Inr [OF c] by blast
  have b1: "find_booking (uuid_in bid) d1 = Some b"
    using b insert_payment_frame(1) [OF d1] by (simp add: find_booking_def)
  have "\<exists>b'. find_booking (uuid_in bid) d' = Some b' \<and> b_status b' = PENDING_PAYMENT"
  proof (cases "b_status b = HELD")
    case True
    let ?i = "\<lparr>ti_booking_id = uuid_in bid, ti_to = PENDING_PAYMENT,
               ti_actor = user_actor (pr_user_id p), ti_reason = ''payment.initiated'',
               ti_expected_from = Some [HELD], ti_patch = no_patch\<rparr>"
    obtain e where "d' = booking_written (moved ?i (at_now a) b) e d1"
      using t True b1 by (auto simp: transition_eq_Inr)
    moreover have "b_id b = uuid_in bid" using b by (auto dest: find_booking_SomeD)
    ultimately have "find_booking (uuid_in bid) d' = Some (moved ?i (at_now a) b)"
      using find_booking_written [of "moved ?i (at_now a) b" d1 e] b1 by simp
    then show ?thesis by simp
  next
    case False
    then show ?thesis using t st b1 by simp
  qed
  then show ?thesis using q(2,5) by (auto simp: new_payment_def)
qed

lemma payment_of_key:
  assumes "payments_inv d" and "findPaymentByKey k d = Some q" and "q' \<in> set (t_payments d)"
    and "p_idempotency_key q' = k"
  shows "q' = q"
proof -
  have q: "q \<in> set (t_payments d)" "p_idempotency_key q = k"
    using assms(2) by (auto simp: findPaymentByKey_def dest: find_SomeD)
  then have "p_id q' = p_id q"
    using assms unfolding payments_inv_def payments_consistent_def payment_clash_def by metis
  then show ?thesis
    using assms q by (auto simp: payments_inv_def payments_consistent_def dest: distinct_map_eqD)
qed

text \<open>
  C11. A retry of a payment, after a crash or from another replica and whatever the service did in
  between, is the same charge: the request carries the same key and the same amount, for the same
  payment row.
\<close>

lemma pay_retry_same_charge:
  assumes "payments_inv d" and "pay_prepare bid p a d = Inr ((b, q, s), d1)" and "svc_steps d1 d2"
    and "pay_prepare bid p' a' d2 = Inr ((b', q', s'), d3)"
  shows "p_id q' = p_id q \<and> cq_amount_minor (charge_request_of bid b' q') = cq_amount_minor (charge_request_of bid b q)
    \<and> cq_idempotency_key (charge_request_of bid b' q') = cq_idempotency_key (charge_request_of bid b q)"
proof -
  have q: "findPaymentByKey (chargeKey bid) d1 = Some q" "findPaymentByKey (chargeKey bid) d3 = Some q'"
    using pay_prepare_payments(2) assms(2,4) by blast+
  then have mem: "q \<in> set (t_payments d1)" "p_idempotency_key q = chargeKey bid"
    by (auto simp: findPaymentByKey_def dest: find_SomeD)
  have "payments_inv d1"
    using payments_kept.svc_steps_keep [OF pay_prepare_steps [OF assms(2)] assms(1)] .
  then have "has_unique_payment q d1"
    using mem unfolding has_unique_payment_def by (intro conjI bexI [of _ q]) simp_all
  then have "has_unique_payment q d3"
    by (rule payment_rows.svc_steps_keep [OF svc_steps_trans [OF assms(3) pay_prepare_steps [OF assms(4)]]])
  then obtain r where r: "r \<in> set (t_payments d3)" "same_payment q r" "payments_inv d3"
    by (auto simp: has_unique_payment_def)
  then have "r = q'" using payment_of_key [OF r(3) q(2) r(1)] mem(2) by (simp add: same_payment_def)
  then show ?thesis using r(2) by (simp add: same_payment_def charge_request_of_def)
qed

text \<open>
  A hold whose time is up is refused, and the refusal leaves the database as it was: the EXPIRED
  written on the way is rolled back with the exception.
\<close>

lemma pay_lapsed_hold:
  assumes "stored_inv d" and "loadOwned bid p d = Inr b" and "b_status b = HELD"
    and "findPaymentByKey (chargeKey bid) d = None" and "0 < attempts"
    and "\<And>k. at_abort (att k) = None" "\<And>k. lapsed (at_now (att k)) b"
  shows "pay attempts pv meanwhile bid p att later d = (Inl (Conflict (HoldExpired bid)), d)"
proof -
  have b: "find_booking (uuid_in bid) d = Some b" by (rule loadOwned_found [OF assms(1,2)])
  have "\<exists>r. transition \<lparr>ti_booking_id = uuid_in bid, ti_to = EXPIRED, ti_actor = SYSTEM_ACTOR,
      ti_reason = ''hold.expired.on_pay'', ti_expected_from = Some [HELD], ti_patch = no_patch\<rparr> now d = Inr r" for now
    using transition_goes_through [OF assms(1), of "\<lparr>ti_booking_id = uuid_in bid, ti_to = EXPIRED,
      ti_actor = SYSTEM_ACTOR, ti_reason = ''hold.expired.on_pay'', ti_expected_from = Some [HELD],
      ti_patch = no_patch\<rparr>" b] b assms(3) by auto
  then have "pay_prepare bid p (att k) d = Inl (Conflict (HoldExpired bid))" for k
    using assms(2,3,4,7) by (auto simp: pay_prepare_def pay_claim_def tx_simps)
  then have t: "transaction (attempted (att k) (pay_prepare bid p (att k))) d
      = (Inl (Conflict (HoldExpired bid)), d)" for k
    using assms(6) by (simp add: attempted_def)
  obtain r d1 where w: "withTransientRetry attempts
      (\<lambda>k. transaction (attempted (att k) (pay_prepare bid p (att k)))) d = (r, d1)" by force
  then have "(r, d1) = (Inl (Conflict (HoldExpired bid)), d)"
    using t by (elim withTransientRetry_cases [OF assms(5)]) simp
  then show ?thesis by (simp add: pay_def w)
qed

text \<open>
  The key of a charge is built from the id as the request spells it, and the row is looked up by its
  value. Two spellings of one booking id therefore prepare two charges for it, under two keys, each
  for the whole total.
\<close>

lemma pay_spellings_charge_twice:
  assumes "stored_inv d" and "payments_inv d" and "uuid_in bid' = uuid_in bid" and "bid' \<noteq> bid"
    and "findPaymentByKey (chargeKey bid) d = None" "findPaymentByKey (chargeKey bid') d = None"
    and "pay_prepare bid p a d = Inr ((b, q, False), d1)"
    and "pay_prepare bid' p a' d1 = Inr ((b', q', False), d2)"
  shows "p_id q' \<noteq> p_id q \<and> q' \<in> set (t_payments d2) \<and> (\<exists>r \<in> set (t_payments d2). same_payment q r)
    \<and> p_booking_id q' = p_booking_id q
    \<and> cq_idempotency_key (charge_request_of bid' b' q') \<noteq> cq_idempotency_key (charge_request_of bid b q)
    \<and> p_amount_minor q = b_total_minor b \<and> p_amount_minor q' = b_total_minor b'"
proof -
  note q1 = pay_prepare_payments [OF assms(7)] and q2 = pay_prepare_payments [OF assms(8)]
  have new: "q = new_payment (at_id a) (uuid_in bid) (chargeKey bid) (b_total_minor b) (at_now a)"
    using q1(5) assms(5) by simp
  have mem: "q \<in> set (t_payments d1)" "q' \<in> set (t_payments d2)" "p_idempotency_key q' = chargeKey bid'"
    using q1(2) q2(2) by (auto simp: findPaymentByKey_def dest: find_SomeD)
  have inv: "payments_inv d1" using payments_kept.svc_steps_keep [OF pay_prepare_steps [OF assms(7)] assms(2)] .
  then have "has_unique_payment q d1"
    using mem(1) unfolding has_unique_payment_def by (intro conjI bexI [of _ q]) simp_all
  then have "has_unique_payment q d2" by (rule payment_rows.svc_steps_keep [OF pay_prepare_steps [OF assms(8)]])
  then obtain r where r: "r \<in> set (t_payments d2)" "same_payment q r" "payments_inv d2"
    by (auto simp: has_unique_payment_def)
  have "p_id q' \<noteq> p_id q"
  proof
    assume "p_id q' = p_id q"
    then have "q' = r"
      using r mem(2) by (auto simp: same_payment_def payments_inv_def payments_consistent_def dest: distinct_map_eqD)
    then show False using r(2) mem(3) new assms(4) by (simp add: same_payment_def new_payment_def)
  qed
  have "findPaymentByKey (chargeKey bid') d1 = None"
  proof -
    obtain d0 where "insert_payment q d = Inr d0" "t_payments d1 = t_payments d0"
      using pay_claim_eq_Inr [OF q1(4)] new by (auto split: if_splits dest: sm_frame_transition)
    then have "t_payments d1 = t_payments d @ [q]"
      using assms(5) new by (auto simp: insert_payment_def new_payment_def split: if_splits)
    then show ?thesis using assms(4,6) new by (simp add: findPaymentByKey_def find_append new_payment_def)
  qed
  then have "q' = new_payment (at_id a') (uuid_in bid') (chargeKey bid') (b_total_minor b') (at_now a')"
    using q2(5) by simp
  then show ?thesis
    using \<open>p_id q' \<noteq> p_id q\<close> mem(2) r new assms(3,4)
    by (auto simp: new_payment_def charge_request_of_def)
qed

section \<open>An event takes effect once\<close>

text \<open>What a delivery may change of a payment without applying its event: the charge id it adopts.\<close>

definition settlement :: "payment \<Rightarrow> uuid \<times> payment_status \<times> int \<times> string option \<times> string option" where
  "settlement p = (p_id p, p_status p, p_refunded_minor p, p_refund_id p, p_refund_idempotency_key p)"

lemma update_payment_settlements:
  assumes "payments_inv d" and "update_payment w f d = Inr (r, d')" and "\<And>q. settlement (f q) = settlement q"
  shows "map settlement (t_payments d') = map settlement (t_payments d)"
proof (cases "List.find w (t_payments d)")
  case (Some x)
  then have x: "x \<in> set (t_payments d)" by (auto dest: find_SomeD)
  have "\<And>y. y \<in> set (t_payments d) \<Longrightarrow> p_id y = p_id x \<Longrightarrow> y = x"
    using assms(1) x by (auto simp: payments_inv_def payments_consistent_def dest: distinct_map_eqD)
  then show ?thesis
    using assms(2,3) Some by (auto simp: update_payment_eq_Inr update_where_def)
qed (use assms in \<open>simp add: update_payment_eq_Inr\<close>)

lemma find_or_adopt_settlements:
  assumes "payments_inv d" and "find_or_adopt cid ref now d = Inr (r, d')"
  shows "map settlement (t_payments d') = map settlement (t_payments d)"
    "t_payment_events d' = t_payment_events d" "t_bookings d' = t_bookings d"
    "t_audit_events d' = t_audit_events d"
proof -
  have "d' = d \<or> (\<exists>w r'. update_payment w (\<lambda>p. p\<lparr>p_charge_id := Some cid, p_updated_at := now\<rparr>) d = Inr (r', d'))"
    using assms(2) by (auto simp: find_or_adopt_def adoptChargeByReference_def tx_simps
        split: option.splits if_splits)
  then show "map settlement (t_payments d') = map settlement (t_payments d)"
    "t_payment_events d' = t_payment_events d" "t_bookings d' = t_bookings d"
    "t_audit_events d' = t_audit_events d"
    using update_payment_settlements [OF assms(1)] update_payment_frame by (auto simp: settlement_def)
qed

lemma gate_closed:
  assumes "(cid, ev) \<in> applied_events d"
  shows "insert_payment_event cid ev t now d = (False, d)"
  using assms by (auto simp: insert_payment_event_def applied_events_def)

text \<open>
  C10. However often an event is delivered, in whatever order and with whatever the service did in
  between, it takes effect once: after it has been applied, a delivery of it asks for no refund and
  changes no booking, no audit row and no payment beyond the charge id it may adopt.
\<close>

lemma event_applies_once:
  assumes "(cid, ev) \<in> applied_events d" and "payments_inv d" and "svc_steps d d1"
    and "List.find (\<lambda>w. wd_id w = row) (t_webhook_deliveries d1) = Some w"
    and "body_of h (wd_raw_body w) = Inr body"
    and "asString (json_field ''charge_id'' body) = Some cid"
    and "asString (json_field ''event'' body) = Some ev"
    and "applyInTransaction h row now d1 = Inr (r, d2)"
  shows "r = None \<and> t_bookings d2 = t_bookings d1 \<and> t_audit_events d2 = t_audit_events d1
    \<and> map settlement (t_payments d2) = map settlement (t_payments d1)"
  using assms(8)
proof (cases rule: applyInTransaction_cases)
  case (supported w' body' cid' ev' ref occurred)
  have same: "cid' = cid" "ev' = ev" using supported assms(4-7) by simp_all
  obtain found d3 where f: "find_or_adopt cid ref now d1 = Inr (found, d3)"
    using supported(7) same by (auto simp: apply_supported_def tx_simps)
  have inv: "payments_inv d1" by (rule payments_kept.svc_steps_keep [OF assms(3,2)])
  note k = find_or_adopt_settlements [OF inv f]
  have "has_applied {(cid, ev)} d1"
    using applied_kept.svc_steps_keep [OF assms(3), of "{(cid, ev)}"] assms(1) by (simp add: has_applied_def)
  then have "(cid, ev) \<in> applied_events d3" using k(2) by (simp add: has_applied_def applied_events_def)
  then have "d2 = finishDelivery row (Some ''duplicate_effect'') now d3 \<or> d2 = mark_unknown row cid ref d3"
    "r = None"
    using supported(7) f gate_closed by (auto simp: same apply_supported_def apply_claimed_def split: option.splits)
  then show ?thesis using k by (auto simp: finishDelivery_def mark_unknown_def)
qed (simp_all add: finishDelivery_def)

text \<open>
  The poll and the webhook close the same gate: whichever settles a charge first, the other finds
  the event applied and changes nothing.
\<close>

lemma poll_after_webhook:
  assumes "(cid, if ok then ''charge.succeeded'' else ''charge.failed'') \<in> applied_events d"
    and "svc_steps d d1"
  shows "charge_poll_body p cid ok now d1 = Inr ((False, None), d1)"
proof -
  let ?ev = "if ok then ''charge.succeeded'' else ''charge.failed''"
  have "has_applied {(cid, ?ev)} d1"
    using applied_kept.svc_steps_keep [OF assms(2), of "{(cid, ?ev)}"] assms(1) by (simp add: has_applied_def)
  then show ?thesis using gate_closed [of cid ?ev d1 now now] by (simp add: charge_poll_body_def has_applied_def)
qed

text \<open>And a delivery that applies an event closes the gate behind it.\<close>

lemma applied_delivery_closes_gate:
  assumes "apply_claimed row cid ev occurred body now p d = Inr (r, d')"
  shows "(cid, ev) \<in> applied_events d'"
proof -
  obtain won d1 where e: "insert_payment_event cid ev occurred now d = (won, d1)" by force
  have "(cid, ev) \<in> applied_events d1"
    using event_gate.marks [of occurred now "(cid, ev)" d] e by simp
  then have "has_applied {(cid, ev)} d1" by (simp add: has_applied_def)
  moreover have "svc_steps d1 d'"
  proof (cases won)
    case True
    then obtain d2 where "apply_event ev p cid body now d1 = Inr (r, d2)" "d' = finishDelivery row None now d2"
      using assms e by (auto simp: apply_claimed_def tx_simps)
    then show ?thesis by (meson apply_event_steps finishDelivery_steps svc_steps_trans)
  next
    case False
    then show ?thesis using assms e by (auto simp: apply_claimed_def intro: finishDelivery_steps)
  qed
  ultimately have "has_applied {(cid, ev)} d'" using applied_kept.svc_steps_keep by blast
  then show ?thesis by (simp add: has_applied_def)
qed

section \<open>Receiving deliveries\<close>

text \<open>
  A delivery whose signature does not verify is answered 401 and never acted on: no payment, booking
  or event changes, and the row it leaves is one the worker will do nothing with.
\<close>

lemma unsigned_never_applied:
  assumes "\<not> verifySignature h raw sec sig" and "sec \<noteq> []"
    and "row \<notin> wd_id ` set (t_webhook_deliveries d)"
    and "ingest h (Some sec) raw sig header corr row rnd now d = (res, d1)"
  shows "res = Inl Unauthorized \<and> t_payments d1 = t_payments d \<and> t_bookings d1 = t_bookings d
    \<and> t_payment_events d1 = t_payment_events d \<and> applyInTransaction h row later d1 = Inr (None, d1)"
proof -
  let ?w = "delivery_row row (case header of Some x \<Rightarrow> x | None \<Rightarrow> ''unsigned-'' @ rnd) None None None False
    raw corr now (Some now) (Some ''invalid_signature'')"
  have w: "wd_id ?w = row" "wd_processed_at ?w = Some now" by (simp_all add: delivery_row_def)
  have none: "List.find (\<lambda>w. wd_id w = row) (t_webhook_deliveries d) = None"
    using assms(3) by (auto simp: find_None_iff)
  have "\<exists>x d2. recordDelivery ?w d = Inr (x, d2)"
    using assms(3) w by (simp add: recordDelivery_def)
  then obtain x d2 where r: "recordDelivery ?w d = Inr (x, d2)" by blast
  then have "res = Inl Unauthorized" "d1 = d2" using assms(1,2,4) by (auto simp: ingest_def Let_def)
  moreover have "t_payments d2 = t_payments d" "t_bookings d2 = t_bookings d"
    "t_payment_events d2 = t_payment_events d"
    using r by (auto simp: recordDelivery_def split: if_splits)
  moreover have "applyInTransaction h row later d2 = Inr (None, d2)"
    using r none w by (auto simp: recordDelivery_def applyInTransaction_def find_append split: if_splits)
  ultimately show ?thesis by simp
qed

text \<open>
  The same header twice: the second delivery is acknowledged as a duplicate and changes nothing,
  whoever sent the first. A forged delivery therefore takes the id of the genuine one, which is then
  acknowledged and never applied.
\<close>

lemma forged_delivery_takes_id:
  assumes "\<not> verifySignature h forged sec sig" and "sec \<noteq> []"
    and "row \<notin> wd_id ` set (t_webhook_deliveries d)"
    and "ingest h (Some sec) forged sig (Some did) corr row rnd now d = (res, d1)"
    and "verifySignature h raw sec sig'" and "h_json_parse h raw = Some body" and "body \<noteq> JNull"
  shows "ingest h (Some sec) raw sig' (Some did) corr' row' rnd' now' d1 = (Inr (None, IngestDuplicate), d1)"
proof -
  let ?w = "delivery_row row did None None None False forged corr now (Some now) (Some ''invalid_signature'')"
  have did: "wd_delivery_id (delivery_row a did b c e f g i j k l) = did" for a b c e f g i j k l
    by (simp add: delivery_row_def)
  have "wd_id ?w = row" by (simp add: delivery_row_def)
  then have "\<exists>x d2. recordDelivery ?w d = Inr (x, d2)"
    using assms(3) by (simp add: recordDelivery_def)
  then obtain x d2 where r: "recordDelivery ?w d = Inr (x, d2)" by blast
  then have "d1 = d2" using assms(1,2,4) by (auto simp: ingest_def Let_def)
  then have "did \<in> wd_delivery_id ` set (t_webhook_deliveries d1)"
    using r did by (auto simp: recordDelivery_def split: if_splits)
  then have "recordDelivery (delivery_row row' did b c e f g i j k l) d1 = Inr (None, d1)" for b c e f g i j k l
    using did by (simp add: recordDelivery_def)
  then show ?thesis using assms(2,5-7) by (simp add: ingest_def Let_def)
qed

end
