(* ===== verification/Workers.thy ===== *)
theory Workers
  imports PaymentProperties
begin

text \<open>
  The two background workers every replica runs: \<open>apps/api/src/bookings/hold-sweeper.service.ts\<close> and
  \<open>apps/api/src/payments/webhook-processor.service.ts\<close>. A tick is a function of the tables; the
  timers, the log lines and the interleaving of one replica's tick with another's are not modelled.
  \<open>reentered\<close> is the replica's own re-entrancy flag, \<open>locked\<close> the answer of
  \<open>pg_try_advisory_xact_lock\<close>, and \<open>busy\<close> the rows SKIP LOCKED passes over.
\<close>

section \<open>The hold sweeper\<close>

definition SWEEP_BATCH_SIZE :: nat where "SWEEP_BATCH_SIZE = 500"

definition sweep_body :: "bool \<Rightarrow> (booking \<Rightarrow> bool) \<Rightarrow> instant \<Rightarrow> db \<Rightarrow> exn + nat \<times> db" where
  "sweep_body locked busy now d =
     (if \<not> locked then Inr (0, d)
      else case expireStaleHolds SWEEP_BATCH_SIZE busy SYSTEM_ACTOR now d of
        (ids, d1) \<Rightarrow> Inr (length ids, d1))"

definition sweeper_tick :: "bool \<Rightarrow> attempt \<Rightarrow> bool \<Rightarrow> (booking \<Rightarrow> bool) \<Rightarrow> db \<Rightarrow> nat \<times> db" where
  "sweeper_tick reentered a locked busy d =
     (if reentered then (0, d)
      else case transaction (attempted a (sweep_body locked busy (at_now a))) d of
        (Inl e, d1) \<Rightarrow> (0, d1)
      | (Inr n, d1) \<Rightarrow> (n, d1))"

section \<open>The webhook processor\<close>

definition DRAIN_BATCH_SIZE :: nat where "DRAIN_BATCH_SIZE = 100"
definition POLL_LIMIT :: nat where "POLL_LIMIT = 50"

definition pending_delivery :: "webhook_delivery \<Rightarrow> bool" where
  "pending_delivery w \<longleftrightarrow> wd_processed_at w = None \<and> wd_signature_valid w"

definition backlog :: "db \<Rightarrow> uuid list" where
  "backlog d = map wd_id (take DRAIN_BATCH_SIZE (sort_key wd_received_at
     (filter pending_delivery (t_webhook_deliveries d))))"

fun drain :: "(uuid \<Rightarrow> db \<Rightarrow> (exn + unit) \<times> db) \<Rightarrow> uuid list \<Rightarrow> db \<Rightarrow> nat \<times> db" where
  "drain step [] d = (0, d)"
| "drain step (row # rows) d =
     (case step row d of
        (Inl e, d1) \<Rightarrow> drain step rows d1
      | (Inr _, d1) \<Rightarrow> (case drain step rows d1 of (n, d2) \<Rightarrow> (n + 1, d2)))"

definition kick :: "host \<Rightarrow> provider \<Rightarrow> nat \<Rightarrow> (nat \<Rightarrow> attempt) \<Rightarrow> uuid \<Rightarrow> instant \<Rightarrow> db \<Rightarrow> db" where
  "kick h pv n att row later d = snd (applyDelivery h pv n att row later d)"

definition webhook_tick :: "host \<Rightarrow> provider \<Rightarrow> nat \<Rightarrow> (uuid \<Rightarrow> nat \<Rightarrow> attempt) \<Rightarrow> int \<Rightarrow> int \<Rightarrow> instant
    \<Rightarrow> bool \<Rightarrow> db \<Rightarrow> nat \<times> db" where
  "webhook_tick h pv n att charge_after refund_after now reentered d =
     (if reentered then (0, d)
      else
        let (applied, d1) = drain (\<lambda>row. applyDelivery h pv n (att row) row now) (backlog d) d;
            (charges, d2) = settleAcceptedCharges h pv n (att []) charge_after POLL_LIMIT now d1;
            (refunds, d3) = settleAcceptedRefunds pv n (att []) refund_after POLL_LIMIT now d2
        in (applied, d3))"

section \<open>The ticks as steps\<close>

lemma expireStaleHolds_sel [simp]:
  "t_payments (snd (expireStaleHolds batch busy who now d)) = t_payments d"
  "t_payment_events (snd (expireStaleHolds batch busy who now d)) = t_payment_events d"
  by (simp_all add: expireStaleHolds_def expire_rows_def Let_def)

lemma svc_sweep: "svc_steps d (snd (expireStaleHolds batch busy who now d))"
  by (rule svc_stepsI, rule svc_step.on_booking) (simp_all add: sm_steps_stepI sm_step.sweep)

lemma sweeper_tick_steps: "svc_steps d (snd (sweeper_tick reentered a locked busy d))"
proof -
  have "svc_steps d d1" if "sweep_body locked busy now d = Inr (n, d1)" for n d1 now
    using that svc_sweep [of d SWEEP_BATCH_SIZE busy SYSTEM_ACTOR now]
    by (auto simp: sweep_body_def split: if_splits prod.splits)
  then show ?thesis
    by (auto simp: sweeper_tick_def tx_simps split: sum.splits prod.splits)
qed

lemma drain_steps:
  assumes "\<And>row d. svc_steps d (snd (step row d))"
  shows "svc_steps d (snd (drain step rows d))"
proof (induction rows arbitrary: d)
  case (Cons row rows)
  have s: "svc_steps d (snd (step row d))" by (rule assms)
  obtain r d1 where r: "step row d = (r, d1)" by force
  have "svc_steps d (snd (drain step rows d1))"
    using s Cons.IH [of d1] by (auto simp: r intro: svc_steps_trans)
  then show ?case by (auto simp: r split: sum.splits prod.splits)
qed simp

lemma webhook_tick_steps: "svc_steps d (snd (webhook_tick h pv n att ca ra now reentered d))"
proof -
  obtain k1 d1 where d1: "drain (\<lambda>row. applyDelivery h pv n (att row) row now) (backlog d) d = (k1, d1)" by force
  obtain k2 d2 where d2: "settleAcceptedCharges h pv n (att []) ca POLL_LIMIT now d1 = (k2, d2)" by force
  obtain k3 d3 where d3: "settleAcceptedRefunds pv n (att []) ra POLL_LIMIT now d2 = (k3, d3)" by force
  have "svc_steps d d1"
    using drain_steps [of "\<lambda>row. applyDelivery h pv n (att row) row now" d "backlog d", OF applyDelivery_steps] d1
    by simp
  moreover have "svc_steps d1 d2" using settleAcceptedCharges_steps [of d1 h pv n "att []" ca POLL_LIMIT now] d2 by simp
  moreover have "svc_steps d2 d3" using settleAcceptedRefunds_steps [of d2 pv n "att []" ra POLL_LIMIT now] d3 by simp
  ultimately have "svc_steps d d3" by (meson svc_steps_trans)
  then show ?thesis by (simp add: webhook_tick_def d1 d2 d3)
qed

section \<open>What the sweeper clears, and what it does not\<close>

lemma stale_batch_all:
  assumes "length (filter (stale_hold now) (t_bookings d)) \<le> batch"
  shows "set (stale_batch batch (\<lambda>_. False) now d) = b_id ` {b \<in> set (t_bookings d). stale_hold now b}"
  using assms by (simp add: stale_batch_def)

text \<open>
  C32. A tick that holds the lock and finds no row locked expires every stale hold, when no more than a
  batch of them are waiting, and touches no other booking. A PENDING_PAYMENT booking whose time is
  up is among the others: it is left active, and its slot with it.
\<close>

lemma sweeper_clears:
  assumes "stored_inv d" and "length (filter (stale_hold (at_now a)) (t_bookings d)) \<le> SWEEP_BATCH_SIZE"
    and "at_abort a = None" and "sweeper_tick False a True (\<lambda>_. False) d = (n, d')"
  shows "(\<forall>b \<in> set (t_bookings d'). \<not> stale_hold (at_now a) b)
    \<and> n = length (filter (stale_hold (at_now a)) (t_bookings d))
    \<and> (\<forall>b \<in> set (t_bookings d). \<not> stale_hold (at_now a) b \<longrightarrow> find_booking (b_id b) d' = Some b)
    \<and> (\<forall>b \<in> set (t_bookings d). b_status b = PENDING_PAYMENT \<longrightarrow> find_booking (b_id b) d' = Some b)"
proof -
  let ?ids = "stale_batch SWEEP_BATCH_SIZE (\<lambda>_. False) (at_now a) d"
  let ?q = "\<lambda>b. b_id b \<in> set ?ids"
  let ?f = "\<lambda>b. b\<lparr>b_status := EXPIRED, b_updated_at := at_now a\<rparr>"
  have dist: "distinct (map b_id (t_bookings d))" using assms(1) by (simp add: stored_inv_def stored_ids)
  have q: "?q b \<longleftrightarrow> stale_hold (at_now a) b" if "b \<in> set (t_bookings d)" for b
    using that dist by (auto simp: stale_batch_all [OF assms(2)] dest: distinct_map_eqD)
  have f: "filter ?q (t_bookings d) = filter (stale_hold (at_now a)) (t_bookings d)"
    using q by (rule filter_cong [OF refl])
  have d': "t_bookings d' = update_where ?q ?f (t_bookings d)"
    "n = length (filter (stale_hold (at_now a)) (t_bookings d))"
    using assms(3,4) f by (auto simp: sweeper_tick_def attempted_def sweep_body_def expireStaleHolds_def
        expire_rows_def Let_def)
  have ids: "map b_id (t_bookings d') = map b_id (t_bookings d)"
    unfolding d'(1) by (rule map_key_update_where) simp
  have keep: "find_booking (b_id b) d' = Some b" if "b \<in> set (t_bookings d)" "\<not> stale_hold (at_now a) b" for b
  proof -
    have "b \<in> set (t_bookings d')" using that q [OF that(1)] by (auto simp: d'(1) set_update_where intro: rev_image_eqI)
    then show ?thesis unfolding find_booking_def using dist ids by (intro find_key_unique) simp_all
  qed
  moreover have "\<not> stale_hold (at_now a) b" if "b_status b = PENDING_PAYMENT" for b
    using that by (simp add: stale_hold_def)
  moreover have "\<not> stale_hold (at_now a) b" if "b \<in> set (t_bookings d')" for b
  proof -
    have "stale_hold (at_now a) b \<Longrightarrow> b \<in> set (t_bookings d) \<and> \<not> ?q b"
      using that by (auto simp: d'(1) set_update_where stale_hold_def split: if_splits)
    then show ?thesis using q by blast
  qed
  ultimately show ?thesis using d'(2) by blast
qed

section \<open>A backlog that starves\<close>

text \<open>
  A delivery of a charge no payment answers to stays pending. A full batch of them, older than the
  rest, is all a tick ever looks at: the tick leaves the same batch behind, and a delivery that
  arrives later is not in it.
\<close>

definition unknown_delivery :: "host \<Rightarrow> db \<Rightarrow> uuid \<Rightarrow> bool" where
  "unknown_delivery h d row \<longleftrightarrow>
     (case List.find (\<lambda>w. wd_id w = row) (t_webhook_deliveries d) of
        None \<Rightarrow> False
      | Some w \<Rightarrow> wd_processed_at w = None \<and>
          (case body_of h (wd_raw_body w) of
             Inl _ \<Rightarrow> False
           | Inr body \<Rightarrow>
               (case (asString (json_field ''charge_id'' body), asString (json_field ''event'' body)) of
                  (Some cid, Some ev) \<Rightarrow> ev \<in> SUPPORTED_EVENTS \<and> findPaymentByChargeId cid d = None
                    \<and> asString (json_field ''reference'' body) = None
                | _ \<Rightarrow> False)))"

lemma unknown_delivery_marked:
  assumes "unknown_delivery h d row"
  obtains cid where "applyInTransaction h row now d = Inr (None, mark_unknown row cid None d)"
proof -
  obtain w where w: "List.find (\<lambda>w. wd_id w = row) (t_webhook_deliveries d) = Some w" "wd_processed_at w = None"
    using assms by (auto simp: unknown_delivery_def split: option.splits)
  obtain body where body: "body_of h (wd_raw_body w) = Inr body"
    using assms w by (auto simp: unknown_delivery_def split: sum.splits)
  obtain cid ev where ce: "asString (json_field ''charge_id'' body) = Some cid"
    "asString (json_field ''event'' body) = Some ev" "ev \<in> SUPPORTED_EVENTS"
    "findPaymentByChargeId cid d = None" "asString (json_field ''reference'' body) = None"
    using assms w body by (auto simp: unknown_delivery_def split: option.splits)
  have "applyInTransaction h row now d = Inr (None, mark_unknown row cid None d)"
    using w body ce by (simp add: applyInTransaction_def Let_def apply_supported_def find_or_adopt_def)
  then show ?thesis by (rule that)
qed

text \<open>The columns the queue is read by; marking a delivery unknown writes none of them.\<close>

definition queue_core :: "webhook_delivery \<Rightarrow> uuid \<times> string \<times> instant \<times> instant option \<times> bool" where
  "queue_core w = (wd_id w, wd_raw_body w, wd_received_at w, wd_processed_at w, wd_signature_valid w)"

definition same_queue :: "db \<Rightarrow> db \<Rightarrow> bool" where
  "same_queue d d' \<longleftrightarrow> map queue_core (t_webhook_deliveries d') = map queue_core (t_webhook_deliveries d)
     \<and> t_payments d' = t_payments d \<and> t_bookings d' = t_bookings d"

lemma same_queue_trans: "same_queue d d1 \<Longrightarrow> same_queue d1 d2 \<Longrightarrow> same_queue d d2"
  by (simp add: same_queue_def)

lemma map_insort_key: "map h (insort_key (\<lambda>x. g (h x)) x xs) = insort_key g (h x) (map h xs)"
  by (induction xs) auto

lemma map_sort_key: "map h (sort_key (\<lambda>x. g (h x)) xs) = sort_key g (map h xs)"
  by (induction xs) (simp_all add: map_insort_key)

lemma find_core:
  "List.find (\<lambda>c. fst c = row) (map queue_core ws)
   = map_option queue_core (List.find (\<lambda>w. wd_id w = row) ws)"
  by (induction ws) (simp_all add: queue_core_def)

lemma backlog_core:
  "backlog d = map fst (take DRAIN_BATCH_SIZE (sort_key (\<lambda>(_, _, t, _, _). t)
     (filter (\<lambda>(_, _, _, p, v). p = None \<and> v) (map queue_core (t_webhook_deliveries d)))))"
proof -
  have a: "fst (queue_core w) = wd_id w" for w by (simp add: queue_core_def)
  have b: "filter (\<lambda>(_, _, _, p, v). p = None \<and> v) (map queue_core ws)
      = map queue_core (filter pending_delivery ws)" for ws
    by (induction ws) (simp_all add: queue_core_def pending_delivery_def)
  have c: "sort_key (\<lambda>(_, _, t, _, _). t) (map queue_core ws) = map queue_core (sort_key wd_received_at ws)" for ws
    using map_sort_key [of queue_core "\<lambda>(_, _, t, _, _). t" ws] by (simp add: queue_core_def)
  show ?thesis by (simp add: backlog_def a b c take_map comp_def)
qed

lemma same_queue_backlog: "same_queue d d' \<Longrightarrow> backlog d' = backlog d"
  by (simp add: backlog_core same_queue_def)

lemma same_queue_unknown:
  assumes "same_queue d d'"
  shows "unknown_delivery h d' row = unknown_delivery h d row"
proof -
  have "map_option queue_core (List.find (\<lambda>w. wd_id w = row) (t_webhook_deliveries d'))
      = map_option queue_core (List.find (\<lambda>w. wd_id w = row) (t_webhook_deliveries d))"
    using assms by (simp add: same_queue_def flip: find_core)
  moreover have "findPaymentByChargeId cid d' = findPaymentByChargeId cid d" for cid
    using assms by (simp add: same_queue_def findPaymentByChargeId_def)
  ultimately show ?thesis
    by (auto simp: unknown_delivery_def queue_core_def split: option.splits cong: sum.case_cong)
qed

lemma mark_unknown_same_queue: "same_queue d (mark_unknown row cid ref d)"
proof -
  have "map queue_core (t_webhook_deliveries (mark_unknown row cid ref d)) = map queue_core (t_webhook_deliveries d)"
    unfolding mark_unknown_def by (simp, rule map_key_update_where) (simp add: queue_core_def)
  then show ?thesis by (simp add: same_queue_def mark_unknown_def)
qed

lemma applyDelivery_unknown:
  assumes "unknown_delivery h d row" and "0 < n" and "\<And>k. at_abort (att k) = None"
  shows "same_queue d (snd (applyDelivery h pv n att row later d))"
proof -
  let ?body = "\<lambda>k. attempted (att k) (applyInTransaction h row (at_now (att k)))"
  obtain r d1 where w: "withTransientRetry n (\<lambda>k. transaction (?body k)) d = (r, d1)" by force
  then obtain k where k: "transaction (?body k) d = (r, d1)"
    using withTransientRetry_cases [of n ?body d r d1] assms(2) by blast
  obtain cid where "applyInTransaction h row (at_now (att k)) d = Inr (None, mark_unknown row cid None d)"
    using unknown_delivery_marked [OF assms(1)] .
  then have "r = Inr None" "d1 = mark_unknown row cid None d"
    using k assms(3) by (simp_all add: attempted_def)
  then show ?thesis using mark_unknown_same_queue by (simp add: applyDelivery_def w)
qed

lemma drain_unknown:
  assumes "\<And>row. row \<in> set rows \<Longrightarrow> unknown_delivery h d row" and "0 < n"
    and "\<And>row k. at_abort (att row k) = None"
  shows "same_queue d (snd (drain (\<lambda>row. applyDelivery h pv n (att row) row now) rows d))"
  using assms(1)
proof (induction rows arbitrary: d)
  case (Cons row rows)
  obtain r d1 where r: "applyDelivery h pv n (att row) row now d = (r, d1)" by force
  have s: "same_queue d d1"
    using applyDelivery_unknown [of h d row n "att row" pv now] Cons.prems [of row] assms(2,3) r by simp
  have "same_queue d1 (snd (drain (\<lambda>row. applyDelivery h pv n (att row) row now) rows d1))"
    using Cons.prems same_queue_unknown [OF s] by (intro Cons.IH) simp
  then have "same_queue d (snd (drain (\<lambda>row. applyDelivery h pv n (att row) row now) rows d1))"
    using s same_queue_trans by blast
  then show ?case by (auto simp: r split: sum.splits prod.splits)
qed (simp add: same_queue_def)

lemma insort_key_snoc: "f x \<le> f w \<Longrightarrow> insort_key f x (ys @ [w]) = insort_key f x ys @ [w]"
  by (induction ys) auto

lemma sort_key_snoc: "\<forall>x \<in> set xs. f x \<le> f w \<Longrightarrow> sort_key f (xs @ [w]) = sort_key f xs @ [w]"
  by (induction xs) (simp_all add: insort_key_snoc)

lemma backlog_snoc:
  assumes "length (backlog d) = DRAIN_BATCH_SIZE"
    and "\<forall>x \<in> set (t_webhook_deliveries d). wd_received_at x \<le> wd_received_at w"
  shows "backlog (d\<lparr>t_webhook_deliveries := t_webhook_deliveries d @ [w]\<rparr>) = backlog d"
proof -
  let ?ps = "filter pending_delivery (t_webhook_deliveries d)"
  have len: "DRAIN_BATCH_SIZE \<le> length ?ps" using assms(1) by (simp add: backlog_def)
  have "sort_key wd_received_at (?ps @ [w]) = sort_key wd_received_at ?ps @ [w]"
    using assms(2) by (intro sort_key_snoc) simp
  then show ?thesis using len by (simp add: backlog_def)
qed

text \<open>
  A full batch of deliveries that name an unknown charge starves the queue: the drain of a tick
  leaves every one of them where it was and changes no payment and no booking, and a delivery
  received after them is in no later batch.
\<close>

lemma backlog_starves:
  assumes "length (backlog d) = DRAIN_BATCH_SIZE" and "\<forall>row \<in> set (backlog d). unknown_delivery h d row"
    and "0 < n" and "\<And>row k. at_abort (att row k) = None"
    and "drain (\<lambda>row. applyDelivery h pv n (att row) row now) (backlog d) d = (applied, d')"
  shows "backlog d' = backlog d \<and> t_payments d' = t_payments d \<and> t_bookings d' = t_bookings d
    \<and> (\<forall>w. (\<forall>x \<in> set (t_webhook_deliveries d'). wd_received_at x \<le> wd_received_at w) \<longrightarrow>
         backlog (d'\<lparr>t_webhook_deliveries := t_webhook_deliveries d' @ [w]\<rparr>) = backlog d')"
proof -
  have s: "same_queue d d'"
    using drain_unknown [of "backlog d" h d n att pv now] assms(2-5) by simp
  then show ?thesis using same_queue_backlog [OF s] backlog_snoc assms(1) by (simp add: same_queue_def)
qed

end
