(* ===== verification/System.thy ===== *)
theory System
  imports HoldProperties Workers
begin

text \<open>
  The API as a whole: every operation of the bookings and payments services and both workers as one
  step relation on the database, at the grain of a transaction. Replicas, requests and workers
  interleave in any order, and what a step keeps holds of every state the API can reach.
\<close>

section \<open>The operations on bookings as service steps\<close>

lemma svc_steps_on_booking:
  "sm_steps d d' \<Longrightarrow> t_payments d' = t_payments d \<Longrightarrow> t_payment_events d' = t_payment_events d \<Longrightarrow> svc_steps d d'"
  by (rule svc_stepsI) (rule svc_step.on_booking)

lemma insert_booking_tables:
  "insert_booking b d = Inr d' \<Longrightarrow> t_payments d' = t_payments d \<and> t_payment_events d' = t_payment_events d"
  by (auto simp: insert_booking_eq_Inr)

lemma expired_events [simp]:
  "t_payment_events (snd (expireStaleHoldsForRoom rid who why now d)) = t_payment_events d"
  by (simp add: expireStaleHoldsForRoom_def expire_rows_def Let_def)

lemma holdOnce_svc_steps:
  assumes "holdOnce env i ctx hours p a d = Inr (r, d')"
  shows "svc_steps d d'"
proof (rule svc_steps_on_booking)
  show "sm_steps d d'" using assms by (rule holdOnce_steps)
  obtain ids d1 items b d2 where s:
    "expireStaleHoldsForRoom (uuid_in (hi_room_id i)) SYSTEM_ACTOR ''hold.expired.in_transaction''
       (at_now a) d = (ids, d1)"
    "createHeld (at_id a) (held_of env i ctx p (at_now a) (hold_total ctx hours items))
       (user_actor (pr_user_id p)) ''hold.created'' (at_now a) d1 = Inr (b, d2)"
    "d' = d2\<lparr>t_booking_line_items := t_booking_line_items d2 @ line_item_rows (b_id b) items\<rparr>"
    using assms unfolding holdOnce_eq_Inr by blast
  have "t_payments d1 = t_payments d" "t_payment_events d1 = t_payment_events d"
    using s(1) by (metis expire_for_room_sel(3) expired_events snd_conv)+
  moreover have "t_payments d2 = t_payments d1" "t_payment_events d2 = t_payment_events d1"
    using s(2) insert_booking_tables by (auto simp: createHeld_eq_Inr)
  ultimately show "t_payments d' = t_payments d" "t_payment_events d' = t_payment_events d"
    by (simp_all add: s(3))
qed

lemma hold_svc_steps:
  assumes "0 < TRANSIENT_RETRY_ATTEMPTS env"
  shows "svc_steps d (snd (hold env off i p now att d))"
proof -
  obtain r d' where h: "hold env off i p now att d = (r, d')" by force
  from h assms have "svc_steps d d'" by (cases rule: hold_cases) (auto intro: holdOnce_svc_steps)
  then show ?thesis using h by simp
qed

lemma svc_recordSideEffect:
  assumes "recordSideEffect i now d = Inr (b, d')"
  shows "svc_steps d d'"
proof (rule svc_steps_on_booking)
  show "sm_steps d d'" using assms by (intro sm_steps_stepI sm_step.noted)
  show "t_payments d' = t_payments d" "t_payment_events d' = t_payment_events d"
    using assms by (auto simp: recordSideEffect_eq_Inr)
qed

lemma checkout_svc_steps: "svc_steps d (snd (checkout env bid p now d))"
  unfolding checkout_def
  by (rule transaction_keeps) (auto simp: checkout_body_eq_Inr intro: svc_recordSideEffect)

lemma cancel_svc_steps: "svc_steps d (snd (cancel bid why p now d))"
  unfolding cancel_def
  by (rule transaction_keeps) (auto simp: cancel_body_def tx_simps intro: svc_transition)

section \<open>The step relation\<close>

text \<open>
  \<open>pay\<close> is two steps, so that anything can happen between the commit of its first transaction and
  the statement after the provider's answer. \<open>catalogue\<close> is any operation on the tables that hold
  neither bookings nor money.
\<close>

inductive api_step :: "db \<Rightarrow> db \<Rightarrow> bool" where
  hold: "0 < TRANSIENT_RETRY_ATTEMPTS env \<Longrightarrow> api_step d (snd (hold env off i p now att d))"
| checkout: "api_step d (snd (checkout env bid p now d))"
| cancel: "api_step d (snd (cancel bid why p now d))"
| pay_prepared: "api_step d (snd (withTransientRetry n
    (\<lambda>k. transaction (attempted (att k) (pay_prepare bid p (att k)))) d))"
| pay_answered: "api_step d (snd (transaction (pay_record pid cid now) d))"
| ingested: "api_step d (snd (ingest h secret raw sig header corr row rnd now d))"
| delivered: "api_step d (snd (applyDelivery h pv n att row later d))"
| cancellation_settled: "api_step d (snd (settleCancellation h pv n att bid later d))"
| swept: "api_step d (snd (sweeper_tick reentered a locked busy d))"
| drained: "api_step d (snd (webhook_tick h pv n atts ca ra now reentered d))"
| catalogue: "t_bookings d' = t_bookings d \<Longrightarrow> t_audit_events d' = t_audit_events d
    \<Longrightarrow> t_payments d' = t_payments d \<Longrightarrow> t_payment_events d' = t_payment_events d \<Longrightarrow> api_step d d'"

abbreviation api_steps :: "db \<Rightarrow> db \<Rightarrow> bool" where
  "api_steps \<equiv> api_step\<^sup>*\<^sup>*"

lemma api_step_svc: "api_step d d' \<Longrightarrow> svc_steps d d'"
proof (induction rule: api_step.induct)
  case (pay_prepared n att bid p d)
  show ?case by (rule retried_keeps) (auto simp: attempted_eq_Inr intro: pay_prepare_steps)
next
  case (pay_answered pid cid now d)
  show ?case by (rule transaction_keeps) (auto intro: pay_record_steps)
qed (auto intro: hold_svc_steps checkout_svc_steps cancel_svc_steps ingest_steps applyDelivery_steps
    settleCancellation_steps sweeper_tick_steps webhook_tick_steps svc_other)

lemma api_steps_svc: "api_steps d d' \<Longrightarrow> svc_steps d d'"
  by (induction rule: rtranclp_induct) (auto intro: svc_steps_trans api_step_svc)

section \<open>What every reachable state satisfies\<close>

definition db_inv :: "db \<Rightarrow> bool" where
  "db_inv d \<longleftrightarrow> stored_inv d \<and> audit_inv d \<and> payments_inv d"

lemma api_keeps_inv:
  assumes "api_steps d d'" and "db_inv d"
  shows "db_inv d'"
proof -
  have "svc_steps d d'" using assms(1) by (rule api_steps_svc)
  then show ?thesis
    using assms(2) payments_kept.svc_steps_keep sm_steps_keep_stored sm_steps_keep_audit svc_steps_sm
    unfolding db_inv_def by blast
qed


text \<open>
  C1. INV-1. No two active bookings of one room ever overlap, the turnaround included, in any state the
  API reaches.
\<close>

lemma no_double_booking:
  assumes "api_steps d d'" and "db_inv d" and "a \<in> set (t_bookings d')" "b \<in> set (t_bookings d')"
    and "b_id a \<noteq> b_id b" "b_room_id a = b_room_id b" "is_active (b_status a)" "is_active (b_status b)"
  shows "b_ends_at a + TURNAROUND_MS \<le> b_starts_at b \<or> b_ends_at b + TURNAROUND_MS \<le> b_starts_at a"
proof -
  have "bookings_consistent (t_bookings d')"
    using api_keeps_inv [OF assms(1,2)] by (simp add: db_inv_def stored_inv_def bookings_stored_def)
  then have "\<not> rooms_clash a b" using assms(3-5) unfolding bookings_consistent_def by blast
  then show ?thesis using assms(6-8) by (auto simp: rooms_clash_def ranges_overlap_def slot_def)
qed

text \<open>
  C3. A booking never disappears, keeps its room and its interval, and moves along the table of legal
  transitions; its audit rows are only ever added to, and in any state they spell a legal path from
  DRAFT to its status, which visits no status twice.
\<close>

lemma booking_history:
  assumes "api_steps d d'" and "db_inv d" and "find_booking bid d = Some b"
  shows "\<exists>b' new. find_booking bid d' = Some b' \<and> isLegalTransition\<^sup>*\<^sup>* (b_status b) (b_status b')
    \<and> b_room_id b' = b_room_id b \<and> b_starts_at b' = b_starts_at b \<and> b_ends_at b' = b_ends_at b
    \<and> t_audit_events d' = t_audit_events d @ new
    \<and> legal_path DRAFT (trail bid (t_audit_events d')) (b_status b')
    \<and> distinct (DRAFT # map snd (trail bid (t_audit_events d')))"
proof -
  have sm: "sm_steps d d'" using assms(1) by (intro svc_steps_sm api_steps_svc)
  have "distinct (map b_id (t_bookings d))" using assms(2) by (simp add: db_inv_def audit_inv_def)
  then obtain b' new where b': "find_booking bid d' = Some b'" "isLegalTransition\<^sup>*\<^sup>* (b_status b) (b_status b')"
    "b_room_id b' = b_room_id b" "b_starts_at b' = b_starts_at b" "b_ends_at b' = b_ends_at b"
    "t_audit_events d' = t_audit_events d @ new"
    using sm_steps_descend [OF sm _ assms(3)] by metis
  have "audit_inv d'" using api_keeps_inv [OF assms(1,2)] by (simp add: db_inv_def)
  then have l: "legal_path DRAFT (trail bid (t_audit_events d')) (b_status b')"
    using find_booking_SomeD [OF b'(1)] by (auto simp: audit_inv_def)
  have "distinct (DRAFT # map snd (trail bid (t_audit_events d')))"
    using legal_path_sorted [OF l] by (simp only: strict_sorted_iff)
  then show ?thesis using b' l by blast
qed

text \<open>
  A payment never disappears and never changes its booking, its key or its amount, and a refund key
  that has been minted for it is never replaced: whatever is asked of the provider again is asked
  under the same key.
\<close>

lemma payments_permanent:
  assumes "api_steps d d'" and "db_inv d" and "p \<in> set (t_payments d)"
  shows "\<exists>q \<in> set (t_payments d'). p_id q = p_id p \<and> p_booking_id q = p_booking_id p
    \<and> p_idempotency_key q = p_idempotency_key p \<and> p_amount_minor q = p_amount_minor p
    \<and> (p_refund_idempotency_key p \<noteq> None \<longrightarrow> p_refund_idempotency_key q = p_refund_idempotency_key p)"
proof -
  have "has_unique_payment p d"
    using assms(2,3) unfolding has_unique_payment_def db_inv_def by (intro conjI bexI [of _ p]) simp_all
  then have "has_unique_payment p d'" by (rule payment_rows.svc_steps_keep [OF api_steps_svc [OF assms(1)]])
  then show ?thesis by (auto simp: has_unique_payment_def same_payment_def)
qed

end
