(* ===== verification/Reconciliation.thy ===== *)
theory Reconciliation
  imports Workers
begin

text \<open>
  The reconciliation report of \<open>apps/api/src/admin/reconciliation.service.ts\<close>: the nine checks of its
  one query, the counts by kind, the listing and the totals. The free text of a row's \<open>detail\<close> is not
  modelled. The order in which GROUP BY returns its groups is the order of the bookings' first
  payments; rows of equal age in the listing keep the order of the checks.
\<close>

section \<open>The checks\<close>

datatype discrepancy_kind =
    capture_without_confirmation
  | confirmation_without_capture
  | double_capture
  | refund_without_capture
  | refund_initiated_not_settled
  | refund_accepted_not_settled
  | charge_accepted_not_settled
  | over_refunded
  | unmatched_delivery

record discrepancy =
  dc_kind :: discrepancy_kind
  dc_booking_id :: "uuid option"
  dc_charge_id :: "string option"
  dc_amount_minor :: "int option"
  dc_observed_at :: instant

text \<open>\<open>interval '${Math.max(0, Math.floor(graceSeconds))} seconds'\<close>; the query string is an integer.\<close>

definition grace_ms :: "int \<Rightarrow> int" where
  "grace_ms g = max 0 g * 1000"

definition old_enough :: "int \<Rightarrow> instant \<Rightarrow> instant \<Rightarrow> bool" where
  "old_enough g now t \<longleftrightarrow> t < now - grace_ms g"

definition in_window :: "instant \<Rightarrow> instant \<Rightarrow> instant \<Rightarrow> bool" where
  "in_window from to t \<longleftrightarrow> from \<le> t \<and> t < to"

definition captured_status :: "payment_status \<Rightarrow> bool" where
  "captured_status s \<longleftrightarrow> s = PaySucceeded \<or> s = PayRefunded"

definition settled :: "instant \<Rightarrow> instant \<Rightarrow> db \<Rightarrow> (payment \<times> booking_status) list" where
  "settled from to d =
     List.map_filter (\<lambda>p. map_option (\<lambda>b. (p, b_status b)) (find_booking (p_booking_id p) d))
       (filter (\<lambda>p. in_window from to (p_created_at p)) (t_payments d))"

definition of_payment :: "discrepancy_kind \<Rightarrow> (payment \<Rightarrow> int) \<Rightarrow> payment \<times> booking_status \<Rightarrow> discrepancy" where
  "of_payment k amount ps = \<lparr>dc_kind = k, dc_booking_id = Some (p_booking_id (fst ps)),
     dc_charge_id = p_charge_id (fst ps), dc_amount_minor = Some (amount (fst ps)),
     dc_observed_at = p_updated_at (fst ps)\<rparr>"

definition captures_unconfirmed :: "instant \<Rightarrow> instant \<Rightarrow> int \<Rightarrow> instant \<Rightarrow> db \<Rightarrow> discrepancy list" where
  "captures_unconfirmed from to g now d =
     map (of_payment capture_without_confirmation p_amount_minor)
       (filter (\<lambda>(p, s). p_status p = PaySucceeded \<and> s \<noteq> CONFIRMED \<and> s \<noteq> COMPLETED
          \<and> old_enough g now (p_updated_at p)) (settled from to d))"

definition confirmed_uncaptured :: "instant \<Rightarrow> instant \<Rightarrow> int \<Rightarrow> instant \<Rightarrow> db \<Rightarrow> discrepancy list" where
  "confirmed_uncaptured from to g now d =
     map (\<lambda>b. \<lparr>dc_kind = confirmation_without_capture, dc_booking_id = Some (b_id b), dc_charge_id = None,
            dc_amount_minor = Some (b_total_minor b), dc_observed_at = b_updated_at b\<rparr>)
       (filter (\<lambda>b. (b_status b = CONFIRMED \<or> b_status b = COMPLETED)
          \<and> in_window from to (b_updated_at b) \<and> old_enough g now (b_updated_at b)
          \<and> \<not> list_ex (\<lambda>p. p_booking_id p = b_id b \<and> captured_status (p_status p)) (t_payments d))
        (t_bookings d))"

definition double_captures :: "instant \<Rightarrow> instant \<Rightarrow> db \<Rightarrow> discrepancy list" where
  "double_captures from to d =
     (let ps = map fst (filter (\<lambda>(p, s). captured_status (p_status p)) (settled from to d)) in
      List.map_filter (\<lambda>bid.
        let group = filter (\<lambda>p. p_booking_id p = bid) ps in
        if 1 < length group
        then Some \<lparr>dc_kind = double_capture, dc_booking_id = Some bid, dc_charge_id = None,
               dc_amount_minor = Some (sum_list (map p_amount_minor group)),
               dc_observed_at = Max (set (map p_updated_at group))\<rparr>
        else None) (remdups (map p_booking_id ps)))"

definition refunds_uncaptured :: "instant \<Rightarrow> instant \<Rightarrow> db \<Rightarrow> discrepancy list" where
  "refunds_uncaptured from to d =
     map (of_payment refund_without_capture p_refunded_minor)
       (filter (\<lambda>(p, s). (p_status p = PayRefunded \<or> 0 < p_refunded_minor p)
          \<and> (case p_charge_id p of None \<Rightarrow> True
             | Some cid \<Rightarrow> (cid, ''charge.succeeded'') \<notin> applied_events d)) (settled from to d))"

definition refunds_initiated :: "instant \<Rightarrow> instant \<Rightarrow> int \<Rightarrow> instant \<Rightarrow> db \<Rightarrow> discrepancy list" where
  "refunds_initiated from to g now d =
     map (of_payment refund_initiated_not_settled p_amount_minor)
       (filter (\<lambda>(p, s). p_refund_idempotency_key p \<noteq> None \<and> p_refund_id p = None
          \<and> p_status p \<noteq> PayRefunded \<and> old_enough g now (p_updated_at p)) (settled from to d))"

definition refunds_accepted :: "instant \<Rightarrow> instant \<Rightarrow> int \<Rightarrow> instant \<Rightarrow> db \<Rightarrow> discrepancy list" where
  "refunds_accepted from to g now d =
     map (of_payment refund_accepted_not_settled p_amount_minor)
       (filter (\<lambda>(p, s). p_refund_id p \<noteq> None \<and> p_status p \<noteq> PayRefunded
          \<and> old_enough g now (p_updated_at p)) (settled from to d))"

definition charges_accepted :: "instant \<Rightarrow> instant \<Rightarrow> int \<Rightarrow> instant \<Rightarrow> db \<Rightarrow> discrepancy list" where
  "charges_accepted from to g now d =
     map (of_payment charge_accepted_not_settled p_amount_minor)
       (filter (\<lambda>(p, s). p_status p = PayPending \<and> p_charge_id p \<noteq> None
          \<and> old_enough g now (p_updated_at p)) (settled from to d))"

definition over_refunds :: "instant \<Rightarrow> instant \<Rightarrow> db \<Rightarrow> discrepancy list" where
  "over_refunds from to d =
     map (of_payment over_refunded p_refunded_minor)
       (filter (\<lambda>(p, s). p_amount_minor p < p_refunded_minor p) (settled from to d))"

definition unmatched :: "instant \<Rightarrow> instant \<Rightarrow> int \<Rightarrow> instant \<Rightarrow> db \<Rightarrow> discrepancy list" where
  "unmatched from to g now d =
     map (\<lambda>w. \<lparr>dc_kind = unmatched_delivery, dc_booking_id = None, dc_charge_id = wd_charge_id w,
            dc_amount_minor = None, dc_observed_at = wd_received_at w\<rparr>)
       (filter (\<lambda>w. wd_signature_valid w \<and> wd_processed_at w = None
          \<and> in_window from to (wd_received_at w) \<and> old_enough g now (wd_received_at w))
        (t_webhook_deliveries d))"

definition discrepancies :: "instant \<Rightarrow> instant \<Rightarrow> int \<Rightarrow> instant \<Rightarrow> db \<Rightarrow> discrepancy list" where
  "discrepancies from to g now d =
     captures_unconfirmed from to g now d @ confirmed_uncaptured from to g now d
     @ double_captures from to d @ refunds_uncaptured from to d @ refunds_initiated from to g now d
     @ refunds_accepted from to g now d @ charges_accepted from to g now d @ over_refunds from to d
     @ unmatched from to g now d"

section \<open>The report\<close>

record totals =
  tt_captured_minor :: int
  tt_refunded_minor :: int
  tt_confirmed_bookings :: nat
  tt_settled_payments :: nat

record report =
  rt_discrepancy_count :: nat
  rt_returned :: nat
  rt_truncated :: bool
  rt_by_kind :: "discrepancy_kind \<Rightarrow> nat"
  rt_discrepancies :: "discrepancy list"
  rt_totals :: totals

definition report_totals :: "instant \<Rightarrow> instant \<Rightarrow> db \<Rightarrow> totals" where
  "report_totals from to d =
     (let ps = filter (\<lambda>p. in_window from to (p_created_at p)) (t_payments d);
          cs = filter (\<lambda>p. captured_status (p_status p)) ps in
      \<lparr>tt_captured_minor = sum_list (map p_amount_minor cs),
       tt_refunded_minor = sum_list (map p_refunded_minor ps),
       tt_confirmed_bookings = length (filter (\<lambda>b. b_status b = CONFIRMED
          \<and> in_window from to (b_updated_at b)) (t_bookings d)),
       tt_settled_payments = length cs\<rparr>)"

definition run :: "instant \<Rightarrow> instant \<Rightarrow> int \<Rightarrow> nat \<Rightarrow> instant \<Rightarrow> db \<Rightarrow> report" where
  "run from to g limit now d =
     (let found = discrepancies from to g now d;
          rows = take limit (sort_key (\<lambda>x. - dc_observed_at x) found) in
      \<lparr>rt_discrepancy_count = length found, rt_returned = length rows,
       rt_truncated = length rows < length found,
       rt_by_kind = (\<lambda>k. length (filter (\<lambda>x. dc_kind x = k) found)),
       rt_discrepancies = rows, rt_totals = report_totals from to d\<rparr>)"

section \<open>What the report answers\<close>

lemma settled_iff:
  "(p, s) \<in> set (settled from to d) \<longleftrightarrow>
     p \<in> set (t_payments d) \<and> in_window from to (p_created_at p)
     \<and> (\<exists>b. find_booking (p_booking_id p) d = Some b \<and> s = b_status b)"
  by (force simp: settled_def List.map_filter_def)

lemma no_discrepancies_iff:
  "rt_discrepancy_count (run from to g limit now d) = 0 \<longleftrightarrow> discrepancies from to g now d = []"
  by (simp add: run_def Let_def)

text \<open>
  C18. The answer zero means something. With a grace that every row is past, each payment of the window
  is one of four: captured for a booking that is confirmed or completed, with no refund begun;
  refunded, after its capture was applied and by no more than it was for; failed, with nothing
  returned; or pending and unknown to the provider. No booking of the window was captured twice, none
  is confirmed without a capture, and no signed delivery waits.
\<close>

lemma clean_report_accounts:
  assumes "rt_discrepancy_count (run from to g limit now d) = 0"
    and "p \<in> set (t_payments d)" "in_window from to (p_created_at p)" "old_enough g now (p_updated_at p)"
    and "find_booking (p_booking_id p) d = Some b"
  shows "(case p_status p of
       PaySucceeded \<Rightarrow> (b_status b = CONFIRMED \<or> b_status b = COMPLETED)
         \<and> p_refund_idempotency_key p = None \<and> p_refund_id p = None
     | PayRefunded \<Rightarrow> (\<exists>cid. p_charge_id p = Some cid \<and> (cid, ''charge.succeeded'') \<in> applied_events d)
     | PayFailed \<Rightarrow> p_refund_idempotency_key p = None \<and> p_refund_id p = None
     | PayPending \<Rightarrow> p_charge_id p = None \<and> p_refund_id p = None)
    \<and> p_refunded_minor p \<le> p_amount_minor p
    \<and> (0 < p_refunded_minor p \<longrightarrow> (\<exists>cid. p_charge_id p = Some cid \<and> (cid, ''charge.succeeded'') \<in> applied_events d))"
proof -
  have none: "discrepancies from to g now d = []" using assms(1) by (simp add: no_discrepancies_iff)
  have s: "(p, b_status b) \<in> set (settled from to d)" using assms(2,3,5) by (simp add: settled_iff)
  have c: "\<not> (p_status p = PaySucceeded \<and> b_status b \<noteq> CONFIRMED \<and> b_status b \<noteq> COMPLETED)"
    using none s assms(4) by (auto simp: discrepancies_def captures_unconfirmed_def filter_empty_conv)
  have r: "\<not> ((p_status p = PayRefunded \<or> 0 < p_refunded_minor p)
      \<and> (case p_charge_id p of None \<Rightarrow> True | Some cid \<Rightarrow> (cid, ''charge.succeeded'') \<notin> applied_events d))"
    using none s by (auto simp: discrepancies_def refunds_uncaptured_def filter_empty_conv)
  have i: "\<not> (p_refund_idempotency_key p \<noteq> None \<and> p_refund_id p = None \<and> p_status p \<noteq> PayRefunded)"
    using none s assms(4) by (auto simp: discrepancies_def refunds_initiated_def filter_empty_conv)
  have a: "\<not> (p_refund_id p \<noteq> None \<and> p_status p \<noteq> PayRefunded)"
    using none s assms(4) by (auto simp: discrepancies_def refunds_accepted_def filter_empty_conv)
  have k: "\<not> (p_status p = PayPending \<and> p_charge_id p \<noteq> None)"
    using none s assms(4) by (auto simp: discrepancies_def charges_accepted_def filter_empty_conv)
  have o: "p_refunded_minor p \<le> p_amount_minor p"
    using none s by (auto simp: discrepancies_def over_refunds_def filter_empty_conv not_less)
  show ?thesis using c r i a k o by (auto split: payment_status.splits option.splits)
qed

text \<open>The head number is the true one: a limit cuts the listing, never the count, and says so.\<close>

lemma report_counts_truly:
  "rt_discrepancy_count (run from to g limit now d) = length (discrepancies from to g now d)
   \<and> rt_returned (run from to g limit now d) = min limit (length (discrepancies from to g now d))
   \<and> (rt_truncated (run from to g limit now d) = (limit < length (discrepancies from to g now d)))
   \<and> (\<Sum>k\<in>{capture_without_confirmation, confirmation_without_capture, double_capture,
        refund_without_capture, refund_initiated_not_settled, refund_accepted_not_settled,
        charge_accepted_not_settled, over_refunded, unmatched_delivery}.
        rt_by_kind (run from to g limit now d) k) = rt_discrepancy_count (run from to g limit now d)
   \<and> set (rt_discrepancies (run from to g limit now d)) \<subseteq> set (discrepancies from to g now d)"
proof -
  let ?K = "{capture_without_confirmation, confirmation_without_capture, double_capture,
        refund_without_capture, refund_initiated_not_settled, refund_accepted_not_settled,
        charge_accepted_not_settled, over_refunded, unmatched_delivery}"
  have "dc_kind x \<in> ?K" for x :: discrepancy by (cases "dc_kind x") simp_all
  then have "(\<Sum>k\<in>?K. length (filter (\<lambda>x. dc_kind x = k) xs)) = length xs" for xs :: "discrepancy list"
  proof (induction xs)
    case (Cons x xs)
    have one: "(\<Sum>k\<in>?K. if dc_kind x = k then 1 else 0) = (1 :: nat)"
      by (cases "dc_kind x") simp_all
    have "(\<Sum>k\<in>?K. length (filter (\<lambda>y. dc_kind y = k) (x # xs)))
        = (\<Sum>k\<in>?K. (if dc_kind x = k then 1 else 0) + length (filter (\<lambda>y. dc_kind y = k) xs))"
      by (rule sum.cong) simp_all
    also have "\<dots> = 1 + length xs"
      using Cons by (simp only: sum.distrib one)
    finally show ?case by simp
  qed simp
  then show ?thesis by (auto simp: run_def Let_def dest: in_set_takeD)
qed

text \<open>
  What the report cannot see: a payment whose charge was sent and whose answer never came back has
  no charge id, and such a row changes nothing in it, however old it is and whatever the provider
  captured.
\<close>

lemma unanswered_charge_unreported:
  assumes "p_status p = PayPending" "p_charge_id p = None" "p_refund_id p = None"
    "p_refund_idempotency_key p = None" "p_refunded_minor p = 0" "0 \<le> p_amount_minor p"
  shows "discrepancies from to g now (d\<lparr>t_payments := ps @ p # qs\<rparr>)
    = discrepancies from to g now (d\<lparr>t_payments := ps @ qs\<rparr>)"
proof -
  let ?d = "d\<lparr>t_payments := ps @ p # qs\<rparr>" and ?e = "d\<lparr>t_payments := ps @ qs\<rparr>"
  have f: "find_booking bid ?d = find_booking bid ?e" "applied_events ?d = applied_events ?e" for bid
    by (simp_all add: find_booking_def applied_events_def)
  have s: "settled from to ?d = settled from to (d\<lparr>t_payments := ps\<rparr>) @ settled from to (d\<lparr>t_payments := [p]\<rparr>)
      @ settled from to (d\<lparr>t_payments := qs\<rparr>)"
    "settled from to ?e = settled from to (d\<lparr>t_payments := ps\<rparr>) @ settled from to (d\<lparr>t_payments := qs\<rparr>)"
    by (simp_all add: settled_def List.map_filter_def find_booking_def)
  have one: "settled from to (d\<lparr>t_payments := [p]\<rparr>) = [] \<or> (\<exists>s. settled from to (d\<lparr>t_payments := [p]\<rparr>) = [(p, s)])"
    by (cases "find_booking (p_booking_id p) d") (simp_all add: settled_def List.map_filter_def find_booking_def)
  have k: "filter Q (settled from to ?d) = filter Q (settled from to ?e)" if "\<And>s. \<not> Q (p, s)" for Q
    using one that by (auto simp: s)
  have "double_captures from to ?d = double_captures from to ?e"
    unfolding double_captures_def by (subst k) (simp_all add: assms captured_status_def)
  then show ?thesis
    unfolding discrepancies_def captures_unconfirmed_def refunds_uncaptured_def refunds_initiated_def
      refunds_accepted_def charges_accepted_def over_refunds_def f
    by (simp add: k assms not_less confirmed_uncaptured_def unmatched_def captured_status_def)
qed

end
