(* ===== verification/PaymentWitnesses.thy ===== *)
theory PaymentWitnesses
  imports System Reconciliation BookingWitnesses
begin

text \<open>
  The theorems on payments, the workers and the report at a database with money in it: the sample
  venue with a booking that waits for its payment and two cancelled ones whose captures are still to
  be returned.
\<close>

section \<open>A database with payments\<close>

definition with_snapshot :: "booking \<Rightarrow> booking" where
  "with_snapshot b = b\<lparr>b_policy_snapshot := Some (snapshot_json sample_snapshot)\<rparr>"

definition paid_bookings :: "booking list" where
  "paid_bookings = sample_bookings @
     [sample_booking ''b5'' ''u1'' (16 * hour) (18 * hour) PENDING_PAYMENT (Some 480000),
      with_snapshot (sample_booking ''b6'' ''u1'' (72 * hour) (74 * hour) CANCELLED None),
      with_snapshot (sample_booking ''b7'' ''u2'' (80 * hour) (82 * hour) CANCELLED None)]"

definition sample_payment :: "uuid \<Rightarrow> uuid \<Rightarrow> string \<Rightarrow> payment_status \<Rightarrow> instant \<Rightarrow> payment" where
  "sample_payment pid bid cid st now =
     \<lparr>p_id = pid, p_booking_id = bid, p_idempotency_key = chargeKey bid, p_charge_id = Some cid,
      p_amount_minor = 9002, p_status = st, p_refund_id = None, p_refund_idempotency_key = None,
      p_refunded_minor = 0, p_failure_reason = None, p_created_at = 0, p_updated_at = now\<rparr>"

definition paid_audits :: "uuid \<Rightarrow> audit_event list" where
  "paid_audits bid =
     [audit bid (user_actor ''u1'') DRAFT HELD ''hold.created'' 0,
      audit bid (user_actor ''u1'') HELD PENDING_PAYMENT ''payment.initiated'' 0,
      audit bid PAYGATE_ACTOR PENDING_PAYMENT CONFIRMED ''payment.captured'' 0,
      audit bid (user_actor ''u1'') CONFIRMED CANCELLED ''cancelled'' 0]"

definition sample_delivery :: "uuid \<Rightarrow> string \<Rightarrow> instant \<Rightarrow> webhook_delivery" where
  "sample_delivery row raw now =
     delivery_row row row None None None True raw None now None None"

definition pay_db :: db where
  "pay_db = sample_db\<lparr>t_bookings := paid_bookings,
     t_audit_events := t_audit_events sample_db
       @ [audit ''b5'' (user_actor ''u1'') DRAFT HELD ''hold.created'' 0,
          audit ''b5'' (user_actor ''u1'') HELD PENDING_PAYMENT ''payment.initiated'' 0]
       @ paid_audits ''b6'' @ paid_audits ''b7'',
     t_payments :=
       [sample_payment ''p1'' ''b1'' ''c1'' PaySucceeded 0,
        sample_payment ''p5'' ''b5'' ''c5'' PayPending 100000,
        sample_payment ''p6'' ''b6'' ''c6'' PaySucceeded 100000,
        sample_payment ''p7'' ''b7'' ''c7'' PaySucceeded 100000],
     t_payment_events := map (\<lambda>c. \<lparr>pe_charge_id = c, pe_event = ''charge.succeeded'', pe_occurred_at = 0,
         pe_applied_at = 0\<rparr>) [''c1'', ''c6'', ''c7''],
     t_webhook_deliveries := [sample_delivery ''w1'' ''again'' 100000]\<rparr>"

text \<open>
  The host of the samples: two bodies it can parse, and a digest that is the secret and the body.
\<close>

definition sample_host :: host where
  "sample_host = \<lparr>h_json_parse = (\<lambda>raw.
       if raw = ''again'' then Some (JObj [(''charge_id'', JStr ''c1''), (''event'', JStr ''charge.succeeded'')])
       else if raw = ''stray'' then Some (JObj [(''charge_id'', JStr ''c0''), (''event'', JStr ''charge.succeeded'')])
       else None),
     h_hmac_hex = (\<lambda>sec raw. sec @ raw), h_date_parse = (\<lambda>_. None), h_message = (\<lambda>_. ''refused'')\<rparr>"

definition sample_provider :: provider where
  "sample_provider = \<lparr>pv_charge = (\<lambda>q. Inr (cq_idempotency_key q)), pv_refund = (\<lambda>q. Inr (rq_idempotency_key q)),
     pv_get_charge = (\<lambda>_. Inr None), pv_get_refund = (\<lambda>_. Inr None)\<rparr>"

lemma pay_stored: "stored_inv pay_db"
  by code_simp

lemma pay_audit: "audit_inv pay_db"
  by code_simp

lemma pay_payments: "payments_inv pay_db"
  by code_simp

lemma pay_inv: "db_inv pay_db"
  using pay_stored pay_audit pay_payments by (simp add: db_inv_def)

abbreviation pending_payment :: payment where
  "pending_payment \<equiv> sample_payment ''p5'' ''b5'' ''c5'' PayPending 100000"

abbreviation pending_booking :: booking where
  "pending_booking \<equiv> sample_booking ''b5'' ''u1'' (16 * hour) (18 * hour) PENDING_PAYMENT (Some 480000)"

abbreviation cancelled_payment :: payment where
  "cancelled_payment \<equiv> sample_payment ''p6'' ''b6'' ''c6'' PaySucceeded 100000"

abbreviation cancelled_booking :: booking where
  "cancelled_booking \<equiv> with_snapshot (sample_booking ''b6'' ''u1'' (72 * hour) (74 * hour) CANCELLED None)"

lemma pay_rows:
  "findPaymentById ''p5'' pay_db = Some pending_payment"
  "find_booking ''b5'' pay_db = Some pending_booking"
  "findPaymentById ''p6'' pay_db = Some cancelled_payment"
  "find_booking ''b6'' pay_db = Some cancelled_booking"
  by code_simp+

lemma pay_policy:
  "resolvePolicySnapshot ''v'' 120000 pay_db = Inr (sample_snapshot\<lparr>ps_snapshot_at := toISOString 120000\<rparr>)"
  by code_simp

section \<open>Captures and refunds\<close>

lemma captured_confirms_witness:
  "\<exists>b' d'. onChargeSucceeded pending_payment ''c5'' 120000 pay_db = Inr (None, d')
    \<and> find_booking ''b5'' d' = Some b' \<and> b_status b' = CONFIRMED"
  using captured_confirms [OF pay_stored pay_payments, of pending_payment "''c5''" pending_booking 120000
      "sample_snapshot\<lparr>ps_snapshot_at := toISOString 120000\<rparr>"] pay_rows pay_policy
  by (simp add: sample_payment_def sample_booking_def lapsed_def) blast

lemma pay_no_refunds: "q \<in> set (t_payments pay_db) \<Longrightarrow> p_refund_idempotency_key q = None \<and> p_refund_id q = None"
  by (auto simp: pay_db_def sample_payment_def)

lemma captured_refunds_witness:
  "\<exists>b' i d'. onChargeSucceeded pending_payment ''c5'' hour pay_db = Inr (Some i, d')
    \<and> find_booking ''b5'' d' = Some b' \<and> b_status b' = EXPIRED \<and> ri_amount_minor i = 9002"
proof -
  have q: "p_id q = p_id pending_payment"
    if "q \<in> set (t_payments pay_db)" "p_refund_idempotency_key q = Some (refundKey ''c5'')" for q
    using that pay_no_refunds by force
  have h: "findPaymentById (p_id pending_payment) pay_db = Some pending_payment" "p_charge_id pending_payment = Some ''c5''"
    "find_booking (p_booking_id pending_payment) pay_db = Some pending_booking"
    "\<not> (b_status pending_booking = PENDING_PAYMENT \<and> \<not> lapsed hour pending_booking)"
    using pay_rows(1,2) by (simp_all add: sample_payment_def sample_booking_def lapsed_def hour_def)
  from captured_refunds [OF pay_stored pay_payments h q] show ?thesis
    by (auto simp: sample_payment_def sample_booking_def)
qed

lemma refund_settles_witness:
  "\<exists>d' b' p'. onRefundSucceeded cancelled_payment (Some ''r6'') None 120000 pay_db = Inr d'
    \<and> find_booking ''b6'' d' = Some b' \<and> b_status b' = REFUNDED
    \<and> findPaymentById ''p6'' d' = Some p' \<and> p_refunded_minor p' = 9002"
proof -
  have q: "p_refund_id q \<noteq> Some ''r6''" if "q \<in> set (t_payments pay_db)" for q
    using that pay_no_refunds by force
  have h: "findPaymentById (p_id cancelled_payment) pay_db = Some cancelled_payment"
    "find_booking (p_booking_id cancelled_payment) pay_db = Some cancelled_booking"
    "in_bigint (refunded_amount None cancelled_payment)"
    using pay_rows(3,4) by (simp_all add: sample_payment_def in_bigint_def)
  from refund_settles [OF pay_stored pay_payments h, of "Some ''r6''" 120000] q show ?thesis
    by (auto simp: sample_payment_def sample_booking_def with_snapshot_def)
qed

definition owes_refund :: "exn + (refund_instruction \<times> refund_breakdown) option \<times> db \<Rightarrow> bool" where
  "owes_refund r = (case r of Inr (Some _, _) \<Rightarrow> True | _ \<Rightarrow> False)"

lemma owes_refundE:
  assumes "owes_refund r"
  obtains i rb d where "r = Inr (Some (i, rb), d)"
  using assms by (auto simp: owes_refund_def split: sum.splits option.splits)

lemma sample_owed: "owes_refund (cancellation_body ''b6'' (20 * hour) pay_db)"
  by code_simp

lemma cancellation_refund_bounded_witness:
  "\<exists>i rb d'. cancellation_body ''b6'' (20 * hour) pay_db = Inr (Some (i, rb), d')
    \<and> 0 \<le> ri_amount_minor i \<and> ri_amount_minor i \<le> 9002"
proof -
  obtain i rb d' where c: "cancellation_body ''b6'' (20 * hour) pay_db = Inr (Some (i, rb), d')"
    using sample_owed by (rule owes_refundE)
  have "\<forall>li \<in> set (t_booking_line_items pay_db). 0 \<le> li_rate_minor li \<and> 0 \<le> li_quantity li"
    "0 \<le> half_hours (b_starts_at cancelled_booking) (b_ends_at cancelled_booking)"
    "snd (splitTotals cancelled_booking (filter (\<lambda>li. li_booking_id li = ''b6'') (t_booking_line_items pay_db)))
       \<le> b_total_minor cancelled_booking"
    by code_simp+
  from cancellation_refund_bounded [OF pay_stored c pay_rows(4) this] show ?thesis
    using c by (auto simp: with_snapshot_def sample_booking_def)
qed

lemma sample_owed_twice:
  "case cancellation_body ''b6'' (20 * hour) pay_db of
     Inr (Some _, d1) \<Rightarrow> owes_refund (cancellation_body ''b7'' (20 * hour) d1) | _ \<Rightarrow> False"
  by code_simp

lemma cancellation_refunds_once_witness:
  "\<exists>i i' rb rb' d1 d2. cancellation_body ''b6'' (20 * hour) pay_db = Inr (Some (i, rb), d1)
    \<and> cancellation_body ''b7'' (20 * hour) d1 = Inr (Some (i', rb'), d2) \<and> ri_payment_id i' \<noteq> ri_payment_id i"
proof -
  obtain i rb d1 where c: "cancellation_body ''b6'' (20 * hour) pay_db = Inr (Some (i, rb), d1)"
    using sample_owed by (rule owes_refundE)
  then have "owes_refund (cancellation_body ''b7'' (20 * hour) d1)" using sample_owed_twice by simp
  then obtain i' rb' d2 where c': "cancellation_body ''b7'' (20 * hour) d1 = Inr (Some (i', rb'), d2)"
    by (rule owes_refundE)
  show ?thesis
    using c c' cancellation_refunds_once [OF pay_payments c _ c'] by blast
qed

section \<open>Charging\<close>

definition prepared :: "exn + (booking \<times> payment \<times> bool) \<times> db \<Rightarrow> bool" where
  "prepared r = (case r of Inr ((_, _, done_before), _) \<Rightarrow> \<not> done_before | _ \<Rightarrow> False)"

lemma preparedE:
  assumes "prepared r"
  obtains b q d where "r = Inr ((b, q, False), d)"
  using assms by (auto simp: prepared_def split: sum.splits)

lemma sample_prepared: "prepared (pay_prepare ''b2'' sample_customer sample_attempt pay_db)"
  by code_simp

definition second_attempt :: attempt where
  "second_attempt = \<lparr>at_now = 180000, at_id = ''p8'', at_abort = None\<rparr>"

lemma sample_prepared_again:
  "case pay_prepare ''b2'' sample_customer sample_attempt pay_db of
     Inr (_, d1) \<Rightarrow> prepared (pay_prepare ''b2'' sample_customer second_attempt d1)
       \<and> prepared (pay_prepare ''B2'' sample_customer second_attempt d1)
   | _ \<Rightarrow> False"
  by code_simp

lemma sample_unpaid: "findPaymentByKey (chargeKey ''b2'') pay_db = None" "findPaymentByKey (chargeKey ''B2'') pay_db = None"
  by code_simp+

lemma pay_prepares_witness:
  "\<exists>b q d'. pay_prepare ''b2'' sample_customer sample_attempt pay_db = Inr ((b, q, False), d')
    \<and> p_booking_id q = ''b2'' \<and> p_amount_minor q = b_total_minor b"
proof -
  obtain b q d' where c: "pay_prepare ''b2'' sample_customer sample_attempt pay_db = Inr ((b, q, False), d')"
    using sample_prepared by (rule preparedE)
  have "uuid_in ''b2'' = ''b2''" by code_simp
  then show ?thesis using c pay_prepares [OF pay_stored c] sample_unpaid by auto
qed

lemma pay_retry_same_charge_witness:
  "\<exists>b q b' q' d1 d2. pay_prepare ''b2'' sample_customer sample_attempt pay_db = Inr ((b, q, False), d1)
    \<and> pay_prepare ''b2'' sample_customer second_attempt d1 = Inr ((b', q', False), d2) \<and> p_id q' = p_id q"
proof -
  obtain b q d1 where c: "pay_prepare ''b2'' sample_customer sample_attempt pay_db = Inr ((b, q, False), d1)"
    using sample_prepared by (rule preparedE)
  then have "prepared (pay_prepare ''b2'' sample_customer second_attempt d1)" using sample_prepared_again by simp
  then obtain b' q' d2 where c': "pay_prepare ''b2'' sample_customer second_attempt d1 = Inr ((b', q', False), d2)"
    by (rule preparedE)
  show ?thesis using c c' pay_retry_same_charge [OF pay_payments c _ c'] by blast
qed

lemma pay_spellings_charge_twice_witness:
  "\<exists>b q b' q' d1 d2. pay_prepare ''b2'' sample_customer sample_attempt pay_db = Inr ((b, q, False), d1)
    \<and> pay_prepare ''B2'' sample_customer second_attempt d1 = Inr ((b', q', False), d2) \<and> p_id q' \<noteq> p_id q"
proof -
  obtain b q d1 where c: "pay_prepare ''b2'' sample_customer sample_attempt pay_db = Inr ((b, q, False), d1)"
    using sample_prepared by (rule preparedE)
  then have "prepared (pay_prepare ''B2'' sample_customer second_attempt d1)" using sample_prepared_again by simp
  then obtain b' q' d2 where c': "pay_prepare ''B2'' sample_customer second_attempt d1 = Inr ((b', q', False), d2)"
    by (rule preparedE)
  have u: "uuid_in ''B2'' = uuid_in ''b2''" "''B2'' \<noteq> ''b2''" by code_simp+
  show ?thesis using c c' pay_spellings_charge_twice [OF pay_stored pay_payments u sample_unpaid c c'] by blast
qed

section \<open>Deliveries\<close>

lemma event_applies_once_witness:
  "\<exists>r d2. applyInTransaction sample_host ''w1'' 200000 pay_db = Inr (r, d2) \<and> r = None
    \<and> t_bookings d2 = t_bookings pay_db"
proof -
  have "\<not> isl (applyInTransaction sample_host ''w1'' 200000 pay_db)" by code_simp
  then obtain r d2 where a: "applyInTransaction sample_host ''w1'' 200000 pay_db = Inr (r, d2)"
    by (cases "applyInTransaction sample_host ''w1'' 200000 pay_db") auto
  let ?body = "JObj [(''charge_id'', JStr ''c1''), (''event'', JStr ''charge.succeeded'')]"
  have w: "List.find (\<lambda>w. wd_id w = ''w1'') (t_webhook_deliveries pay_db) = Some (sample_delivery ''w1'' ''again'' 100000)"
    "body_of sample_host (wd_raw_body (sample_delivery ''w1'' ''again'' 100000)) = Inr ?body"
    "asString (json_field ''charge_id'' ?body) = Some ''c1''" "asString (json_field ''event'' ?body) = Some ''charge.succeeded''"
    by code_simp+
  have "(''c1'', ''charge.succeeded'') \<in> applied_events pay_db" by code_simp
  from event_applies_once [OF this pay_payments _ w a] show ?thesis using a by auto
qed

lemma unsigned_never_applied_witness:
  "\<exists>res d1. ingest sample_host (Some ''key'') ''again'' (Some ''wrong'') (Some ''x'') None ''w9'' ''rnd'' 5 pay_db = (res, d1)
    \<and> res = Inl Unauthorized \<and> applyInTransaction sample_host ''w9'' 6 d1 = Inr (None, d1)"
proof -
  obtain res d1 where i: "ingest sample_host (Some ''key'') ''again'' (Some ''wrong'') (Some ''x'') None ''w9'' ''rnd'' 5 pay_db
      = (res, d1)" by force
  have h: "\<not> verifySignature sample_host ''again'' ''key'' (Some ''wrong'')" "''key'' \<noteq> []"
    "''w9'' \<notin> wd_id ` set (t_webhook_deliveries pay_db)"
    by code_simp+
  show ?thesis using i unsigned_never_applied [OF h i] by blast
qed

section \<open>Runs of the whole API\<close>

text \<open>
  A run: one customer holds a slot, another cancels a booking, the sweeper passes, and the first
  prepares the payment.
\<close>

definition after_hold :: db where
  "after_hold = snd (hold sample_env sample_utc sample_hold sample_principal 120000 (\<lambda>_. sample_attempt) pay_db)"

definition after_sweep :: db where
  "after_sweep = snd (sweeper_tick False second_attempt True (\<lambda>_. False)
     (snd (cancel ''b2'' [] sample_customer 150000 after_hold)))"

lemma sample_run: "api_steps pay_db after_sweep"
proof -
  have "0 < TRANSIENT_RETRY_ATTEMPTS sample_env" by (simp add: sample_env_def)
  then have "api_step pay_db after_hold" unfolding after_hold_def by (rule api_step.hold)
  moreover have "api_step after_hold (snd (cancel ''b2'' [] sample_customer 150000 after_hold))"
    by (rule api_step.cancel)
  moreover have "api_step (snd (cancel ''b2'' [] sample_customer 150000 after_hold)) after_sweep"
    unfolding after_sweep_def by (rule api_step.swept)
  ultimately show ?thesis by (meson rtranclp.rtrancl_into_rtrancl rtranclp.rtrancl_refl)
qed


lemma booking_history_witness:
  "\<exists>b'. find_booking ''b5'' after_sweep = Some b' \<and> isLegalTransition\<^sup>*\<^sup>* PENDING_PAYMENT (b_status b')
    \<and> legal_path DRAFT (trail ''b5'' (t_audit_events after_sweep)) (b_status b')"
  using booking_history [OF sample_run pay_inv pay_rows(2)] by (auto simp: sample_booking_def)

lemma payments_permanent_witness:
  "\<exists>q \<in> set (t_payments after_sweep). p_id q = ''p5'' \<and> p_amount_minor q = 9002"
proof -
  have "pending_payment \<in> set (t_payments pay_db)" by (simp add: pay_db_def)
  from payments_permanent [OF sample_run pay_inv this] show ?thesis by (auto simp: sample_payment_def)
qed

definition held_slot :: "booking option \<Rightarrow> bool" where
  "held_slot r = (case r of Some b \<Rightarrow> b_room_id b = sample_room_id \<and> is_active (b_status b) | None \<Rightarrow> False)"

definition after_cancel :: db where
  "after_cancel = snd (cancel ''b2'' [] sample_customer 150000 pay_db)"

lemma sample_active: "held_slot (find_booking ''b5'' after_cancel)" "held_slot (find_booking ''b1'' after_cancel)"
  by code_simp+

lemma no_double_booking_witness:
  "\<exists>a b. find_booking ''b5'' after_cancel = Some a \<and> find_booking ''b1'' after_cancel = Some b
    \<and> (b_ends_at a + TURNAROUND_MS \<le> b_starts_at b \<or> b_ends_at b + TURNAROUND_MS \<le> b_starts_at a)"
proof -
  obtain a b where ab: "find_booking ''b5'' after_cancel = Some a" "find_booking ''b1'' after_cancel = Some b"
    "b_room_id a = b_room_id b" "is_active (b_status a)" "is_active (b_status b)"
    using sample_active by (auto simp: held_slot_def split: option.splits)
  have m: "a \<in> set (t_bookings after_cancel)" "b \<in> set (t_bookings after_cancel)" "b_id a \<noteq> b_id b"
    using find_SomeD [OF ab(1) [unfolded find_booking_def]] find_SomeD [OF ab(2) [unfolded find_booking_def]] by auto
  have run: "api_steps pay_db after_cancel" unfolding after_cancel_def by (intro r_into_rtranclp api_step.cancel)
  show ?thesis using ab(1,2) no_double_booking [OF run pay_inv m ab(3-5)] by blast
qed

section \<open>The workers and the report\<close>

lemma sweeper_clears_witness:
  "\<exists>n d'. sweeper_tick False sample_attempt True (\<lambda>_. False) pay_db = (n, d')
    \<and> (\<forall>b \<in> set (t_bookings d'). \<not> stale_hold 120000 b)"
proof -
  obtain n d' where t: "sweeper_tick False sample_attempt True (\<lambda>_. False) pay_db = (n, d')" by force
  have "length (filter (stale_hold (at_now sample_attempt)) (t_bookings pay_db)) \<le> SWEEP_BATCH_SIZE"
    "at_abort sample_attempt = None"
    by code_simp+
  from sweeper_clears [OF pay_stored this t] show ?thesis using t by (auto simp: sample_attempt_def)
qed

definition stray_rows :: "uuid list" where
  "stray_rows = map (\<lambda>n. replicate n CHR ''s'') [0..<100]"

definition stray_db :: db where
  "stray_db = pay_db\<lparr>t_webhook_deliveries := map (\<lambda>row. sample_delivery row ''stray'' 0) stray_rows\<rparr>"

lemma stray_find:
  assumes "row \<in> set rows"
  shows "List.find (\<lambda>w. wd_id w = row) (map (\<lambda>row. sample_delivery row raw now) rows) = Some (sample_delivery row raw now)"
  using assms by (induction rows) (auto simp: sample_delivery_def delivery_row_def)

lemma stray_backlog: "backlog stray_db = stray_rows"
proof -
  have "filter pending_delivery (t_webhook_deliveries stray_db) = t_webhook_deliveries stray_db"
    by (simp add: stray_db_def filter_id_conv sample_delivery_def delivery_row_def pending_delivery_def)
  moreover have "sort_key wd_received_at (t_webhook_deliveries stray_db) = t_webhook_deliveries stray_db"
    by (rule sort_key_id_if_sorted)
      (simp add: stray_db_def comp_def sample_delivery_def delivery_row_def sorted_wrt_map)
  ultimately show ?thesis
    by (simp add: backlog_def DRAIN_BATCH_SIZE_def)
      (simp add: stray_db_def stray_rows_def comp_def sample_delivery_def delivery_row_def)
qed

lemma backlog_starves_witness:
  "\<exists>applied d'. drain (\<lambda>row. applyDelivery sample_host sample_provider 3 (\<lambda>_. sample_attempt) row 200000)
      (backlog stray_db) stray_db = (applied, d')
    \<and> backlog d' = stray_rows \<and> t_payments d' = t_payments pay_db"
proof -
  obtain k d' where t: "drain (\<lambda>row. applyDelivery sample_host sample_provider 3 (\<lambda>_. sample_attempt) row 200000)
      (backlog stray_db) stray_db = (k, d')" by force
  have body: "body_of sample_host ''stray'' = Inr (JObj [(''charge_id'', JStr ''c0''), (''event'', JStr ''charge.succeeded'')])"
    by code_simp
  have nobody: "findPaymentByChargeId ''c0'' pay_db = None" by code_simp
  have "findPaymentByChargeId ''c0'' stray_db = None" using nobody
    by (simp add: stray_db_def findPaymentByChargeId_def)
  then have "unknown_delivery sample_host stray_db row" if "row \<in> set stray_rows" for row
    using stray_find [OF that] body
    by (simp add: unknown_delivery_def stray_db_def SUPPORTED_EVENTS_def)
      (simp add: sample_delivery_def delivery_row_def SUPPORTED_EVENTS_def)
  then have h: "length (backlog stray_db) = DRAIN_BATCH_SIZE"
    "\<forall>row \<in> set (backlog stray_db). unknown_delivery sample_host stray_db row"
    by (simp_all add: stray_backlog stray_rows_def DRAIN_BATCH_SIZE_def)
  have a: "at_abort sample_attempt = None" by (simp add: sample_attempt_def)
  have "t_payments stray_db = t_payments pay_db" by (simp add: stray_db_def)
  then show ?thesis
    using t backlog_starves [OF h _ a t] stray_backlog by auto
qed

lemma clean_report_accounts_witness:
  "rt_discrepancy_count (run 0 hour 60 50 120000 pay_db) = 0
   \<and> (\<exists>b. find_booking ''b1'' pay_db = Some b \<and> (b_status b = CONFIRMED \<or> b_status b = COMPLETED))"
proof -
  let ?p = "sample_payment ''p1'' ''b1'' ''c1'' PaySucceeded 0"
  have "discrepancies 0 hour 60 120000 pay_db = []" by code_simp
  then have z: "rt_discrepancy_count (run 0 hour 60 50 120000 pay_db) = 0" by (simp add: no_discrepancies_iff)
  have p: "?p \<in> set (t_payments pay_db)" "in_window 0 hour (p_created_at ?p)" "old_enough 60 120000 (p_updated_at ?p)"
    "find_booking (p_booking_id ?p) pay_db = Some (sample_booking ''b1'' ''u1'' (4 * hour) (6 * hour) CONFIRMED None)"
    by code_simp+
  show ?thesis using clean_report_accounts [OF z p] p(4) z by (simp add: sample_payment_def)
qed

end
