(* ===== verification/Rng.thy ===== *)
theory Rng
  imports JsNumber "HOL-Library.Word"
begin

text \<open>
  \<open>apps/paygate/src/rng.ts\<close>: the seeded generator every chaos decision is drawn from. The bitwise
  operators and \<open>Math.imul\<close> of JavaScript work on 32 bits, so the state is a 32-bit word; a string is
  the list of its code units, which for header values and the seed are single bytes. \<open>next\<close> returns
  the drawn number and the state after it.
\<close>

unbundle bit_operations_syntax

definition xmur3_mix :: "32 word \<Rightarrow> char \<Rightarrow> 32 word" where
  "xmur3_mix h c =
     (let h' = (h XOR of_nat (of_char c)) * 3432918353 in push_bit 13 h' OR drop_bit 19 h')"

definition xmur3 :: "string \<Rightarrow> 32 word" where
  "xmur3 str =
     (let h = foldl xmur3_mix (1779033703 XOR of_nat (length str)) str;
          h1 = (h XOR drop_bit 16 h) * 2246822507;
          h2 = (h1 XOR drop_bit 13 h1) * 3266489909
      in h2 XOR drop_bit 16 h2)"

definition mulberry32 :: "32 word \<Rightarrow> js_number \<times> 32 word" where
  "mulberry32 a =
     (let a' = a + 0x6d2b79f5;
          t = (a' XOR drop_bit 15 a') * (1 OR a');
          t' = (t + (t XOR drop_bit 7 t) * (61 OR t)) XOR t
      in (of_nat (unat (t' XOR drop_bit 14 t')) / 4294967296, a'))"

fun join_with :: "string \<Rightarrow> string list \<Rightarrow> string" where
  "join_with sep [] = []"
| "join_with sep [s] = s"
| "join_with sep (s # ss) = s @ sep @ join_with sep ss"

definition makeRng :: "string list \<Rightarrow> 32 word" where
  "makeRng parts = xmur3 (join_with ''|'' parts)"

abbreviation rng_next :: "32 word \<Rightarrow> js_number \<times> 32 word" where
  "rng_next \<equiv> mulberry32"

definition rng_int :: "int \<Rightarrow> int \<Rightarrow> 32 word \<Rightarrow> int \<times> 32 word" where
  "rng_int lo hi r =
     (case rng_next r of (u, r') \<Rightarrow> (lo + math_floor (js_mul u (of_int (hi - lo + 1))), r'))"

definition rng_bool :: "js_number \<Rightarrow> 32 word \<Rightarrow> bool \<times> 32 word" where
  "rng_bool p r = (case rng_next r of (u, r') \<Rightarrow> (u < p, r'))"

section \<open>Ranges\<close>

lemma mulberry32_grid:
  "\<exists>k. 0 \<le> k \<and> k < 2 ^ 32 \<and> fst (mulberry32 a) = of_int k / 2 ^ 32"
proof -
  have "uint x < 2 ^ 32" for x :: "32 word" using unsigned_less [of x] by simp
  then have "0 \<le> int (unat x) \<and> int (unat x) < 2 ^ 32" for x :: "32 word" by simp
  then show ?thesis
    by (auto simp: mulberry32_def Let_def intro!: exI)
qed

lemma rng_next_range: "0 \<le> fst (rng_next r) \<and> fst (rng_next r) < 1"
  using mulberry32_grid [of r] by auto

text \<open>
  A draw is a multiple of \<open>2 ^ -32\<close>, so its product with a range below \<open>2 ^ 21\<close> is exact and the floor
  stays in the range.
\<close>

lemma rng_int_exact:
  assumes "lo \<le> hi" and "hi - lo + 1 \<le> 2 ^ 21" and "fst (rng_next r) = of_int k / 2 ^ 32" and "0 \<le> k" "k < 2 ^ 32"
  shows "fst (rng_int lo hi r) = lo + k * (hi - lo + 1) div 2 ^ 32"
proof -
  let ?n = "hi - lo + 1"
  have n: "0 \<le> k * ?n" "k * ?n \<le> 2 ^ 53"
    using assms mult_mono [of k "2 ^ 32" ?n "2 ^ 21"] by simp_all
  have "js_mul (of_int k / 2 ^ 32) (of_int ?n) = dbl (of_int (k * ?n) * 2 powi (- 32))"
    by (simp add: js_mul_def power_int_minus field_simps)
  also have "\<dots> = of_int (k * ?n) * 2 powi (- 32)" using n by (intro dbl_exact_scaled) simp
  also have "\<dots> = of_int (k * ?n) / of_int (2 ^ 32)" by (simp add: power_int_minus field_simps)
  finally have "math_floor (js_mul (of_int k / 2 ^ 32) (of_int ?n)) = k * ?n div 2 ^ 32"
    by (simp only: math_floor_def floor_divide_of_int_eq)
  moreover obtain u r' where r: "rng_next r = (u, r')" by force
  moreover have "u = of_int k / 2 ^ 32" using assms(3) r by simp
  ultimately show ?thesis by (simp add: rng_int_def)
qed

lemma rng_int_range:
  assumes "lo \<le> hi" and "hi - lo + 1 \<le> 2 ^ 21"
  shows "lo \<le> fst (rng_int lo hi r) \<and> fst (rng_int lo hi r) \<le> hi"
proof -
  obtain k where k: "0 \<le> k" "k < 2 ^ 32" "fst (rng_next r) = of_int k / 2 ^ 32"
    using mulberry32_grid by blast
  have "k * (hi - lo + 1) < 2 ^ 32 * (hi - lo + 1)" using k(2) assms(1) by (intro mult_strict_right_mono) simp_all
  then have "k * (hi - lo + 1) div 2 ^ 32 < hi - lo + 1"
    by (simp add: div_less_iff_less_mult mult.commute)
  moreover have "0 \<le> k * (hi - lo + 1) div 2 ^ 32" 
    using k(1) assms(1) by (subst pos_imp_zdiv_nonneg_iff) simp_all
  ultimately show ?thesis using rng_int_exact [OF assms k(3,1,2)] by linarith
qed

end
