(* ===== verification/Chaos.thy ===== *)
theory Chaos
  imports Rng ZonedTime
begin

text \<open>
  The decisions of the provider simulator that depend on nothing but its configuration and a key:
  \<open>apps/paygate/src/config.ts\<close>, \<open>chaos.ts\<close> and \<open>signature.ts\<close>. The digest is a parameter, as in the
  payments service.
\<close>

section \<open>Configuration\<close>

datatype store = StoreMemory | StorePostgres

text \<open>The environment as its schema returns it; a missing variable without a default is \<^const>\<open>None\<close>.\<close>

record paygate_env =
  PAYGATE_PORT :: int
  PAYGATE_SECRET :: string
  PAYGATE_CHAOS :: bool
  PAYGATE_SEED :: string
  PAYGATE_CALLBACK_URL :: "string option"
  PAYGATE_WEBHOOK_URL :: "string option"
  PAYGATE_TEST_ENDPOINTS :: bool
  NODE_ENV :: string
  PAYGATE_DECLINE_AMOUNT_MINOR :: int
  PAYGATE_DELIVERY_TIMEOUT_MS :: int
  PAYGATE_STORE :: store
  PAYGATE_DATABASE_URL :: "string option"

definition PaygateEnvSchema :: "paygate_env \<Rightarrow> bool" where
  "PaygateEnvSchema e \<longleftrightarrow> 0 < PAYGATE_PORT e \<and> 8 \<le> length (PAYGATE_SECRET e) \<and> PAYGATE_SEED e \<noteq> []
     \<and> 0 \<le> PAYGATE_DECLINE_AMOUNT_MINOR e \<and> 0 < PAYGATE_DELIVERY_TIMEOUT_MS e
     \<and> PAYGATE_DATABASE_URL e \<noteq> Some []"

record paygate_config =
  pc_port :: int
  pc_secret :: string
  pc_chaos :: bool
  pc_seed :: string
  pc_callbackUrl :: "string option"
  pc_production :: bool
  pc_testEndpointsRequested :: bool
  pc_testEndpoints :: bool
  pc_declineAmountMinor :: int
  pc_deliveryTimeoutMs :: int
  pc_store :: store
  pc_databaseUrl :: "string option"

datatype config_error = InvalidEnvironment | StoreNeedsUrl

definition loadConfig :: "paygate_env \<Rightarrow> config_error + paygate_config" where
  "loadConfig e =
     result_bind (ensure (PaygateEnvSchema e) InvalidEnvironment) (\<lambda>_.
     result_bind (ensure (\<not> (PAYGATE_STORE e = StorePostgres \<and> PAYGATE_DATABASE_URL e = None)) StoreNeedsUrl) (\<lambda>_.
     let production = (NODE_ENV e = ''production''); requested = PAYGATE_TEST_ENDPOINTS e in
     Inr \<lparr>pc_port = PAYGATE_PORT e, pc_secret = PAYGATE_SECRET e, pc_chaos = PAYGATE_CHAOS e,
       pc_seed = PAYGATE_SEED e,
       pc_callbackUrl = (case PAYGATE_CALLBACK_URL e of Some u \<Rightarrow> Some u | None \<Rightarrow> PAYGATE_WEBHOOK_URL e),
       pc_production = production, pc_testEndpointsRequested = requested,
       pc_testEndpoints = (requested \<and> \<not> production),
       pc_declineAmountMinor = PAYGATE_DECLINE_AMOUNT_MINOR e,
       pc_deliveryTimeoutMs = PAYGATE_DELIVERY_TIMEOUT_MS e, pc_store = PAYGATE_STORE e,
       pc_databaseUrl = PAYGATE_DATABASE_URL e\<rparr>))"

lemma loadConfig_guards:
  assumes "loadConfig e = Inr cfg"
  shows "pc_testEndpoints cfg \<Longrightarrow> \<not> pc_production cfg"
    and "pc_store cfg = StorePostgres \<Longrightarrow> pc_databaseUrl cfg \<noteq> None"
  using assms by (auto simp: loadConfig_def tx_simps Let_def)

section \<open>Rates and delays\<close>

definition duplicateDelivery_rate :: js_number where "duplicateDelivery_rate = dbl (3 / 10)"
definition raceOnResponse_rate :: js_number where "raceOnResponse_rate = dbl (25 / 100)"
definition transientFailure_rate :: js_number where "transientFailure_rate = dbl (1 / 10)"
definition delayedDelivery_rate :: js_number where "delayedDelivery_rate = dbl (5 / 100)"
definition badSignature_rate :: js_number where "badSignature_rate = dbl (2 / 100)"

definition normalMin :: int where "normalMin = 20"
definition normalMax :: int where "normalMax = 400"
definition lateMin :: int where "lateMin = 60000"
definition lateMax :: int where "lateMax = 90000"
definition duplicateMin :: int where "duplicateMin = 30"
definition duplicateMax :: int where "duplicateMax = 900"

definition skew_probability :: js_number where "skew_probability = dbl (35 / 100)"
definition skew_minSeconds :: int where "skew_minSeconds = 1"
definition skew_maxSeconds :: int where "skew_maxSeconds = 30"

section \<open>The plan of a key\<close>

datatype timing_branch = RaceOnResponse | Delayed | Normal

record chaos_plan =
  pl_enabled :: bool
  pl_transientFailure :: bool
  pl_timing :: timing_branch
  pl_duplicateDelivery :: bool
  pl_firstDelayMs :: int
  pl_duplicateGapMs :: int
  pl_clockSkewSeconds :: int

definition NO_CHAOS :: chaos_plan where
  "NO_CHAOS = \<lparr>pl_enabled = False, pl_transientFailure = False, pl_timing = Normal,
     pl_duplicateDelivery = False, pl_firstDelayMs = 0, pl_duplicateGapMs = 0, pl_clockSkewSeconds = 0\<rparr>"

definition timing_of :: "js_number \<Rightarrow> timing_branch" where
  "timing_of u =
     (if u < raceOnResponse_rate then RaceOnResponse
      else if u < js_add raceOnResponse_rate delayedDelivery_rate then Delayed else Normal)"

definition first_delay :: "timing_branch \<Rightarrow> 32 word \<Rightarrow> int \<times> 32 word" where
  "first_delay timing r =
     (case timing of RaceOnResponse \<Rightarrow> (0, r) | Delayed \<Rightarrow> rng_int lateMin lateMax r
      | Normal \<Rightarrow> rng_int normalMin normalMax r)"

definition clock_skew :: "32 word \<Rightarrow> int" where
  "clock_skew r =
     (case rng_bool skew_probability r of (skewed, r') \<Rightarrow>
        if skewed then fst (rng_int skew_minSeconds skew_maxSeconds r') else 0)"

definition planFor :: "string \<Rightarrow> paygate_config \<Rightarrow> chaos_plan" where
  "planFor key cfg =
     (if \<not> pc_chaos cfg then NO_CHAOS
      else
        let r0 = makeRng [pc_seed cfg, key, ''plan''];
            (transient, r1) = rng_bool transientFailure_rate r0;
            (u, r2) = rng_next r1;
            (duplicate, r3) = rng_bool duplicateDelivery_rate r2;
            (delay, r4) = first_delay (timing_of u) r3;
            (gap, r5) = rng_int duplicateMin duplicateMax r4
        in \<lparr>pl_enabled = True, pl_transientFailure = transient, pl_timing = timing_of u,
            pl_duplicateDelivery = duplicate, pl_firstDelayMs = delay, pl_duplicateGapMs = gap,
            pl_clockSkewSeconds = clock_skew r5\<rparr>)"

definition corruptSignatureFor :: "string \<Rightarrow> nat \<Rightarrow> paygate_config \<Rightarrow> bool" where
  "corruptSignatureFor key attempt cfg =
     (pc_chaos cfg \<and> fst (rng_bool badSignature_rate
        (makeRng [pc_seed cfg, key, ''signature:'' @ show_nat attempt])))"

lemma first_delay_range:
  "case timing of RaceOnResponse \<Rightarrow> fst (first_delay timing r) = 0
   | Delayed \<Rightarrow> lateMin \<le> fst (first_delay timing r) \<and> fst (first_delay timing r) \<le> lateMax
   | Normal \<Rightarrow> normalMin \<le> fst (first_delay timing r) \<and> fst (first_delay timing r) \<le> normalMax"
  using rng_int_range [of lateMin lateMax r] rng_int_range [of normalMin normalMax r]
  by (simp add: first_delay_def lateMin_def lateMax_def normalMin_def normalMax_def split: timing_branch.splits)

lemma clock_skew_range: "0 \<le> clock_skew r \<and> clock_skew r \<le> skew_maxSeconds"
  using rng_int_range [of skew_minSeconds skew_maxSeconds "snd (rng_bool skew_probability r)"]
  by (auto simp: clock_skew_def skew_minSeconds_def skew_maxSeconds_def split: prod.splits)

text \<open>
  Every plan stays within the bounds the constants name: a race sends at once, a late delivery waits
  60 to 90 seconds and any other 20 to 400 milliseconds, a duplicate follows within 900, and no
  clock is set back by more than 30 seconds; with chaos off nothing is delayed, doubled or failed.
  The largest delay is far below the default hold TTL of 480 seconds.
\<close>

lemma planFor_bounds:
  "let plan = planFor key cfg in
   (case pl_timing plan of
      RaceOnResponse \<Rightarrow> pl_firstDelayMs plan = 0
    | Delayed \<Rightarrow> 60000 \<le> pl_firstDelayMs plan \<and> pl_firstDelayMs plan \<le> 90000
    | Normal \<Rightarrow> 0 \<le> pl_firstDelayMs plan \<and> pl_firstDelayMs plan \<le> 400)
   \<and> 0 \<le> pl_duplicateGapMs plan \<and> pl_duplicateGapMs plan \<le> 900
   \<and> 0 \<le> pl_clockSkewSeconds plan \<and> pl_clockSkewSeconds plan \<le> 30
   \<and> pl_firstDelayMs plan + pl_duplicateGapMs plan < 480 * 1000
   \<and> (if pc_chaos cfg then pl_enabled plan else plan = NO_CHAOS)"
proof (cases "pc_chaos cfg")
  case True
  define r0 where "r0 = makeRng [pc_seed cfg, key, ''plan'']"
  obtain transient r1 where r1: "rng_bool transientFailure_rate r0 = (transient, r1)" by force
  obtain u r2 where r2: "rng_next r1 = (u, r2)" by force
  obtain duplicate r3 where r3: "rng_bool duplicateDelivery_rate r2 = (duplicate, r3)" by force
  obtain delay r4 where r4: "first_delay (timing_of u) r3 = (delay, r4)" by force
  obtain gap r5 where r5: "rng_int duplicateMin duplicateMax r4 = (gap, r5)" by force
  have plan: "planFor key cfg = \<lparr>pl_enabled = True, pl_transientFailure = transient, pl_timing = timing_of u,
      pl_duplicateDelivery = duplicate, pl_firstDelayMs = delay, pl_duplicateGapMs = gap,
      pl_clockSkewSeconds = clock_skew r5\<rparr>"
    using True by (simp add: planFor_def r0_def [symmetric] r1 r2 r3 r4 r5)
  have "0 \<le> gap" "gap \<le> 900"
    using rng_int_range [of duplicateMin duplicateMax r4] r5 by (simp_all add: duplicateMin_def duplicateMax_def)
  then show ?thesis
    using first_delay_range [of "timing_of u" r3, unfolded r4 fst_conv] clock_skew_range [of r5] True
    by (simp add: plan lateMin_def lateMax_def normalMin_def normalMax_def skew_maxSeconds_def
        split: timing_branch.splits)
qed (simp add: planFor_def NO_CHAOS_def)

section \<open>Signatures\<close>

definition sign :: "(string \<Rightarrow> string \<Rightarrow> string) \<Rightarrow> string \<Rightarrow> string \<Rightarrow> string" where
  "sign hmac raw secret = hmac secret raw"

text \<open>\<open>parseInt(c, 16)\<close> of one character, with 0 for NaN, which is what \<open>^\<close> makes of it, and \<open>toString(16)\<close>.\<close>

fun index_of :: "'a \<Rightarrow> 'a list \<Rightarrow> nat option" where
  "index_of x [] = None"
| "index_of x (y # ys) = (if x = y then Some 0 else map_option Suc (index_of x ys))"

definition hex_digits :: string where "hex_digits = ''0123456789abcdef''"

definition parse_hex :: "char \<Rightarrow> nat" where
  "parse_hex c = (case index_of (hex_lower c) hex_digits of Some n \<Rightarrow> n | None \<Rightarrow> 0)"

definition corrupt :: "string \<Rightarrow> string" where
  "corrupt s =
     (case s of [] \<Rightarrow> ''deadbeef''
      | c # rest \<Rightarrow> hex_digits ! (parse_hex c XOR 1) # rest)"

definition verify :: "(string \<Rightarrow> string \<Rightarrow> string) \<Rightarrow> string \<Rightarrow> string \<Rightarrow> string \<Rightarrow> bool" where
  "verify hmac raw secret s \<longleftrightarrow> length (sign hmac raw secret) = length s \<and> sign hmac raw secret = s"

lemma corrupt_changes: "corrupt s \<noteq> s"
proof (cases s)
  case (Cons c rest)
  have "hex_digits ! (parse_hex c XOR 1) \<noteq> c"
  proof (cases "c \<in> set ''0123456789abcdefABCDEF''")
    case True
    then show ?thesis
      by (simp only: list.set insert_iff empty_iff) (elim disjE; (hypsubst, code_simp)?; blast)
  next
    case False
    then have "parse_hex c = 0" by (simp add: parse_hex_def hex_digits_def)
    then show ?thesis using False by (auto simp: hex_digits_def)
  qed
  then show ?thesis using Cons by (simp add: corrupt_def)
qed (simp add: corrupt_def)

end
