(* ===== verification/Ledger.thy ===== *)
theory Ledger
  imports Chaos "HOL-Library.AList"
begin

text \<open>
  The ledgers of the provider simulator, \<open>apps/paygate/src/ledger/\<close>: the rows and results of
  \<open>types.ts\<close> and \<open>ledger.ts\<close>, the in-memory ledger of \<open>memory.ts\<close> and the durable one of
  \<open>postgres.ts\<close>. An id minted by an operation and the time it reads are arguments. Timestamps are
  instants. Amounts are safe integers by the request schema.
\<close>

section \<open>Rows and results\<close>

datatype charge_status = Processing | Succeeded | Failed
datatype refund_status = RProcessing | RSucceeded
datatype webhook_event = ChargeSucceededEvent | ChargeFailedEvent | RefundSucceededEvent
datatype delivery_branch = Timed timing_branch | Duplicate | Forced

record delivery_record =
  dr_delivery_id :: string
  dr_charge_id :: string
  dr_refund_id :: "string option"
  dr_event :: webhook_event
  dr_attempt :: nat
  dr_branch :: delivery_branch
  dr_signature_corrupted :: bool
  dr_scheduled_delay_ms :: int
  dr_occurred_at :: instant
  dr_sent_at :: "instant option"
  dr_response_status :: "int option"
  dr_duration_ms :: "int option"
  dr_error :: "string option"
  dr_correlation_id :: "string option"

text \<open>A charge is a row of \<open>paygate_charges\<close> with its deliveries and the ids of its refunds.\<close>

record charge_row =
  ch_id :: string
  ch_reference :: string
  ch_amount_minor :: int
  ch_currency :: string
  ch_idempotency_key :: string
  ch_correlation_id :: "string option"
  ch_status :: charge_status
  ch_created_at :: instant
  ch_occurred_at :: "instant option"
  ch_materialised :: bool
  ch_refunded_minor :: int
  ch_plan :: chaos_plan
  ch_attempts :: nat

record charge = charge_row +
  ch_deliveries :: "delivery_record list"
  ch_refund_ids :: "string list"

record refund =
  re_id :: string
  re_charge_id :: string
  re_reference :: string
  re_amount_minor :: int
  re_idempotency_key :: string
  re_correlation_id :: "string option"
  re_status :: refund_status
  re_created_at :: instant
  re_occurred_at :: "instant option"
  re_materialised :: bool
  re_plan :: chaos_plan

datatype scope = ChargeScope | RefundScope
datatype key_outcome = KeyAccepted | KeyFailed500

record idempotency_record =
  ir_key :: string
  ir_scope :: scope
  ir_resource_id :: string
  ir_fingerprint :: string
  ir_outcome :: key_outcome
  ir_first_seen_at :: instant
  ir_replays :: nat

record open_charge_input =
  oc_reference :: string
  oc_amountMinor :: int
  oc_currency :: string
  oc_idempotencyKey :: string
  oc_fingerprint :: string
  oc_correlationId :: "string option"
  oc_plan :: chaos_plan

datatype open_charge_result =
    ChargeCreated charge
  | ChargeReplayed charge idempotency_record
  | ChargeFingerprintMismatch

record open_refund_input =
  or_chargeId :: string
  or_amountMinor :: int
  or_idempotencyKey :: string
  or_fingerprint :: string
  or_correlationId :: "string option"
  or_plan :: chaos_plan

datatype open_refund_result =
    RefundCreated refund
  | RefundReplayed refund idempotency_record
  | RefundFingerprintMismatch
  | UnknownCharge
  | NotRefundable charge_status
  | ExceedsCharge int int

record imported_charge =
  im_id :: string
  im_reference :: string
  im_amountMinor :: int
  im_currency :: string
  im_idempotencyKey :: string
  im_status :: charge_status
  im_createdAt :: instant
  im_occurredAt :: instant
  im_refundedMinor :: int

text \<open>What a ledger throws: a key whose resource is missing, or a constraint of its tables.\<close>

datatype ledger_error =
    NoSuchResource scope string
  | UniqueViolation
  | CheckViolation
  | ForeignKeyViolation

text \<open>\<open>IMPORTED_PLAN\<close> is the same value in both ledgers.\<close>

definition IMPORTED_PLAN :: chaos_plan where
  "IMPORTED_PLAN = \<lparr>pl_enabled = False, pl_transientFailure = False, pl_timing = Normal,
     pl_duplicateDelivery = False, pl_firstDelayMs = 0, pl_duplicateGapMs = 0, pl_clockSkewSeconds = 0\<rparr>"

section \<open>Forced delays\<close>

record forced_delays =
  fd_perCharge :: "(string \<times> int) list"
  fd_global :: "int option"

definition arm :: "string option \<Rightarrow> int \<Rightarrow> forced_delays \<Rightarrow> forced_delays" where
  "arm cid ms f =
     (case cid of
        Some c \<Rightarrow> if c = [] then f\<lparr>fd_global := Some ms\<rparr> else f\<lparr>fd_perCharge := AList.update c ms (fd_perCharge f)\<rparr>
      | None \<Rightarrow> f\<lparr>fd_global := Some ms\<rparr>)"

definition take_delay :: "string \<Rightarrow> forced_delays \<Rightarrow> int option \<times> forced_delays" where
  "take_delay cid f =
     (case map_of (fd_perCharge f) cid of
        Some ms \<Rightarrow> (Some ms, f\<lparr>fd_perCharge := AList.delete cid (fd_perCharge f)\<rparr>)
      | None \<Rightarrow>
          (case fd_global f of
             Some ms \<Rightarrow> (Some ms, f\<lparr>fd_global := None\<rparr>)
           | None \<Rightarrow> (None, f)))"

text \<open>A delay is armed for one delivery: what was armed for a charge is taken once, and by that charge.\<close>

lemma take_delay_arm:
  assumes "cid \<noteq> []" and "distinct (map fst (fd_perCharge f))"
  shows "fst (take_delay cid (arm (Some cid) ms f)) = Some ms"
    and "map_of (fd_perCharge (snd (take_delay cid (arm (Some cid) ms f)))) cid = None"
    and "other \<noteq> cid \<Longrightarrow> fst (take_delay other (arm (Some cid) ms f)) = fst (take_delay other f)"
  using assms by (auto simp: arm_def take_delay_def update_conv' delete_conv' split: option.splits)

end
