(* ===== verification/MemoryLedger.thy ===== *)
theory MemoryLedger
  imports Ledger
begin

text \<open>
  \<open>apps/paygate/src/ledger/memory.ts\<close>. A \<open>Map\<close> is an association list in insertion order, and \<open>set\<close>
  is \<^const>\<open>AList.update\<close>: it replaces in place and appends a new key. The ledger hands out its own
  objects, and every mutation of one goes through the operations below, except that the deliverer
  writes into the record it pushed with \<open>recordDelivery\<close>; \<open>mem_finishDelivery\<close> has the effect of
  those writes.
\<close>

record memory_ledger =
  ml_charges :: "(string \<times> charge) list"
  ml_refunds :: "(string \<times> refund) list"
  ml_idempotency :: "(string \<times> idempotency_record) list"

definition mem_empty :: memory_ledger where
  "mem_empty = \<lparr>ml_charges = [], ml_refunds = [], ml_idempotency = []\<rparr>"

definition charge_slot :: "string \<Rightarrow> string" where
  "charge_slot key = ''charge:'' @ key"

definition refund_slot :: "string \<Rightarrow> string" where
  "refund_slot key = ''refund:'' @ key"

lemma slots_distinct [simp]:
  "charge_slot k = charge_slot k' \<longleftrightarrow> k = k'" "refund_slot k = refund_slot k' \<longleftrightarrow> k = k'"
  "charge_slot k \<noteq> refund_slot k'" "refund_slot k \<noteq> charge_slot k'"
  by (simp_all add: charge_slot_def refund_slot_def)

section \<open>Reads\<close>

definition mem_counts :: "memory_ledger \<Rightarrow> nat \<times> nat" where
  "mem_counts m = (length (ml_charges m), length (ml_refunds m))"

definition mem_getCharge :: "string \<Rightarrow> memory_ledger \<Rightarrow> charge option" where
  "mem_getCharge cid m = map_of (ml_charges m) cid"

definition mem_getRefund :: "string \<Rightarrow> memory_ledger \<Rightarrow> refund option" where
  "mem_getRefund rid m = map_of (ml_refunds m) rid"

definition mem_refundsFor :: "string \<Rightarrow> memory_ledger \<Rightarrow> refund list" where
  "mem_refundsFor cid m =
     (case map_of (ml_charges m) cid of
        None \<Rightarrow> []
      | Some c \<Rightarrow> List.map_filter (map_of (ml_refunds m)) (ch_refund_ids c))"

definition mem_deliveriesFor :: "string \<Rightarrow> memory_ledger \<Rightarrow> delivery_record list" where
  "mem_deliveriesFor cid m =
     (case map_of (ml_charges m) cid of None \<Rightarrow> [] | Some c \<Rightarrow> ch_deliveries c)"

section \<open>Charges\<close>

definition new_charge :: "string \<Rightarrow> instant \<Rightarrow> open_charge_input \<Rightarrow> charge" where
  "new_charge cid now i =
     \<lparr>ch_id = cid, ch_reference = oc_reference i, ch_amount_minor = oc_amountMinor i,
      ch_currency = oc_currency i, ch_idempotency_key = oc_idempotencyKey i,
      ch_correlation_id = oc_correlationId i, ch_status = Processing, ch_created_at = now,
      ch_occurred_at = None, ch_materialised = False, ch_refunded_minor = 0, ch_plan = oc_plan i,
      ch_attempts = 0, ch_deliveries = [], ch_refund_ids = []\<rparr>"

definition bump_replays :: "idempotency_record \<Rightarrow> idempotency_record" where
  "bump_replays r = r\<lparr>ir_replays := ir_replays r + 1\<rparr>"

definition mem_openCharge :: "string \<Rightarrow> instant \<Rightarrow> open_charge_input \<Rightarrow> memory_ledger
    \<Rightarrow> (ledger_error + open_charge_result) \<times> memory_ledger" where
  "mem_openCharge cid now i m =
     (let slot = charge_slot (oc_idempotencyKey i) in
      case map_of (ml_idempotency m) slot of
        Some existing \<Rightarrow>
          if ir_fingerprint existing \<noteq> oc_fingerprint i then (Inr ChargeFingerprintMismatch, m)
          else
            let m1 = m\<lparr>ml_idempotency := AList.update slot (bump_replays existing) (ml_idempotency m)\<rparr> in
            (case map_of (ml_charges m) (ir_resource_id existing) of
               None \<Rightarrow> (Inl (NoSuchResource ChargeScope (ir_resource_id existing)), m1)
             | Some c \<Rightarrow> (Inr (ChargeReplayed c (bump_replays existing)), m1))
      | None \<Rightarrow>
          (Inr (ChargeCreated (new_charge cid now i)),
           m\<lparr>ml_charges := AList.update cid (new_charge cid now i) (ml_charges m),
             ml_idempotency := AList.update slot
               \<lparr>ir_key = oc_idempotencyKey i, ir_scope = ChargeScope, ir_resource_id = cid,
                ir_fingerprint = oc_fingerprint i,
                ir_outcome = (if pl_transientFailure (oc_plan i) then KeyFailed500 else KeyAccepted),
                ir_first_seen_at = now, ir_replays = 0\<rparr> (ml_idempotency m)\<rparr>))"

definition materialise_charge :: "charge_status \<Rightarrow> instant \<Rightarrow> 'a charge_row_scheme \<Rightarrow> 'a charge_row_scheme" where
  "materialise_charge st occurred c =
     c\<lparr>ch_materialised := True, ch_status := st, ch_occurred_at := Some occurred\<rparr>"

definition mem_materialiseCharge :: "string \<Rightarrow> charge_status \<Rightarrow> instant \<Rightarrow> memory_ledger
    \<Rightarrow> charge option \<times> memory_ledger" where
  "mem_materialiseCharge cid st occurred m =
     (case map_of (ml_charges m) cid of
        None \<Rightarrow> (None, m)
      | Some c \<Rightarrow>
          if ch_materialised c then (None, m)
          else (Some (materialise_charge st occurred c),
            m\<lparr>ml_charges := AList.update cid (materialise_charge st occurred c) (ml_charges m)\<rparr>))"

text \<open>\<open>!charge.correlation_id\<close> is also true of an empty string.\<close>

definition mem_recover :: "string \<Rightarrow> string \<Rightarrow> string option \<Rightarrow> memory_ledger \<Rightarrow> memory_ledger" where
  "mem_recover cid key corr m =
     (let m1 = (case map_of (ml_idempotency m) (charge_slot key) of
            None \<Rightarrow> m
          | Some r \<Rightarrow> m\<lparr>ml_idempotency :=
              AList.update (charge_slot key) (r\<lparr>ir_outcome := KeyAccepted\<rparr>) (ml_idempotency m)\<rparr>) in
      case map_of (ml_charges m1) cid of
        None \<Rightarrow> m1
      | Some c \<Rightarrow>
          if ch_correlation_id c = None \<or> ch_correlation_id c = Some []
          then m1\<lparr>ml_charges := AList.update cid (c\<lparr>ch_correlation_id := corr\<rparr>) (ml_charges m1)\<rparr>
          else m1)"

section \<open>Refunds\<close>

definition new_refund :: "string \<Rightarrow> instant \<Rightarrow> open_refund_input \<Rightarrow> 'a charge_row_scheme \<Rightarrow> refund" where
  "new_refund rid now i c =
     \<lparr>re_id = rid, re_charge_id = ch_id c, re_reference = ch_reference c,
      re_amount_minor = or_amountMinor i, re_idempotency_key = or_idempotencyKey i,
      re_correlation_id = (case or_correlationId i of None \<Rightarrow> ch_correlation_id c | Some x \<Rightarrow> Some x),
      re_status = RProcessing, re_created_at = now, re_occurred_at = None,
      re_materialised = False, re_plan = or_plan i\<rparr>"

definition mem_openRefund :: "string \<Rightarrow> instant \<Rightarrow> open_refund_input \<Rightarrow> memory_ledger
    \<Rightarrow> (ledger_error + open_refund_result) \<times> memory_ledger" where
  "mem_openRefund rid now i m =
     (let slot = refund_slot (or_idempotencyKey i) in
      case map_of (ml_idempotency m) slot of
        Some existing \<Rightarrow>
          if ir_fingerprint existing \<noteq> or_fingerprint i then (Inr RefundFingerprintMismatch, m)
          else
            let m1 = m\<lparr>ml_idempotency := AList.update slot (bump_replays existing) (ml_idempotency m)\<rparr> in
            (case map_of (ml_refunds m) (ir_resource_id existing) of
               None \<Rightarrow> (Inl (NoSuchResource RefundScope (ir_resource_id existing)), m1)
             | Some r \<Rightarrow> (Inr (RefundReplayed r (bump_replays existing)), m1))
      | None \<Rightarrow>
          (case map_of (ml_charges m) (or_chargeId i) of
             None \<Rightarrow> (Inr UnknownCharge, m)
           | Some c \<Rightarrow>
               if \<not> ch_materialised c then (Inr UnknownCharge, m)
               else if ch_status c \<noteq> Succeeded then (Inr (NotRefundable (ch_status c)), m)
               else if ch_amount_minor c < ch_refunded_minor c + or_amountMinor i
               then (Inr (ExceedsCharge (ch_amount_minor c) (ch_refunded_minor c)), m)
               else
                 (Inr (RefundCreated (new_refund rid now i c)),
                  m\<lparr>ml_charges := AList.update (or_chargeId i)
                      (c\<lparr>ch_refund_ids := ch_refund_ids c @ [rid],
                         ch_refunded_minor := ch_refunded_minor c + or_amountMinor i\<rparr>) (ml_charges m),
                    ml_refunds := AList.update rid (new_refund rid now i c) (ml_refunds m),
                    ml_idempotency := AList.update slot
                      \<lparr>ir_key = or_idempotencyKey i, ir_scope = RefundScope, ir_resource_id = rid,
                       ir_fingerprint = or_fingerprint i, ir_outcome = KeyAccepted,
                       ir_first_seen_at = now, ir_replays = 0\<rparr> (ml_idempotency m)\<rparr>)))"

definition materialise_refund :: "instant \<Rightarrow> refund \<Rightarrow> refund" where
  "materialise_refund occurred r =
     r\<lparr>re_materialised := True, re_status := RSucceeded, re_occurred_at := Some occurred\<rparr>"

definition mem_materialiseRefund :: "string \<Rightarrow> instant \<Rightarrow> memory_ledger \<Rightarrow> refund option \<times> memory_ledger" where
  "mem_materialiseRefund rid occurred m =
     (case map_of (ml_refunds m) rid of
        None \<Rightarrow> (None, m)
      | Some r \<Rightarrow>
          if re_materialised r then (None, m)
          else (Some (materialise_refund occurred r),
            m\<lparr>ml_refunds := AList.update rid (materialise_refund occurred r) (ml_refunds m)\<rparr>))"

section \<open>Deliveries and import\<close>

definition mem_nextAttempt :: "string \<Rightarrow> memory_ledger \<Rightarrow> nat \<times> memory_ledger" where
  "mem_nextAttempt cid m =
     (case map_of (ml_charges m) cid of
        None \<Rightarrow> (1, m)
      | Some c \<Rightarrow> (ch_attempts c + 1,
          m\<lparr>ml_charges := AList.update cid (c\<lparr>ch_attempts := ch_attempts c + 1\<rparr>) (ml_charges m)\<rparr>))"

definition mem_recordDelivery :: "delivery_record \<Rightarrow> memory_ledger \<Rightarrow> memory_ledger" where
  "mem_recordDelivery r m =
     (case map_of (ml_charges m) (dr_charge_id r) of
        None \<Rightarrow> m
      | Some c \<Rightarrow> m\<lparr>ml_charges := AList.update (dr_charge_id r)
          (c\<lparr>ch_deliveries := ch_deliveries c @ [r]\<rparr>) (ml_charges m)\<rparr>)"

definition mem_finishDelivery :: "delivery_record \<Rightarrow> memory_ledger \<Rightarrow> memory_ledger" where
  "mem_finishDelivery r m =
     (case map_of (ml_charges m) (dr_charge_id r) of
        None \<Rightarrow> m
      | Some c \<Rightarrow> m\<lparr>ml_charges := AList.update (dr_charge_id r)
          (c\<lparr>ch_deliveries := update_where (\<lambda>x. dr_delivery_id x = dr_delivery_id r) (\<lambda>_. r) (ch_deliveries c)\<rparr>)
          (ml_charges m)\<rparr>)"

definition imported_row :: "imported_charge \<Rightarrow> charge" where
  "imported_row r =
     \<lparr>ch_id = im_id r, ch_reference = im_reference r, ch_amount_minor = im_amountMinor r,
      ch_currency = im_currency r, ch_idempotency_key = im_idempotencyKey r, ch_correlation_id = None,
      ch_status = im_status r, ch_created_at = im_createdAt r, ch_occurred_at = Some (im_occurredAt r),
      ch_materialised = True, ch_refunded_minor = im_refundedMinor r, ch_plan = IMPORTED_PLAN,
      ch_attempts = 0, ch_deliveries = [], ch_refund_ids = []\<rparr>"

definition imported_record :: "imported_charge \<Rightarrow> idempotency_record" where
  "imported_record r =
     \<lparr>ir_key = im_idempotencyKey r, ir_scope = ChargeScope, ir_resource_id = im_id r,
      ir_fingerprint = ''imported'', ir_outcome = KeyAccepted, ir_first_seen_at = im_createdAt r,
      ir_replays = 0\<rparr>"

definition mem_import_row :: "imported_charge \<Rightarrow> memory_ledger \<Rightarrow> memory_ledger" where
  "mem_import_row r m =
     (if map_of (ml_charges m) (im_id r) \<noteq> None then m
      else m\<lparr>ml_charges := AList.update (im_id r) (imported_row r) (ml_charges m),
        ml_idempotency := AList.update (charge_slot (im_idempotencyKey r)) (imported_record r) (ml_idempotency m)\<rparr>)"

definition mem_importCharges :: "imported_charge list \<Rightarrow> memory_ledger \<Rightarrow> nat \<times> memory_ledger" where
  "mem_importCharges rows m = (length rows, foldl (\<lambda>m r. mem_import_row r m) m rows)"

end
