(* ===== verification/PostgresLedger.thy ===== *)
theory PostgresLedger
  imports MemoryLedger
begin

text \<open>
  \<open>apps/paygate/src/ledger/postgres.ts\<close> on the tables of its migration. A method that opens a
  transaction is a body under \<^const>\<open>transaction\<close>; a method of one statement commits it by itself. The
  loop over batches of the import commits each statement, so an error leaves the batches before it.
\<close>

record stored_delivery = delivery_record +
  dr_recorded_at :: instant

record postgres_ledger =
  pg_charges :: "charge_row list"
  pg_refunds :: "refund list"
  pg_idempotency :: "idempotency_record list"
  pg_deliveries :: "stored_delivery list"

definition pg_empty :: postgres_ledger where
  "pg_empty = \<lparr>pg_charges = [], pg_refunds = [], pg_idempotency = [], pg_deliveries = []\<rparr>"

section \<open>Tables\<close>

definition find_charge :: "string \<Rightarrow> postgres_ledger \<Rightarrow> charge_row option" where
  "find_charge cid d = List.find (\<lambda>c. ch_id c = cid) (pg_charges d)"

definition find_refund :: "string \<Rightarrow> postgres_ledger \<Rightarrow> refund option" where
  "find_refund rid d = List.find (\<lambda>r. re_id r = rid) (pg_refunds d)"

definition find_key :: "scope \<Rightarrow> string \<Rightarrow> postgres_ledger \<Rightarrow> idempotency_record option" where
  "find_key sc key d = List.find (\<lambda>r. (ir_scope r, ir_key r) = (sc, key)) (pg_idempotency d)"

definition charge_row_ok :: "charge_row \<Rightarrow> bool" where
  "charge_row_ok c \<longleftrightarrow> 0 < ch_amount_minor c \<and> 0 \<le> ch_refunded_minor c \<and> ch_refunded_minor c \<le> ch_amount_minor c"

definition insert_charge_row :: "charge_row \<Rightarrow> postgres_ledger \<Rightarrow> ledger_error + postgres_ledger" where
  "insert_charge_row c d =
     (if \<not> charge_row_ok c then Inl CheckViolation
      else if ch_id c \<in> ch_id ` set (pg_charges d)
        \<or> ch_idempotency_key c \<in> ch_idempotency_key ` set (pg_charges d) then Inl UniqueViolation
      else Inr (d\<lparr>pg_charges := pg_charges d @ [c]\<rparr>))"

definition insert_refund_row :: "refund \<Rightarrow> postgres_ledger \<Rightarrow> ledger_error + postgres_ledger" where
  "insert_refund_row r d =
     (if \<not> 0 < re_amount_minor r then Inl CheckViolation
      else if re_id r \<in> re_id ` set (pg_refunds d)
        \<or> re_idempotency_key r \<in> re_idempotency_key ` set (pg_refunds d) then Inl UniqueViolation
      else if re_charge_id r \<notin> ch_id ` set (pg_charges d) then Inl ForeignKeyViolation
      else Inr (d\<lparr>pg_refunds := pg_refunds d @ [r]\<rparr>))"

definition update_key :: "scope \<Rightarrow> string \<Rightarrow> (idempotency_record \<Rightarrow> idempotency_record) \<Rightarrow> postgres_ledger \<Rightarrow> postgres_ledger" where
  "update_key sc key f d =
     d\<lparr>pg_idempotency := update_where (\<lambda>r. (ir_scope r, ir_key r) = (sc, key)) f (pg_idempotency d)\<rparr>"

definition update_charge :: "string \<Rightarrow> (charge_row \<Rightarrow> charge_row) \<Rightarrow> postgres_ledger \<Rightarrow> postgres_ledger" where
  "update_charge cid f d = d\<lparr>pg_charges := update_where (\<lambda>c. ch_id c = cid) f (pg_charges d)\<rparr>"

definition toCharge :: "charge_row \<Rightarrow> string list \<Rightarrow> delivery_record list \<Rightarrow> charge" where
  "toCharge row refund_ids deliveries =
     \<lparr>ch_id = ch_id row, ch_reference = ch_reference row, ch_amount_minor = ch_amount_minor row,
      ch_currency = ch_currency row, ch_idempotency_key = ch_idempotency_key row,
      ch_correlation_id = ch_correlation_id row, ch_status = ch_status row,
      ch_created_at = ch_created_at row, ch_occurred_at = ch_occurred_at row,
      ch_materialised = ch_materialised row, ch_refunded_minor = ch_refunded_minor row,
      ch_plan = ch_plan row, ch_attempts = ch_attempts row,
      ch_deliveries = deliveries, ch_refund_ids = refund_ids\<rparr>"

section \<open>Reads\<close>

definition pg_counts :: "postgres_ledger \<Rightarrow> nat \<times> nat" where
  "pg_counts d = (length (pg_charges d), length (pg_refunds d))"

definition pg_refundsFor :: "string \<Rightarrow> postgres_ledger \<Rightarrow> refund list" where
  "pg_refundsFor cid d =
     sort_key (\<lambda>r. (re_created_at r, re_id r)) (filter (\<lambda>r. re_charge_id r = cid) (pg_refunds d))"

definition refundIdsFor :: "string \<Rightarrow> postgres_ledger \<Rightarrow> string list" where
  "refundIdsFor cid d = map re_id (pg_refundsFor cid d)"

definition pg_deliveriesFor :: "string \<Rightarrow> postgres_ledger \<Rightarrow> delivery_record list" where
  "pg_deliveriesFor cid d =
     map delivery_record.truncate (sort_key (\<lambda>r. (dr_recorded_at r, dr_delivery_id r))
       (filter (\<lambda>r. dr_charge_id r = cid) (pg_deliveries d)))"

definition pg_getCharge :: "string \<Rightarrow> postgres_ledger \<Rightarrow> charge option" where
  "pg_getCharge cid d =
     map_option (\<lambda>row. toCharge row (refundIdsFor cid d) (pg_deliveriesFor cid d)) (find_charge cid d)"

definition pg_getRefund :: "string \<Rightarrow> postgres_ledger \<Rightarrow> refund option" where
  "pg_getRefund rid d = find_refund rid d"

section \<open>Charges\<close>

definition new_charge_row :: "string \<Rightarrow> instant \<Rightarrow> open_charge_input \<Rightarrow> charge_row" where
  "new_charge_row cid now i =
     \<lparr>ch_id = cid, ch_reference = oc_reference i, ch_amount_minor = oc_amountMinor i,
      ch_currency = oc_currency i, ch_idempotency_key = oc_idempotencyKey i,
      ch_correlation_id = oc_correlationId i, ch_status = Processing, ch_created_at = now,
      ch_occurred_at = None, ch_materialised = False, ch_refunded_minor = 0, ch_plan = oc_plan i,
      ch_attempts = 0\<rparr>"

definition pg_openCharge_body :: "string \<Rightarrow> instant \<Rightarrow> open_charge_input \<Rightarrow> postgres_ledger
    \<Rightarrow> ledger_error + open_charge_result \<times> postgres_ledger" where
  "pg_openCharge_body cid now i d =
     (case find_key ChargeScope (oc_idempotencyKey i) d of
        Some r \<Rightarrow>
          if ir_fingerprint r \<noteq> oc_fingerprint i then Inr (ChargeFingerprintMismatch, d)
          else
            (case find_charge (ir_resource_id r) d of
               None \<Rightarrow> Inl (NoSuchResource ChargeScope (ir_resource_id r))
             | Some row \<Rightarrow> Inr (ChargeReplayed (toCharge row [] []) (bump_replays r),
                 update_key ChargeScope (oc_idempotencyKey i) bump_replays d))
      | None \<Rightarrow>
          let claimed = d\<lparr>pg_idempotency := pg_idempotency d @
            [\<lparr>ir_key = oc_idempotencyKey i, ir_scope = ChargeScope, ir_resource_id = cid,
              ir_fingerprint = oc_fingerprint i,
              ir_outcome = (if pl_transientFailure (oc_plan i) then KeyFailed500 else KeyAccepted),
              ir_first_seen_at = now, ir_replays = 0\<rparr>]\<rparr> in
          result_bind (insert_charge_row (new_charge_row cid now i) claimed) (\<lambda>d1.
            Inr (ChargeCreated (toCharge (new_charge_row cid now i) [] []), d1)))"

definition pg_openCharge :: "string \<Rightarrow> instant \<Rightarrow> open_charge_input \<Rightarrow> postgres_ledger
    \<Rightarrow> (ledger_error + open_charge_result) \<times> postgres_ledger" where
  "pg_openCharge cid now i = transaction (pg_openCharge_body cid now i)"

definition pg_materialiseCharge :: "string \<Rightarrow> charge_status \<Rightarrow> instant \<Rightarrow> postgres_ledger
    \<Rightarrow> charge option \<times> postgres_ledger" where
  "pg_materialiseCharge cid st occurred d =
     (case find_charge cid d of
        Some row \<Rightarrow>
          if ch_materialised row then (None, d)
          else (Some (toCharge (materialise_charge st occurred row) [] []),
            update_charge cid (materialise_charge st occurred) d)
      | None \<Rightarrow> (None, d))"

definition pg_recover :: "string \<Rightarrow> string \<Rightarrow> string option \<Rightarrow> postgres_ledger \<Rightarrow> postgres_ledger" where
  "pg_recover cid key corr d =
     update_charge cid (\<lambda>c. c\<lparr>ch_correlation_id :=
         (case ch_correlation_id c of None \<Rightarrow> corr | Some x \<Rightarrow> Some x)\<rparr>)
       (update_key ChargeScope key (\<lambda>r. r\<lparr>ir_outcome := KeyAccepted\<rparr>) d)"

section \<open>Refunds\<close>

definition pg_openRefund_body :: "string \<Rightarrow> instant \<Rightarrow> open_refund_input \<Rightarrow> postgres_ledger
    \<Rightarrow> ledger_error + open_refund_result \<times> postgres_ledger" where
  "pg_openRefund_body rid now i d =
     (case find_key RefundScope (or_idempotencyKey i) d of
        Some r \<Rightarrow>
          if ir_fingerprint r \<noteq> or_fingerprint i then Inr (RefundFingerprintMismatch, d)
          else
            (case find_refund (ir_resource_id r) d of
               None \<Rightarrow> Inl (NoSuchResource RefundScope (ir_resource_id r))
             | Some row \<Rightarrow> Inr (RefundReplayed row (bump_replays r),
                 update_key RefundScope (or_idempotencyKey i) bump_replays d))
      | None \<Rightarrow>
          let claimed = d\<lparr>pg_idempotency := pg_idempotency d @
            [\<lparr>ir_key = or_idempotencyKey i, ir_scope = RefundScope, ir_resource_id = rid,
              ir_fingerprint = or_fingerprint i, ir_outcome = KeyAccepted, ir_first_seen_at = now,
              ir_replays = 0\<rparr>]\<rparr> in
          (case find_charge (or_chargeId i) d of
             None \<Rightarrow> Inr (UnknownCharge, claimed)
           | Some c \<Rightarrow>
               if \<not> ch_materialised c then Inr (UnknownCharge, claimed)
               else if ch_status c \<noteq> Succeeded then Inr (NotRefundable (ch_status c), claimed)
               else if ch_amount_minor c < ch_refunded_minor c + or_amountMinor i
               then Inr (ExceedsCharge (ch_amount_minor c) (ch_refunded_minor c), claimed)
               else
                 result_bind (insert_refund_row (new_refund rid now i c) claimed) (\<lambda>d1.
                   Inr (RefundCreated (new_refund rid now i c),
                     update_charge (ch_id c)
                       (\<lambda>c. c\<lparr>ch_refunded_minor := ch_refunded_minor c + or_amountMinor i\<rparr>) d1))))"

definition pg_openRefund :: "string \<Rightarrow> instant \<Rightarrow> open_refund_input \<Rightarrow> postgres_ledger
    \<Rightarrow> (ledger_error + open_refund_result) \<times> postgres_ledger" where
  "pg_openRefund rid now i = transaction (pg_openRefund_body rid now i)"

definition pg_materialiseRefund :: "string \<Rightarrow> instant \<Rightarrow> postgres_ledger \<Rightarrow> refund option \<times> postgres_ledger" where
  "pg_materialiseRefund rid occurred d =
     (case find_refund rid d of
        Some r \<Rightarrow>
          if re_materialised r then (None, d)
          else (Some (materialise_refund occurred r),
            d\<lparr>pg_refunds := update_where (\<lambda>r. re_id r = rid) (materialise_refund occurred) (pg_refunds d)\<rparr>)
      | None \<Rightarrow> (None, d))"

section \<open>Deliveries\<close>

definition pg_nextAttempt :: "string \<Rightarrow> postgres_ledger \<Rightarrow> nat \<times> postgres_ledger" where
  "pg_nextAttempt cid d =
     (case find_charge cid d of
        None \<Rightarrow> (1, d)
      | Some c \<Rightarrow> (ch_attempts c + 1, update_charge cid (\<lambda>c. c\<lparr>ch_attempts := ch_attempts c + 1\<rparr>) d))"

definition pg_recordDelivery :: "instant \<Rightarrow> delivery_record \<Rightarrow> postgres_ledger \<Rightarrow> ledger_error + postgres_ledger" where
  "pg_recordDelivery now r d =
     (if dr_delivery_id r \<in> dr_delivery_id ` set (pg_deliveries d) then Inr d
      else if dr_charge_id r \<notin> ch_id ` set (pg_charges d) then Inl ForeignKeyViolation
      else Inr (d\<lparr>pg_deliveries := pg_deliveries d @
        [delivery_record.extend (r\<lparr>dr_sent_at := None, dr_response_status := None, dr_duration_ms := None,
           dr_error := None\<rparr>) \<lparr>dr_recorded_at = now\<rparr>]\<rparr>))"

definition pg_finishDelivery :: "delivery_record \<Rightarrow> postgres_ledger \<Rightarrow> postgres_ledger" where
  "pg_finishDelivery r d =
     d\<lparr>pg_deliveries := update_where (\<lambda>x. dr_delivery_id x = dr_delivery_id r)
        (\<lambda>x. x\<lparr>dr_sent_at := dr_sent_at r, dr_response_status := dr_response_status r,
               dr_duration_ms := dr_duration_ms r, dr_error := dr_error r\<rparr>) (pg_deliveries d)\<rparr>"

section \<open>Bulk import\<close>

text \<open>One \<open>INSERT ... ON CONFLICT (id) DO NOTHING\<close>: the checks come before the conflict on the id.\<close>

definition import_charge_row :: "imported_charge \<Rightarrow> nat \<times> postgres_ledger \<Rightarrow> ledger_error + nat \<times> postgres_ledger" where
  "import_charge_row r s =
     (case s of (n, d) \<Rightarrow>
        let row = charge_row.truncate (imported_row r) in
        if \<not> charge_row_ok row then Inl CheckViolation
        else if find_charge (im_id r) d \<noteq> None then Inr (n, d)
        else result_bind (insert_charge_row row d) (\<lambda>d1. Inr (n + 1, d1)))"

definition import_key_row :: "imported_charge \<Rightarrow> postgres_ledger \<Rightarrow> postgres_ledger" where
  "import_key_row r d =
     (if find_key ChargeScope (im_idempotencyKey r) d \<noteq> None then d
      else d\<lparr>pg_idempotency := pg_idempotency d @ [imported_record r]\<rparr>)"

fun import_rows :: "imported_charge list \<Rightarrow> nat \<times> postgres_ledger \<Rightarrow> ledger_error + nat \<times> postgres_ledger" where
  "import_rows [] s = Inr s"
| "import_rows (r # rs) s = result_bind (import_charge_row r s) (import_rows rs)"

text \<open>\<open>chunk\<close> is called with 500; the loop of the source would not end for a size of zero.\<close>

function chunk :: "nat \<Rightarrow> 'a list \<Rightarrow> 'a list list" where
  "chunk n items = (if n = 0 \<or> items = [] then [] else take n items # chunk n (drop n items))"
  by pat_completeness auto

termination
  by (relation "measure (\<lambda>(n, items). length items)") auto

declare chunk.simps [simp del]

fun import_batches :: "imported_charge list list \<Rightarrow> nat \<Rightarrow> postgres_ledger \<Rightarrow> (ledger_error + nat) \<times> postgres_ledger" where
  "import_batches [] written d = (Inr written, d)"
| "import_batches (batch # batches) written d =
     (case import_rows batch (0, d) of
        Inl e \<Rightarrow> (Inl e, d)
      | Inr (n, d1) \<Rightarrow> import_batches batches (written + n) (foldl (\<lambda>d r. import_key_row r d) d1 batch))"

definition pg_importCharges :: "imported_charge list \<Rightarrow> postgres_ledger \<Rightarrow> (ledger_error + nat) \<times> postgres_ledger" where
  "pg_importCharges rows d = import_batches (chunk 500 rows) 0 d"

end
