(* ===== verification/PaygateApp.thy ===== *)
theory PaygateApp
  imports PostgresLedger RefundPolicy
begin

text \<open>
  The simulator as a server: \<open>apps/paygate/src/app.ts\<close>, \<open>delivery.ts\<close>, \<open>ledger-import.ts\<close> and the delay
  route of \<open>test-routes.ts\<close>, over the durable ledger. A route is a function of the request, the clock
  it reads and the state of the process; it runs to its end before another does, except that a process
  may die inside one (see the theory of the steps). A delivery that is not awaited runs in place, and
  what it throws is swallowed. Log lines, error messages and the free text of an answer are left out.
\<close>

section \<open>The host\<close>

datatype fetch_result =
    Responded int int
  | FetchFailed string int

record webhook_post =
  wp_raw :: string
  wp_signature :: string
  wp_delivery :: string
  wp_request_id :: "string option"

text \<open>
  What the runtime and the network supply: \<open>randomUUID\<close> as a sequence, the digests, \<open>JSON\<close>, dates, and
  the answer to a webhook with its duration.
\<close>

record paygate_host =
  gh_uuid :: "nat \<Rightarrow> string"
  gh_hmac :: "string \<Rightarrow> string \<Rightarrow> string"
  gh_sha256 :: "string \<Rightarrow> string"
  gh_stringify :: "json \<Rightarrow> string"
  gh_parse :: "string \<Rightarrow> json option"
  gh_iso :: "instant \<Rightarrow> string"
  gh_date :: "string \<Rightarrow> instant option"
  gh_fetch :: "string \<Rightarrow> webhook_post \<Rightarrow> fetch_result"

record delivery_request =
  dq_chargeId :: string
  dq_reference :: string
  dq_event :: webhook_event
  dq_amountMinor :: int
  dq_occurredAt :: instant
  dq_refundId :: "string option"
  dq_branch :: delivery_branch
  dq_idempotencyKey :: string
  dq_correlationId :: "string option"
  dq_scheduledDelayMs :: int
  dq_forceCorruptSignature :: "bool option"

text \<open>The process: its ledger, the timers it holds, and, to speak of them, the posts it has made.\<close>

record paygate =
  pa_ledger :: postgres_ledger
  pa_forced :: forced_delays
  pa_timers :: "(instant \<times> delivery_request) list"
  pa_sent :: "(delivery_request \<times> webhook_post) list"
  pa_closed :: bool
  pa_minted :: nat

definition mint :: "paygate_host \<Rightarrow> paygate \<Rightarrow> string \<times> paygate" where
  "mint h s = (gh_uuid h (pa_minted s), s\<lparr>pa_minted := pa_minted s + 1\<rparr>)"

definition fingerprintOf :: "paygate_host \<Rightarrow> json \<Rightarrow> string" where
  "fingerprintOf h body = take 32 (gh_sha256 h (gh_stringify h body))"

definition undashed :: "string \<Rightarrow> string" where
  "undashed u = filter (\<lambda>c. c \<noteq> CHR ''-'') u"

definition newChargeId :: "string \<Rightarrow> string" where "newChargeId u = ''ch_'' @ undashed u"
definition newRefundId :: "string \<Rightarrow> string" where "newRefundId u = ''re_'' @ undashed u"

section \<open>Deliveries\<close>

fun event_name :: "webhook_event \<Rightarrow> string" where
  "event_name ChargeSucceededEvent = ''charge.succeeded''"
| "event_name ChargeFailedEvent = ''charge.failed''"
| "event_name RefundSucceededEvent = ''refund.succeeded''"

definition webhook_body :: "paygate_host \<Rightarrow> delivery_request \<Rightarrow> json" where
  "webhook_body h q = JObj
     ([(''charge_id'', JStr (dq_chargeId q)), (''reference'', JStr (dq_reference q)),
       (''event'', JStr (event_name (dq_event q))), (''amount_minor'', JNum (js_of_int (dq_amountMinor q))),
       (''occurred_at'', JStr (gh_iso h (dq_occurredAt q)))]
      @ (case dq_refundId q of None \<Rightarrow> [] | Some r \<Rightarrow> if r = [] then [] else [(''refund_id'', JStr r)]))"

definition delivery_record_of :: "delivery_request \<Rightarrow> string \<Rightarrow> nat \<Rightarrow> bool \<Rightarrow> delivery_record" where
  "delivery_record_of q did attempt corrupted =
     \<lparr>dr_delivery_id = did, dr_charge_id = dq_chargeId q, dr_refund_id = dq_refundId q, dr_event = dq_event q,
      dr_attempt = attempt, dr_branch = dq_branch q, dr_signature_corrupted = corrupted,
      dr_scheduled_delay_ms = dq_scheduledDelayMs q, dr_occurred_at = dq_occurredAt q, dr_sent_at = None,
      dr_response_status = None, dr_duration_ms = None, dr_error = None, dr_correlation_id = dq_correlationId q\<rparr>"

definition webhook_post_of :: "paygate_host \<Rightarrow> paygate_config \<Rightarrow> delivery_request \<Rightarrow> string \<Rightarrow> bool \<Rightarrow> webhook_post" where
  "webhook_post_of h cfg q did corrupted =
     (let raw = gh_stringify h (webhook_body h q); honest = sign (gh_hmac h) raw (pc_secret cfg) in
      \<lparr>wp_raw = raw, wp_signature = (if corrupted then corrupt honest else honest), wp_delivery = did,
       wp_request_id = (if dq_correlationId q = Some [] then None else dq_correlationId q)\<rparr>)"

definition no_callback_url :: string where "no_callback_url = ''no callback url configured''"

definition deliver :: "paygate_host \<Rightarrow> paygate_config \<Rightarrow> instant \<Rightarrow> delivery_request \<Rightarrow> paygate
    \<Rightarrow> (ledger_error + delivery_record) \<times> paygate" where
  "deliver h cfg now q s =
     (let (attempt, l1) = pg_nextAttempt (dq_chargeId q) (pa_ledger s);
          (did, s1) = mint h (s\<lparr>pa_ledger := l1\<rparr>);
          corrupted = (case dq_forceCorruptSignature q of Some b \<Rightarrow> b
            | None \<Rightarrow> corruptSignatureFor (dq_idempotencyKey q) attempt cfg);
          record = delivery_record_of q did attempt corrupted in
      case pg_recordDelivery now record l1 of
        Inl e \<Rightarrow> (Inl e, s1)
      | Inr l2 \<Rightarrow>
          (case pc_callbackUrl cfg of
             None \<Rightarrow>
               let failed = record\<lparr>dr_error := Some no_callback_url\<rparr> in
               (Inr failed, s1\<lparr>pa_ledger := pg_finishDelivery failed l2\<rparr>)
           | Some url \<Rightarrow>
               let post = webhook_post_of h cfg q did corrupted;
                   done = (case gh_fetch h url post of
                     Responded status ms \<Rightarrow>
                       record\<lparr>dr_sent_at := Some now, dr_response_status := Some status, dr_duration_ms := Some ms\<rparr>
                   | FetchFailed message ms \<Rightarrow>
                       record\<lparr>dr_sent_at := Some now, dr_error := Some message, dr_duration_ms := Some ms\<rparr>) in
               (Inr done, s1\<lparr>pa_ledger := pg_finishDelivery done l2, pa_sent := pa_sent s1 @ [(q, post)]\<rparr>)))"

definition schedule :: "paygate_host \<Rightarrow> paygate_config \<Rightarrow> instant \<Rightarrow> delivery_request \<Rightarrow> int \<Rightarrow> paygate \<Rightarrow> paygate" where
  "schedule h cfg now q delayMs s =
     (if pa_closed s then s
      else if delayMs \<le> 0 then snd (deliver h cfg now q s)
      else s\<lparr>pa_timers := pa_timers s @ [(now + delayMs, q)]\<rparr>)"

text \<open>A timer that fires leaves the set and delivers.\<close>

definition fire :: "paygate_host \<Rightarrow> paygate_config \<Rightarrow> instant \<Rightarrow> nat \<Rightarrow> paygate \<Rightarrow> paygate" where
  "fire h cfg now i s =
     (if i < length (pa_timers s) \<and> fst (pa_timers s ! i) \<le> now
      then snd (deliver h cfg now (snd (pa_timers s ! i))
             (s\<lparr>pa_timers := take i (pa_timers s) @ drop (Suc i) (pa_timers s)\<rparr>))
      else s)"

definition close_deliverer :: "paygate \<Rightarrow> paygate" where
  "close_deliverer s = s\<lparr>pa_closed := True, pa_timers := []\<rparr>"

section \<open>Dispatch\<close>

definition dispatch :: "paygate_host \<Rightarrow> paygate_config \<Rightarrow> instant \<Rightarrow> delivery_request \<Rightarrow> chaos_plan \<Rightarrow> paygate
    \<Rightarrow> (ledger_error + unit) \<times> paygate" where
  "dispatch h cfg now base plan s =
     (let (forced, f1) = take_delay (dq_chargeId base) (pa_forced s);
          s1 = s\<lparr>pa_forced := f1\<rparr>;
          firstDelayMs = (case forced of Some ms \<Rightarrow> ms | None \<Rightarrow> pl_firstDelayMs plan);
          timing = (if forced \<noteq> None then Delayed else pl_timing plan);
          (r, s2) = (if timing = RaceOnResponse
            then apfst (map_sum id (\<lambda>_. ()))
              (deliver h cfg now (base\<lparr>dq_branch := Timed RaceOnResponse, dq_scheduledDelayMs := 0\<rparr>) s1)
            else (Inr (), schedule h cfg now (base\<lparr>dq_branch := Timed timing, dq_scheduledDelayMs := firstDelayMs\<rparr>)
                   firstDelayMs s1)) in
      case r of
        Inl e \<Rightarrow> (Inl e, s2)
      | Inr _ \<Rightarrow>
          if pl_duplicateDelivery plan
          then let gap = (if timing = RaceOnResponse then pl_duplicateGapMs plan
                          else firstDelayMs + pl_duplicateGapMs plan) in
               (Inr (), schedule h cfg now (base\<lparr>dq_branch := Duplicate, dq_scheduledDelayMs := gap\<rparr>) gap s2)
          else (Inr (), s2))"

text \<open>The request common to the deliveries of an outcome; \<open>dispatch\<close> sets its branch and delay.\<close>

definition charge_announcement :: "charge \<Rightarrow> instant \<Rightarrow> delivery_request" where
  "charge_announcement c occurred =
     \<lparr>dq_chargeId = ch_id c, dq_reference = ch_reference c,
      dq_event = (if ch_status c = Succeeded then ChargeSucceededEvent else ChargeFailedEvent),
      dq_amountMinor = ch_amount_minor c, dq_occurredAt = occurred, dq_refundId = None, dq_branch = Forced,
      dq_idempotencyKey = ch_idempotency_key c, dq_correlationId = ch_correlation_id c,
      dq_scheduledDelayMs = 0, dq_forceCorruptSignature = None\<rparr>"

definition refund_announcement :: "refund \<Rightarrow> instant \<Rightarrow> delivery_request" where
  "refund_announcement r occurred =
     \<lparr>dq_chargeId = re_charge_id r, dq_reference = re_reference r, dq_event = RefundSucceededEvent,
      dq_amountMinor = re_amount_minor r, dq_occurredAt = occurred, dq_refundId = Some (re_id r), dq_branch = Forced,
      dq_idempotencyKey = re_idempotency_key r, dq_correlationId = re_correlation_id r,
      dq_scheduledDelayMs = 0, dq_forceCorruptSignature = None\<rparr>"

definition app_materialiseCharge :: "paygate_host \<Rightarrow> paygate_config \<Rightarrow> instant \<Rightarrow> charge \<Rightarrow> paygate
    \<Rightarrow> (ledger_error + unit) \<times> paygate" where
  "app_materialiseCharge h cfg now c s =
     (let status = (if ch_amount_minor c = pc_declineAmountMinor cfg then Failed else Succeeded);
          occurred = now - pl_clockSkewSeconds (ch_plan c) * 1000 in
      case pg_materialiseCharge (ch_id c) status occurred (pa_ledger s) of
        (None, l) \<Rightarrow> (Inr (), s\<lparr>pa_ledger := l\<rparr>)
      | (Some settled, l) \<Rightarrow>
          dispatch h cfg now (charge_announcement settled occurred) (ch_plan settled) (s\<lparr>pa_ledger := l\<rparr>))"

definition app_materialiseRefund :: "paygate_host \<Rightarrow> paygate_config \<Rightarrow> instant \<Rightarrow> refund \<Rightarrow> paygate
    \<Rightarrow> (ledger_error + unit) \<times> paygate" where
  "app_materialiseRefund h cfg now r s =
     (let occurred = now - pl_clockSkewSeconds (re_plan r) * 1000 in
      case pg_materialiseRefund (re_id r) occurred (pa_ledger s) of
        (None, l) \<Rightarrow> (Inr (), s\<lparr>pa_ledger := l\<rparr>)
      | (Some settled, l) \<Rightarrow>
          dispatch h cfg now (refund_announcement settled occurred) (re_plan settled) (s\<lparr>pa_ledger := l\<rparr>))"

section \<open>Requests and answers\<close>

datatype header_value = HMissing | HString string | HArray "string list"

fun header :: "header_value \<Rightarrow> string option" where
  "header (HArray (v # vs)) = Some v"
| "header (HArray []) = None"
| "header (HString v) = (if v = [] then None else Some v)"
| "header HMissing = None"

datatype reply = Reply nat json

definition fail_reply :: "nat \<Rightarrow> string \<Rightarrow> reply" where
  "fail_reply status code = Reply status (JObj [(''error'', JObj [(''code'', JStr code)])])"

text \<open>What the framework answers when a route throws.\<close>

definition thrown :: reply where
  "thrown = Reply 500 (JObj [(''error'', JStr ''Internal Server Error'')])"

text \<open>\<open>z.number().int()\<close> accepts the safe integers.\<close>

definition json_safe_int :: "json option \<Rightarrow> int option" where
  "json_safe_int v = (case json_number v of
       None \<Rightarrow> None
     | Some x \<Rightarrow> if x = of_int \<lfloor>x\<rfloor> \<and> \<bar>x\<bar> < 2 ^ 53 then Some \<lfloor>x\<rfloor> else None)"

definition json_sized :: "nat \<Rightarrow> nat \<Rightarrow> json option \<Rightarrow> string option" where
  "json_sized lo hi v = (case json_string v of
       None \<Rightarrow> None
     | Some x \<Rightarrow> if lo \<le> length x \<and> length x \<le> hi then Some x else None)"

definition is_currency :: "string \<Rightarrow> bool" where
  "is_currency c \<longleftrightarrow> length c = 3 \<and> (\<forall>x \<in> set c. 65 \<le> (of_char x :: nat) \<and> (of_char x :: nat) \<le> 90)"

record charge_body =
  cb_amount_minor :: int
  cb_currency :: string
  cb_reference :: string

definition ChargeBody :: "json \<Rightarrow> charge_body option" where
  "ChargeBody j =
     (case (json_safe_int (json_field ''amount_minor'' j), json_string (json_field ''currency'' j),
            json_sized 1 200 (json_field ''reference'' j)) of
        (Some a, Some c, Some r) \<Rightarrow>
          if 0 < a \<and> is_currency c then Some \<lparr>cb_amount_minor = a, cb_currency = c, cb_reference = r\<rparr> else None
      | _ \<Rightarrow> None)"

definition charge_body_json :: "charge_body \<Rightarrow> json" where
  "charge_body_json b = JObj [(''amount_minor'', JNum (of_int (cb_amount_minor b))),
     (''currency'', JStr (cb_currency b)), (''reference'', JStr (cb_reference b))]"

record refund_body =
  rb_charge_id :: string
  rb_amount_minor :: int

definition RefundBody :: "json \<Rightarrow> refund_body option" where
  "RefundBody j =
     (case (json_sized 1 120 (json_field ''charge_id'' j), json_safe_int (json_field ''amount_minor'' j)) of
        (Some c, Some a) \<Rightarrow> if 0 < a then Some \<lparr>rb_charge_id = c, rb_amount_minor = a\<rparr> else None
      | _ \<Rightarrow> None)"

definition refund_body_json :: "refund_body \<Rightarrow> json" where
  "refund_body_json b = JObj [(''charge_id'', JStr (rb_charge_id b)),
     (''amount_minor'', JNum (of_int (rb_amount_minor b)))]"

section \<open>The routes\<close>

definition charge_input :: "paygate_host \<Rightarrow> paygate_config \<Rightarrow> string \<Rightarrow> charge_body \<Rightarrow> string option \<Rightarrow> open_charge_input" where
  "charge_input h cfg key b corr =
     \<lparr>oc_reference = cb_reference b, oc_amountMinor = cb_amount_minor b, oc_currency = cb_currency b,
      oc_idempotencyKey = key, oc_fingerprint = fingerprintOf h (charge_body_json b),
      oc_correlationId = corr, oc_plan = planFor key cfg\<rparr>"

definition refund_input :: "paygate_host \<Rightarrow> paygate_config \<Rightarrow> string \<Rightarrow> refund_body \<Rightarrow> string option \<Rightarrow> open_refund_input" where
  "refund_input h cfg key b corr =
     \<lparr>or_chargeId = rb_charge_id b, or_amountMinor = rb_amount_minor b, or_idempotencyKey = key,
      or_fingerprint = fingerprintOf h (refund_body_json b), or_correlationId = corr, or_plan = planFor key cfg\<rparr>"

definition charge_accepted :: "string \<Rightarrow> reply" where
  "charge_accepted cid = Reply 202 (JObj [(''charge_id'', JStr cid), (''status'', JStr ''processing'')])"

definition refund_accepted :: "refund \<Rightarrow> reply" where
  "refund_accepted r = Reply 202 (JObj [(''refund_id'', JStr (re_id r)), (''charge_id'', JStr (re_charge_id r)),
     (''status'', JStr ''processing'')])"

text \<open>The answer after an awaited step that may have thrown.\<close>

definition after :: "(ledger_error + unit) \<times> paygate \<Rightarrow> reply \<Rightarrow> reply \<times> paygate" where
  "after r ok = (case r of (Inl e, s) \<Rightarrow> (thrown, s) | (Inr _, s) \<Rightarrow> (ok, s))"

definition open_charge :: "paygate_host \<Rightarrow> instant \<Rightarrow> open_charge_input \<Rightarrow> paygate
    \<Rightarrow> (ledger_error + open_charge_result) \<times> paygate" where
  "open_charge h now i s =
     (let (u, s1) = mint h s; (r, l) = pg_openCharge (newChargeId u) now i (pa_ledger s1) in
      (r, s1\<lparr>pa_ledger := l\<rparr>))"

definition open_refund :: "paygate_host \<Rightarrow> instant \<Rightarrow> open_refund_input \<Rightarrow> paygate
    \<Rightarrow> (ledger_error + open_refund_result) \<times> paygate" where
  "open_refund h now i s =
     (let (u, s1) = mint h s; (r, l) = pg_openRefund (newRefundId u) now i (pa_ledger s1) in
      (r, s1\<lparr>pa_ledger := l\<rparr>))"

definition post_charges :: "paygate_host \<Rightarrow> paygate_config \<Rightarrow> instant \<Rightarrow> header_value \<Rightarrow> header_value \<Rightarrow> json
    \<Rightarrow> paygate \<Rightarrow> reply \<times> paygate" where
  "post_charges h cfg now idem rid body s =
     (case header idem of
        None \<Rightarrow> (fail_reply 400 ''missing_idempotency_key'', s)
      | Some key \<Rightarrow>
          if key = [] then (fail_reply 400 ''missing_idempotency_key'', s)
          else
            (case ChargeBody body of
               None \<Rightarrow> (fail_reply 422 ''invalid_body'', s)
             | Some b \<Rightarrow>
                 let corr = header rid in
                 (case open_charge h now (charge_input h cfg key b corr) s of
                    (Inl e, s1) \<Rightarrow> (thrown, s1)
                  | (Inr ChargeFingerprintMismatch, s1) \<Rightarrow> (fail_reply 409 ''idempotency_key_reuse'', s1)
                  | (Inr (ChargeReplayed c r), s1) \<Rightarrow>
                      if ir_outcome r = KeyFailed500
                      then after (app_materialiseCharge h cfg now c
                             (s1\<lparr>pa_ledger := pg_recover (ch_id c) key corr (pa_ledger s1)\<rparr>)) (charge_accepted (ch_id c))
                      else (charge_accepted (ch_id c), s1)
                  | (Inr (ChargeCreated c), s1) \<Rightarrow>
                      if pl_transientFailure (planFor key cfg) then (fail_reply 500 ''provider_error'', s1)
                      else after (app_materialiseCharge h cfg now c s1) (charge_accepted (ch_id c)))))"

definition post_refunds :: "paygate_host \<Rightarrow> paygate_config \<Rightarrow> instant \<Rightarrow> header_value \<Rightarrow> header_value \<Rightarrow> json
    \<Rightarrow> paygate \<Rightarrow> reply \<times> paygate" where
  "post_refunds h cfg now idem rid body s =
     (case header idem of
        None \<Rightarrow> (fail_reply 400 ''missing_idempotency_key'', s)
      | Some key \<Rightarrow>
          if key = [] then (fail_reply 400 ''missing_idempotency_key'', s)
          else
            (case RefundBody body of
               None \<Rightarrow> (fail_reply 422 ''invalid_body'', s)
             | Some b \<Rightarrow>
                 (case open_refund h now (refund_input h cfg key b (header rid)) s of
                    (Inl e, s1) \<Rightarrow> (thrown, s1)
                  | (Inr RefundFingerprintMismatch, s1) \<Rightarrow> (fail_reply 409 ''idempotency_key_reuse'', s1)
                  | (Inr UnknownCharge, s1) \<Rightarrow> (fail_reply 404 ''unknown_charge'', s1)
                  | (Inr (NotRefundable st), s1) \<Rightarrow> (fail_reply 409 ''charge_not_refundable'', s1)
                  | (Inr (ExceedsCharge amount refunded), s1) \<Rightarrow> (fail_reply 422 ''refund_exceeds_charge'', s1)
                  | (Inr (RefundReplayed r k), s1) \<Rightarrow> (refund_accepted r, s1)
                  | (Inr (RefundCreated r), s1) \<Rightarrow> after (app_materialiseRefund h cfg now r s1) (refund_accepted r))))"

section \<open>What a reviewer reads\<close>

fun charge_status_name :: "charge_status \<Rightarrow> string" where
  "charge_status_name Processing = ''processing''"
| "charge_status_name Succeeded = ''succeeded''"
| "charge_status_name Failed = ''failed''"

fun refund_status_name :: "refund_status \<Rightarrow> string" where
  "refund_status_name RProcessing = ''processing''"
| "refund_status_name RSucceeded = ''succeeded''"

fun timing_name :: "timing_branch \<Rightarrow> string" where
  "timing_name RaceOnResponse = ''race_on_response''"
| "timing_name Delayed = ''delayed''"
| "timing_name Normal = ''normal''"

fun branch_name :: "delivery_branch \<Rightarrow> string" where
  "branch_name (Timed t) = timing_name t"
| "branch_name Duplicate = ''duplicate''"
| "branch_name Forced = ''forced''"

definition nullable :: "('a \<Rightarrow> json) \<Rightarrow> 'a option \<Rightarrow> json" where
  "nullable f v = (case v of None \<Rightarrow> JNull | Some x \<Rightarrow> f x)"

abbreviation json_int :: "int \<Rightarrow> json" where
  "json_int n \<equiv> JNum (js_of_int n)"

definition plan_json :: "chaos_plan \<Rightarrow> json" where
  "plan_json p = JObj [(''enabled'', JBool (pl_enabled p)), (''transientFailure'', JBool (pl_transientFailure p)),
     (''timing'', JStr (timing_name (pl_timing p))), (''duplicateDelivery'', JBool (pl_duplicateDelivery p)),
     (''firstDelayMs'', json_int (pl_firstDelayMs p)), (''duplicateGapMs'', json_int (pl_duplicateGapMs p)),
     (''clockSkewSeconds'', json_int (pl_clockSkewSeconds p))]"

definition delivery_json :: "paygate_host \<Rightarrow> delivery_record \<Rightarrow> json" where
  "delivery_json h r = JObj [(''delivery_id'', JStr (dr_delivery_id r)), (''charge_id'', JStr (dr_charge_id r)),
     (''refund_id'', nullable JStr (dr_refund_id r)), (''event'', JStr (event_name (dr_event r))),
     (''attempt'', json_int (int (dr_attempt r))), (''branch'', JStr (branch_name (dr_branch r))),
     (''signature_corrupted'', JBool (dr_signature_corrupted r)),
     (''scheduled_delay_ms'', json_int (dr_scheduled_delay_ms r)), (''occurred_at'', JStr (gh_iso h (dr_occurred_at r))),
     (''sent_at'', nullable (JStr \<circ> gh_iso h) (dr_sent_at r)),
     (''response_status'', nullable json_int (dr_response_status r)),
     (''duration_ms'', nullable json_int (dr_duration_ms r)), (''error'', nullable JStr (dr_error r)),
     (''correlation_id'', nullable JStr (dr_correlation_id r))]"

definition refund_view :: "paygate_host \<Rightarrow> refund \<Rightarrow> json" where
  "refund_view h r = JObj [(''refund_id'', JStr (re_id r)), (''amount_minor'', json_int (re_amount_minor r)),
     (''status'', JStr (refund_status_name (re_status r))), (''created_at'', JStr (gh_iso h (re_created_at r))),
     (''occurred_at'', nullable (JStr \<circ> gh_iso h) (re_occurred_at r)),
     (''correlation_id'', nullable JStr (re_correlation_id r))]"

definition chargeView :: "paygate_host \<Rightarrow> charge \<Rightarrow> postgres_ledger \<Rightarrow> json" where
  "chargeView h c d = JObj [(''charge_id'', JStr (ch_id c)), (''reference'', JStr (ch_reference c)),
     (''amount_minor'', json_int (ch_amount_minor c)), (''currency'', JStr (ch_currency c)),
     (''status'', JStr (charge_status_name (ch_status c))), (''created_at'', JStr (gh_iso h (ch_created_at c))),
     (''occurred_at'', nullable (JStr \<circ> gh_iso h) (ch_occurred_at c)),
     (''refunded_minor'', json_int (ch_refunded_minor c)), (''correlation_id'', nullable JStr (ch_correlation_id c)),
     (''idempotency_key'', JStr (ch_idempotency_key c)), (''chaos_plan'', plan_json (ch_plan c)),
     (''refunds'', JArr (map (refund_view h) (pg_refundsFor (ch_id c) d))),
     (''deliveries'', JArr (map (delivery_json h) (pg_deliveriesFor (ch_id c) d)))]"

definition get_charge :: "paygate_host \<Rightarrow> string \<Rightarrow> paygate \<Rightarrow> reply" where
  "get_charge h cid s =
     (case pg_getCharge cid (pa_ledger s) of
        None \<Rightarrow> fail_reply 404 ''unknown_charge''
      | Some c \<Rightarrow> Reply 200 (chargeView h c (pa_ledger s)))"

definition get_refund :: "paygate_host \<Rightarrow> string \<Rightarrow> paygate \<Rightarrow> reply" where
  "get_refund h rid s =
     (case pg_getRefund rid (pa_ledger s) of
        None \<Rightarrow> fail_reply 404 ''unknown_refund''
      | Some r \<Rightarrow> Reply 200 (JObj [(''refund_id'', JStr (re_id r)), (''charge_id'', JStr (re_charge_id r)),
          (''reference'', JStr (re_reference r)), (''amount_minor'', json_int (re_amount_minor r)),
          (''status'', JStr (refund_status_name (re_status r))), (''created_at'', JStr (gh_iso h (re_created_at r))),
          (''occurred_at'', nullable (JStr \<circ> gh_iso h) (re_occurred_at r)),
          (''correlation_id'', nullable JStr (re_correlation_id r)), (''chaos_plan'', plan_json (re_plan r)),
          (''deliveries'', JArr (map (delivery_json h) (filter (\<lambda>d. dr_refund_id d = Some (re_id r))
             (pg_deliveriesFor (re_charge_id r) (pa_ledger s)))))]))"

definition testRoutesEnabled :: "paygate_config \<Rightarrow> bool" where
  "testRoutesEnabled cfg \<longleftrightarrow> pc_testEndpoints cfg \<and> \<not> pc_production cfg"

definition on_off :: "bool \<Rightarrow> json" where
  "on_off b = JStr (if b then ''on'' else ''off'')"

definition get_health :: "paygate_config \<Rightarrow> string \<Rightarrow> paygate \<Rightarrow> reply" where
  "get_health cfg startedAt s =
     (case pg_counts (pa_ledger s) of (charges, refunds) \<Rightarrow>
        Reply 200 (JObj [(''status'', JStr ''ok''), (''service'', JStr ''paygate''), (''chaos'', on_off (pc_chaos cfg)),
          (''seed'', JStr (pc_seed cfg)), (''callback_url_configured'', JBool (pc_callbackUrl cfg \<noteq> None)),
          (''test_endpoints'', on_off (testRoutesEnabled cfg)), (''store'', JStr ''postgres''), (''durable'', JBool True),
          (''started_at'', JStr startedAt), (''charges'', json_int (int charges)), (''refunds'', json_int (int refunds))]))"

section \<open>The signed import\<close>

text \<open>A row as its schema returns it; a date text need not be a date.\<close>

record import_row =
  iw_id :: string
  iw_reference :: string
  iw_amount_minor :: int
  iw_currency :: string
  iw_idempotency_key :: string
  iw_status :: charge_status
  iw_created_at :: string
  iw_occurred_at :: string
  iw_refunded_minor :: int

fun import_status :: "json option \<Rightarrow> charge_status option" where
  "import_status (Some (JStr v)) =
     (if v = ''succeeded'' then Some Succeeded else if v = ''failed'' then Some Failed else None)"
| "import_status _ = None"

definition import_refunded :: "json option \<Rightarrow> int option" where
  "import_refunded v = (if v = None then Some 0
     else case json_safe_int v of None \<Rightarrow> None | Some n \<Rightarrow> if 0 \<le> n then Some n else None)"

definition nonempty :: "json option \<Rightarrow> string option" where
  "nonempty v = (case json_string v of None \<Rightarrow> None | Some x \<Rightarrow> if x = [] then None else Some x)"

definition ImportedCharge :: "json \<Rightarrow> import_row option" where
  "ImportedCharge j =
     (case (json_sized 1 120 (json_field ''id'' j), json_sized 1 200 (json_field ''reference'' j),
            json_safe_int (json_field ''amount_minor'' j), json_string (json_field ''currency'' j)) of
        (Some i, Some r, Some a, Some c) \<Rightarrow>
          (case (json_sized 1 200 (json_field ''idempotency_key'' j), import_status (json_field ''status'' j),
                 nonempty (json_field ''created_at'' j), nonempty (json_field ''occurred_at'' j),
                 import_refunded (json_field ''refunded_minor'' j)) of
             (Some k, Some st, Some cr, Some oc, Some n) \<Rightarrow>
               if 0 < a \<and> is_currency c
               then Some \<lparr>iw_id = i, iw_reference = r, iw_amount_minor = a, iw_currency = c, iw_idempotency_key = k,
                 iw_status = st, iw_created_at = cr, iw_occurred_at = oc, iw_refunded_minor = n\<rparr>
               else None
           | _ \<Rightarrow> None)
      | _ \<Rightarrow> None)"

definition ImportBody :: "json \<Rightarrow> import_row list option" where
  "ImportBody j =
     (case json_field ''charges'' j of
        Some (JArr rows) \<Rightarrow>
          if rows = [] \<or> 2000 < length rows then None else all_some (map ImportedCharge rows)
      | _ \<Rightarrow> None)"

definition to_imported :: "paygate_host \<Rightarrow> import_row \<Rightarrow> imported_charge option" where
  "to_imported h w =
     (case (gh_date h (iw_created_at w), gh_date h (iw_occurred_at w)) of
        (Some cr, Some oc) \<Rightarrow> Some \<lparr>im_id = iw_id w, im_reference = iw_reference w, im_amountMinor = iw_amount_minor w,
          im_currency = iw_currency w, im_idempotencyKey = iw_idempotency_key w, im_status = iw_status w,
          im_createdAt = cr, im_occurredAt = oc, im_refundedMinor = iw_refunded_minor w\<rparr>
      | _ \<Rightarrow> None)"

text \<open>
  An invalid date throws while the batch of its row is being put together, when the batches before it
  are written already.
\<close>

definition import_valid_prefix :: "paygate_host \<Rightarrow> import_row list \<Rightarrow> imported_charge list \<times> bool" where
  "import_valid_prefix h rows =
     (let good = takeWhile (\<lambda>w. to_imported h w \<noteq> None) rows;
          whole = (length good = length rows);
          kept = (if whole then rows else take (500 * (length good div 500)) rows) in
      (List.map_filter (to_imported h) kept, whole))"

definition post_import :: "paygate_host \<Rightarrow> paygate_config \<Rightarrow> string option \<Rightarrow> header_value \<Rightarrow> paygate \<Rightarrow> reply \<times> paygate" where
  "post_import h cfg raw signature s =
     (case raw of
        None \<Rightarrow> (fail_reply 400 ''invalid_body'', s)
      | Some text \<Rightarrow>
          if \<not> (case signature of HString sig \<Rightarrow> verify (gh_hmac h) text (pc_secret cfg) sig | _ \<Rightarrow> False)
          then (fail_reply 401 ''bad_signature'', s)
          else
            (case gh_parse h text of
               None \<Rightarrow> (fail_reply 400 ''invalid_body'', s)
             | Some j \<Rightarrow>
                 (case ImportBody j of
                    None \<Rightarrow> (fail_reply 422 ''invalid_body'', s)
                  | Some rows \<Rightarrow>
                      (case import_valid_prefix h rows of (valid, whole) \<Rightarrow>
                         (case pg_importCharges valid (pa_ledger s) of
                            (Inl e, l) \<Rightarrow> (thrown, s\<lparr>pa_ledger := l\<rparr>)
                          | (Inr written, l) \<Rightarrow>
                              ((if whole then Reply 200 (JObj [(''received'', json_int (int (length rows))),
                                  (''written'', json_int (int written))]) else thrown), s\<lparr>pa_ledger := l\<rparr>))))))"

section \<open>The delay route of the control surface\<close>

definition TestDelayBody :: "json \<Rightarrow> (string option \<times> js_number) option" where
  "TestDelayBody j =
     (case j of
        JObj _ \<Rightarrow>
          (case (case json_field ''charge_id'' j of None \<Rightarrow> Some None | v \<Rightarrow> map_option Some (nonempty v),
                 case json_field ''seconds'' j of None \<Rightarrow> Some 75 | v \<Rightarrow> json_number v) of
             (Some cid, Some sec) \<Rightarrow> if 0 \<le> sec \<and> sec \<le> 600 then Some (cid, sec) else None
           | _ \<Rightarrow> None)
      | _ \<Rightarrow> None)"

definition post_test_delay :: "json \<Rightarrow> paygate \<Rightarrow> reply \<times> paygate" where
  "post_test_delay body s =
     (case TestDelayBody body of
        None \<Rightarrow> (fail_reply 422 ''invalid_body'', s)
      | Some (cid, sec) \<Rightarrow>
          let delay = math_round (js_mul sec 1000) in
          (Reply 200 (JObj [(''armed'', JBool True), (''charge_id'', nullable JStr cid), (''delay_ms'', json_int delay)]),
           s\<lparr>pa_forced := arm cid delay (pa_forced s)\<rparr>))"

end
