(* ===== verification/LedgerSteps.thy ===== *)
theory LedgerSteps
  imports PostgresLedger
begin

text \<open>
  The durable ledger as a step relation: every call of its interface, in any order and with any
  arguments, and the invariant of its tables.
\<close>

section \<open>Steps\<close>

inductive pg_step :: "postgres_ledger \<Rightarrow> postgres_ledger \<Rightarrow> bool" where
  open_charge: "pg_step d (snd (pg_openCharge cid now i d))"
| materialise_charge: "pg_step d (snd (pg_materialiseCharge cid st occurred d))"
| recover: "pg_step d (pg_recover cid key corr d)"
| open_refund: "pg_step d (snd (pg_openRefund rid now r d))"
| materialise_refund: "pg_step d (snd (pg_materialiseRefund rid occurred d))"
| next_attempt: "pg_step d (snd (pg_nextAttempt cid d))"
| record_delivery: "pg_recordDelivery now x d = Inr d' \<Longrightarrow> pg_step d d'"
| finish_delivery: "pg_step d (pg_finishDelivery x d)"
| imported: "pg_step d (snd (pg_importCharges rows d))"

abbreviation pg_steps :: "postgres_ledger \<Rightarrow> postgres_ledger \<Rightarrow> bool" where
  "pg_steps \<equiv> pg_step\<^sup>*\<^sup>*"

section \<open>The invariant of the tables\<close>

definition refunded_total :: "string \<Rightarrow> postgres_ledger \<Rightarrow> int" where
  "refunded_total cid d = sum_list (map re_amount_minor (filter (\<lambda>r. re_charge_id r = cid) (pg_refunds d)))"

definition charges_inv :: "postgres_ledger \<Rightarrow> bool" where
  "charges_inv d \<longleftrightarrow> distinct (map ch_id (pg_charges d)) \<and> distinct (map ch_idempotency_key (pg_charges d))
     \<and> (\<forall>c \<in> set (pg_charges d). charge_row_ok c \<and> refunded_total (ch_id c) d \<le> ch_refunded_minor c)"

definition refunds_inv :: "postgres_ledger \<Rightarrow> bool" where
  "refunds_inv d \<longleftrightarrow> distinct (map re_id (pg_refunds d)) \<and> distinct (map re_idempotency_key (pg_refunds d))
     \<and> (\<forall>r \<in> set (pg_refunds d). 0 < re_amount_minor r \<and> re_charge_id r \<in> ch_id ` set (pg_charges d)
          \<and> find_key RefundScope (re_idempotency_key r) d \<noteq> None)"

definition keys_inv :: "postgres_ledger \<Rightarrow> bool" where
  "keys_inv d \<longleftrightarrow> distinct (map (\<lambda>r. (ir_scope r, ir_key r)) (pg_idempotency d))
     \<and> (\<forall>r \<in> set (pg_idempotency d). ir_scope r = ChargeScope \<longrightarrow> ir_resource_id r \<in> ch_id ` set (pg_charges d))"

definition claimed_inv :: "postgres_ledger \<Rightarrow> bool" where
  "claimed_inv d \<longleftrightarrow> (\<forall>c \<in> set (pg_charges d). find_key ChargeScope (ch_idempotency_key c) d \<noteq> None)"

definition pg_inv :: "postgres_ledger \<Rightarrow> bool" where
  "pg_inv d \<longleftrightarrow> charges_inv d \<and> refunds_inv d \<and> keys_inv d \<and> claimed_inv d"

lemma pg_inv_empty: "pg_inv pg_empty"
  by (simp add: pg_inv_def charges_inv_def refunds_inv_def keys_inv_def claimed_inv_def pg_empty_def)

lemma pg_inv_rows:
  "pg_inv d \<Longrightarrow> c \<in> set (pg_charges d) \<Longrightarrow> charge_row_ok c \<and> refunded_total (ch_id c) d \<le> ch_refunded_minor c"
  by (simp add: pg_inv_def charges_inv_def)

section \<open>Looking keys and rows up\<close>

lemma find_charge_SomeD: "find_charge cid d = Some c \<Longrightarrow> c \<in> set (pg_charges d) \<and> ch_id c = cid"
  unfolding find_charge_def by (rule find_SomeD)

lemma find_charge_None_iff: "find_charge cid d = None \<longleftrightarrow> cid \<notin> ch_id ` set (pg_charges d)"
  by (auto simp: find_charge_def find_None_iff)

lemma find_refund_SomeD: "find_refund rid d = Some r \<Longrightarrow> r \<in> set (pg_refunds d) \<and> re_id r = rid"
  unfolding find_refund_def by (rule find_SomeD)

lemma find_refund_None_iff: "find_refund rid d = None \<longleftrightarrow> rid \<notin> re_id ` set (pg_refunds d)"
  by (auto simp: find_refund_def find_None_iff)

lemma find_key_SomeD: "find_key sc k d = Some r \<Longrightarrow> r \<in> set (pg_idempotency d) \<and> ir_scope r = sc \<and> ir_key r = k"
  unfolding find_key_def by (drule find_SomeD) simp

lemma find_key_None_iff: "find_key sc k d = None \<longleftrightarrow> (sc, k) \<notin> (\<lambda>r. (ir_scope r, ir_key r)) ` set (pg_idempotency d)"
  by (auto simp: find_key_def find_None_iff)

named_theorems ledger_frames \<open>which tables an operation leaves alone\<close>

lemma update_key_frame [ledger_frames, simp]:
  "pg_charges (update_key sc k f d) = pg_charges d" "pg_refunds (update_key sc k f d) = pg_refunds d"
  "pg_deliveries (update_key sc k f d) = pg_deliveries d"
  by (simp_all add: update_key_def)

lemma update_charge_frame [ledger_frames, simp]:
  "pg_idempotency (update_charge cid f d) = pg_idempotency d" "pg_refunds (update_charge cid f d) = pg_refunds d"
  "pg_deliveries (update_charge cid f d) = pg_deliveries d"
  by (simp_all add: update_charge_def)

lemma find_same_table:
  "pg_charges d' = pg_charges d \<Longrightarrow> find_charge cid d' = find_charge cid d"
  "pg_refunds d' = pg_refunds d \<Longrightarrow> find_refund rid d' = find_refund rid d"
  "pg_idempotency d' = pg_idempotency d \<Longrightarrow> find_key sc k d' = find_key sc k d"
  "pg_refunds d' = pg_refunds d \<Longrightarrow> refunded_total cid d' = refunded_total cid d"
  by (simp_all add: find_charge_def find_refund_def find_key_def refunded_total_def)

lemma find_frame [simp]:
  "find_charge cid (update_key sc k f d) = find_charge cid d"
  "find_refund rid (update_key sc k f d) = find_refund rid d"
  "find_key sc k (update_charge c g d) = find_key sc k d"
  "find_refund rid (update_charge c g d) = find_refund rid d"
  "refunded_total cid (update_key sc k f d) = refunded_total cid d"
  "refunded_total cid (update_charge c g d) = refunded_total cid d"
  by (rule find_same_table; simp)+

lemma find_key_update:
  assumes "\<And>r. ir_scope (f r) = ir_scope r \<and> ir_key (f r) = ir_key r"
  shows "find_key sc k (update_key sc' k' f d)
    = (if (sc, k) = (sc', k') then map_option f (find_key sc k d) else find_key sc k d)"
proof (cases "(sc, k) = (sc', k')")
  case True
  then show ?thesis
    using find_update_where_key [of "\<lambda>r. (ir_scope r, ir_key r)" "(sc, k)" f "pg_idempotency d"] assms
    by (simp add: find_key_def update_key_def)
next
  case False
  then have "find_key sc k (update_key sc' k' f d) = find_key sc k d"
    unfolding find_key_def update_key_def
    by (simp, intro find_update_where_other) (auto simp: assms)
  then show ?thesis using False by auto
qed

lemma find_charge_update:
  assumes "\<And>c. ch_id (f c) = ch_id c"
  shows "find_charge cid (update_charge cid' f d)
    = (if cid = cid' then map_option f (find_charge cid d) else find_charge cid d)"
proof (cases "cid = cid'")
  case True
  then show ?thesis
    using find_update_where_key [of ch_id cid f "pg_charges d"] assms
    by (simp add: find_charge_def update_charge_def)
next
  case False
  then have "find_charge cid (update_charge cid' f d) = find_charge cid d"
    unfolding find_charge_def update_charge_def
    by (simp, intro find_update_where_other) (auto simp: assms)
  then show ?thesis using False by simp
qed

lemma update_charge_ids [simp]:
  assumes "\<And>c. ch_id (f c) = ch_id c"
  shows "map ch_id (pg_charges (update_charge cid f d)) = map ch_id (pg_charges d)"
    and "ch_id ` set (pg_charges (update_charge cid f d)) = ch_id ` set (pg_charges d)"
proof -
  show m: "map ch_id (pg_charges (update_charge cid f d)) = map ch_id (pg_charges d)"
    unfolding update_charge_def using assms by (simp add: map_key_update_where)
  show "ch_id ` set (pg_charges (update_charge cid f d)) = ch_id ` set (pg_charges d)"
    using arg_cong [OF m, of set] by simp
qed

section \<open>Every step keeps the invariant\<close>

lemma pg_inv_update_key:
  assumes "pg_inv d" and "\<And>r. ir_scope (f r) = ir_scope r \<and> ir_key (f r) = ir_key r \<and> ir_resource_id (f r) = ir_resource_id r"
  shows "pg_inv (update_key sc k f d)"
proof -
  have "find_key sc' k' (update_key sc k f d) = None \<longleftrightarrow> find_key sc' k' d = None" for sc' k'
    using find_key_update [of f sc' k' sc k d] assms(2) by simp
  moreover have "map (\<lambda>r. (ir_scope r, ir_key r)) (pg_idempotency (update_key sc k f d))
      = map (\<lambda>r. (ir_scope r, ir_key r)) (pg_idempotency d)"
    unfolding update_key_def using assms(2) by (simp add: map_key_update_where)
  moreover have "\<forall>r \<in> set (pg_idempotency (update_key sc k f d)). \<exists>r0 \<in> set (pg_idempotency d).
      ir_scope r = ir_scope r0 \<and> ir_resource_id r = ir_resource_id r0"
    using assms(2) by (auto simp: update_key_def set_update_where)
  ultimately show ?thesis
    using assms(1) unfolding pg_inv_def charges_inv_def refunds_inv_def keys_inv_def claimed_inv_def by auto
qed

lemma pg_inv_update_charge:
  assumes "pg_inv d" and "\<And>c. ch_id (f c) = ch_id c \<and> ch_idempotency_key (f c) = ch_idempotency_key c"
    and "\<And>c. c \<in> set (pg_charges d) \<Longrightarrow> ch_id c = cid \<Longrightarrow> charge_row_ok (f c) \<and> ch_refunded_minor c \<le> ch_refunded_minor (f c)"
  shows "pg_inv (update_charge cid f d)"
proof -
  have "map ch_idempotency_key (pg_charges (update_charge cid f d)) = map ch_idempotency_key (pg_charges d)"
    unfolding update_charge_def using assms(2) by (simp add: map_key_update_where)
  moreover have "\<forall>c \<in> set (pg_charges (update_charge cid f d)). \<exists>c0 \<in> set (pg_charges d).
      ch_id c = ch_id c0 \<and> ch_idempotency_key c = ch_idempotency_key c0
      \<and> (charge_row_ok c0 \<longrightarrow> charge_row_ok c) \<and> ch_refunded_minor c0 \<le> ch_refunded_minor c"
    using assms(2,3) by (auto simp: update_charge_def set_update_where)
  ultimately show ?thesis
    using assms(1,2) unfolding pg_inv_def charges_inv_def refunds_inv_def keys_inv_def claimed_inv_def
    by auto (metis order_trans)+
qed

lemma pg_inv_same_tables:
  assumes "pg_inv d" and "pg_charges d' = pg_charges d" "pg_idempotency d' = pg_idempotency d" "pg_refunds d' = pg_refunds d"
  shows "pg_inv d'"
  using assms find_same_table [of d' d]
  unfolding pg_inv_def charges_inv_def refunds_inv_def keys_inv_def claimed_inv_def by simp

lemma pg_inv_update_refund:
  assumes "pg_inv d" and f: "\<And>r. re_id (f r) = re_id r \<and> re_charge_id (f r) = re_charge_id r
      \<and> re_amount_minor (f r) = re_amount_minor r \<and> re_idempotency_key (f r) = re_idempotency_key r"
  shows "pg_inv (d\<lparr>pg_refunds := update_where q f (pg_refunds d)\<rparr>)"
proof -
  let ?d = "d\<lparr>pg_refunds := update_where q f (pg_refunds d)\<rparr>"
  have "filter (\<lambda>r. re_charge_id r = cid) (pg_refunds ?d) = update_where q f (filter (\<lambda>r. re_charge_id r = cid) (pg_refunds d))" for cid
    using f by (simp add: filter_update_where)
  then have "refunded_total cid ?d = refunded_total cid d" for cid
    using f by (simp add: refunded_total_def map_key_update_where)
  moreover have "map re_id (pg_refunds ?d) = map re_id (pg_refunds d)"
    "map re_idempotency_key (pg_refunds ?d) = map re_idempotency_key (pg_refunds d)"
    using f by (simp_all add: map_key_update_where)
  moreover have "find_key sc k ?d = find_key sc k d" for sc k by (rule find_same_table(3)) simp
  moreover have "\<forall>r \<in> set (pg_refunds ?d). \<exists>r0 \<in> set (pg_refunds d). re_amount_minor r = re_amount_minor r0
      \<and> re_charge_id r = re_charge_id r0 \<and> re_idempotency_key r = re_idempotency_key r0"
    using f by (auto simp: set_update_where)
  ultimately show ?thesis
    using assms(1) unfolding pg_inv_def charges_inv_def refunds_inv_def keys_inv_def claimed_inv_def
    by (simp del: update_where_def) metis
qed

text \<open>A claimed key, and the row of its charge.\<close>

lemma find_key_claim:
  "find_key sc k (d\<lparr>pg_idempotency := pg_idempotency d @ [r]\<rparr>)
   = (case find_key sc k d of Some x \<Rightarrow> Some x | None \<Rightarrow> if (ir_scope r, ir_key r) = (sc, k) then Some r else None)"
  by (simp add: find_key_def find_append split: option.splits)

lemma find_charge_insert:
  "find_charge cid (d\<lparr>pg_charges := pg_charges d @ [c]\<rparr>)
   = (case find_charge cid d of Some x \<Rightarrow> Some x | None \<Rightarrow> if ch_id c = cid then Some c else None)"
  by (simp add: find_charge_def find_append split: option.splits)

lemma find_refund_insert:
  "find_refund rid (d\<lparr>pg_refunds := pg_refunds d @ [r]\<rparr>)
   = (case find_refund rid d of Some x \<Rightarrow> Some x | None \<Rightarrow> if re_id r = rid then Some r else None)"
  by (simp add: find_refund_def find_append split: option.splits)

lemma pg_inv_claim_refund:
  assumes "pg_inv d" and "find_key (ir_scope r) (ir_key r) d = None" and "ir_scope r = RefundScope"
  shows "pg_inv (d\<lparr>pg_idempotency := pg_idempotency d @ [r]\<rparr>)"
proof -
  let ?d = "d\<lparr>pg_idempotency := pg_idempotency d @ [r]\<rparr>"
  have "find_key sc k ?d \<noteq> None" if "find_key sc k d \<noteq> None" for sc k
    using that by (auto simp: find_key_claim)
  moreover have "refunded_total cid ?d = refunded_total cid d" for cid by (simp add: refunded_total_def)
  ultimately show ?thesis
    using assms unfolding pg_inv_def charges_inv_def refunds_inv_def keys_inv_def claimed_inv_def find_key_None_iff
    by auto
qed

lemma refunded_total_insert:
  "refunded_total cid (d\<lparr>pg_refunds := pg_refunds d @ [r]\<rparr>)
   = refunded_total cid d + (if re_charge_id r = cid then re_amount_minor r else 0)"
  by (simp add: refunded_total_def)

text \<open>A new charge under a new key.\<close>

lemma pg_inv_open_charge:
  assumes "pg_inv d" and "find_key ChargeScope (ir_key r) d = None" and "ir_scope r = ChargeScope"
    and "ir_resource_id r = ch_id c" "ir_key r = ch_idempotency_key c" and "refunded_total (ch_id c) d \<le> ch_refunded_minor c"
    and "insert_charge_row c (d\<lparr>pg_idempotency := pg_idempotency d @ [r]\<rparr>) = Inr d'"
  shows "pg_inv d'"
proof -
  let ?d = "d\<lparr>pg_idempotency := pg_idempotency d @ [r], pg_charges := pg_charges d @ [c]\<rparr>"
  have d': "d' = ?d" "charge_row_ok c" "ch_id c \<notin> ch_id ` set (pg_charges d)"
    "ch_idempotency_key c \<notin> ch_idempotency_key ` set (pg_charges d)"
    using assms(7) by (auto simp: insert_charge_row_def split: if_splits)
  have k: "find_key sc k ?d = find_key sc k (d\<lparr>pg_idempotency := pg_idempotency d @ [r]\<rparr>)" for sc k
    by (rule find_same_table(3)) simp
  have kept: "find_key sc k ?d \<noteq> None" if "find_key sc k d \<noteq> None" for sc k
    using that by (auto simp: k find_key_claim)
  have new: "find_key ChargeScope (ch_idempotency_key c) ?d \<noteq> None"
    using assms(2,3,5) by (simp add: k find_key_claim)
  have "refunded_total cid ?d = refunded_total cid d" for cid by (simp add: refunded_total_def)
  then show ?thesis
    using assms(1-6) d' kept new
    unfolding pg_inv_def charges_inv_def refunds_inv_def keys_inv_def claimed_inv_def find_key_None_iff
    by auto
qed

text \<open>A new refund under a key already claimed.\<close>

lemma pg_inv_open_refund:
  assumes "pg_inv d" and "find_key RefundScope (re_idempotency_key r) d \<noteq> None"
    and "find_charge (re_charge_id r) d = Some c" and "ch_refunded_minor c + re_amount_minor r \<le> ch_amount_minor c"
    and "insert_refund_row r d = Inr d1"
  shows "pg_inv (update_charge (re_charge_id r) (\<lambda>c. c\<lparr>ch_refunded_minor := ch_refunded_minor c + re_amount_minor r\<rparr>) d1)"
proof -
  have d1: "d1 = d\<lparr>pg_refunds := pg_refunds d @ [r]\<rparr>" "0 < re_amount_minor r" "re_id r \<notin> re_id ` set (pg_refunds d)"
    "re_idempotency_key r \<notin> re_idempotency_key ` set (pg_refunds d)" "re_charge_id r \<in> ch_id ` set (pg_charges d)"
    using assms(5) by (auto simp: insert_refund_row_def split: if_splits)
  let ?f = "\<lambda>c. c\<lparr>ch_refunded_minor := ch_refunded_minor c + re_amount_minor r\<rparr>"
  let ?d = "update_charge (re_charge_id r) ?f d1"
  have only: "c' = c" if "c' \<in> set (pg_charges d)" "ch_id c' = re_charge_id r" for c'
    using assms(1,3) that distinct_map_eqD [of ch_id "pg_charges d" c' c] find_charge_SomeD [OF assms(3)]
    by (auto simp: pg_inv_def charges_inv_def)
  have keys: "find_key sc k d1 = find_key sc k d" for sc k unfolding d1(1) by (rule find_same_table(3)) simp
  have ids: "map ch_id (pg_charges ?d) = map ch_id (pg_charges d)"
    "ch_id ` set (pg_charges ?d) = ch_id ` set (pg_charges d)"
    by (simp_all add: d1(1))
  have idem: "map ch_idempotency_key (pg_charges ?d) = map ch_idempotency_key (pg_charges d)"
    by (simp add: d1(1) update_charge_def map_key_update_where)
  have tot: "refunded_total cid d1 = refunded_total cid d + (if re_charge_id r = cid then re_amount_minor r else 0)" for cid
    by (simp add: d1(1) refunded_total_insert)
  have rows: "charge_row_ok c' \<and> refunded_total (ch_id c') ?d \<le> ch_refunded_minor c'
      \<and> find_key ChargeScope (ch_idempotency_key c') d \<noteq> None" if "c' \<in> set (pg_charges ?d)" for c'
  proof -
    obtain c0 where c0: "c0 \<in> set (pg_charges d)" "c' = (if ch_id c0 = re_charge_id r then ?f c0 else c0)"
      using \<open>c' \<in> set (pg_charges ?d)\<close> by (auto simp: d1(1) update_charge_def set_update_where)
    have "charge_row_ok c0" "refunded_total (ch_id c0) d \<le> ch_refunded_minor c0"
      "find_key ChargeScope (ch_idempotency_key c0) d \<noteq> None"
      using assms(1) c0(1) by (auto simp: pg_inv_def charges_inv_def claimed_inv_def)
    then show ?thesis
      using c0 assms(4) d1(2) only [of c0] by (auto simp: tot charge_row_ok_def)
  qed
  have "refunds_inv ?d" using assms(1,2) d1(2-5)
    unfolding refunds_inv_def ids pg_inv_def by (auto simp: keys) (auto simp: d1(1))
  moreover have "charges_inv ?d" using assms(1) rows by (simp add: pg_inv_def charges_inv_def ids idem)
  moreover have "keys_inv ?d" using assms(1) by (simp add: pg_inv_def keys_inv_def ids) (simp add: d1(1))
  moreover have "claimed_inv ?d" using rows by (simp add: claimed_inv_def keys)
  ultimately show ?thesis by (simp add: pg_inv_def)
qed

subsection \<open>What opening does\<close>

definition charge_claim :: "string \<Rightarrow> instant \<Rightarrow> open_charge_input \<Rightarrow> idempotency_record" where
  "charge_claim cid now i = \<lparr>ir_key = oc_idempotencyKey i, ir_scope = ChargeScope, ir_resource_id = cid,
     ir_fingerprint = oc_fingerprint i,
     ir_outcome = (if pl_transientFailure (oc_plan i) then KeyFailed500 else KeyAccepted),
     ir_first_seen_at = now, ir_replays = 0\<rparr>"

definition refund_claim :: "string \<Rightarrow> instant \<Rightarrow> open_refund_input \<Rightarrow> idempotency_record" where
  "refund_claim rid now i = \<lparr>ir_key = or_idempotencyKey i, ir_scope = RefundScope, ir_resource_id = rid,
     ir_fingerprint = or_fingerprint i, ir_outcome = KeyAccepted, ir_first_seen_at = now, ir_replays = 0\<rparr>"

lemma pg_openCharge_cases:
  assumes "pg_openCharge_body cid now i d = Inr (a, d1)"
  obtains (mismatch) r where "find_key ChargeScope (oc_idempotencyKey i) d = Some r"
      "ir_fingerprint r \<noteq> oc_fingerprint i" "a = ChargeFingerprintMismatch" "d1 = d"
  | (replayed) r row where "find_key ChargeScope (oc_idempotencyKey i) d = Some r" "ir_fingerprint r = oc_fingerprint i"
      "find_charge (ir_resource_id r) d = Some row" "a = ChargeReplayed (toCharge row [] []) (bump_replays r)"
      "d1 = update_key ChargeScope (oc_idempotencyKey i) bump_replays d"
  | (created) "find_key ChargeScope (oc_idempotencyKey i) d = None"
      "a = ChargeCreated (toCharge (new_charge_row cid now i) [] [])"
      "insert_charge_row (new_charge_row cid now i) (d\<lparr>pg_idempotency := pg_idempotency d @ [charge_claim cid now i]\<rparr>) = Inr d1"
proof (cases "find_key ChargeScope (oc_idempotencyKey i) d")
  case None
  then show thesis
    using assms by (intro created) (auto simp: pg_openCharge_body_def charge_claim_def Let_def tx_simps)
next
  case (Some r)
  show thesis
  proof (cases "ir_fingerprint r = oc_fingerprint i")
    case True
    then obtain row where "find_charge (ir_resource_id r) d = Some row"
        "a = ChargeReplayed (toCharge row [] []) (bump_replays r)"
        "d1 = update_key ChargeScope (oc_idempotencyKey i) bump_replays d"
      using assms Some by (auto simp: pg_openCharge_body_def split: option.splits)
    then show thesis using replayed Some True by blast
  qed (use assms Some in \<open>intro mismatch; auto simp: pg_openCharge_body_def\<close>)
qed

lemma pg_openRefund_cases:
  assumes "pg_openRefund_body rid now i d = Inr (a, d1)"
  obtains (mismatch) r where "find_key RefundScope (or_idempotencyKey i) d = Some r"
      "ir_fingerprint r \<noteq> or_fingerprint i" "a = RefundFingerprintMismatch" "d1 = d"
  | (replayed) r row where "find_key RefundScope (or_idempotencyKey i) d = Some r" "ir_fingerprint r = or_fingerprint i"
      "find_refund (ir_resource_id r) d = Some row" "a = RefundReplayed row (bump_replays r)"
      "d1 = update_key RefundScope (or_idempotencyKey i) bump_replays d"
  | (refused) "find_key RefundScope (or_idempotencyKey i) d = None"
      "\<forall>r. a \<noteq> RefundCreated r" "\<forall>r k. a \<noteq> RefundReplayed r k" "a \<noteq> RefundFingerprintMismatch"
      "d1 = d\<lparr>pg_idempotency := pg_idempotency d @ [refund_claim rid now i]\<rparr>"
  | (created) c d2 where "find_key RefundScope (or_idempotencyKey i) d = None"
      "find_charge (or_chargeId i) d = Some c" "ch_materialised c" "ch_status c = Succeeded"
      "ch_refunded_minor c + or_amountMinor i \<le> ch_amount_minor c" "a = RefundCreated (new_refund rid now i c)"
      "insert_refund_row (new_refund rid now i c) (d\<lparr>pg_idempotency := pg_idempotency d @ [refund_claim rid now i]\<rparr>) = Inr d2"
      "d1 = update_charge (ch_id c) (\<lambda>c. c\<lparr>ch_refunded_minor := ch_refunded_minor c + or_amountMinor i\<rparr>) d2"
proof (cases "find_key RefundScope (or_idempotencyKey i) d")
  case None
  let ?claimed = "d\<lparr>pg_idempotency := pg_idempotency d @ [refund_claim rid now i]\<rparr>"
  note body = assms [unfolded pg_openRefund_body_def None option.case Let_def, folded refund_claim_def]
  show thesis
  proof (cases "\<exists>c. find_charge (or_chargeId i) d = Some c \<and> ch_materialised c \<and> ch_status c = Succeeded
      \<and> ch_refunded_minor c + or_amountMinor i \<le> ch_amount_minor c")
    case True
    then obtain c where c: "find_charge (or_chargeId i) d = Some c" "ch_materialised c" "ch_status c = Succeeded"
      "ch_refunded_minor c + or_amountMinor i \<le> ch_amount_minor c" by blast
    then obtain d2 where "insert_refund_row (new_refund rid now i c) ?claimed = Inr d2" "a = RefundCreated (new_refund rid now i c)"
        "d1 = update_charge (ch_id c) (\<lambda>c. c\<lparr>ch_refunded_minor := ch_refunded_minor c + or_amountMinor i\<rparr>) d2"
      using body by (auto simp: tx_simps)
    then show thesis using created None c by blast
  next
    case False
    then have "(a = UnknownCharge \<or> (\<exists>st. a = NotRefundable st) \<or> (\<exists>x y. a = ExceedsCharge x y)) \<and> d1 = ?claimed"
      using body by (auto split: option.splits if_splits)
    then show thesis using refused None by fast
  qed
next
  case (Some r)
  show thesis
  proof (cases "ir_fingerprint r = or_fingerprint i")
    case True
    then obtain row where "find_refund (ir_resource_id r) d = Some row"
        "a = RefundReplayed row (bump_replays r)" "d1 = update_key RefundScope (or_idempotencyKey i) bump_replays d"
      using assms Some by (auto simp: pg_openRefund_body_def split: option.splits)
    then show thesis using replayed Some True by blast
  qed (use assms Some in \<open>intro mismatch; auto simp: pg_openRefund_body_def\<close>)
qed

subsection \<open>The import\<close>

text \<open>
  Between its two statements a batch has written charges whose keys are not claimed yet; the keys of
  the batch are what is missing.
\<close>

definition claimed_but :: "string set \<Rightarrow> postgres_ledger \<Rightarrow> bool" where
  "claimed_but ks d \<longleftrightarrow> (\<forall>c \<in> set (pg_charges d). ch_idempotency_key c \<in> ks
     \<or> find_key ChargeScope (ch_idempotency_key c) d \<noteq> None)"

definition import_inv :: "string set \<Rightarrow> postgres_ledger \<Rightarrow> bool" where
  "import_inv ks d \<longleftrightarrow> charges_inv d \<and> refunds_inv d \<and> keys_inv d \<and> claimed_but ks d"

lemma import_inv_empty [simp]: "import_inv {} d \<longleftrightarrow> pg_inv d"
  by (simp add: import_inv_def pg_inv_def claimed_but_def claimed_inv_def)

lemma import_inv_mono: "import_inv ks d \<Longrightarrow> ks \<subseteq> ks' \<Longrightarrow> import_inv ks' d"
  by (auto simp: import_inv_def claimed_but_def)

lemma truncate_imported [simp]:
  "ch_id (charge_row.truncate (imported_row r)) = im_id r"
  "ch_idempotency_key (charge_row.truncate (imported_row r)) = im_idempotencyKey r"
  "ch_refunded_minor (charge_row.truncate (imported_row r)) = im_refundedMinor r"
  by (simp_all add: charge_row.truncate_def imported_row_def)

lemma refunded_total_no_charge:
  assumes "refunds_inv d" and "cid \<notin> ch_id ` set (pg_charges d)"
  shows "refunded_total cid d = 0"
proof -
  have "filter (\<lambda>r. re_charge_id r = cid) (pg_refunds d) = []"
    using assms by (auto simp: refunds_inv_def filter_empty_conv)
  then show ?thesis by (simp add: refunded_total_def)
qed

lemma import_charge_row_cases:
  assumes "import_charge_row r (n, d) = Inr (n', d')"
  obtains (known) c where "find_charge (im_id r) d = Some c" "n' = n" "d' = d"
  | (new) "find_charge (im_id r) d = None" "n' = n + 1" "charge_row_ok (charge_row.truncate (imported_row r))"
      "im_idempotencyKey r \<notin> ch_idempotency_key ` set (pg_charges d)"
      "d' = d\<lparr>pg_charges := pg_charges d @ [charge_row.truncate (imported_row r)]\<rparr>"
  using assms
  by (auto simp: import_charge_row_def insert_charge_row_def Let_def tx_simps split: if_splits)

lemma import_charge_row_inv:
  assumes "import_inv ks d" and "im_idempotencyKey r \<in> ks" and "import_charge_row r (n, d) = Inr (n', d')"
  shows "import_inv ks d' \<and> im_id r \<in> ch_id ` set (pg_charges d') \<and> ch_id ` set (pg_charges d) \<subseteq> ch_id ` set (pg_charges d')"
  using assms(3)
proof (cases rule: import_charge_row_cases)
  case (known c)
  then show ?thesis using assms(1) find_charge_SomeD [OF known(1)] by (auto intro: rev_image_eqI)
next
  case new
  let ?row = "charge_row.truncate (imported_row r)"
  have "find_key sc k d' = find_key sc k d" for sc k by (rule find_same_table(3)) (simp add: new(5))
  moreover have "refunded_total cid d' = refunded_total cid d" for cid by (rule find_same_table(4)) (simp add: new(5))
  moreover have "refunded_total (im_id r) d = 0" "im_id r \<notin> ch_id ` set (pg_charges d)"
    using assms(1) new(1) refunded_total_no_charge find_charge_None_iff by (auto simp: import_inv_def)
  ultimately show ?thesis
    using assms(1,2) new(3-5)
    unfolding import_inv_def charges_inv_def refunds_inv_def keys_inv_def claimed_but_def
    by (auto simp: charge_row_ok_def)
qed

lemma import_rows_inv:
  assumes "import_rows rs (n, d) = Inr (n', d')" and "import_inv ks d" and "im_idempotencyKey ` set rs \<subseteq> ks"
  shows "import_inv ks d' \<and> im_id ` set rs \<subseteq> ch_id ` set (pg_charges d') \<and> ch_id ` set (pg_charges d) \<subseteq> ch_id ` set (pg_charges d')"
  using assms
proof (induction rs arbitrary: n d)
  case (Cons r rs)
  obtain n1 d1 where r: "import_charge_row r (n, d) = Inr (n1, d1)" and rs: "import_rows rs (n1, d1) = Inr (n', d')"
    using Cons.prems(1) by (auto simp: tx_simps)
  have "import_inv ks d1 \<and> im_id r \<in> ch_id ` set (pg_charges d1) \<and> ch_id ` set (pg_charges d) \<subseteq> ch_id ` set (pg_charges d1)"
    using import_charge_row_inv [OF Cons.prems(2) _ r] Cons.prems(3) by simp
  moreover have "import_inv ks d' \<and> im_id ` set rs \<subseteq> ch_id ` set (pg_charges d')
      \<and> ch_id ` set (pg_charges d1) \<subseteq> ch_id ` set (pg_charges d')"
    using Cons.IH [OF rs] Cons.prems(3) calculation by simp
  ultimately show ?case by (metis image_insert insert_subset list.simps(15) subset_iff)
qed simp

lemma import_key_row_inv:
  assumes "import_inv (insert (im_idempotencyKey r) ks) d" and "im_id r \<in> ch_id ` set (pg_charges d)"
  shows "import_inv ks (import_key_row r d) \<and> pg_charges (import_key_row r d) = pg_charges d"
proof (cases "find_key ChargeScope (im_idempotencyKey r) d")
  case None
  let ?d = "d\<lparr>pg_idempotency := pg_idempotency d @ [imported_record r]\<rparr>"
  have k: "find_key ChargeScope (im_idempotencyKey r) ?d \<noteq> None" "find_key sc k d \<noteq> None \<Longrightarrow> find_key sc k ?d \<noteq> None" for sc k
    using None by (auto simp: find_key_claim imported_record_def)
  moreover have "refunded_total cid ?d = refunded_total cid d" for cid by (simp add: refunded_total_def)
  ultimately have "import_inv ks ?d"
    using assms None unfolding import_inv_def charges_inv_def refunds_inv_def keys_inv_def claimed_but_def find_key_None_iff
    by (auto simp: imported_record_def)
  then show ?thesis using None by (simp add: import_key_row_def)
next
  case (Some x)
  then show ?thesis using assms by (auto simp: import_key_row_def import_inv_def claimed_but_def)
qed

lemma import_keys_inv:
  assumes "import_inv (im_idempotencyKey ` set rs) d" and "im_id ` set rs \<subseteq> ch_id ` set (pg_charges d)"
  shows "pg_inv (foldl (\<lambda>d r. import_key_row r d) d rs)"
  using assms
proof (induction rs arbitrary: d)
  case (Cons r rs)
  have "import_inv (im_idempotencyKey ` set rs) (import_key_row r d) \<and> pg_charges (import_key_row r d) = pg_charges d"
    using import_key_row_inv [of r "im_idempotencyKey ` set rs" d] Cons.prems by simp
  then show ?case using Cons.IH Cons.prems(2) by simp
qed simp

lemma import_batches_inv:
  assumes "pg_inv d"
  shows "pg_inv (snd (import_batches batches n d))"
  using assms
proof (induction batches arbitrary: n d)
  case (Cons batch batches)
  show ?case
  proof (cases "import_rows batch (0, d)")
    case (Inr s)
    obtain k d1 where s: "s = (k, d1)" by force
    have "import_inv (im_idempotencyKey ` set batch) d"
      using Cons.prems import_inv_mono [of "{}" d] by simp
    then have "import_inv (im_idempotencyKey ` set batch) d1 \<and> im_id ` set batch \<subseteq> ch_id ` set (pg_charges d1)"
      using import_rows_inv [of batch 0 d k d1] Inr s by blast
    then have "pg_inv (foldl (\<lambda>d r. import_key_row r d) d1 batch)" using import_keys_inv by blast
    then show ?thesis using Cons.IH Inr s by simp
  qed (use Cons.prems in simp)
qed simp

subsection \<open>All steps\<close>

lemma pg_step_inv:
  assumes "pg_step d d'" and "pg_inv d"
  shows "pg_inv d'"
  using assms
proof (induction rule: pg_step.induct)
  case (open_charge d cid now i)
  show ?case unfolding pg_openCharge_def
  proof (rule transaction_keeps)
    fix a d1 assume "pg_openCharge_body cid now i d = Inr (a, d1)"
    then show "pg_inv d1"
    proof (cases rule: pg_openCharge_cases)
      case created
      then have "find_charge cid d = None"
        by (auto simp: find_charge_None_iff insert_charge_row_def new_charge_row_def split: if_splits)
      then have "refunded_total cid d = 0"
        using open_charge refunded_total_no_charge by (simp add: pg_inv_def find_charge_None_iff)
      then show ?thesis
        using pg_inv_open_charge [OF open_charge, of "charge_claim cid now i" "new_charge_row cid now i" d1] created
        by (simp add: new_charge_row_def charge_claim_def)
    qed (use open_charge in \<open>auto simp: bump_replays_def intro!: pg_inv_update_key\<close>)
  qed (rule open_charge)
next
  case (materialise_charge d cid st occurred)
  have "pg_inv (update_charge cid (materialise_charge st occurred) d)"
    using materialise_charge pg_inv_rows
    by (intro pg_inv_update_charge) (auto simp: materialise_charge_def charge_row_ok_def)
  then show ?case using materialise_charge by (simp add: pg_materialiseCharge_def split: option.splits)
next
  case (recover d cid key corr)
  then have "pg_inv (update_key ChargeScope key (\<lambda>r. r\<lparr>ir_outcome := KeyAccepted\<rparr>) d)"
    by (intro pg_inv_update_key) simp_all
  then show ?case unfolding pg_recover_def using pg_inv_rows
    by (intro pg_inv_update_charge) (auto simp: charge_row_ok_def)
next
  case (open_refund d rid now i)
  show ?case unfolding pg_openRefund_def
  proof (rule transaction_keeps)
    fix a d1 assume "pg_openRefund_body rid now i d = Inr (a, d1)"
    then show "pg_inv d1"
    proof (cases rule: pg_openRefund_cases)
      case refused
      then show ?thesis using open_refund by (auto simp: refund_claim_def intro!: pg_inv_claim_refund)
    next
      case (created c d2)
      let ?claimed = "d\<lparr>pg_idempotency := pg_idempotency d @ [refund_claim rid now i]\<rparr>"
      have "pg_inv ?claimed" using open_refund created(1)
        by (intro pg_inv_claim_refund) (simp_all add: refund_claim_def)
      moreover have "find_charge (ch_id c) ?claimed = Some c" "ch_id c = or_chargeId i"
        using created(2) find_charge_SomeD [OF created(2)] by (simp_all add: find_charge_def)
      ultimately show ?thesis
        using pg_inv_open_refund [of ?claimed "new_refund rid now i c" c d2] created
        by (simp add: new_refund_def find_key_claim refund_claim_def)
    qed (use open_refund in \<open>auto simp: bump_replays_def intro!: pg_inv_update_key\<close>)
  qed (rule open_refund)
next
  case (materialise_refund d rid occurred)
  then show ?case
    by (auto simp: pg_materialiseRefund_def materialise_refund_def intro!: pg_inv_update_refund split: option.splits)
next
  case (next_attempt d cid)
  have "pg_inv (update_charge cid (\<lambda>c. c\<lparr>ch_attempts := ch_attempts c + 1\<rparr>) d)"
    using next_attempt pg_inv_rows by (intro pg_inv_update_charge) (auto simp: charge_row_ok_def)
  then show ?case using next_attempt by (simp add: pg_nextAttempt_def split: option.splits)
next
  case (record_delivery now x d d')
  then show ?case
    by (auto simp: pg_recordDelivery_def split: if_splits intro: pg_inv_same_tables [where d = d])
next
  case (finish_delivery d x)
  then show ?case by (rule pg_inv_same_tables) (simp_all add: pg_finishDelivery_def)
next
  case (imported d rows)
  then show ?case by (simp add: pg_importCharges_def import_batches_inv)
qed

end
