(* ===== verification/LedgerContract.thy ===== *)
theory LedgerContract
  imports LedgerSteps
begin

text \<open>
  The contract of \<open>Ledger\<close> in \<open>ledger.ts\<close> as far as charges go, as a locale: what a claimed key and a
  materialised charge promise to a caller, whatever other calls run in between. Both ledgers provide
  it; the routes rely on it.
\<close>

section \<open>The contract\<close>

text \<open>What may change of a charge: it is never re-keyed or re-priced, and it settles once.\<close>

definition charge_later :: "charge_row \<Rightarrow> charge_row \<Rightarrow> bool" where
  "charge_later c c' \<longleftrightarrow> ch_id c' = ch_id c \<and> ch_reference c' = ch_reference c
     \<and> ch_amount_minor c' = ch_amount_minor c \<and> ch_currency c' = ch_currency c
     \<and> ch_idempotency_key c' = ch_idempotency_key c \<and> ch_plan c' = ch_plan c
     \<and> (ch_materialised c \<longrightarrow> ch_materialised c' \<and> ch_status c' = ch_status c \<and> ch_occurred_at c' = ch_occurred_at c)"

lemma charge_later_refl [simp]: "charge_later c c"
  by (simp add: charge_later_def)

lemma charge_later_trans: "charge_later a b \<Longrightarrow> charge_later b c \<Longrightarrow> charge_later a c"
  by (simp add: charge_later_def)

locale charge_ledger =
  fixes open_charge :: "string \<Rightarrow> instant \<Rightarrow> open_charge_input \<Rightarrow> 'l \<Rightarrow> (ledger_error + open_charge_result) \<times> 'l"
    and materialise :: "string \<Rightarrow> charge_status \<Rightarrow> instant \<Rightarrow> 'l \<Rightarrow> charge option \<times> 'l"
    and step :: "'l \<Rightarrow> 'l \<Rightarrow> bool"
    and claim :: "string \<Rightarrow> 'l \<Rightarrow> (string \<times> string) option"
    and row :: "string \<Rightarrow> 'l \<Rightarrow> charge_row option"
  assumes claim_step: "step l l' \<Longrightarrow> claim k l = Some c \<Longrightarrow> claim k l' = Some c"
    and row_step: "step l l' \<Longrightarrow> row cid l = Some x \<Longrightarrow> \<exists>x'. row cid l' = Some x' \<and> charge_later x x'"
    and opened: "open_charge cid now i l = (Inr (ChargeCreated ch), l') \<Longrightarrow>
        claim (oc_idempotencyKey i) l' = Some (ch_id ch, oc_fingerprint i) \<and> row (ch_id ch) l' \<noteq> None"
    and reopened: "claim (oc_idempotencyKey i) l = Some (rid, fp) \<Longrightarrow> row rid l = Some x \<Longrightarrow>
        (if fp = oc_fingerprint i
         then \<exists>ch r l'. open_charge cid now i l = (Inr (ChargeReplayed ch r), l') \<and> ch_id ch = ch_id x
           \<and> (\<forall>c. row c l' = row c l)
         else open_charge cid now i l = (Inr ChargeFingerprintMismatch, l))"
    and row_id: "row cid l = Some x \<Longrightarrow> ch_id x = cid"
    and settled_before: "row cid l = Some x \<Longrightarrow> ch_materialised x \<Longrightarrow> materialise cid st t l = (None, l)"
    and settles: "row cid l = Some x \<Longrightarrow> materialise cid st t l = (Some ch, l') \<Longrightarrow>
        \<not> ch_materialised x \<and> row cid l' = Some (materialise_charge st t x)"
begin

lemma claim_steps: "step\<^sup>*\<^sup>* l l' \<Longrightarrow> claim k l = Some c \<Longrightarrow> claim k l' = Some c"
  by (induction rule: rtranclp_induct) (auto intro: claim_step)

lemma row_steps: "step\<^sup>*\<^sup>* l l' \<Longrightarrow> row cid l = Some x \<Longrightarrow> \<exists>x'. row cid l' = Some x' \<and> charge_later x x'"
proof (induction rule: rtranclp_induct)
  case (step l1 l2)
  then obtain x1 where "row cid l1 = Some x1" "charge_later x x1" by blast
  then show ?case using row_step [OF step.hyps(2)] charge_later_trans by blast
qed (use charge_later_refl in blast)

lemma retried:
  assumes "open_charge cid now i l = (Inr (ChargeCreated ch), l1)" and "step\<^sup>*\<^sup>* l1 l2"
    and "oc_idempotencyKey j = oc_idempotencyKey i"
  shows "if oc_fingerprint j = oc_fingerprint i
    then \<exists>ch' r l3. open_charge cid' now' j l2 = (Inr (ChargeReplayed ch' r), l3) \<and> ch_id ch' = ch_id ch
      \<and> (\<forall>c. row c l3 = row c l2)
    else open_charge cid' now' j l2 = (Inr ChargeFingerprintMismatch, l2)"
proof -
  obtain x where x: "row (ch_id ch) l1 = Some x" using opened [OF assms(1)] by blast
  have k: "claim (oc_idempotencyKey j) l2 = Some (ch_id ch, oc_fingerprint i)"
    using claim_steps [OF assms(2)] opened [OF assms(1)] assms(3) by simp
  obtain x' where x': "row (ch_id ch) l2 = Some x'" using row_steps [OF assms(2) x] by blast
  show ?thesis using reopened [OF k x', of cid' now'] row_id [OF x'] by (auto split: if_splits)
qed

lemma settles_once:
  assumes "row cid l \<noteq> None" and "materialise cid st t l = (Some ch, l1)" and "step\<^sup>*\<^sup>* l1 l2"
  shows "materialise cid st' t' l2 = (None, l2) \<and> (\<exists>x. row cid l2 = Some x \<and> ch_status x = st \<and> ch_occurred_at x = Some t)"
proof -
  obtain x where x: "row cid l1 = Some (materialise_charge st t x)" using settles assms(1,2) by blast
  then obtain x' where x': "row cid l2 = Some x'" "charge_later (materialise_charge st t x) x'"
    using row_steps [OF assms(3)] by blast
  then have "ch_materialised x'" "ch_status x' = st" "ch_occurred_at x' = Some t"
    by (simp_all add: charge_later_def materialise_charge_def)
  then show ?thesis using settled_before [OF x'(1)] x'(1) by simp
qed

end

section \<open>The durable ledger\<close>

definition pg_claim :: "string \<Rightarrow> postgres_ledger \<Rightarrow> (string \<times> string) option" where
  "pg_claim k d = map_option (\<lambda>r. (ir_resource_id r, ir_fingerprint r)) (find_key ChargeScope k d)"

text \<open>What a step can do to the row of a key or of a charge.\<close>

definition keys_later :: "postgres_ledger \<Rightarrow> postgres_ledger \<Rightarrow> bool" where
  "keys_later d d' \<longleftrightarrow> (\<forall>sc k r. find_key sc k d = Some r \<longrightarrow> (\<exists>r'. find_key sc k d' = Some r'
     \<and> ir_resource_id r' = ir_resource_id r \<and> ir_fingerprint r' = ir_fingerprint r))"

definition rows_later :: "postgres_ledger \<Rightarrow> postgres_ledger \<Rightarrow> bool" where
  "rows_later d d' \<longleftrightarrow> keys_later d d'
     \<and> (\<forall>cid c. find_charge cid d = Some c \<longrightarrow> (\<exists>c'. find_charge cid d' = Some c' \<and> charge_later c c'))"

lemma keys_later_trans: "keys_later d d1 \<Longrightarrow> keys_later d1 d2 \<Longrightarrow> keys_later d d2"
  unfolding keys_later_def by metis

lemma rows_later_refl [simp]: "rows_later d d"
  by (simp add: rows_later_def keys_later_def)

lemma rows_later_trans:
  assumes "rows_later d d1" and "rows_later d1 d2"
  shows "rows_later d d2"
proof -
  have "\<exists>c'. find_charge cid d2 = Some c' \<and> charge_later c c'" if c: "find_charge cid d = Some c" for cid c
  proof -
    obtain c1 where c1: "find_charge cid d1 = Some c1" "charge_later c c1"
      using assms(1) c unfolding rows_later_def by blast
    obtain c2 where "find_charge cid d2 = Some c2" "charge_later c1 c2"
      using assms(2) c1(1) unfolding rows_later_def by blast
    then show ?thesis using c1(2) charge_later_trans by blast
  qed
  then show ?thesis using assms keys_later_trans unfolding rows_later_def by blast
qed

lemma rows_later_same:
  "pg_charges d' = pg_charges d \<Longrightarrow> pg_idempotency d' = pg_idempotency d \<Longrightarrow> pg_refunds d' = pg_refunds d \<Longrightarrow> rows_later d d'"
  using find_same_table [of d' d] by (simp add: rows_later_def keys_later_def)

lemma rows_later_update_key:
  assumes "\<And>r. ir_scope (f r) = ir_scope r \<and> ir_key (f r) = ir_key r
    \<and> ir_resource_id (f r) = ir_resource_id r \<and> ir_fingerprint (f r) = ir_fingerprint r"
  shows "rows_later d (update_key sc k f d)"
  using assms by (auto simp: rows_later_def keys_later_def find_key_update)

lemma rows_later_update_charge:
  assumes "\<And>c. ch_id (f c) = ch_id c" and "\<And>c. find_charge cid d = Some c \<Longrightarrow> charge_later c (f c)"
  shows "rows_later d (update_charge cid f d)"
  using assms by (auto simp: rows_later_def keys_later_def find_charge_update)

lemma rows_later_claim: "rows_later d (d\<lparr>pg_idempotency := pg_idempotency d @ [r]\<rparr>)"
  by (simp add: rows_later_def keys_later_def find_key_claim) (simp add: find_charge_def)

lemma rows_later_insert_charge:
  assumes "insert_charge_row c d = Inr d'"
  shows "rows_later d d'"
proof -
  have d': "d' = d\<lparr>pg_charges := pg_charges d @ [c]\<rparr>"
    using assms by (auto simp: insert_charge_row_def split: if_splits)
  have "find_key sc k d' = find_key sc k d" for sc k by (rule find_same_table(3)) (simp add: d')
  then show ?thesis by (simp add: rows_later_def keys_later_def d' find_charge_insert)
qed

lemma rows_later_refunds:
  "pg_charges d' = pg_charges d \<Longrightarrow> pg_idempotency d' = pg_idempotency d \<Longrightarrow> rows_later d d'"
  using find_same_table [of d' d] by (simp add: rows_later_def keys_later_def)

lemma rows_later_import:
  "import_charge_row r (n, d) = Inr (n', d') \<Longrightarrow> rows_later d d'"
  by (auto simp: import_charge_row_def Let_def tx_simps split: if_splits intro: rows_later_insert_charge)

lemma rows_later_import_rows: "import_rows rs (n, d) = Inr (n', d') \<Longrightarrow> rows_later d d'"
proof (induction rs arbitrary: n d)
  case (Cons r rs)
  then obtain n1 d1 where "import_charge_row r (n, d) = Inr (n1, d1)" "import_rows rs (n1, d1) = Inr (n', d')"
    by (auto simp: tx_simps)
  then show ?case using Cons.IH rows_later_import rows_later_trans by blast
qed simp

lemma rows_later_import_keys: "rows_later d (foldl (\<lambda>d r. import_key_row r d) d rs)"
proof (induction rs arbitrary: d)
  case (Cons r rs)
  have "rows_later d (import_key_row r d)" by (simp add: import_key_row_def rows_later_claim)
  then show ?case using Cons.IH [of "import_key_row r d"] rows_later_trans by simp
qed simp

lemma rows_later_import_batches: "rows_later d (snd (import_batches batches n d))"
proof (induction batches arbitrary: n d)
  case (Cons batch batches)
  show ?case
  proof (cases "import_rows batch (0, d)")
    case (Inr s)
    obtain k d1 where s: "s = (k, d1)" by force
    have "rows_later d d1" using rows_later_import_rows Inr s by simp
    moreover have "rows_later (foldl (\<lambda>d r. import_key_row r d) d1 batch)
        (snd (import_batches batches (n + k) (foldl (\<lambda>d r. import_key_row r d) d1 batch)))"
      by (rule Cons.IH)
    ultimately have "rows_later d (snd (import_batches batches (n + k) (foldl (\<lambda>d r. import_key_row r d) d1 batch)))"
      by (metis rows_later_trans rows_later_import_keys)
    then show ?thesis using Inr s by simp
  qed simp
qed simp

lemma pg_step_later:
  assumes "pg_step d d'"
  shows "rows_later d d'"
  using assms
proof (induction rule: pg_step.induct)
  case (open_charge d cid now i)
  show ?case unfolding pg_openCharge_def
    by (rule transaction_keeps)
      (auto simp: pg_openCharge_body_def bump_replays_def Let_def tx_simps split: option.splits if_splits
        intro!: rows_later_update_key intro: rows_later_trans [OF rows_later_claim rows_later_insert_charge])
next
  case (materialise_charge d cid st occurred)
  show ?case
    by (auto simp: pg_materialiseCharge_def materialise_charge_def charge_later_def split: option.splits
        intro!: rows_later_update_charge)
next
  case (recover d cid key corr)
  have "rows_later d (update_key ChargeScope key (\<lambda>r. r\<lparr>ir_outcome := KeyAccepted\<rparr>) d)"
    by (rule rows_later_update_key) simp
  moreover have "rows_later d1 (update_charge cid (\<lambda>c. c\<lparr>ch_correlation_id :=
      (case ch_correlation_id c of None \<Rightarrow> corr | Some x \<Rightarrow> Some x)\<rparr>) d1)" for d1
    by (rule rows_later_update_charge) (simp_all add: charge_later_def)
  ultimately show ?case unfolding pg_recover_def using rows_later_trans by blast
next
  case (open_refund d rid now i)
  have a: "rows_later d1 (update_charge cid (\<lambda>c. c\<lparr>ch_refunded_minor := ch_refunded_minor c + n\<rparr>) d1)" for cid n d1
    by (rule rows_later_update_charge) (simp_all add: charge_later_def)
  have b: "rows_later d1 d2" if "insert_refund_row r d1 = Inr d2" for r d1 d2
    using that by (auto simp: insert_refund_row_def intro: rows_later_refunds split: if_splits)
  have c: "rows_later d (update_charge cid (\<lambda>c. c\<lparr>ch_refunded_minor := ch_refunded_minor c + n\<rparr>) d2)"
    if "insert_refund_row r (d\<lparr>pg_idempotency := pg_idempotency d @ [k]\<rparr>) = Inr d2" for r k d2 cid n
    by (rule rows_later_trans [OF rows_later_trans [OF rows_later_claim b [OF that]] a])
  have u: "rows_later d (update_key sc k bump_replays d)" for sc k
    by (rule rows_later_update_key) (simp add: bump_replays_def)
  show ?case unfolding pg_openRefund_def
  proof (rule transaction_keeps)
    fix r d1 assume "pg_openRefund_body rid now i d = Inr (r, d1)"
    then show "rows_later d d1" by (cases rule: pg_openRefund_cases) (simp_all add: rows_later_claim u c)
  qed (rule rows_later_refl)
next
  case (materialise_refund d rid occurred)
  show ?case by (auto simp: pg_materialiseRefund_def intro: rows_later_refunds split: option.splits)
next
  case (next_attempt d cid)
  show ?case
    by (auto simp: pg_nextAttempt_def charge_later_def split: option.splits intro!: rows_later_update_charge)
next
  case (record_delivery now x d d')
  then show ?case by (auto simp: pg_recordDelivery_def split: if_splits intro: rows_later_refunds)
next
  case (finish_delivery d x)
  show ?case by (rule rows_later_refunds) (simp_all add: pg_finishDelivery_def)
next
  case (imported d rows)
  show ?case by (simp add: pg_importCharges_def rows_later_import_batches)
qed

lemma toCharge_sel [simp]:
  "ch_id (toCharge row ids ds) = ch_id row" "ch_materialised (toCharge row ids ds) = ch_materialised row"
  "ch_status (toCharge row ids ds) = ch_status row" "ch_plan (toCharge row ids ds) = ch_plan row"
  "ch_amount_minor (toCharge row ids ds) = ch_amount_minor row" "ch_reference (toCharge row ids ds) = ch_reference row"
  "ch_idempotency_key (toCharge row ids ds) = ch_idempotency_key row"
  "ch_correlation_id (toCharge row ids ds) = ch_correlation_id row" "ch_occurred_at (toCharge row ids ds) = ch_occurred_at row"
  by (simp_all add: toCharge_def)

lemma insert_charge_row_find:
  assumes "insert_charge_row c d = Inr d'"
  shows "find_charge (ch_id c) d' = Some c" "find_key sc k d' = find_key sc k d"
proof -
  have d': "d' = d\<lparr>pg_charges := pg_charges d @ [c]\<rparr>" "ch_id c \<notin> ch_id ` set (pg_charges d)"
    using assms by (auto simp: insert_charge_row_def split: if_splits)
  show "find_charge (ch_id c) d' = Some c"
    using d' by (simp add: find_charge_insert find_charge_None_iff [THEN iffD2])
  show "find_key sc k d' = find_key sc k d" by (rule find_same_table(3)) (simp add: d'(1))
qed

interpretation pgl: charge_ledger pg_openCharge pg_materialiseCharge pg_step pg_claim find_charge
proof
  fix d d' k c assume "pg_step d d'" "pg_claim k d = Some c"
  then show "pg_claim k d' = Some c"
    using pg_step_later [of d d'] by (force simp: pg_claim_def rows_later_def keys_later_def)
next
  fix d d' cid x assume "pg_step d d'" "find_charge cid d = Some x"
  then show "\<exists>x'. find_charge cid d' = Some x' \<and> charge_later x x'"
    using pg_step_later [of d d'] by (auto simp: rows_later_def)
next
  fix cid now d ch d' and i :: open_charge_input assume "pg_openCharge cid now i d = (Inr (ChargeCreated ch), d')"
  then have "pg_openCharge_body cid now i d = Inr (ChargeCreated ch, d')" by (simp add: pg_openCharge_def tx_simps)
  then show "pg_claim (oc_idempotencyKey i) d' = Some (ch_id ch, oc_fingerprint i) \<and> find_charge (ch_id ch) d' \<noteq> None"
  proof (cases rule: pg_openCharge_cases)
    case created
    show ?thesis
      using insert_charge_row_find [OF created(3)] created(1,2)
      by (simp add: pg_claim_def find_key_claim charge_claim_def new_charge_row_def)
  qed auto
next
  fix cid now d rid fp x and i :: open_charge_input
  assume "pg_claim (oc_idempotencyKey i) d = Some (rid, fp)" "find_charge rid d = Some x"
  then show "if fp = oc_fingerprint i
       then \<exists>ch r d'. pg_openCharge cid now i d = (Inr (ChargeReplayed ch r), d') \<and> ch_id ch = ch_id x
         \<and> (\<forall>c. find_charge c d' = find_charge c d)
       else pg_openCharge cid now i d = (Inr ChargeFingerprintMismatch, d)"
    by (auto simp: pg_claim_def pg_openCharge_def transaction_def pg_openCharge_body_def)
next
  fix cid d x assume "find_charge cid d = Some x" then show "ch_id x = cid" by (simp add: find_charge_SomeD)
next
  fix cid d x st t assume "find_charge cid d = Some x" "ch_materialised x"
  then show "pg_materialiseCharge cid st t d = (None, d)" by (simp add: pg_materialiseCharge_def)
next
  fix cid d x st t ch d' assume "find_charge cid d = Some x" "pg_materialiseCharge cid st t d = (Some ch, d')"
  then show "\<not> ch_materialised x \<and> find_charge cid d' = Some (materialise_charge st t x)"
    by (auto simp: pg_materialiseCharge_def find_charge_update materialise_charge_def split: option.splits if_splits)
qed

section \<open>The ledger in memory\<close>

text \<open>
  The same contract, for every call but the import: an import of a new id under a known key points
  the key at another charge.
\<close>

inductive mem_step :: "memory_ledger \<Rightarrow> memory_ledger \<Rightarrow> bool" where
  open_charge: "map_of (ml_charges m) cid = None \<Longrightarrow> mem_step m (snd (mem_openCharge cid now i m))"
| materialise_charge: "mem_step m (snd (mem_materialiseCharge cid st occurred m))"
| recover: "mem_step m (mem_recover cid key corr m)"
| open_refund: "mem_step m (snd (mem_openRefund rid now r m))"
| materialise_refund: "mem_step m (snd (mem_materialiseRefund rid occurred m))"
| next_attempt: "mem_step m (snd (mem_nextAttempt cid m))"
| record_delivery: "mem_step m (mem_recordDelivery x m)"
| finish_delivery: "mem_step m (mem_finishDelivery x m)"

definition mem_claim :: "string \<Rightarrow> memory_ledger \<Rightarrow> (string \<times> string) option" where
  "mem_claim k m = map_option (\<lambda>r. (ir_resource_id r, ir_fingerprint r)) (map_of (ml_idempotency m) (charge_slot k))"

text \<open>The row of a charge stored under its own id.\<close>

definition mem_row :: "string \<Rightarrow> memory_ledger \<Rightarrow> charge_row option" where
  "mem_row cid m =
     (case map_of (ml_charges m) cid of
        None \<Rightarrow> None
      | Some c \<Rightarrow> if ch_id c = cid then Some (charge_row.truncate c) else None)"

lemma truncate_sel [simp]:
  "ch_id (charge_row.truncate c) = ch_id c" "ch_materialised (charge_row.truncate c) = ch_materialised c"
  "ch_status (charge_row.truncate c) = ch_status c" "ch_occurred_at (charge_row.truncate c) = ch_occurred_at c"
  "ch_reference (charge_row.truncate c) = ch_reference c" "ch_amount_minor (charge_row.truncate c) = ch_amount_minor c"
  "ch_currency (charge_row.truncate c) = ch_currency c" "ch_plan (charge_row.truncate c) = ch_plan c"
  "ch_idempotency_key (charge_row.truncate c) = ch_idempotency_key c"
  by (simp_all add: charge_row.truncate_def)

lemmas mem_op_defs = mem_openCharge_def mem_materialiseCharge_def mem_recover_def mem_openRefund_def
  mem_materialiseRefund_def mem_nextAttempt_def mem_recordDelivery_def mem_finishDelivery_def

lemma mem_step_claim:
  assumes "mem_step m m'" and "mem_claim k m = Some c"
  shows "mem_claim k m' = Some c"
  using assms
  by (induction rule: mem_step.induct)
    (auto simp: mem_claim_def mem_op_defs Let_def update_conv' bump_replays_def split: option.splits if_splits)

lemma mem_row_same: "ml_charges m' = ml_charges m \<Longrightarrow> mem_row cid m' = mem_row cid m"
  by (simp add: mem_row_def)

text \<open>An operation on one charge either leaves the charges or replaces that one by a later version.\<close>

lemma mem_row_updated:
  assumes "map_of (ml_charges m) k = Some c" and "charge_later (charge_row.truncate c) (charge_row.truncate c')"
    and "ml_charges m' = ml_charges m \<or> ml_charges m' = AList.update k c' (ml_charges m)" and "mem_row cid m = Some x"
  shows "\<exists>x'. mem_row cid m' = Some x' \<and> charge_later x x'"
proof (cases "cid = k \<and> ml_charges m' \<noteq> ml_charges m")
  case True
  then have "x = charge_row.truncate c" "ch_id c = cid" "map_of (ml_charges m') cid = Some c'"
    using assms(1,3,4) by (auto simp: mem_row_def update_conv' split: if_splits)
  moreover have "ch_id c' = ch_id c" using assms(2) by (simp add: charge_later_def)
  ultimately show ?thesis using assms(2) by (simp add: mem_row_def)
next
  case False
  then have "mem_row cid m' = mem_row cid m" using assms(3) by (auto simp: mem_row_def update_conv')
  then show ?thesis using assms(4) by simp
qed

lemma mem_step_row:
  assumes "mem_step m m'" and "mem_row cid m = Some x"
  shows "\<exists>x'. mem_row cid m' = Some x' \<and> charge_later x x'"
proof -
  have same: ?thesis if "ml_charges m' = ml_charges m" using assms(2) mem_row_same [OF that] by simp
  show ?thesis
    using assms(1)
  proof (cases rule: mem_step.cases)
    case (open_charge cid' now i)
    have "cid \<noteq> cid'" using open_charge(2) assms(2) by (auto simp: mem_row_def)
    moreover have "ml_charges m' = ml_charges m \<or> ml_charges m' = AList.update cid' (new_charge cid' now i) (ml_charges m)"
      using open_charge(1) by (simp add: mem_openCharge_def Let_def split: option.splits)
    ultimately have "mem_row cid m' = mem_row cid m" by (auto simp: mem_row_def update_conv')
    then show ?thesis using assms(2) by simp
  next
    case (materialise_charge cid' st occurred)
    show ?thesis
    proof (cases "map_of (ml_charges m) cid'")
      case (Some c)
      show ?thesis
      proof (cases "ch_materialised c")
        case False
        then show ?thesis using materialise_charge Some
          by (intro mem_row_updated [OF Some _ _ assms(2), of "materialise_charge st occurred c"])
            (simp_all add: mem_materialiseCharge_def charge_later_def materialise_charge_def)
      qed (use materialise_charge Some in \<open>intro same; simp add: mem_materialiseCharge_def\<close>)
    qed (use materialise_charge in \<open>intro same; simp add: mem_materialiseCharge_def\<close>)
  next
    case (recover cid' key corr)
    let ?m1 = "case map_of (ml_idempotency m) (charge_slot key) of None \<Rightarrow> m
      | Some r \<Rightarrow> m\<lparr>ml_idempotency := AList.update (charge_slot key) (r\<lparr>ir_outcome := KeyAccepted\<rparr>) (ml_idempotency m)\<rparr>"
    have c1: "ml_charges ?m1 = ml_charges m" by (simp split: option.split)
    show ?thesis
    proof (cases "map_of (ml_charges m) cid'")
      case (Some c)
      show ?thesis using recover Some c1
        by (intro mem_row_updated [OF Some _ _ assms(2), of "c\<lparr>ch_correlation_id := corr\<rparr>"])
          (simp_all add: mem_recover_def Let_def charge_later_def)
    qed (use recover c1 in \<open>intro same; simp add: mem_recover_def Let_def\<close>)
  next
    case (open_refund rid now r)
    show ?thesis
    proof (cases "map_of (ml_charges m) (or_chargeId r)")
      case (Some c)
      show ?thesis using open_refund Some
        by (intro mem_row_updated [OF Some _ _ assms(2), of "c\<lparr>ch_refund_ids := ch_refund_ids c @ [rid],
                         ch_refunded_minor := ch_refunded_minor c + or_amountMinor r\<rparr>"])
          (simp_all add: mem_openRefund_def Let_def charge_later_def split: option.splits)
    qed (use open_refund in \<open>intro same; simp add: mem_openRefund_def Let_def split: option.splits\<close>)
  next
    case (materialise_refund rid occurred)
    then show ?thesis by (intro same) (simp add: mem_materialiseRefund_def split: option.splits)
  next
    case (next_attempt cid')
    show ?thesis
    proof (cases "map_of (ml_charges m) cid'")
      case (Some c)
      show ?thesis using next_attempt Some
        by (intro mem_row_updated [OF Some _ _ assms(2), of "c\<lparr>ch_attempts := ch_attempts c + 1\<rparr>"])
          (simp_all add: mem_nextAttempt_def charge_later_def)
    qed (use next_attempt in \<open>intro same; simp add: mem_nextAttempt_def\<close>)
  next
    case (record_delivery r)
    show ?thesis
    proof (cases "map_of (ml_charges m) (dr_charge_id r)")
      case (Some c)
      show ?thesis using record_delivery Some
        by (intro mem_row_updated [OF Some _ _ assms(2), of "c\<lparr>ch_deliveries := ch_deliveries c @ [r]\<rparr>"])
          (simp_all add: mem_recordDelivery_def charge_later_def)
    qed (use record_delivery in \<open>intro same; simp add: mem_recordDelivery_def\<close>)
  next
    case (finish_delivery r)
    show ?thesis
    proof (cases "map_of (ml_charges m) (dr_charge_id r)")
      case (Some c)
      show ?thesis using finish_delivery Some
        by (intro mem_row_updated [OF Some _ _ assms(2), of "c\<lparr>ch_deliveries :=
            update_where (\<lambda>x. dr_delivery_id x = dr_delivery_id r) (\<lambda>_. r) (ch_deliveries c)\<rparr>"])
          (simp_all add: mem_finishDelivery_def charge_later_def)
    qed (use finish_delivery in \<open>intro same; simp add: mem_finishDelivery_def\<close>)
  qed
qed

interpretation meml: charge_ledger mem_openCharge mem_materialiseCharge mem_step mem_claim mem_row
proof
  fix cid now m ch m' and i :: open_charge_input assume "mem_openCharge cid now i m = (Inr (ChargeCreated ch), m')"
  then show "mem_claim (oc_idempotencyKey i) m' = Some (ch_id ch, oc_fingerprint i) \<and> mem_row (ch_id ch) m' \<noteq> None"
    by (auto simp: mem_openCharge_def mem_claim_def mem_row_def Let_def update_conv' new_charge_def
        split: option.splits if_splits)
next
  fix cid now m rid fp x and i :: open_charge_input
  assume "mem_claim (oc_idempotencyKey i) m = Some (rid, fp)" "mem_row rid m = Some x"
  then show "if fp = oc_fingerprint i
       then \<exists>ch r m'. mem_openCharge cid now i m = (Inr (ChargeReplayed ch r), m') \<and> ch_id ch = ch_id x
         \<and> (\<forall>c. mem_row c m' = mem_row c m)
       else mem_openCharge cid now i m = (Inr ChargeFingerprintMismatch, m)"
    by (auto simp: mem_claim_def mem_row_def mem_openCharge_def Let_def split: option.splits if_splits)
next
  fix cid m x st t ch m' assume "mem_row cid m = Some x" "mem_materialiseCharge cid st t m = (Some ch, m')"
  then show "\<not> ch_materialised x \<and> mem_row cid m' = Some (materialise_charge st t x)"
    by (auto simp: mem_row_def mem_materialiseCharge_def update_conv' materialise_charge_def charge_row.defs
        split: option.splits if_splits)
next
  fix m m' k c assume "mem_step m m'" "mem_claim k m = Some c"
  then show "mem_claim k m' = Some c" by (rule mem_step_claim)
next
  fix m m' cid x assume "mem_step m m'" "mem_row cid m = Some x"
  then show "\<exists>x'. mem_row cid m' = Some x' \<and> charge_later x x'" by (rule mem_step_row)
qed (auto simp: mem_row_def mem_materialiseCharge_def split: option.splits if_splits)

end
