(* ===== verification/PaygateSteps.thy ===== *)
theory PaygateSteps
  imports PaygateApp LedgerContract
begin

text \<open>
  The simulator as a step relation: requests, timers, restarts, and a process that dies in the middle of
  a request. What it announces is in its ledger; and what a death in the middle of a charge leaves
  behind.
\<close>

section \<open>Steps\<close>

text \<open>A restart keeps the ledger and the posts already made, and nothing else.\<close>

definition restart :: "paygate \<Rightarrow> paygate" where
  "restart s = s\<lparr>pa_forced := \<lparr>fd_perCharge = [], fd_global = None\<rparr>, pa_timers := [], pa_closed := False\<rparr>"

definition paygate_empty :: paygate where
  "paygate_empty = \<lparr>pa_ledger = pg_empty, pa_forced = \<lparr>fd_perCharge = [], fd_global = None\<rparr>, pa_timers = [],
     pa_sent = [], pa_closed = False, pa_minted = 0\<rparr>"

text \<open>The states a request passes between two statements of the ledger, up to the dispatch.\<close>

definition settle :: "paygate_config \<Rightarrow> instant \<Rightarrow> charge \<Rightarrow> paygate \<Rightarrow> paygate" where
  "settle cfg now c s = s\<lparr>pa_ledger := snd (pg_materialiseCharge (ch_id c)
     (if ch_amount_minor c = pc_declineAmountMinor cfg then Failed else Succeeded)
     (now - pl_clockSkewSeconds (ch_plan c) * 1000) (pa_ledger s))\<rparr>"

definition charge_stops :: "paygate_host \<Rightarrow> paygate_config \<Rightarrow> instant \<Rightarrow> string \<Rightarrow> charge_body \<Rightarrow> string option
    \<Rightarrow> paygate \<Rightarrow> paygate list" where
  "charge_stops h cfg now key b corr s =
     (case open_charge h now (charge_input h cfg key b corr) s of
        (Inr (ChargeReplayed c r), s1) \<Rightarrow>
          if ir_outcome r = KeyFailed500
          then let s2 = s1\<lparr>pa_ledger := pg_recover (ch_id c) key corr (pa_ledger s1)\<rparr> in [s1, s2, settle cfg now c s2]
          else [s1]
      | (Inr (ChargeCreated c), s1) \<Rightarrow>
          if pl_transientFailure (planFor key cfg) then [s1] else [s1, settle cfg now c s1]
      | (_, s1) \<Rightarrow> [s1])"

definition refund_stops :: "paygate_host \<Rightarrow> paygate_config \<Rightarrow> instant \<Rightarrow> string \<Rightarrow> refund_body \<Rightarrow> string option
    \<Rightarrow> paygate \<Rightarrow> paygate list" where
  "refund_stops h cfg now key b corr s =
     (case open_refund h now (refund_input h cfg key b corr) s of
        (Inr (RefundCreated r), s1) \<Rightarrow>
          [s1, s1\<lparr>pa_ledger := snd (pg_materialiseRefund (re_id r)
             (now - pl_clockSkewSeconds (re_plan r) * 1000) (pa_ledger s1))\<rparr>]
      | (_, s1) \<Rightarrow> [s1])"

inductive app_step :: "paygate_host \<Rightarrow> paygate_config \<Rightarrow> paygate \<Rightarrow> paygate \<Rightarrow> bool" for h cfg where
  charged: "app_step h cfg s (snd (post_charges h cfg now idem rid body s))"
| refunded: "app_step h cfg s (snd (post_refunds h cfg now idem rid body s))"
| imported: "app_step h cfg s (snd (post_import h cfg raw sig s))"
| delay_armed: "app_step h cfg s (snd (post_test_delay body s))"
| fired: "app_step h cfg s (fire h cfg now i s)"
| closed: "app_step h cfg s (close_deliverer s)"
| restarted: "app_step h cfg s (restart s)"
| died_charging: "s' \<in> set (charge_stops h cfg now key b corr s) \<Longrightarrow> app_step h cfg s (restart s')"
| died_refunding: "s' \<in> set (refund_stops h cfg now key b corr s) \<Longrightarrow> app_step h cfg s (restart s')"

abbreviation app_steps :: "paygate_host \<Rightarrow> paygate_config \<Rightarrow> paygate \<Rightarrow> paygate \<Rightarrow> bool" where
  "app_steps h cfg \<equiv> (app_step h cfg)\<^sup>*\<^sup>*"

section \<open>What is announced is in the ledger\<close>

definition announced :: "postgres_ledger \<Rightarrow> delivery_request \<Rightarrow> bool" where
  "announced l q \<longleftrightarrow>
     (if dq_event q = RefundSucceededEvent
      then (\<exists>r. (\<exists>rid. dq_refundId q = Some rid \<and> find_refund rid l = Some r) \<and> re_materialised r
        \<and> re_charge_id r = dq_chargeId q \<and> re_amount_minor r = dq_amountMinor q)
      else dq_refundId q = None \<and> (\<exists>c. find_charge (dq_chargeId q) l = Some c \<and> ch_materialised c
        \<and> ch_amount_minor c = dq_amountMinor q \<and> ch_reference c = dq_reference q
        \<and> dq_event q = (if ch_status c = Succeeded then ChargeSucceededEvent else ChargeFailedEvent)))"

definition truthful :: "paygate \<Rightarrow> bool" where
  "truthful s \<longleftrightarrow> (\<forall>q \<in> snd ` set (pa_timers s) \<union> fst ` set (pa_sent s). announced (pa_ledger s) q)"

definition refunds_kept :: "postgres_ledger \<Rightarrow> postgres_ledger \<Rightarrow> bool" where
  "refunds_kept d d' \<longleftrightarrow> (\<forall>rid r. find_refund rid d = Some r \<longrightarrow> (\<exists>r'. find_refund rid d' = Some r'
     \<and> re_charge_id r' = re_charge_id r \<and> re_amount_minor r' = re_amount_minor r
     \<and> (re_materialised r \<longrightarrow> re_materialised r')))"

lemma refunds_kept_same: "pg_refunds d' = pg_refunds d \<Longrightarrow> refunds_kept d d'"
  using find_same_table(2) [of d' d] by (auto simp: refunds_kept_def)

lemma refunds_kept_append:
  assumes "take (length (pg_refunds d)) (pg_refunds d') = pg_refunds d"
  shows "refunds_kept d d'"
proof -
  have "pg_refunds d' = pg_refunds d @ drop (length (pg_refunds d)) (pg_refunds d')"
    by (subst append_take_drop_id [of "length (pg_refunds d)", symmetric]) (simp add: assms)
  then show ?thesis unfolding refunds_kept_def find_refund_def by (metis find_append option.simps(5))
qed

lemma import_keys_refunds: "pg_refunds (foldl (\<lambda>d r. import_key_row r d) d rs) = pg_refunds d"
  by (induction rs arbitrary: d) (simp_all add: import_key_row_def)

lemma import_rows_refunds: "import_rows rs (n, d) = Inr (n', d') \<Longrightarrow> pg_refunds d' = pg_refunds d"
  by (induction rs arbitrary: n d) (auto simp: tx_simps elim!: import_charge_row_cases)

lemma import_batches_refunds: "pg_refunds (snd (import_batches batches n d)) = pg_refunds d"
  by (induction batches arbitrary: n d)
    (auto split: sum.splits dest: import_rows_refunds simp: import_keys_refunds)

lemma pg_step_refunds_kept:
  assumes "pg_step d d'"
  shows "refunds_kept d d'"
  using assms
proof (induction rule: pg_step.induct)
  case (open_charge d cid now i)
  show ?case unfolding pg_openCharge_def
    by (rule transaction_keeps)
      (auto elim!: pg_openCharge_cases intro!: refunds_kept_same simp: insert_charge_row_def split: if_splits)
next
  case (open_refund d rid now i)
  show ?case unfolding pg_openRefund_def
    by (rule transaction_keeps)
      (auto elim!: pg_openRefund_cases intro!: refunds_kept_append
        simp: insert_refund_row_def split: if_splits)
next
  case (materialise_refund d rid occurred)
  show ?case
  proof (cases "find_refund rid d")
    case (Some r)
    let ?d = "d\<lparr>pg_refunds := update_where (\<lambda>r. re_id r = rid) (materialise_refund occurred) (pg_refunds d)\<rparr>"
    have "refunds_kept d ?d"
      unfolding refunds_kept_def
    proof (intro allI impI)
      fix x y assume y: "find_refund x d = Some y"
      show "\<exists>r'. find_refund x ?d = Some r' \<and> re_charge_id r' = re_charge_id y
          \<and> re_amount_minor r' = re_amount_minor y \<and> (re_materialised y \<longrightarrow> re_materialised r')"
      proof (cases "x = rid")
        case True
        then show ?thesis
          using y find_update_where_key [of re_id rid "materialise_refund occurred" "pg_refunds d"]
          by (simp add: find_refund_def materialise_refund_def)
      next
        case False
        then have "find_refund x ?d = find_refund x d" unfolding find_refund_def
          by (simp, intro find_update_where_other) (auto simp: materialise_refund_def)
        then show ?thesis using y by simp
      qed
    qed
    then show ?thesis using Some refunds_kept_same by (simp add: pg_materialiseRefund_def)
  qed (simp add: pg_materialiseRefund_def refunds_kept_same)
qed (auto intro!: refunds_kept_same
  simp: pg_materialiseCharge_def pg_recover_def pg_nextAttempt_def pg_recordDelivery_def pg_finishDelivery_def
    pg_importCharges_def import_batches_refunds split: option.splits if_splits)

lemma announced_step:
  assumes "pg_step d d'" and "announced d q"
  shows "announced d' q"
proof (cases "dq_event q = RefundSucceededEvent")
  case True
  then show ?thesis using pg_step_refunds_kept [OF assms(1)] assms(2)
    by (fastforce simp: announced_def refunds_kept_def)
next
  case False
  then obtain c where c: "find_charge (dq_chargeId q) d = Some c" "ch_materialised c" using assms(2) by (auto simp: announced_def)
  then obtain c' where "find_charge (dq_chargeId q) d' = Some c'" "charge_later c c'"
    using pg_step_later [OF assms(1)] by (auto simp: rows_later_def)
  then show ?thesis using False c assms(2) by (auto simp: announced_def charge_later_def)
qed

lemma announced_steps: "pg_steps d d' \<Longrightarrow> announced d q \<Longrightarrow> announced d' q"
  by (induction rule: rtranclp_induct) (auto intro: announced_step)

lemma announced_branch [simp]: "announced d (q\<lparr>dq_branch := b, dq_scheduledDelayMs := n\<rparr>) = announced d q"
  by (simp add: announced_def)

section \<open>Every operation keeps the announcements true\<close>

text \<open>A state reached from another by statements of the ledger, with announcements that stay true.\<close>

definition extends :: "paygate \<Rightarrow> paygate \<Rightarrow> bool" where
  "extends s s' \<longleftrightarrow> pg_steps (pa_ledger s) (pa_ledger s') \<and> (truthful s \<longrightarrow> truthful s')"

lemma extends_refl [simp, intro]: "extends s s"
  by (simp add: extends_def)

lemma extends_trans [trans]: "extends s s1 \<Longrightarrow> extends s1 s2 \<Longrightarrow> extends s s2"
  unfolding extends_def by (metis rtranclp_trans)

lemma extends_ledger:
  assumes "pg_steps (pa_ledger s) (pa_ledger s')" and "set (pa_timers s') \<subseteq> set (pa_timers s)" "set (pa_sent s') \<subseteq> set (pa_sent s)"
  shows "extends s s'"
  unfolding extends_def truthful_def using assms announced_steps [OF assms(1)] by blast

lemma extends_announced: "extends s s' \<Longrightarrow> announced (pa_ledger s) q \<Longrightarrow> announced (pa_ledger s') q"
  by (auto simp: extends_def intro: announced_steps)

lemma deliver_extends:
  assumes "announced (pa_ledger s) q"
  shows "extends s (snd (deliver h cfg now q s))"
proof -
  obtain attempt l1 where n: "pg_nextAttempt (dq_chargeId q) (pa_ledger s) = (attempt, l1)" by force
  have s1: "pg_steps (pa_ledger s) l1" using pg_step.next_attempt [of "pa_ledger s" "dq_chargeId q"] n by auto
  obtain did where m: "mint h (s\<lparr>pa_ledger := l1\<rparr>) = (did, s\<lparr>pa_ledger := l1, pa_minted := pa_minted s + 1\<rparr>)"
    by (simp add: mint_def)
  let ?r = "delivery_record_of q did attempt (case dq_forceCorruptSignature q of Some b \<Rightarrow> b
    | None \<Rightarrow> corruptSignatureFor (dq_idempotencyKey q) attempt cfg)"
  show ?thesis
  proof (cases "pg_recordDelivery now ?r l1")
    case (Inl e)
    then show ?thesis using s1 by (intro extends_ledger) (simp_all add: deliver_def n m Let_def)
  next
    case (Inr l2)
    have s2: "pg_steps (pa_ledger s) (pg_finishDelivery x l2)" for x
      using s1 pg_step.record_delivery [OF Inr] pg_step.finish_delivery [of l2 x] by (meson rtranclp.rtrancl_into_rtrancl)
    show ?thesis
    proof (cases "pc_callbackUrl cfg")
      case None
      then show ?thesis using Inr s2 by (intro extends_ledger) (simp_all add: deliver_def n m Let_def)
    next
      case (Some url)
      let ?s = "snd (deliver h cfg now q s)"
      have steps: "pg_steps (pa_ledger s) (pa_ledger ?s)" using Inr Some s2 by (simp add: deliver_def n m Let_def)
      have "set (pa_timers ?s) = set (pa_timers s)" "fst ` set (pa_sent ?s) = insert q (fst ` set (pa_sent s))"
        using Inr Some by (auto simp: deliver_def n m Let_def)
      then show ?thesis using steps announced_steps [OF steps] assms by (auto simp: extends_def truthful_def)
    qed
  qed
qed

lemma schedule_extends:
  assumes "announced (pa_ledger s) q"
  shows "extends s (schedule h cfg now q delay s)"
  using deliver_extends [OF assms] assms by (auto simp: schedule_def extends_def truthful_def)

lemma dispatch_extends:
  assumes "announced (pa_ledger s) q"
  shows "extends s (snd (dispatch h cfg now q plan s))"
proof -
  obtain forced f where take: "take_delay (dq_chargeId q) (pa_forced s) = (forced, f)" by force
  let ?s = "s\<lparr>pa_forced := f\<rparr>"
  have e: "extends s ?s" by (rule extends_ledger) simp_all
  have later: "extends s (schedule h cfg now (q\<lparr>dq_branch := b, dq_scheduledDelayMs := n\<rparr>) x s2)"
    if "extends s s2" for s2 b n x
    using extends_announced [OF that assms] by (intro extends_trans [OF that schedule_extends]) simp
  have now: "extends s (snd (deliver h cfg now (q\<lparr>dq_branch := b, dq_scheduledDelayMs := n\<rparr>) ?s))" for b n
    using assms by (intro extends_trans [OF e deliver_extends]) simp
  show ?thesis
    by (simp add: dispatch_def take Let_def split_beta e later now split: sum.split)
qed

lemma materialiseCharge_extends: "extends s (snd (app_materialiseCharge h cfg now c s))"
proof -
  define st where "st = (if ch_amount_minor c = pc_declineAmountMinor cfg then Failed else Succeeded)"
  define t where "t = now - pl_clockSkewSeconds (ch_plan c) * 1000"
  obtain r l where m: "pg_materialiseCharge (ch_id c) st t (pa_ledger s) = (r, l)" by force
  then have steps: "pg_steps (pa_ledger s) l"
    using pg_step.materialise_charge [of "pa_ledger s" "ch_id c" st t] by auto
  have e: "extends s (s\<lparr>pa_ledger := l\<rparr>)" using steps by (intro extends_ledger) simp_all
  show ?thesis
  proof (cases r)
    case (Some settled)
    then obtain row where row: "find_charge (ch_id c) (pa_ledger s) = Some row"
      "settled = toCharge (materialise_charge st t row) [] []" "l = update_charge (ch_id c) (materialise_charge st t) (pa_ledger s)"
      using m by (auto simp: pg_materialiseCharge_def split: option.splits if_splits)
    have "announced l (charge_announcement settled t)"
      using row find_charge_SomeD [OF row(1)]
      by (auto simp: announced_def charge_announcement_def find_charge_update materialise_charge_def st_def toCharge_def)
    then show ?thesis
      using extends_trans [OF e dispatch_extends] m Some
      by (simp add: app_materialiseCharge_def Let_def flip: st_def t_def)
  qed (use e m in \<open>simp add: app_materialiseCharge_def Let_def flip: st_def t_def\<close>)
qed

lemma materialiseRefund_extends: "extends s (snd (app_materialiseRefund h cfg now r s))"
proof -
  define t where "t = now - pl_clockSkewSeconds (re_plan r) * 1000"
  obtain x l where m: "pg_materialiseRefund (re_id r) t (pa_ledger s) = (x, l)" by force
  then have steps: "pg_steps (pa_ledger s) l"
    using pg_step.materialise_refund [of "pa_ledger s" "re_id r" t] by auto
  have e: "extends s (s\<lparr>pa_ledger := l\<rparr>)" using steps by (intro extends_ledger) simp_all
  show ?thesis
  proof (cases x)
    case (Some settled)
    then obtain row where row: "find_refund (re_id r) (pa_ledger s) = Some row" "settled = materialise_refund t row"
      "l = (pa_ledger s)\<lparr>pg_refunds := update_where (\<lambda>x. re_id x = re_id r) (materialise_refund t) (pg_refunds (pa_ledger s))\<rparr>"
      using m by (auto simp: pg_materialiseRefund_def split: option.splits if_splits)
    have "find_refund (re_id r) l = Some (materialise_refund t row)"
      using row(1) find_update_where_key [of re_id "re_id r" "materialise_refund t" "pg_refunds (pa_ledger s)"]
      by (simp add: row(3) find_refund_def materialise_refund_def)
    then have "announced l (refund_announcement settled t)"
      using find_refund_SomeD [OF row(1)] by (simp add: announced_def refund_announcement_def row(2) materialise_refund_def)
    then show ?thesis
      using extends_trans [OF e dispatch_extends] m Some
      by (simp add: app_materialiseRefund_def Let_def flip: t_def)
  qed (use e m in \<open>simp add: app_materialiseRefund_def Let_def flip: t_def\<close>)
qed

section \<open>Every step\<close>

lemma open_charge_extends: "extends s (snd (open_charge h now i s))"
proof (rule extends_ledger)
  show "pg_steps (pa_ledger s) (pa_ledger (snd (open_charge h now i s)))"
    using pg_step.open_charge [of "pa_ledger s" "newChargeId (gh_uuid h (pa_minted s))" now i]
    by (simp add: open_charge_def mint_def split_beta r_into_rtranclp)
qed (simp_all add: open_charge_def mint_def split_beta)

lemma open_refund_extends: "extends s (snd (open_refund h now i s))"
proof (rule extends_ledger)
  show "pg_steps (pa_ledger s) (pa_ledger (snd (open_refund h now i s)))"
    using pg_step.open_refund [of "pa_ledger s" "newRefundId (gh_uuid h (pa_minted s))" now i]
    by (simp add: open_refund_def mint_def split_beta r_into_rtranclp)
qed (simp_all add: open_refund_def mint_def split_beta)

lemma recover_extends: "extends s (s\<lparr>pa_ledger := pg_recover cid key corr (pa_ledger s)\<rparr>)"
  using pg_step.recover by (intro extends_ledger) (simp_all add: r_into_rtranclp)

lemma settle_extends: "extends s (settle cfg now c s)"
  unfolding settle_def using pg_step.materialise_charge by (intro extends_ledger) (simp_all add: r_into_rtranclp)

lemma after_snd [simp]: "snd (after r ok) = snd r"
  by (cases r) (simp add: after_def split: sum.split)

lemma post_charges_extends: "extends s (snd (post_charges h cfg now idem rid body s))"
proof -
  have "extends s (snd (app_materialiseCharge h cfg now c s1))" if "extends s s1" for c s1
    using that materialiseCharge_extends by (rule extends_trans)
  moreover have "extends s (s1\<lparr>pa_ledger := pg_recover cid key corr (pa_ledger s1)\<rparr>)" if "extends s s1" for s1 cid key corr
    using that recover_extends by (rule extends_trans)
  moreover have "extends s s1" if "open_charge h now i s = (r, s1)" for i r s1
    using open_charge_extends [of s h now i] that by simp
  ultimately show ?thesis
    by (auto simp: post_charges_def Let_def split: option.splits prod.splits sum.splits open_charge_result.splits)
qed

lemma post_refunds_extends: "extends s (snd (post_refunds h cfg now idem rid body s))"
proof -
  have "extends s (snd (app_materialiseRefund h cfg now c s1))" if "extends s s1" for c s1
    using that materialiseRefund_extends by (rule extends_trans)
  moreover have "extends s s1" if "open_refund h now i s = (r, s1)" for i r s1
    using open_refund_extends [of s h now i] that by simp
  ultimately show ?thesis
    by (auto simp: post_refunds_def Let_def split: option.splits prod.splits sum.splits open_refund_result.splits)
qed

lemma post_import_extends: "extends s (snd (post_import h cfg raw sig s))"
proof -
  have "extends s (s\<lparr>pa_ledger := l\<rparr>)" if "pg_importCharges rows (pa_ledger s) = (r, l)" for rows r l
    using pg_step.imported [of "pa_ledger s" rows] that by (intro extends_ledger) (simp_all add: r_into_rtranclp)
  then show ?thesis
    by (auto simp: post_import_def Let_def split: option.splits prod.splits sum.splits if_splits)
qed

lemma restart_extends: "extends s (restart s)"
  by (rule extends_ledger) (simp_all add: restart_def)

lemma charge_stops_extends:
  assumes "s' \<in> set (charge_stops h cfg now key b corr s)"
  shows "extends s s'"
proof -
  obtain r s1 where o: "open_charge h now (charge_input h cfg key b corr) s = (r, s1)" by force
  then have e: "extends s s1" using open_charge_extends [of s h now] by (metis snd_conv)
  moreover have "extends s (s1\<lparr>pa_ledger := pg_recover cid key corr (pa_ledger s1)\<rparr>)" for cid
    using e recover_extends by (rule extends_trans)
  moreover have "extends s (settle cfg now c s2)" if "extends s s2" for c s2
    using that settle_extends by (rule extends_trans)
  ultimately show ?thesis using assms
    by (auto simp: charge_stops_def o Let_def split: sum.splits open_charge_result.splits if_splits)
qed

lemma refund_stops_extends:
  assumes "s' \<in> set (refund_stops h cfg now key b corr s)"
  shows "extends s s'"
proof -
  obtain r s1 where o: "open_refund h now (refund_input h cfg key b corr) s = (r, s1)" by force
  then have e: "extends s s1" using open_refund_extends [of s h now] by (metis snd_conv)
  moreover have "extends s (s1\<lparr>pa_ledger := snd (pg_materialiseRefund rid t (pa_ledger s1))\<rparr>)" for rid t
    using pg_step.materialise_refund by (intro extends_trans [OF e] extends_ledger) (simp_all add: r_into_rtranclp)
  ultimately show ?thesis using assms
    by (auto simp: refund_stops_def o Let_def split: sum.splits open_refund_result.splits)
qed

text \<open>Firing a timer needs the announcement of the timer, so it is stated for truthful states.\<close>

lemma fire_truthful:
  assumes "truthful s"
  shows "truthful (fire h cfg now i s) \<and> pg_steps (pa_ledger s) (pa_ledger (fire h cfg now i s))"
proof (cases "i < length (pa_timers s) \<and> fst (pa_timers s ! i) \<le> now")
  case True
  let ?s = "s\<lparr>pa_timers := take i (pa_timers s) @ drop (Suc i) (pa_timers s)\<rparr>"
  have "set (pa_timers ?s) \<subseteq> set (pa_timers s)" by (auto dest: in_set_takeD in_set_dropD)
  then have "extends s ?s" by (intro extends_ledger) simp_all
  then have "truthful ?s" using assms by (simp add: extends_def)
  moreover have "announced (pa_ledger ?s) (snd (pa_timers s ! i))"
    using assms True by (auto simp: truthful_def)
  ultimately show ?thesis
    using deliver_extends [of ?s "snd (pa_timers s ! i)" h cfg now] True by (simp add: fire_def extends_def)
qed (use assms in \<open>auto simp: fire_def\<close>)

lemma app_step_truthful:
  assumes "app_step h cfg s s'" and "truthful s"
  shows "truthful s' \<and> pg_steps (pa_ledger s) (pa_ledger s')"
proof -
  have x: ?thesis if "extends s s'" using that assms(2) by (simp add: extends_def)
  show ?thesis
    using assms(1)
  proof (cases rule: app_step.cases)
    case (charged now idem rid body)
    then show ?thesis using x post_charges_extends by simp
  next
    case (refunded now idem rid body)
    then show ?thesis using x post_refunds_extends by simp
  next
    case (imported raw sig)
    then show ?thesis using x post_import_extends by simp
  next
    case (delay_armed body)
    then have "extends s s'"
      by (intro extends_ledger) (auto simp: post_test_delay_def Let_def split: option.splits)
    then show ?thesis by (rule x)
  next
    case (fired now i)
    then show ?thesis using fire_truthful [OF assms(2)] by simp
  next
    case closed
    then show ?thesis by (intro x extends_ledger) (simp_all add: close_deliverer_def)
  next
    case restarted
    then show ?thesis using x restart_extends by simp
  next
    case (died_charging s1 now key b corr)
    then show ?thesis using x extends_trans [OF charge_stops_extends restart_extends] by blast
  next
    case (died_refunding s1 now key b corr)
    then show ?thesis using x extends_trans [OF refund_stops_extends restart_extends] by blast
  qed
qed

lemma app_steps_truthful:
  assumes "app_steps h cfg s s'" and "truthful s"
  shows "truthful s' \<and> pg_steps (pa_ledger s) (pa_ledger s')"
  using assms
proof (induction rule: rtranclp_induct)
  case (step s1 s2)
  then show ?case using app_step_truthful [OF step.hyps(2)] by (meson rtranclp_trans)
qed simp

lemma truthful_empty: "truthful paygate_empty"
  by (simp add: truthful_def paygate_empty_def)

end
