(* ===== verification/LedgerRefinement.thy ===== *)
theory LedgerRefinement
  imports LedgerContract
begin

text \<open>
  The two ledgers compared. Called with the same operations they give the same answers, as long as no
  refund is retried under a key the durable ledger has refused before; the comparison is a simulation
  between the tables and the maps, one operation at a time.
\<close>

section \<open>Operations and answers\<close>

datatype ledger_op =
    OpenCharge string instant open_charge_input
  | MaterialiseCharge string charge_status instant
  | Recover string string "string option"
  | OpenRefund string instant open_refund_input
  | MaterialiseRefund string instant
  | NextAttempt string

text \<open>
  A row read back from the tables carries no deliveries and no refund ids, so an answer is compared
  without them.
\<close>

definition bare :: "charge \<Rightarrow> charge" where
  "bare c = c\<lparr>ch_deliveries := [], ch_refund_ids := []\<rparr>"

fun bare_result :: "open_charge_result \<Rightarrow> open_charge_result" where
  "bare_result (ChargeCreated c) = ChargeCreated (bare c)"
| "bare_result (ChargeReplayed c r) = ChargeReplayed (bare c) r"
| "bare_result ChargeFingerprintMismatch = ChargeFingerprintMismatch"

datatype ledger_answer =
    ACharge "ledger_error + open_charge_result"
  | ARefund "ledger_error + open_refund_result"
  | AMaterialised "charge option"
  | ARefundMaterialised "refund option"
  | AAttempt nat
  | ADone

fun run_pg :: "ledger_op \<Rightarrow> postgres_ledger \<Rightarrow> ledger_answer \<times> postgres_ledger" where
  "run_pg (OpenCharge cid now i) d =
     (case pg_openCharge cid now i d of (r, d') \<Rightarrow> (ACharge (map_sum id bare_result r), d'))"
| "run_pg (MaterialiseCharge cid st t) d =
     (case pg_materialiseCharge cid st t d of (r, d') \<Rightarrow> (AMaterialised (map_option bare r), d'))"
| "run_pg (Recover cid key corr) d = (ADone, pg_recover cid key corr d)"
| "run_pg (OpenRefund rid now i) d = (case pg_openRefund rid now i d of (r, d') \<Rightarrow> (ARefund r, d'))"
| "run_pg (MaterialiseRefund rid t) d =
     (case pg_materialiseRefund rid t d of (r, d') \<Rightarrow> (ARefundMaterialised r, d'))"
| "run_pg (NextAttempt cid) d = (case pg_nextAttempt cid d of (n, d') \<Rightarrow> (AAttempt n, d'))"

fun run_mem :: "ledger_op \<Rightarrow> memory_ledger \<Rightarrow> ledger_answer \<times> memory_ledger" where
  "run_mem (OpenCharge cid now i) m =
     (case mem_openCharge cid now i m of (r, m') \<Rightarrow> (ACharge (map_sum id bare_result r), m'))"
| "run_mem (MaterialiseCharge cid st t) m =
     (case mem_materialiseCharge cid st t m of (r, m') \<Rightarrow> (AMaterialised (map_option bare r), m'))"
| "run_mem (Recover cid key corr) m = (ADone, mem_recover cid key corr m)"
| "run_mem (OpenRefund rid now i) m = (case mem_openRefund rid now i m of (r, m') \<Rightarrow> (ARefund r, m'))"
| "run_mem (MaterialiseRefund rid t) m =
     (case mem_materialiseRefund rid t m of (r, m') \<Rightarrow> (ARefundMaterialised r, m'))"
| "run_mem (NextAttempt cid) m = (case mem_nextAttempt cid m of (n, m') \<Rightarrow> (AAttempt n, m'))"

fun answers :: "(ledger_op \<Rightarrow> 's \<Rightarrow> ledger_answer \<times> 's) \<Rightarrow> ledger_op list \<Rightarrow> 's \<Rightarrow> ledger_answer list" where
  "answers run [] s = []"
| "answers run (op # ops) s = (case run op s of (a, s') \<Rightarrow> a # answers run ops s')"

text \<open>
  The operations compared: ids minted by an operation are fresh, amounts are positive, an empty
  request id is no request id, and a refund is not retried after a refusal.
\<close>

fun op_ok :: "ledger_op \<Rightarrow> postgres_ledger \<Rightarrow> bool" where
  "op_ok (OpenCharge cid now i) d \<longleftrightarrow>
     find_charge cid d = None \<and> 0 < oc_amountMinor i \<and> oc_correlationId i \<noteq> Some []"
| "op_ok (Recover cid key corr) d \<longleftrightarrow> corr \<noteq> Some []"
| "op_ok (OpenRefund rid now i) d \<longleftrightarrow>
     find_refund rid d = None \<and> rid \<notin> ir_resource_id ` set (pg_idempotency d) \<and> 0 < or_amountMinor i
     \<and> (case find_key RefundScope (or_idempotencyKey i) d of None \<Rightarrow> True
        | Some r \<Rightarrow> find_refund (ir_resource_id r) d \<noteq> None)"
| "op_ok _ d \<longleftrightarrow> True"

fun ops_ok :: "ledger_op list \<Rightarrow> postgres_ledger \<Rightarrow> bool" where
  "ops_ok [] d \<longleftrightarrow> True"
| "ops_ok (op # ops) d \<longleftrightarrow> op_ok op d \<and> ops_ok ops (snd (run_pg op d))"

section \<open>The simulation\<close>

definition same_charges :: "postgres_ledger \<Rightarrow> memory_ledger \<Rightarrow> bool" where
  "same_charges d m \<longleftrightarrow>
     (\<forall>cid. find_charge cid d = map_option charge_row.truncate (map_of (ml_charges m) cid))
     \<and> (\<forall>c \<in> set (pg_charges d). ch_correlation_id c \<noteq> Some [])"

definition same_refunds :: "postgres_ledger \<Rightarrow> memory_ledger \<Rightarrow> bool" where
  "same_refunds d m \<longleftrightarrow> (\<forall>rid. find_refund rid d = map_of (ml_refunds m) rid)"

definition same_keys :: "postgres_ledger \<Rightarrow> memory_ledger \<Rightarrow> bool" where
  "same_keys d m \<longleftrightarrow>
     (\<forall>k. find_key ChargeScope k d = map_of (ml_idempotency m) (charge_slot k))
     \<and> (\<forall>k. map_of (ml_idempotency m) (refund_slot k) =
          Option.bind (find_key RefundScope k d)
            (\<lambda>r. if find_refund (ir_resource_id r) d = None then None else Some r))"

definition same_ledger :: "postgres_ledger \<Rightarrow> memory_ledger \<Rightarrow> bool" where
  "same_ledger d m \<longleftrightarrow> same_charges d m \<and> same_refunds d m \<and> same_keys d m"

lemma same_ledger_empty: "same_ledger pg_empty mem_empty"
  by (simp add: same_ledger_def same_charges_def same_refunds_def same_keys_def pg_empty_def mem_empty_def
      find_charge_def find_refund_def find_key_def)

lemma toCharge_truncate [simp]: "toCharge (charge_row.truncate c) [] [] = bare c"
  by (simp add: toCharge_def bare_def charge_row.truncate_def)

lemma truncate_more_sel [simp]:
  "ch_refunded_minor (charge_row.truncate c) = ch_refunded_minor c"
  "ch_correlation_id (charge_row.truncate c) = ch_correlation_id c"
  by (simp_all add: charge_row.truncate_def)

lemma bare_bare [simp]: "bare (bare c) = bare c"
  by (simp add: bare_def)

lemma bare_toCharge [simp]: "bare (toCharge row [] []) = toCharge row [] []"
  by (simp add: toCharge_def bare_def)

lemma truncate_update [simp]:
  "charge_row.truncate (materialise_charge st t c) = materialise_charge st t (charge_row.truncate c)"
  "charge_row.truncate (new_charge cid now i) = new_charge_row cid now i"
  by (simp_all add: charge_row.truncate_def materialise_charge_def new_charge_def new_charge_row_def)

lemma same_chargesD:
  assumes "same_charges d m"
  shows "map_of (ml_charges m) cid = None \<longleftrightarrow> find_charge cid d = None"
    and "map_of (ml_charges m) cid = Some c \<Longrightarrow> find_charge cid d = Some (charge_row.truncate c)"
  using assms by (simp_all add: same_charges_def)

text \<open>Replacing one charge, in both.\<close>

lemma same_charges_update:
  assumes "same_charges d m" and "map_of (ml_charges m) cid = Some c"
    and "\<And>x. ch_id (f x) = ch_id x" and "charge_row.truncate c' = f (charge_row.truncate c)"
    and "ch_correlation_id (f (charge_row.truncate c)) \<noteq> Some []"
    and "pg_charges d' = pg_charges (update_charge cid f d)" and "ml_charges m' = AList.update cid c' (ml_charges m)"
    and "distinct (map ch_id (pg_charges d))"
  shows "same_charges d' m'"
proof -
  have row: "find_charge cid d = Some (charge_row.truncate c)" by (rule same_chargesD(2) [OF assms(1,2)])
  have "find_charge x d' = find_charge x (update_charge cid f d)" for x
    using assms(6) by (rule find_same_table(1))
  then have "find_charge x d' = map_option charge_row.truncate (map_of (ml_charges m') x)" for x
    using assms(1,4,7) row assms(2)
    by (simp add: find_charge_update assms(3) update_conv' same_charges_def)
  moreover have "ch_correlation_id x \<noteq> Some []" if "x \<in> set (pg_charges d')" for x
  proof -
    have "x \<in> set (pg_charges (update_charge cid f d))" using that assms(6) by simp
    then obtain x0 where "x0 \<in> set (pg_charges d)" "x = (if ch_id x0 = cid then f x0 else x0)"
      by (auto simp: update_charge_def set_update_where)
    moreover have "x0 = charge_row.truncate c" if "ch_id x0 = cid" "x0 \<in> set (pg_charges d)" for x0
      using distinct_map_eqD [OF assms(8) that(2), of "charge_row.truncate c"] find_charge_SomeD [OF row] that(1) by simp
    ultimately show ?thesis using assms(1,5) by (auto simp: same_charges_def)
  qed
  ultimately show ?thesis by (simp add: same_charges_def)
qed

lemma same_ledger_charges:
  assumes "same_ledger d m" and "same_charges d' m'"
    and "pg_refunds d' = pg_refunds d" "pg_idempotency d' = pg_idempotency d"
    and "ml_refunds m' = ml_refunds m" "ml_idempotency m' = ml_idempotency m"
  shows "same_ledger d' m'"
proof -
  have eq: "find_refund rid d' = find_refund rid d" "find_key sc k d' = find_key sc k d" for rid sc k
    using find_same_table(2,3) [of d' d] assms(3,4) by blast+
  have "same_refunds d' m'" using assms(1,5) by (simp add: same_ledger_def same_refunds_def eq(1))
  moreover have "same_keys d' m'" using assms(1,6) by (simp add: same_ledger_def same_keys_def eq)
  ultimately show ?thesis using assms(2) by (simp add: same_ledger_def)
qed

lemma same_ledger_update_charge:
  assumes "same_ledger d m" and "distinct (map ch_id (pg_charges d))" and "map_of (ml_charges m) cid = Some c"
    and "\<And>x. ch_id (f x) = ch_id x" and "charge_row.truncate c' = f (charge_row.truncate c)"
    and "ch_correlation_id c' \<noteq> Some []"
  shows "same_ledger (update_charge cid f d) (m\<lparr>ml_charges := AList.update cid c' (ml_charges m)\<rparr>)"
proof (rule same_ledger_charges [OF assms(1)])
  have "ch_correlation_id (f (charge_row.truncate c)) \<noteq> Some []"
    using assms(6) arg_cong [OF assms(5), of ch_correlation_id] by (simp add: charge_row.truncate_def [of c'])
  then show "same_charges (update_charge cid f d) (m\<lparr>ml_charges := AList.update cid c' (ml_charges m)\<rparr>)"
    using assms(1-5) same_charges_update [of d m cid c f c']
    by (simp add: same_ledger_def)
qed simp_all

lemma pg_inv_distinct: "pg_inv d \<Longrightarrow> distinct (map ch_id (pg_charges d))"
  by (simp add: pg_inv_def charges_inv_def)

lemma same_ledger_correlation:
  assumes "same_ledger d m" and "map_of (ml_charges m) cid = Some c"
  shows "ch_correlation_id c \<noteq> Some []"
proof -
  have "find_charge cid d = Some (charge_row.truncate c)"
    using assms by (simp add: same_ledger_def same_charges_def)
  from find_charge_SomeD [OF this] show ?thesis
    using assms(1) by (fastforce simp: same_ledger_def same_charges_def charge_row.truncate_def)
qed

lemma update_key_none: "find_key sc k d = None \<Longrightarrow> update_key sc k f d = d"
proof -
  assume "find_key sc k d = None"
  then have "update_where (\<lambda>r. (ir_scope r, ir_key r) = (sc, k)) f (pg_idempotency d) = pg_idempotency d"
    by (intro update_where_none) (auto simp: find_key_None_iff image_iff)
  then show ?thesis by (simp add: update_key_def)
qed

lemma update_charge_none: "find_charge cid d = None \<Longrightarrow> update_charge cid f d = d"
proof -
  assume "find_charge cid d = None"
  then have "update_where (\<lambda>c. ch_id c = cid) f (pg_charges d) = pg_charges d"
    by (intro update_where_none) (auto simp: find_charge_None_iff image_iff)
  then show ?thesis by (simp add: update_charge_def)
qed

text \<open>Updating the record of a key, in both.\<close>

lemma same_keys_update:
  assumes "same_ledger d m" and "find_key sc k d = Some r"
    and "\<And>r. ir_scope (f r) = ir_scope r \<and> ir_key (f r) = ir_key r \<and> ir_resource_id (f r) = ir_resource_id r"
    and "sc = RefundScope \<Longrightarrow> find_refund (ir_resource_id r) d \<noteq> None"
    and "sl = (case sc of ChargeScope \<Rightarrow> charge_slot k | RefundScope \<Rightarrow> refund_slot k)"
  shows "same_ledger (update_key sc k f d) (m\<lparr>ml_idempotency := AList.update sl (f r) (ml_idempotency m)\<rparr>)"
proof -
  have "same_keys (update_key sc k f d) (m\<lparr>ml_idempotency := AList.update sl (f r) (ml_idempotency m)\<rparr>)"
    using assms
    by (cases sc) (auto simp: same_ledger_def same_keys_def find_key_update update_conv' split: option.splits)
  then show ?thesis using assms(1) by (simp add: same_ledger_def same_charges_def same_refunds_def)
qed

lemma sim_open_charge:
  assumes "same_ledger d m" "pg_inv d" "op_ok (OpenCharge cid now i) d"
  shows "fst (run_pg (OpenCharge cid now i) d) = fst (run_mem (OpenCharge cid now i) m)
    \<and> same_ledger (snd (run_pg (OpenCharge cid now i) d)) (snd (run_mem (OpenCharge cid now i) m))"
proof (cases "find_key ChargeScope (oc_idempotencyKey i) d")
  case (Some r)
  have k: "map_of (ml_idempotency m) (charge_slot (oc_idempotencyKey i)) = Some r"
    using assms(1) Some by (simp add: same_ledger_def same_keys_def)
  show ?thesis
  proof (cases "ir_fingerprint r = oc_fingerprint i")
    case True
    have "ir_resource_id r \<in> ch_id ` set (pg_charges d)"
      using assms(2) find_key_SomeD [OF Some] by (simp add: pg_inv_def keys_inv_def)
    then obtain row where row: "find_charge (ir_resource_id r) d = Some row"
      using find_charge_None_iff by (metis not_None_eq)
    then obtain c where c: "map_of (ml_charges m) (ir_resource_id r) = Some c" "row = charge_row.truncate c"
      using assms(1) by (auto simp: same_ledger_def same_charges_def)
    show ?thesis
      using Some True row c k same_keys_update [OF assms(1) Some, of bump_replays]
      by (simp add: pg_openCharge_def pg_openCharge_body_def mem_openCharge_def Let_def bump_replays_def)
  next
    case False
    then show ?thesis using Some k assms(1)
      by (simp add: pg_openCharge_def pg_openCharge_body_def mem_openCharge_def)
  qed
next
  case None
  have k: "map_of (ml_idempotency m) (charge_slot (oc_idempotencyKey i)) = None"
    using assms(1) None by (simp add: same_ledger_def same_keys_def)
  have fresh: "cid \<notin> ch_id ` set (pg_charges d)" using assms(3) by (simp add: find_charge_None_iff)
  have key: "oc_idempotencyKey i \<notin> ch_idempotency_key ` set (pg_charges d)"
    using assms(2) None by (force simp: pg_inv_def claimed_inv_def)
  let ?d = "d\<lparr>pg_idempotency := pg_idempotency d @ [charge_claim cid now i],
      pg_charges := pg_charges d @ [new_charge_row cid now i]\<rparr>"
  let ?m = "m\<lparr>ml_charges := AList.update cid (new_charge cid now i) (ml_charges m),
      ml_idempotency := AList.update (charge_slot (oc_idempotencyKey i)) (charge_claim cid now i) (ml_idempotency m)\<rparr>"
  have "pg_openCharge cid now i d = (Inr (ChargeCreated (toCharge (new_charge_row cid now i) [] [])), ?d)"
    using None fresh key assms(3)
    by (auto simp: pg_openCharge_def pg_openCharge_body_def insert_charge_row_def charge_row_ok_def
        new_charge_row_def charge_claim_def Let_def)
  moreover have "mem_openCharge cid now i m = (Inr (ChargeCreated (new_charge cid now i)), ?m)"
    using k by (simp add: mem_openCharge_def charge_claim_def)
  moreover have "same_ledger ?d ?m"
  proof -
    have "find_charge x ?d = map_option charge_row.truncate (map_of (ml_charges ?m) x)" for x
      using assms(1,3) find_charge_insert [of x "d\<lparr>pg_idempotency := pg_idempotency d @ [charge_claim cid now i]\<rparr>" "new_charge_row cid now i"]
      by (auto simp: same_ledger_def same_charges_def update_conv' find_charge_def new_charge_row_def split: option.splits)
    then have "same_charges ?d ?m"
      using assms(1,3) by (auto simp: same_ledger_def same_charges_def new_charge_row_def)
    moreover have keys: "find_key sc x ?d = (if (sc, x) = (ChargeScope, oc_idempotencyKey i)
        then Some (charge_claim cid now i) else find_key sc x d)" for sc x
    proof -
      have "find_key sc x ?d = find_key sc x (d\<lparr>pg_idempotency := pg_idempotency d @ [charge_claim cid now i]\<rparr>)"
        by (rule find_same_table(3)) simp
      then show ?thesis using None by (auto simp: find_key_claim charge_claim_def split: option.splits)
    qed
    have refunds: "find_refund x ?d = find_refund x d" for x by (rule find_same_table(2)) simp
    have "same_refunds ?d ?m" "same_keys ?d ?m"
      using assms(1) by (simp_all add: same_ledger_def same_refunds_def same_keys_def keys refunds update_conv')
    ultimately show ?thesis by (simp add: same_ledger_def)
  qed
  ultimately show ?thesis by (simp flip: truncate_update)
qed

lemma sim_materialise_charge:
  assumes "same_ledger d m" "pg_inv d"
  shows "fst (run_pg (MaterialiseCharge cid st t) d) = fst (run_mem (MaterialiseCharge cid st t) m)
    \<and> same_ledger (snd (run_pg (MaterialiseCharge cid st t) d)) (snd (run_mem (MaterialiseCharge cid st t) m))"
proof (cases "map_of (ml_charges m) cid")
  case None
  then have "find_charge cid d = None" using assms(1) by (simp add: same_ledger_def same_charges_def)
  then show ?thesis using None assms(1) by (simp add: pg_materialiseCharge_def mem_materialiseCharge_def)
next
  case (Some c)
  then have row: "find_charge cid d = Some (charge_row.truncate c)"
    using assms(1) by (simp add: same_ledger_def same_charges_def)
  have "same_ledger (update_charge cid (materialise_charge st t) d)
      (m\<lparr>ml_charges := AList.update cid (materialise_charge st t c) (ml_charges m)\<rparr>)"
    using assms Some same_ledger_correlation [OF assms(1) Some] pg_inv_distinct [OF assms(2)]
    by (intro same_ledger_update_charge) (simp_all add: materialise_charge_def charge_row.truncate_def)
  then show ?thesis
    using Some row assms(1)
    by (simp add: pg_materialiseCharge_def mem_materialiseCharge_def toCharge_def bare_def materialise_charge_def
        charge_row.truncate_def)
qed

lemma sim_next_attempt:
  assumes "same_ledger d m" "pg_inv d"
  shows "fst (run_pg (NextAttempt cid) d) = fst (run_mem (NextAttempt cid) m)
    \<and> same_ledger (snd (run_pg (NextAttempt cid) d)) (snd (run_mem (NextAttempt cid) m))"
proof (cases "map_of (ml_charges m) cid")
  case None
  then have "find_charge cid d = None" using assms(1) by (simp add: same_ledger_def same_charges_def)
  then show ?thesis using None assms(1) by (simp add: pg_nextAttempt_def mem_nextAttempt_def)
next
  case (Some c)
  then have row: "find_charge cid d = Some (charge_row.truncate c)"
    using assms(1) by (simp add: same_ledger_def same_charges_def)
  have "same_ledger (update_charge cid (\<lambda>c. c\<lparr>ch_attempts := ch_attempts c + 1\<rparr>) d)
      (m\<lparr>ml_charges := AList.update cid (c\<lparr>ch_attempts := ch_attempts c + 1\<rparr>) (ml_charges m)\<rparr>)"
    using assms Some same_ledger_correlation [OF assms(1) Some] pg_inv_distinct [OF assms(2)]
    by (intro same_ledger_update_charge) (simp_all add: charge_row.truncate_def)
  then show ?thesis
    using Some row by (simp add: pg_nextAttempt_def mem_nextAttempt_def) (simp add: charge_row.truncate_def)
qed

lemma sim_recover:
  assumes "same_ledger d m" "pg_inv d" "corr \<noteq> Some []"
  shows "same_ledger (pg_recover cid key corr d) (mem_recover cid key corr m)"
proof -
  let ?f = "\<lambda>r. r\<lparr>ir_outcome := KeyAccepted\<rparr>"
  let ?g = "\<lambda>c. c\<lparr>ch_correlation_id := (case ch_correlation_id c of None \<Rightarrow> corr | Some x \<Rightarrow> Some x)\<rparr>"
  let ?d = "update_key ChargeScope key ?f d"
  let ?m = "case map_of (ml_idempotency m) (charge_slot key) of None \<Rightarrow> m
    | Some r \<Rightarrow> m\<lparr>ml_idempotency := AList.update (charge_slot key) (?f r) (ml_idempotency m)\<rparr>"
  have k: "find_key ChargeScope key d = map_of (ml_idempotency m) (charge_slot key)"
    using assms(1) by (simp add: same_ledger_def same_keys_def)
  have sim: "same_ledger ?d ?m"
  proof (cases "find_key ChargeScope key d")
    case None
    then have "?d = d" by (rule update_key_none)
    then show ?thesis using None k assms(1) by simp
  next
    case (Some r)
    then show ?thesis using k same_keys_update [OF assms(1) Some, of ?f] by simp
  qed
  have inv: "pg_inv ?d" using assms(2) by (rule pg_inv_update_key) simp
  show ?thesis
  proof (cases "map_of (ml_charges ?m) cid")
    case None
    then have "find_charge cid ?d = None" using sim by (simp add: same_ledger_def same_charges_def)
    then have "update_charge cid ?g ?d = ?d" by (rule update_charge_none)
    then show ?thesis using None sim by (simp add: pg_recover_def mem_recover_def Let_def)
  next
    case (Some c)
    have old: "ch_correlation_id c \<noteq> Some []" by (rule same_ledger_correlation [OF sim Some])
    let ?c = "if ch_correlation_id c = None then c\<lparr>ch_correlation_id := corr\<rparr> else c"
    have "same_ledger (update_charge cid ?g ?d) (?m\<lparr>ml_charges := AList.update cid ?c (ml_charges ?m)\<rparr>)"
      using old assms(3)
      by (intro same_ledger_update_charge [OF sim pg_inv_distinct [OF inv] Some]) (auto simp: charge_row.truncate_def split: option.splits)
    moreover have "same_charges e (x\<lparr>ml_charges := AList.update cid c (ml_charges x)\<rparr>) = same_charges e x"
      if "map_of (ml_charges x) cid = Some c" for e x
      using that by (auto simp: same_charges_def update_conv')
    ultimately show ?thesis using Some old
      by (auto simp: pg_recover_def mem_recover_def Let_def same_ledger_def same_refunds_def same_keys_def split: if_splits)
  qed
qed

lemma sim_materialise_refund:
  assumes "same_ledger d m"
  shows "fst (run_pg (MaterialiseRefund rid t) d) = fst (run_mem (MaterialiseRefund rid t) m)
    \<and> same_ledger (snd (run_pg (MaterialiseRefund rid t) d)) (snd (run_mem (MaterialiseRefund rid t) m))"
proof (cases "map_of (ml_refunds m) rid")
  case None
  then have "find_refund rid d = None" using assms by (simp add: same_ledger_def same_refunds_def)
  then show ?thesis using None assms by (simp add: pg_materialiseRefund_def mem_materialiseRefund_def)
next
  case (Some r)
  then have row: "find_refund rid d = Some r" using assms by (simp add: same_ledger_def same_refunds_def)
  let ?d = "d\<lparr>pg_refunds := update_where (\<lambda>r. re_id r = rid) (materialise_refund t) (pg_refunds d)\<rparr>"
  have f: "find_refund x ?d = (if x = rid then Some (materialise_refund t r) else find_refund x d)" for x
  proof (cases "x = rid")
    case True
    then show ?thesis
      using row find_update_where_key [of re_id rid "materialise_refund t" "pg_refunds d"]
      by (simp add: find_refund_def materialise_refund_def)
  next
    case False
    then show ?thesis unfolding find_refund_def
      by (simp, intro find_update_where_other) (auto simp: materialise_refund_def)
  qed
  let ?m = "m\<lparr>ml_refunds := AList.update rid (materialise_refund t r) (ml_refunds m)\<rparr>"
  have same: "find_key sc k ?d = find_key sc k d" "find_charge x ?d = find_charge x d" for sc k x
    by (rule find_same_table; simp)+
  have "find_refund x ?d = None \<longleftrightarrow> find_refund x d = None" for x using row by (simp add: f)
  then have "same_keys ?d ?m" using assms by (simp add: same_ledger_def same_keys_def same)
  moreover have "same_refunds ?d ?m" using assms by (simp add: same_ledger_def same_refunds_def f update_conv')
  moreover have "same_charges ?d ?m" using assms by (simp add: same_ledger_def same_charges_def same)
  ultimately have "same_ledger ?d ?m" by (simp add: same_ledger_def)
  then show ?thesis using Some row assms by (simp add: pg_materialiseRefund_def mem_materialiseRefund_def)
qed

text \<open>A refund key claimed without a refund is invisible to the other ledger.\<close>

lemma sim_claim_refund:
  assumes "same_ledger d m" and "find_key RefundScope (ir_key r) d = None" "ir_scope r = RefundScope"
    and "find_refund (ir_resource_id r) d = None"
  shows "same_ledger (d\<lparr>pg_idempotency := pg_idempotency d @ [r]\<rparr>) m"
proof -
  let ?d = "d\<lparr>pg_idempotency := pg_idempotency d @ [r]\<rparr>"
  have same: "find_charge x ?d = find_charge x d" "find_refund x ?d = find_refund x d" for x
    by (rule find_same_table; simp)+
  have "find_key sc k ?d = (if (sc, k) = (RefundScope, ir_key r) then Some r else find_key sc k d)" for sc k
    using assms(2,3) by (auto simp: find_key_claim split: option.splits)
  then have "same_keys ?d m" using assms by (auto simp: same_ledger_def same_keys_def same)
  then show ?thesis using assms(1) by (simp add: same_ledger_def same_charges_def same_refunds_def same)
qed

text \<open>A refund and its key, in both.\<close>

lemma sim_insert_refund:
  assumes "same_ledger d m" and "find_key RefundScope (ir_key k) d = None" "ir_scope k = RefundScope"
    and "find_refund (re_id r) d = None" "ir_resource_id k = re_id r"
    and "re_id r \<notin> ir_resource_id ` set (pg_idempotency d)"
  shows "same_ledger (d\<lparr>pg_idempotency := pg_idempotency d @ [k], pg_refunds := pg_refunds d @ [r]\<rparr>)
    (m\<lparr>ml_refunds := AList.update (re_id r) r (ml_refunds m),
       ml_idempotency := AList.update (refund_slot (ir_key k)) k (ml_idempotency m)\<rparr>)"
    (is "same_ledger ?d ?m")
proof -
  have charges: "find_charge x ?d = find_charge x d" for x by (rule find_same_table(1)) simp
  have refunds: "find_refund x ?d = (if x = re_id r then Some r else find_refund x d)" for x
    using assms(4) find_refund_insert [of x "d\<lparr>pg_idempotency := pg_idempotency d @ [k]\<rparr>" r]
    by (auto simp: find_refund_def split: option.splits)
  have "find_key sc x ?d = find_key sc x (d\<lparr>pg_idempotency := pg_idempotency d @ [k]\<rparr>)" for sc x
    by (rule find_same_table(3)) simp
  then have keys: "find_key sc x ?d = (if (sc, x) = (RefundScope, ir_key k) then Some k else find_key sc x d)" for sc x
    using assms(2,3) by (auto simp: find_key_claim split: option.splits)
  have old: "ir_resource_id x \<noteq> re_id r" if "find_key sc y d = Some x" for sc y x
    using find_key_SomeD [OF that] assms(6) by (metis image_eqI)
  have "Option.bind (find_key RefundScope y d)
        (\<lambda>x. if find_refund (ir_resource_id x) ?d = None then None else Some x)
    = Option.bind (find_key RefundScope y d)
        (\<lambda>x. if find_refund (ir_resource_id x) d = None then None else Some x)" for y
    using old by (cases "find_key RefundScope y d") (auto simp: refunds)
  then have "same_keys ?d ?m"
    using assms(1,5) by (auto simp: same_ledger_def same_keys_def keys update_conv' refunds simp del: find_key_update)
  moreover have "same_refunds ?d ?m" using assms(1) by (simp add: same_ledger_def same_refunds_def refunds update_conv')
  moreover have "same_charges ?d ?m" using assms(1) by (simp add: same_ledger_def same_charges_def charges)
  ultimately show ?thesis by (simp add: same_ledger_def)
qed

lemma new_refund_truncate [simp]: "new_refund rid now i (charge_row.truncate c) = new_refund rid now i c"
  by (simp add: new_refund_def charge_row.truncate_def split: option.split)

lemma sim_open_refund:
  assumes "same_ledger d m" "pg_inv d" "op_ok (OpenRefund rid now i) d"
  shows "fst (run_pg (OpenRefund rid now i) d) = fst (run_mem (OpenRefund rid now i) m)
    \<and> same_ledger (snd (run_pg (OpenRefund rid now i) d)) (snd (run_mem (OpenRefund rid now i) m))"
proof (cases "find_key RefundScope (or_idempotencyKey i) d")
  case (Some r)
  then obtain row where row: "find_refund (ir_resource_id r) d = Some row"
    using assms(3) by auto
  have k: "map_of (ml_idempotency m) (refund_slot (or_idempotencyKey i)) = Some r"
    using assms(1) Some row by (simp add: same_ledger_def same_keys_def)
  have row': "map_of (ml_refunds m) (ir_resource_id r) = Some row"
    using assms(1) row by (simp add: same_ledger_def same_refunds_def)
  have "same_ledger (update_key RefundScope (or_idempotencyKey i) bump_replays d)
      (m\<lparr>ml_idempotency := AList.update (refund_slot (or_idempotencyKey i)) (bump_replays r) (ml_idempotency m)\<rparr>)"
    using same_keys_update [OF assms(1) Some, of bump_replays] row by (simp add: bump_replays_def)
  then show ?thesis
    using Some row k row' assms(1)
    by (simp add: pg_openRefund_def tx_simps pg_openRefund_body_def mem_openRefund_def Let_def)
next
  case None
  have k: "map_of (ml_idempotency m) (refund_slot (or_idempotencyKey i)) = None"
    using assms(1) None by (simp add: same_ledger_def same_keys_def)
  let ?k = "refund_claim rid now i"
  have refused: "same_ledger (d\<lparr>pg_idempotency := pg_idempotency d @ [?k]\<rparr>) m"
    using sim_claim_refund [OF assms(1), of ?k] None assms(3) by (simp add: refund_claim_def)
  show ?thesis
  proof (cases "map_of (ml_charges m) (or_chargeId i)")
    case None': None
    then have "find_charge (or_chargeId i) d = None" using assms(1) by (simp add: same_ledger_def same_charges_def)
    then show ?thesis using None k None' refused
      by (simp add: pg_openRefund_def transaction_def pg_openRefund_body_def mem_openRefund_def refund_claim_def Let_def)
  next
    case (Some c)
    then have row: "find_charge (or_chargeId i) d = Some (charge_row.truncate c)"
      using assms(1) by (simp add: same_ledger_def same_charges_def)
    then have cid: "ch_id c = or_chargeId i" "or_chargeId i \<in> ch_id ` set (pg_charges d)"
      using find_charge_SomeD [OF row] by (simp, metis image_eqI truncate_sel(1))
    show ?thesis
    proof (cases "ch_materialised c \<and> ch_status c = Succeeded \<and> ch_refunded_minor c + or_amountMinor i \<le> ch_amount_minor c")
      case False
      then show ?thesis using None k Some row refused
        by (auto simp: pg_openRefund_def transaction_def pg_openRefund_body_def mem_openRefund_def refund_claim_def Let_def)
    next
      case True
      let ?r = "new_refund rid now i c"
      let ?f = "\<lambda>c. c\<lparr>ch_refunded_minor := ch_refunded_minor c + or_amountMinor i\<rparr>"
      let ?c = "c\<lparr>ch_refund_ids := ch_refund_ids c @ [rid], ch_refunded_minor := ch_refunded_minor c + or_amountMinor i\<rparr>"
      let ?d = "d\<lparr>pg_idempotency := pg_idempotency d @ [?k], pg_refunds := pg_refunds d @ [?r]\<rparr>"
      let ?m = "m\<lparr>ml_refunds := AList.update rid ?r (ml_refunds m),
        ml_idempotency := AList.update (refund_slot (or_idempotencyKey i)) ?k (ml_idempotency m)\<rparr>"
      have r: "re_id ?r = rid" "re_idempotency_key ?r = or_idempotencyKey i" "re_amount_minor ?r = or_amountMinor i"
        "re_charge_id ?r = or_chargeId i" by (simp_all add: new_refund_def cid)
      have fresh: "rid \<notin> re_id ` set (pg_refunds d)" using assms(3) by (simp add: find_refund_None_iff)
      have "or_idempotencyKey i \<notin> re_idempotency_key ` set (pg_refunds d)"
        using assms(2) None by (force simp: pg_inv_def refunds_inv_def)
      then have inserted: "insert_refund_row ?r (d\<lparr>pg_idempotency := pg_idempotency d @ [?k]\<rparr>) = Inr ?d"
        using fresh cid(2) assms(3) by (simp add: insert_refund_row_def r)
      have "same_ledger ?d ?m"
        using sim_insert_refund [OF assms(1), of ?k ?r] None assms(3) by (simp add: r refund_claim_def)
      moreover have "distinct (map ch_id (pg_charges ?d))" using pg_inv_distinct [OF assms(2)] by simp
      moreover have "charge_row.truncate ?c = ?f (charge_row.truncate c)" by (simp add: charge_row.truncate_def)
      ultimately have "same_ledger (update_charge (or_chargeId i) ?f ?d) (?m\<lparr>ml_charges := AList.update (or_chargeId i) ?c (ml_charges ?m)\<rparr>)"
        using Some same_ledger_correlation [OF assms(1) Some] by (intro same_ledger_update_charge) simp_all
      moreover have "run_pg (OpenRefund rid now i) d = (ARefund (Inr (RefundCreated ?r)), update_charge (or_chargeId i) ?f ?d)"
        using None True row inserted cid(1)
        by (simp add: pg_openRefund_def transaction_def pg_openRefund_body_def refund_claim_def Let_def)
      moreover have "run_mem (OpenRefund rid now i) m = (ARefund (Inr (RefundCreated ?r)),
          ?m\<lparr>ml_charges := AList.update (or_chargeId i) ?c (ml_charges ?m)\<rparr>)"
        using k True Some by (simp add: mem_openRefund_def refund_claim_def)
      ultimately show ?thesis by simp
    qed
  qed
qed

text \<open>One call of any kind.\<close>

lemma sim_op:
  assumes "same_ledger d m" "pg_inv d" "op_ok op d"
  shows "fst (run_pg op d) = fst (run_mem op m) \<and> same_ledger (snd (run_pg op d)) (snd (run_mem op m))"
proof (cases op)
  case (OpenCharge cid now i)
  then show ?thesis using sim_open_charge assms by blast
next
  case (MaterialiseCharge cid st t)
  then show ?thesis using sim_materialise_charge assms by blast
next
  case (Recover cid key corr)
  then show ?thesis using sim_recover assms by simp
next
  case (OpenRefund rid now i)
  then show ?thesis using sim_open_refund assms by blast
next
  case (MaterialiseRefund rid t)
  then show ?thesis using sim_materialise_refund assms by blast
next
  case (NextAttempt cid)
  then show ?thesis using sim_next_attempt assms by blast
qed

lemma run_pg_step: "pg_step d (snd (run_pg op d))"
  by (cases op) (simp_all add: split_beta pg_step.intros)

lemma run_pg_inv: "pg_inv d \<Longrightarrow> pg_inv (snd (run_pg op d))"
  using run_pg_step by (rule pg_step_inv)

lemma sim_ops:
  assumes "same_ledger d m" "pg_inv d" "ops_ok ops d"
  shows "answers run_pg ops d = answers run_mem ops m"
  using assms
proof (induction ops arbitrary: d m)
  case (Cons op ops)
  then have "fst (run_pg op d) = fst (run_mem op m)" "same_ledger (snd (run_pg op d)) (snd (run_mem op m))"
    using sim_op [of d m op] by simp_all
  moreover have "answers run_pg ops (snd (run_pg op d)) = answers run_mem ops (snd (run_mem op m))"
    using Cons.IH [OF calculation(2)] run_pg_inv Cons.prems by simp
  ultimately show ?case by (simp add: split_beta)
qed simp

end
