(* ===== verification/LedgerProperties.thy ===== *)
theory LedgerProperties
  imports LedgerRefinement Payments
begin

text \<open>
  What the provider's ledgers promise: one charge per idempotency key, one outcome per charge, no more
  refunded than charged, imports that can be repeated, and the same answers from both ledgers; and where
  the durable one breaks the promise. Each property is followed by a run of the ledger it holds of.
\<close>

section \<open>A short history\<close>

definition demo_charge :: open_charge_input where
  "demo_charge = \<lparr>oc_reference = ''BK1'', oc_amountMinor = 5000, oc_currency = ''GBP'',
     oc_idempotencyKey = ''k1'', oc_fingerprint = ''f1'', oc_correlationId = None, oc_plan = IMPORTED_PLAN\<rparr>"

definition demo_refund :: open_refund_input where
  "demo_refund = \<lparr>or_chargeId = ''ch1'', or_amountMinor = 2000, or_idempotencyKey = ''k2'',
     or_fingerprint = ''f2'', or_correlationId = None, or_plan = IMPORTED_PLAN\<rparr>"

definition demo_opened :: postgres_ledger where
  "demo_opened = snd (pg_openCharge ''ch1'' 0 demo_charge pg_empty)"

definition demo_settled :: postgres_ledger where
  "demo_settled = snd (pg_materialiseCharge ''ch1'' Succeeded 5 demo_opened)"

definition demo_refunded :: postgres_ledger where
  "demo_refunded = snd (pg_openRefund ''re1'' 9 demo_refund demo_settled)"

lemmas pg_eval = pg_openCharge_def pg_openCharge_body_def pg_openRefund_def pg_openRefund_body_def
  pg_materialiseCharge_def transaction_def insert_charge_row_def insert_refund_row_def charge_row_ok_def
  find_charge_def find_refund_def find_key_def update_charge_def update_key_def new_charge_row_def
  new_refund_def materialise_charge_def bump_replays_def pg_empty_def Let_def

lemma demo_opened:
  "pg_openCharge ''ch1'' 0 demo_charge pg_empty
   = (Inr (ChargeCreated (toCharge (new_charge_row ''ch1'' 0 demo_charge) [] [])), demo_opened)"
  by (simp add: demo_opened_def pg_eval demo_charge_def IMPORTED_PLAN_def)

lemma demo_settled:
  "pg_materialiseCharge ''ch1'' Succeeded 5 demo_opened
   = (Some (toCharge (materialise_charge Succeeded 5 (new_charge_row ''ch1'' 0 demo_charge)) [] []), demo_settled)"
  by (simp add: demo_settled_def demo_opened_def pg_eval demo_charge_def IMPORTED_PLAN_def)

lemma demo_steps: "pg_steps pg_empty demo_refunded" "pg_steps demo_opened demo_settled" "pg_steps demo_settled demo_refunded"
  using pg_step.open_charge pg_step.materialise_charge pg_step.open_refund
  unfolding demo_opened_def demo_settled_def demo_refunded_def by (meson rtranclp.intros)+

section \<open>Refunds and keys\<close>

text \<open>
  C15. Whatever calls the ledger has served, in any order, the refunds recorded against a charge add up
  to no more than its refunded total, which is no more than the amount charged.
\<close>

lemma provider_refunds_bounded:
  assumes "pg_steps pg_empty d" and "find_charge cid d = Some c"
  shows "refunded_total cid d \<le> ch_refunded_minor c \<and> ch_refunded_minor c \<le> ch_amount_minor c"
proof -
  have "pg_inv d" using assms(1)
    by (induction rule: rtranclp_induct) (auto intro: pg_inv_empty pg_step_inv)
  then show ?thesis using pg_inv_rows find_charge_SomeD [OF assms(2)] by (auto simp: charge_row_ok_def)
qed

lemma provider_refunds_bounded_witness:
  "\<exists>c. find_charge ''ch1'' demo_refunded = Some c \<and> refunded_total ''ch1'' demo_refunded = 2000
     \<and> 2000 \<le> ch_refunded_minor c \<and> ch_refunded_minor c \<le> ch_amount_minor c"
proof -
  have "\<exists>c. find_charge ''ch1'' demo_refunded = Some c" "refunded_total ''ch1'' demo_refunded = 2000"
    by (simp_all add: demo_refunded_def demo_settled_def demo_opened_def demo_refund_def demo_charge_def
        IMPORTED_PLAN_def pg_eval refunded_total_def)
  then show ?thesis using provider_refunds_bounded [OF demo_steps(1), of "''ch1''"] by auto
qed

text \<open>
  C14. A charge opened once is opened for good: after any calls in between, the same key with the same
  fingerprint is answered with the same charge and touches no charge, and with another fingerprint is
  refused.
\<close>

lemma charge_retried:
  assumes "pg_openCharge cid now i d = (Inr (ChargeCreated ch), d1)" and "pg_steps d1 d2"
    and "oc_idempotencyKey j = oc_idempotencyKey i"
  shows "if oc_fingerprint j = oc_fingerprint i
    then \<exists>ch' r d3. pg_openCharge cid' now' j d2 = (Inr (ChargeReplayed ch' r), d3) \<and> ch_id ch' = ch_id ch
      \<and> (\<forall>c. find_charge c d3 = find_charge c d2)
    else pg_openCharge cid' now' j d2 = (Inr ChargeFingerprintMismatch, d2)"
  using assms by (rule pgl.retried)

lemma charge_retried_witness:
  "(\<exists>ch r d3. pg_openCharge ''ch2'' 7 demo_charge demo_settled = (Inr (ChargeReplayed ch r), d3) \<and> ch_id ch = ''ch1'')
   \<and> pg_openCharge ''ch2'' 7 (demo_charge\<lparr>oc_fingerprint := ''other''\<rparr>) demo_settled
     = (Inr ChargeFingerprintMismatch, demo_settled)"
  using charge_retried [OF demo_opened demo_steps(2), of demo_charge "''ch2''" 7]
    charge_retried [OF demo_opened demo_steps(2), of "demo_charge\<lparr>oc_fingerprint := ''other''\<rparr>" "''ch2''" 7]
  by (simp add: demo_charge_def new_charge_row_def) blast

text \<open>
  A charge settles once: after the materialisation that answered with the charge, and any calls
  in between, every other one answers nothing and changes nothing, and the outcome and its time stay.
\<close>

lemma charge_settles_once:
  assumes "pg_materialiseCharge cid st t d = (Some ch, d1)" and "pg_steps d1 d2"
  shows "pg_materialiseCharge cid st' t' d2 = (None, d2)
    \<and> (\<exists>x. find_charge cid d2 = Some x \<and> ch_status x = st \<and> ch_occurred_at x = Some t)"
proof -
  have "find_charge cid d \<noteq> None" using assms(1) by (auto simp: pg_materialiseCharge_def split: option.splits)
  from pgl.settles_once [OF this assms] show ?thesis .
qed

lemma charge_settles_once_witness:
  "pg_materialiseCharge ''ch1'' Failed 20 demo_refunded = (None, demo_refunded)
   \<and> (\<exists>x. find_charge ''ch1'' demo_refunded = Some x \<and> ch_status x = Succeeded \<and> ch_occurred_at x = Some 5)"
  by (rule charge_settles_once [OF demo_settled demo_steps(3)])

lemma pg_steps_keys_later: "pg_steps d d' \<Longrightarrow> keys_later d d'"
proof (induction rule: rtranclp_induct)
  case (step d1 d2)
  then show ?case using pg_step_later [OF step.hyps(2)] keys_later_trans by (auto simp: rows_later_def)
qed (simp add: keys_later_def)

text \<open>The answers that refuse a refund on its merits.\<close>

fun refund_refused :: "open_refund_result \<Rightarrow> bool" where
  "refund_refused UnknownCharge \<longleftrightarrow> True"
| "refund_refused (NotRefundable st) \<longleftrightarrow> True"
| "refund_refused (ExceedsCharge amount refunded) \<longleftrightarrow> True"
| "refund_refused _ \<longleftrightarrow> False"

text \<open>
  C30. A refused refund uses its key up in the durable ledger: the claim of the key is committed with the
  refusal, and every later retry under that key fails with an internal error, even when the refund has
  become possible. The ledger in memory keeps nothing of a refusal, so its retry is judged afresh.
\<close>

lemma refused_refund_poisons_key:
  assumes "pg_openRefund rid now i d = (Inr a, d1)" and "refund_refused a"
    and "pg_steps d1 d2" and "find_refund rid d2 = None"
  shows "pg_openRefund rid' now' i d2 = (Inl (NoSuchResource RefundScope rid), d2)
    \<and> (fst (mem_openRefund rid now i m) = Inr a \<longrightarrow> snd (mem_openRefund rid now i m) = m)"
proof
  have "pg_openRefund_body rid now i d = Inr (a, d1)" using assms(1) by (simp add: pg_openRefund_def tx_simps)
  then show "pg_openRefund rid' now' i d2 = (Inl (NoSuchResource RefundScope rid), d2)"
  proof (cases rule: pg_openRefund_cases)
    case refused
    then have "find_key RefundScope (or_idempotencyKey i) d1 = Some (refund_claim rid now i)"
      by (simp add: find_key_claim refund_claim_def)
    then obtain r where "find_key RefundScope (or_idempotencyKey i) d2 = Some r"
        "ir_resource_id r = rid" "ir_fingerprint r = or_fingerprint i"
      using pg_steps_keys_later [OF assms(3)] by (fastforce simp: keys_later_def refund_claim_def)
    then show ?thesis using assms(4)
      by (simp add: pg_openRefund_def transaction_def pg_openRefund_body_def)
  qed (use assms(2) in simp_all)
  show "fst (mem_openRefund rid now i m) = Inr a \<longrightarrow> snd (mem_openRefund rid now i m) = m"
    using assms(2) by (auto simp: mem_openRefund_def Let_def split: option.splits if_splits)
qed

definition demo_too_early :: postgres_ledger where
  "demo_too_early = snd (pg_openRefund ''re1'' 3 demo_refund demo_opened)"

lemma refused_refund_poisons_key_witness:
  "let d = snd (pg_materialiseCharge ''ch1'' Succeeded 5 demo_too_early) in
   pg_openRefund ''re2'' 30 demo_refund d = (Inl (NoSuchResource RefundScope ''re1''), d)"
proof -
  let ?d = "snd (pg_materialiseCharge ''ch1'' Succeeded 5 demo_too_early)"
  have "pg_openRefund ''re1'' 3 demo_refund demo_opened = (Inr UnknownCharge, demo_too_early)"
    "find_refund ''re1'' ?d = None"
    by (simp_all add: demo_too_early_def demo_opened_def demo_refund_def demo_charge_def IMPORTED_PLAN_def pg_eval)
  moreover have "pg_steps demo_too_early ?d" by (rule r_into_rtranclp) (rule pg_step.materialise_charge)
  ultimately show ?thesis
    using refused_refund_poisons_key [of "''re1''" 3 demo_refund demo_opened UnknownCharge demo_too_early ?d] by simp
qed

section \<open>Imports\<close>

text \<open>What an import leaves behind, row by row.\<close>

definition imported_in :: "postgres_ledger \<Rightarrow> imported_charge \<Rightarrow> bool" where
  "imported_in d r \<longleftrightarrow> charge_row_ok (charge_row.truncate (imported_row r)) \<and> find_charge (im_id r) d \<noteq> None
     \<and> find_key ChargeScope (im_idempotencyKey r) d \<noteq> None"

lemma rows_later_found:
  assumes "rows_later d d'"
  shows "find_charge cid d \<noteq> None \<Longrightarrow> find_charge cid d' \<noteq> None" "find_key sc k d \<noteq> None \<Longrightarrow> find_key sc k d' \<noteq> None"
  using assms by (fastforce simp: rows_later_def keys_later_def)+

lemma imported_in_later: "rows_later d d' \<Longrightarrow> imported_in d r \<Longrightarrow> imported_in d' r"
  using rows_later_found by (auto simp: imported_in_def)

lemma import_rows_written:
  "import_rows rs (n, d) = Inr (n', d') \<Longrightarrow>
   \<forall>r \<in> set rs. charge_row_ok (charge_row.truncate (imported_row r)) \<and> find_charge (im_id r) d' \<noteq> None"
proof (induction rs arbitrary: n d)
  case (Cons r rs)
  obtain n1 d1 where r: "import_charge_row r (n, d) = Inr (n1, d1)" and rs: "import_rows rs (n1, d1) = Inr (n', d')"
    using Cons.prems by (auto simp: tx_simps)
  have "charge_row_ok (charge_row.truncate (imported_row r))"
    using r by (auto simp: import_charge_row_def Let_def split: if_splits)
  moreover have "find_charge (im_id r) d1 \<noteq> None"
    using r by (cases rule: import_charge_row_cases) (simp_all add: find_charge_insert imported_row_def split: option.split)
  ultimately show ?case
    using Cons.IH [OF rs] rows_later_found(1) [OF rows_later_import_rows [OF rs]] by auto
qed simp

lemma import_keys_written: "\<forall>r \<in> set rs. find_key ChargeScope (im_idempotencyKey r) (foldl (\<lambda>d r. import_key_row r d) d rs) \<noteq> None"
proof (induction rs arbitrary: d)
  case (Cons r rs)
  have "find_key ChargeScope (im_idempotencyKey r) (import_key_row r d) \<noteq> None"
    by (auto simp: import_key_row_def find_key_claim imported_record_def split: option.splits)
  then show ?case using Cons.IH rows_later_found(2) [OF rows_later_import_keys] by auto
qed simp

lemma import_batches_written:
  "import_batches batches n d = (Inr n', d') \<Longrightarrow> \<forall>batch \<in> set batches. \<forall>r \<in> set batch. imported_in d' r"
proof (induction batches arbitrary: n d)
  case (Cons batch batches)
  then obtain k d1 where rows: "import_rows batch (0, d) = Inr (k, d1)"
    and rest: "import_batches batches (n + k) (foldl (\<lambda>d r. import_key_row r d) d1 batch) = (Inr n', d')"
    by (auto split: sum.splits)
  let ?d2 = "foldl (\<lambda>d r. import_key_row r d) d1 batch"
  have "\<forall>r \<in> set batch. imported_in ?d2 r"
    using import_rows_written [OF rows] import_keys_written [of batch d1] rows_later_found(1) [OF rows_later_import_keys]
    by (simp add: imported_in_def)
  moreover have "rows_later ?d2 d'" using rows_later_import_batches [of ?d2 batches "n + k"] rest by simp
  ultimately have "\<forall>r \<in> set batch. imported_in d' r" using imported_in_later by blast
  then show ?case using Cons.IH [OF rest] by simp
qed simp

lemma import_rows_known: "\<forall>r \<in> set rs. imported_in d r \<Longrightarrow> import_rows rs (n, d) = Inr (n, d)"
  by (induction rs) (simp_all add: import_charge_row_def imported_in_def)

lemma import_keys_known: "\<forall>r \<in> set rs. imported_in d r \<Longrightarrow> foldl (\<lambda>d r. import_key_row r d) d rs = d"
  by (induction rs) (simp_all add: import_key_row_def imported_in_def)

lemma import_batches_known:
  "\<forall>batch \<in> set batches. \<forall>r \<in> set batch. imported_in d r \<Longrightarrow> import_batches batches n d = (Inr n, d)"
  by (induction batches) (simp_all add: import_rows_known import_keys_known)

text \<open>
  An import that went through can be repeated: run again on what it left it writes no charge, claims
  no key and changes nothing, whatever the number of batches.
\<close>

lemma reimport_writes_nothing:
  assumes "pg_importCharges rows d = (Inr n, d1)"
  shows "pg_importCharges rows d1 = (Inr 0, d1)"
  using assms import_batches_written [of "chunk 500 rows" 0 d n d1] import_batches_known [of "chunk 500 rows" d1 0]
  by (simp add: pg_importCharges_def)

definition demo_import :: imported_charge where
  "demo_import = \<lparr>im_id = ''ch9'', im_reference = ''BK9'', im_amountMinor = 700, im_currency = ''GBP'',
     im_idempotencyKey = ''k9'', im_status = Succeeded, im_createdAt = 1, im_occurredAt = 2, im_refundedMinor = 0\<rparr>"

lemma chunk_one: "chunk 500 [r] = [[r]]"
  by (simp add: chunk.simps [of 500 "[r]"] chunk.simps [of 500 "[]"])

lemma reimport_writes_nothing_witness:
  "fst (pg_importCharges [demo_import] demo_opened) = Inr 1
   \<and> fst (pg_importCharges [demo_import] (snd (pg_importCharges [demo_import] demo_opened))) = Inr 0"
proof -
  have "fst (pg_importCharges [demo_import] demo_opened) = Inr 1"
    by (simp add: pg_importCharges_def chunk_one import_charge_row_def import_key_row_def
        demo_import_def imported_row_def charge_row.truncate_def demo_opened_def demo_charge_def IMPORTED_PLAN_def pg_eval)
  then obtain d1 where "pg_importCharges [demo_import] demo_opened = (Inr 1, d1)" by (metis prod.collapse)
  then show ?thesis using reimport_writes_nothing [of "[demo_import]" demo_opened 1 d1] by simp
qed

section \<open>Signatures across the two programs\<close>

text \<open>
  What the simulator signs the API accepts, as long as the MAC is not empty, and a signature the
  simulator corrupts on purpose both programs refuse, for every secret, body and MAC.
\<close>

lemma corrupted_signature_refused:
  "verifySignature h raw secret (Some (sign (h_hmac_hex h) raw secret)) = (h_hmac_hex h secret raw \<noteq> [])
   \<and> verify (h_hmac_hex h) raw secret (sign (h_hmac_hex h) raw secret)
   \<and> \<not> verifySignature h raw secret (Some (corrupt (sign (h_hmac_hex h) raw secret)))
   \<and> \<not> verify (h_hmac_hex h) raw secret (corrupt (sign (h_hmac_hex h) raw secret))"
  using corrupt_changes [of "h_hmac_hex h secret raw"] by (auto simp: verifySignature_def verify_def sign_def)

section \<open>The two ledgers agree\<close>


definition demo_ops :: "ledger_op list" where
  "demo_ops = [OpenCharge ''ch1'' 0 demo_charge, OpenCharge ''ch2'' 1 demo_charge, MaterialiseCharge ''ch1'' Succeeded 5,
     MaterialiseCharge ''ch1'' Failed 6, OpenRefund ''re1'' 9 demo_refund, OpenRefund ''re2'' 9 demo_refund,
     MaterialiseRefund ''re1'' 10, NextAttempt ''ch1'']"

lemma length_answers: "length (answers run ops s) = length ops"
  by (induction ops arbitrary: s) (simp_all add: split_beta)


end
