(* ===== verification/PaygateProperties.thy ===== *)
theory PaygateProperties
  imports PaygateSteps LedgerProperties
begin

text \<open>
  Properties of the simulator as a whole: its webhooks speak the truth, and a charge whose request died
  between the claim of its key and its outcome is accepted for ever and never decided.
\<close>

section \<open>A charge that never settles\<close>

text \<open>
  Undecided, and every key that leads to it answers as accepted: no retry will take the recovery path.
\<close>

definition stuck :: "string \<Rightarrow> postgres_ledger \<Rightarrow> bool" where
  "stuck cid d \<longleftrightarrow> (\<exists>x. find_charge cid d = Some x \<and> \<not> ch_materialised x \<and> ch_status x = Processing)
     \<and> (\<forall>r \<in> set (pg_idempotency d). ir_scope r = ChargeScope \<longrightarrow> ir_resource_id r = cid \<longrightarrow> ir_outcome r = KeyAccepted)"

lemma stuck_frame:
  assumes "stuck cid d"
    and "\<And>x. find_charge cid d = Some x \<Longrightarrow> \<exists>x'. find_charge cid d' = Some x'
      \<and> ch_materialised x' = ch_materialised x \<and> ch_status x' = ch_status x"
    and "\<And>r. r \<in> set (pg_idempotency d') \<Longrightarrow> ir_scope r = ChargeScope \<Longrightarrow> ir_resource_id r = cid \<Longrightarrow>
      ir_outcome r = KeyAccepted \<or> r \<in> set (pg_idempotency d)
      \<or> (\<exists>r0 \<in> set (pg_idempotency d). ir_scope r0 = ChargeScope \<and> ir_resource_id r0 = cid \<and> ir_outcome r = ir_outcome r0)"
  shows "stuck cid d'"
  unfolding stuck_def
proof (intro conjI ballI impI)
  show "\<exists>x. find_charge cid d' = Some x \<and> \<not> ch_materialised x \<and> ch_status x = Processing"
    using assms(1,2) unfolding stuck_def by metis
  fix r assume "r \<in> set (pg_idempotency d')" "ir_scope r = ChargeScope" "ir_resource_id r = cid"
  then show "ir_outcome r = KeyAccepted" using assms(1) assms(3) [of r] unfolding stuck_def by metis
qed

lemma stuck_same: "stuck cid d \<Longrightarrow> pg_charges d' = pg_charges d \<Longrightarrow> pg_idempotency d' = pg_idempotency d \<Longrightarrow> stuck cid d'"
  using find_same_table(1) [of d' d cid] by (auto simp: stuck_def)

lemma stuck_update_charge:
  assumes "stuck cid d" and "\<And>c. ch_id (f c) = ch_id c" "\<And>c. ch_materialised (f c) = ch_materialised c \<and> ch_status (f c) = ch_status c"
  shows "stuck cid (update_charge x f d)"
  using assms(2,3) by (intro stuck_frame [OF assms(1)]) (auto simp: find_charge_update)

lemma stuck_update_key:
  assumes "stuck cid d" and "\<And>r. ir_scope (f r) = ir_scope r \<and> ir_resource_id (f r) = ir_resource_id r"
    and "\<And>r. ir_outcome (f r) = KeyAccepted \<or> ir_outcome (f r) = ir_outcome r"
  shows "stuck cid (update_key sc k f d)"
proof (rule stuck_frame [OF assms(1)])
  fix r assume "r \<in> set (pg_idempotency (update_key sc k f d))" "ir_scope r = ChargeScope" "ir_resource_id r = cid"
  then show "ir_outcome r = KeyAccepted \<or> r \<in> set (pg_idempotency d)
      \<or> (\<exists>r0 \<in> set (pg_idempotency d). ir_scope r0 = ChargeScope \<and> ir_resource_id r0 = cid \<and> ir_outcome r = ir_outcome r0)"
    using assms(2,3) by (auto simp: update_key_def set_update_where split: if_splits) metis
qed simp

lemma stuck_claim:
  assumes "stuck cid d" and "ir_scope r = RefundScope \<or> ir_resource_id r \<noteq> cid \<or> ir_outcome r = KeyAccepted"
  shows "stuck cid (d\<lparr>pg_idempotency := pg_idempotency d @ [r]\<rparr>)"
  using assms(2) by (intro stuck_frame [OF assms(1)]) (auto simp: find_charge_def)

lemma stuck_insert: "stuck cid d \<Longrightarrow> insert_charge_row c d = Inr d' \<Longrightarrow> ch_id c \<noteq> cid \<and> stuck cid d'"
proof -
  assume a: "stuck cid d" "insert_charge_row c d = Inr d'"
  then have d': "d' = d\<lparr>pg_charges := pg_charges d @ [c]\<rparr>" "ch_id c \<notin> ch_id ` set (pg_charges d)"
    by (auto simp: insert_charge_row_def split: if_splits)
  moreover have "cid \<in> ch_id ` set (pg_charges d)" using a(1) find_charge_None_iff [of cid d] by (auto simp: stuck_def)
  moreover have "stuck cid (d\<lparr>pg_charges := pg_charges d @ [c]\<rparr>)"
    by (rule stuck_frame [OF a(1)]) (simp_all add: find_charge_insert)
  ultimately show ?thesis by auto
qed

lemma stuck_openCharge:
  assumes "stuck cid d"
  shows "stuck cid (snd (pg_openCharge i now q d))"
    and "fst (pg_openCharge i now q d) = Inr (ChargeCreated c) \<Longrightarrow> ch_id c \<noteq> cid"
    and "fst (pg_openCharge i now q d) = Inr (ChargeReplayed c r) \<Longrightarrow> ir_outcome r = KeyFailed500 \<Longrightarrow> ch_id c \<noteq> cid"
proof -
  let ?k = "charge_claim i now q"
  have made: "ch_id c = i \<and> i \<noteq> cid \<and> stuck cid d1"
    if "pg_openCharge_body i now q d = Inr (ChargeCreated c, d1)" for c d1
    using that
  proof (cases rule: pg_openCharge_cases)
    case created
    have "cid \<in> ch_id ` set (pg_charges d)" using assms find_charge_None_iff [of cid d] by (auto simp: stuck_def)
    then have "i \<noteq> cid" using created(3) by (auto simp: insert_charge_row_def new_charge_row_def split: if_splits)
    then have "stuck cid (d\<lparr>pg_idempotency := pg_idempotency d @ [?k]\<rparr>)"
      using assms by (intro stuck_claim) (auto simp: charge_claim_def)
    then show ?thesis using stuck_insert [OF _ created(3)] \<open>i \<noteq> cid\<close> created(2) by (simp add: new_charge_row_def)
  qed simp_all
  show "stuck cid (snd (pg_openCharge i now q d))" unfolding pg_openCharge_def
  proof (rule transaction_keeps)
    fix a d1 assume b: "pg_openCharge_body i now q d = Inr (a, d1)"
    from b show "stuck cid d1"
    proof (cases rule: pg_openCharge_cases)
      case created
      then show ?thesis using made b by blast
    qed (use assms in \<open>auto intro!: stuck_update_key simp: bump_replays_def\<close>)
  qed (rule assms)
  show "ch_id c \<noteq> cid" if answer: "fst (pg_openCharge i now q d) = Inr (ChargeCreated c)"
  proof -
    obtain d1 where "pg_openCharge_body i now q d = Inr (ChargeCreated c, d1)"
      using answer by (auto simp: pg_openCharge_def transaction_def split: sum.splits)
    then show ?thesis using made by blast
  qed
  show "ch_id c \<noteq> cid" if answer: "fst (pg_openCharge i now q d) = Inr (ChargeReplayed c r)" "ir_outcome r = KeyFailed500"
  proof -
    obtain d1 where "pg_openCharge_body i now q d = Inr (ChargeReplayed c r, d1)"
      using answer by (auto simp: pg_openCharge_def transaction_def split: sum.splits)
    then show ?thesis
    proof (cases rule: pg_openCharge_cases)
      case (replayed r0 row)
      then show ?thesis
        using answer(2) assms find_key_SomeD [OF replayed(1)] find_charge_SomeD [OF replayed(3)]
        by (auto simp: stuck_def bump_replays_def toCharge_def)
    qed simp_all
  qed
qed

lemma stuck_recover: "stuck cid d \<Longrightarrow> stuck cid (pg_recover x key corr d)"
  unfolding pg_recover_def by (intro stuck_update_charge stuck_update_key) simp_all

lemma stuck_openRefund: "stuck cid d \<Longrightarrow> stuck cid (snd (pg_openRefund i now q d))"
  unfolding pg_openRefund_def
proof (rule transaction_keeps)
  fix a d1 assume s: "stuck cid d" and "pg_openRefund_body i now q d = Inr (a, d1)"
  from this(2) show "stuck cid d1"
  proof (cases rule: pg_openRefund_cases)
    case refused
    then show ?thesis using s by (auto intro!: stuck_claim simp: refund_claim_def)
  next
    case (created c d2)
    have "stuck cid (d\<lparr>pg_idempotency := pg_idempotency d @ [refund_claim i now q]\<rparr>)"
      using s by (intro stuck_claim) (simp_all add: refund_claim_def)
    then have "stuck cid d2" using created(7)
      by (elim stuck_same) (auto simp: insert_refund_row_def split: if_splits)
    then show ?thesis unfolding created(8) by (rule stuck_update_charge) simp_all
  qed (use s in \<open>auto intro!: stuck_update_key simp: bump_replays_def\<close>)
qed

lemma stuck_materialiseCharge: "stuck cid d \<Longrightarrow> x \<noteq> cid \<Longrightarrow> stuck cid (snd (pg_materialiseCharge x st t d))"
  by (auto intro!: stuck_frame [of cid d] simp: pg_materialiseCharge_def find_charge_update materialise_charge_def
      split: option.splits)

lemma stuck_materialiseRefund: "stuck cid d \<Longrightarrow> stuck cid (snd (pg_materialiseRefund x t d))"
  by (auto intro: stuck_same simp: pg_materialiseRefund_def split: option.splits)

lemma stuck_nextAttempt: "stuck cid d \<Longrightarrow> stuck cid (snd (pg_nextAttempt x d))"
  by (auto intro!: stuck_update_charge simp: pg_nextAttempt_def split: option.splits)

lemma stuck_import_rows: "import_rows rs (n, d) = Inr (n', d') \<Longrightarrow> stuck cid d \<Longrightarrow> stuck cid d'"
proof (induction rs arbitrary: n d)
  case (Cons r rs)
  obtain n1 d1 where r: "import_charge_row r (n, d) = Inr (n1, d1)" and rs: "import_rows rs (n1, d1) = Inr (n', d')"
    using Cons.prems(1) by (auto simp: tx_simps)
  have "stuck cid d1"
    using r Cons.prems(2) stuck_insert by (auto simp: import_charge_row_def Let_def tx_simps split: if_splits)
  then show ?case using Cons.IH [OF rs] by blast
qed simp

lemma stuck_import_keys: "stuck cid d \<Longrightarrow> stuck cid (foldl (\<lambda>d r. import_key_row r d) d rs)"
proof (induction rs arbitrary: d)
  case (Cons r rs)
  then have "stuck cid (import_key_row r d)"
    by (auto simp: import_key_row_def imported_record_def intro!: stuck_claim)
  then show ?case using Cons.IH by simp
qed simp

lemma stuck_importCharges: "stuck cid d \<Longrightarrow> stuck cid (snd (pg_importCharges rows d))"
proof -
  have "stuck cid d \<Longrightarrow> stuck cid (snd (import_batches batches n d))" for batches n d
  proof (induction batches arbitrary: n d)
    case (Cons batch batches)
    then show ?case
      by (auto split: sum.splits dest: stuck_import_rows intro: Cons.IH stuck_import_keys)
  qed simp
  then show "stuck cid d \<Longrightarrow> stuck cid (snd (pg_importCharges rows d))" by (simp add: pg_importCharges_def)
qed

text \<open>The operations of the process.\<close>

abbreviation stays_stuck :: "string \<Rightarrow> paygate \<Rightarrow> bool" where
  "stays_stuck cid s \<equiv> stuck cid (pa_ledger s)"

lemma stuck_deliver: "stays_stuck cid s \<Longrightarrow> stays_stuck cid (snd (deliver h cfg now q s))"
proof -
  assume s: "stays_stuck cid s"
  obtain attempt l1 where n: "pg_nextAttempt (dq_chargeId q) (pa_ledger s) = (attempt, l1)" by force
  have l1: "stuck cid l1" using stuck_nextAttempt [OF s, of "dq_chargeId q"] n by simp
  have "stuck cid l2" if "pg_recordDelivery now x l1 = Inr l2" for x l2
    using that l1 by (auto simp: pg_recordDelivery_def intro: stuck_same split: if_splits)
  moreover have "stuck cid (pg_finishDelivery x l2)" if "stuck cid l2" for x l2
    using that by (auto intro: stuck_same simp: pg_finishDelivery_def)
  ultimately show ?thesis using l1
    by (auto simp: deliver_def n mint_def Let_def split: sum.split option.split)
qed

lemma stuck_schedule: "stays_stuck cid s \<Longrightarrow> stays_stuck cid (schedule h cfg now q x s)"
  using stuck_deliver by (simp add: schedule_def)

lemma stuck_dispatch: "stays_stuck cid s \<Longrightarrow> stays_stuck cid (snd (dispatch h cfg now q plan s))"
  using stuck_deliver stuck_schedule
  by (simp add: dispatch_def Let_def split_beta split: sum.split)

lemma stuck_app_materialise:
  assumes "stays_stuck cid s" and "ch_id c \<noteq> cid"
  shows "stays_stuck cid (snd (app_materialiseCharge h cfg now c s))"
proof -
  define st where "st = (if ch_amount_minor c = pc_declineAmountMinor cfg then Failed else Succeeded)"
  define t where "t = now - pl_clockSkewSeconds (ch_plan c) * 1000"
  obtain r l where m: "pg_materialiseCharge (ch_id c) st t (pa_ledger s) = (r, l)" by force
  then have "stuck cid l" using stuck_materialiseCharge [OF assms, of st t] by simp
  then show ?thesis
    by (cases r) (simp_all add: app_materialiseCharge_def Let_def m stuck_dispatch flip: st_def t_def)
qed

lemma stuck_app_materialiseRefund: "stays_stuck cid s \<Longrightarrow> stays_stuck cid (snd (app_materialiseRefund h cfg now r s))"
proof -
  assume s: "stays_stuck cid s"
  define t where "t = now - pl_clockSkewSeconds (re_plan r) * 1000"
  obtain x l where m: "pg_materialiseRefund (re_id r) t (pa_ledger s) = (x, l)" by force
  then have "stuck cid l" using stuck_materialiseRefund [OF s, of "re_id r" t] by simp
  then show ?thesis
    by (cases x) (simp_all add: app_materialiseRefund_def Let_def m stuck_dispatch flip: t_def)
qed

lemma stuck_open_charge:
  assumes "stays_stuck cid s" and "open_charge h now i s = (r, s1)"
  shows "stays_stuck cid s1"
    and "r = Inr (ChargeCreated c) \<Longrightarrow> ch_id c \<noteq> cid"
    and "r = Inr (ChargeReplayed c k) \<Longrightarrow> ir_outcome k = KeyFailed500 \<Longrightarrow> ch_id c \<noteq> cid"
  using stuck_openCharge [OF assms(1), of "newChargeId (gh_uuid h (pa_minted s))" now i] assms(2)
  by (auto simp: open_charge_def mint_def split_beta)

lemma stuck_open_refund:
  assumes "stays_stuck cid s" and "open_refund h now i s = (r, s1)"
  shows "stays_stuck cid s1"
  using stuck_openRefund [OF assms(1), of "newRefundId (gh_uuid h (pa_minted s))" now i] assms(2)
  by (auto simp: open_refund_def mint_def split_beta)

lemma stuck_post_charges:
  assumes "stays_stuck cid s"
  shows "stays_stuck cid (snd (post_charges h cfg now idem rid body s))"
proof -
  have "stays_stuck cid (snd (app_materialiseCharge h cfg now c (s1\<lparr>pa_ledger := pg_recover x key corr (pa_ledger s1)\<rparr>)))"
    if "stays_stuck cid s1" "ch_id c \<noteq> cid" for c s1 x key corr
    using that by (intro stuck_app_materialise) (simp_all add: stuck_recover)
  then show ?thesis
    using assms stuck_open_charge [OF assms] stuck_app_materialise
    by (auto simp: post_charges_def Let_def split: option.splits prod.splits sum.splits open_charge_result.splits)
qed

lemma stuck_post_refunds:
  assumes "stays_stuck cid s"
  shows "stays_stuck cid (snd (post_refunds h cfg now idem rid body s))"
  using assms stuck_open_refund [OF assms] stuck_app_materialiseRefund
  by (auto simp: post_refunds_def Let_def split: option.splits prod.splits sum.splits open_refund_result.splits)

lemma stuck_post_import:
  assumes "stays_stuck cid s"
  shows "stays_stuck cid (snd (post_import h cfg raw sig s))"
proof -
  have "stuck cid l" if "pg_importCharges rows (pa_ledger s) = (r, l)" for rows r l
    using stuck_importCharges [OF assms, of rows] that by simp
  then show ?thesis using assms
    by (auto simp: post_import_def Let_def split: option.splits prod.splits sum.splits if_splits)
qed

lemma stuck_charge_stops:
  assumes "stays_stuck cid s" and "s' \<in> set (charge_stops h cfg now key b corr s)"
  shows "stays_stuck cid s'"
proof -
  obtain r s1 where o: "open_charge h now (charge_input h cfg key b corr) s = (r, s1)" by force
  note stuck_open_charge [OF assms(1) o]
  then show ?thesis using assms(2)
    by (auto simp: charge_stops_def o Let_def settle_def stuck_recover stuck_materialiseCharge
        split: sum.splits open_charge_result.splits if_splits)
qed

lemma stuck_refund_stops:
  assumes "stays_stuck cid s" and "s' \<in> set (refund_stops h cfg now key b corr s)"
  shows "stays_stuck cid s'"
proof -
  obtain r s1 where o: "open_refund h now (refund_input h cfg key b corr) s = (r, s1)" by force
  note stuck_open_refund [OF assms(1) o]
  then show ?thesis using assms(2)
    by (auto simp: refund_stops_def o Let_def stuck_materialiseRefund
        split: sum.splits open_refund_result.splits if_splits)
qed

lemma stuck_app_step:
  assumes "app_step h cfg s s'" and "stays_stuck cid s"
  shows "stays_stuck cid s'"
  using assms
proof (cases rule: app_step.cases)
  case (delay_armed body)
  then show ?thesis using assms(2) by (auto simp: post_test_delay_def Let_def split: option.splits)
next
  case (fired now i)
  then show ?thesis using assms(2) stuck_deliver by (simp add: fire_def)
qed (use assms(2) in \<open>auto simp: restart_def close_deliverer_def stuck_post_charges stuck_post_refunds
    stuck_post_import dest: stuck_charge_stops stuck_refund_stops\<close>)

lemma stuck_app_steps: "app_steps h cfg s s' \<Longrightarrow> stays_stuck cid s \<Longrightarrow> stays_stuck cid s'"
  by (induction rule: rtranclp_induct) (auto intro: stuck_app_step)

lemma opened_is_stuck:
  assumes "pg_inv d" and "pg_openCharge cid now i d = (Inr (ChargeCreated c), d1)" and "\<not> pl_transientFailure (oc_plan i)"
  shows "stuck (ch_id c) d1"
proof -
  have "pg_openCharge_body cid now i d = Inr (ChargeCreated c, d1)" using assms(2) by (simp add: pg_openCharge_def tx_simps)
  then show ?thesis
  proof (cases rule: pg_openCharge_cases)
    case created
    have "ch_id c = cid" using created(2) by (simp add: new_charge_row_def)
    have keys: "pg_idempotency d1 = pg_idempotency d @ [charge_claim cid now i]" "cid \<notin> ch_id ` set (pg_charges d)"
      using created(3) by (auto simp: insert_charge_row_def new_charge_row_def split: if_splits)
    have "find_charge cid d1 = Some (new_charge_row cid now i)"
      using insert_charge_row_find(1) [OF created(3)] by (simp add: new_charge_row_def)
    moreover have "ir_outcome r = KeyAccepted"
      if "r \<in> set (pg_idempotency d1)" "ir_scope r = ChargeScope" "ir_resource_id r = cid" for r
    proof (cases "r = charge_claim cid now i")
      case True
      then show ?thesis using assms(3) by (simp add: charge_claim_def)
    next
      case False
      then show ?thesis using that keys assms(1) by (auto simp: pg_inv_def keys_inv_def)
    qed
    ultimately show ?thesis unfolding stuck_def \<open>ch_id c = cid\<close> by (auto simp: new_charge_row_def)
  qed simp_all
qed

section \<open>The properties\<close>

text \<open>
  C16. Every webhook the simulator has posted or holds a timer for speaks of a settled charge or refund of
  its ledger, with its amount and outcome: whatever charges, refunds, imports and delays came, in any
  order, with the process restarted or dying in between. The test route that forges deliveries is
  outside the model, and is off in production.
\<close>

lemma webhooks_truthful:
  assumes "app_steps h cfg paygate_empty s" and "q \<in> snd ` set (pa_timers s) \<union> fst ` set (pa_sent s)"
  shows "announced (pa_ledger s) q"
  using app_steps_truthful [OF assms(1) truthful_empty] assms(2) by (auto simp: truthful_def)

text \<open>
  C27. A charge accepted by a process that dies before deciding it is never decided: from then on, whatever
  happens, its row stays processing, and every retry with its key and body is answered 202 with its id.
\<close>

lemma accepted_charge_lost:
  assumes "app_steps h cfg paygate_empty s"
    and "open_charge h now (charge_input h cfg key b corr) s = (Inr (ChargeCreated c), s1)"
    and "\<not> pl_transientFailure (planFor key cfg)" and "app_steps h cfg (restart s1) s2"
    and "header idem = Some key" "key \<noteq> []" "ChargeBody body = Some b"
  shows "(\<exists>x. find_charge (ch_id c) (pa_ledger s2) = Some x \<and> ch_status x = Processing \<and> \<not> ch_materialised x)
    \<and> fst (post_charges h cfg now' idem rid body s2) = charge_accepted (ch_id c)"
proof -
  let ?cid = "newChargeId (gh_uuid h (pa_minted s))" and ?i = "charge_input h cfg key b corr"
  have opened: "pg_openCharge ?cid now ?i (pa_ledger s) = (Inr (ChargeCreated c), pa_ledger s1)"
    using assms(2) by (auto simp: open_charge_def mint_def split_beta prod_eq_iff)
  have ledger: "pg_steps pg_empty (pa_ledger s)"
    using app_steps_truthful [OF assms(1) truthful_empty] by (simp add: paygate_empty_def)
  have "truthful s" using app_steps_truthful [OF assms(1) truthful_empty] by simp
  then have "truthful (restart s1)"
    using extends_trans [OF open_charge_extends restart_extends] assms(2) by (metis extends_def snd_conv)
  then have later: "pg_steps (pa_ledger s1) (pa_ledger s2)"
    using app_steps_truthful [OF assms(4)] by (simp add: restart_def)
  have "pg_inv (pa_ledger s)" using ledger
    by (induction rule: rtranclp_induct) (auto intro: pg_inv_empty pg_step_inv)
  then have "stuck (ch_id c) (pa_ledger s1)"
    using opened_is_stuck [OF _ opened] assms(3) by (simp add: charge_input_def)
  then have stuck: "stuck (ch_id c) (pa_ledger s2)"
    using stuck_app_steps [OF assms(4)] by (simp add: restart_def)
  let ?j = "charge_input h cfg key b (header rid)"
  obtain c' r d3 where replay: "pg_openCharge (newChargeId (gh_uuid h (pa_minted s2))) now' ?j (pa_ledger s2)
      = (Inr (ChargeReplayed c' r), d3)" "ch_id c' = ch_id c"
    using pgl.retried [OF opened later, of ?j "newChargeId (gh_uuid h (pa_minted s2))" now']
    by (auto simp: charge_input_def)
  then have "ir_outcome r \<noteq> KeyFailed500"
    using stuck_openCharge(3) [OF stuck] by (metis fst_conv)
  then have "fst (post_charges h cfg now' idem rid body s2) = charge_accepted (ch_id c)"
    using replay assms(5-7) by (simp add: post_charges_def open_charge_def mint_def split_beta)
  then show ?thesis using stuck by (auto simp: stuck_def)
qed

end
