(* ===== verification/PaygateClient.thy ===== *)
theory PaygateClient
  imports PaygateApp Payments
begin

text \<open>
  \<open>apps/api/src/payments/paygate.client.ts\<close>: the provider of the API as a client of the simulator. An
  exchange over HTTP ends with an answer or with none; log lines and the bodies of the exceptions are
  left out. A property the answer lacks is \<^const>\<open>None\<close>, JavaScript's \<open>undefined\<close>.
\<close>

section \<open>Exchanges\<close>

datatype http_answer =
    NoAnswer
  | Answer nat string

definition is_ok :: "nat \<Rightarrow> bool" where
  "is_ok status \<longleftrightarrow> 200 \<le> status \<and> status \<le> 299"

definition client_post :: "host \<Rightarrow> http_answer \<Rightarrow> exn + json" where
  "client_post h answer =
     (case answer of
        NoAnswer \<Rightarrow> Inl ServiceUnavailable
      | Answer status text \<Rightarrow>
          if \<not> is_ok status then Inl BadGateway
          else or_throw (h_json_parse h text) (JsError ''SyntaxError''))"

definition client_get :: "host \<Rightarrow> http_answer \<Rightarrow> exn + json option" where
  "client_get h answer =
     (case answer of
        NoAnswer \<Rightarrow> Inl (JsError ''TypeError'')
      | Answer status text \<Rightarrow>
          if status = 404 then Inr None
          else if \<not> is_ok status then Inl BadGateway
          else result_bind (or_throw (h_json_parse h text) (JsError ''SyntaxError'')) (\<lambda>j. Inr (Some j)))"

section \<open>Requests\<close>

definition charge_payload :: "charge_request \<Rightarrow> json" where
  "charge_payload q = JObj [(''amount_minor'', JNum (js_of_int (cq_amount_minor q))),
     (''currency'', JStr (cq_currency q)), (''reference'', JStr (cq_booking_id q))]"

definition refund_payload :: "refund_request \<Rightarrow> json" where
  "refund_payload q = JObj [(''charge_id'', JStr (rq_charge_id q)),
     (''amount_minor'', JNum (js_of_int (rq_amount_minor q)))]"

text \<open>\<open>body.charge_id\<close> of an answer: reading a property of \<open>null\<close> throws.\<close>

definition json_property :: "string \<Rightarrow> json \<Rightarrow> exn + json option" where
  "json_property k j = (if j = JNull then Inl (JsError ''TypeError'') else Inr (json_field k j))"

definition client_charge :: "host \<Rightarrow> http_answer \<Rightarrow> exn + json option" where
  "client_charge h answer = result_bind (client_post h answer) (json_property ''charge_id'')"

definition client_refund :: "host \<Rightarrow> http_answer \<Rightarrow> exn + json option" where
  "client_refund h answer = result_bind (client_post h answer) (json_property ''refund_id'')"

text \<open>
  \<open>BigInt(n)\<close> of a number is defined on integers. The simulator sends a number; of another value only
  that nothing comes of it is kept.
\<close>

definition bigint_of :: "json option \<Rightarrow> exn + int" where
  "bigint_of v =
     (case v of
        Some (JNum x) \<Rightarrow> if x = of_int \<lfloor>x\<rfloor> then Inr \<lfloor>x\<rfloor> else Inl (JsError ''RangeError'')
      | _ \<Rightarrow> Inl (JsError ''TypeError''))"

record lookup =
  lk_id :: "json option"
  lk_other :: "json option"
  lk_amount_minor :: int
  lk_status :: "json option"

text \<open>The lookups share their shape: the id, the reference or charge, the amount and the status.\<close>

definition lookup_of :: "string \<Rightarrow> json \<Rightarrow> exn + lookup option" where
  "lookup_of other j =
     (if j = JNull then Inr None
      else result_bind (bigint_of (json_field ''amount_minor'' j)) (\<lambda>n.
        Inr (Some \<lparr>lk_id = json_field ''id'' j, lk_other = json_field other j, lk_amount_minor = n,
          lk_status = json_field ''status'' j\<rparr>)))"

definition client_getCharge :: "host \<Rightarrow> http_answer \<Rightarrow> exn + lookup option" where
  "client_getCharge h answer =
     result_bind (client_get h answer) (\<lambda>b. case b of None \<Rightarrow> Inr None | Some j \<Rightarrow> lookup_of ''reference'' j)"

definition client_getRefund :: "host \<Rightarrow> http_answer \<Rightarrow> exn + lookup option" where
  "client_getRefund h answer =
     result_bind (client_get h answer) (\<lambda>b. case b of None \<Rightarrow> Inr None | Some j \<Rightarrow> lookup_of ''charge_id'' j)"

section \<open>Against the simulator\<close>

definition on_the_wire :: "paygate_host \<Rightarrow> reply \<Rightarrow> http_answer" where
  "on_the_wire gh r = (case r of Reply status body \<Rightarrow> Answer status (gh_stringify gh body))"

lemma bigint_of_int [simp]: "bigint_of (Some (JNum (of_int n))) = Inr n"
  by (simp add: bigint_of_def)

lemma chargeView_fields [simp]:
  "json_field ''id'' (chargeView gh c d) = None"
  "json_field ''reference'' (chargeView gh c d) = Some (JStr (ch_reference c))"
  "json_field ''amount_minor'' (chargeView gh c d) = Some (JNum (js_of_int (ch_amount_minor c)))"
  "json_field ''status'' (chargeView gh c d) = Some (JStr (charge_status_name (ch_status c)))"
  by (simp_all add: chargeView_def)

text \<open>
  What the API reads of a charge is what the simulator's ledger holds, amount and status, unless the
  answer is lost; an unknown charge reads as null. But the id reads as undefined: the client asks for a
  property \<open>id\<close> the route does not send.
\<close>

lemma client_reads_ledger:
  assumes "h_json_parse h (gh_stringify gh (chargeView gh c (pa_ledger s))) = Some (chargeView gh c (pa_ledger s))"
    and "pg_getCharge cid (pa_ledger s) = Some c" and "\<bar>ch_amount_minor c\<bar> \<le> 2 ^ 53"
  shows "client_getCharge h (on_the_wire gh (get_charge gh cid s)) = Inr (Some \<lparr>lk_id = None,
      lk_other = Some (JStr (ch_reference c)), lk_amount_minor = ch_amount_minor c,
      lk_status = Some (JStr (charge_status_name (ch_status c)))\<rparr>)
    \<and> (pg_getCharge other (pa_ledger s) = None \<longrightarrow>
        client_getCharge h (on_the_wire gh (get_charge gh other s)) = Inr None)"
proof -
  have "chargeView gh c (pa_ledger s) \<noteq> JNull" by (simp add: chargeView_def)
  then show ?thesis using assms
    by (simp add: client_getCharge_def client_get_def on_the_wire_def get_charge_def is_ok_def lookup_of_def fail_reply_def)
qed

end
