(* ===== verification/PaygateWitnesses.thy ===== *)
theory PaygateWitnesses
  imports PaygateProperties PaygateClient
begin

text \<open>
  Runs of the simulator on concrete requests, without chaos: a charge that is accepted, settled and
  announced, and one whose process dies after the key is claimed.
\<close>

definition demo_gh :: paygate_host where
  "demo_gh = \<lparr>gh_uuid = (\<lambda>n. replicate (Suc n) CHR ''a''), gh_hmac = (\<lambda>secret raw. ''mac''), gh_sha256 = (\<lambda>text. ''digest''),
     gh_stringify = (\<lambda>j. ''text''), gh_parse = (\<lambda>text. None), gh_iso = (\<lambda>t. ''date''), gh_date = (\<lambda>text. None),
     gh_fetch = (\<lambda>url post. Responded 200 7)\<rparr>"

definition demo_cfg :: paygate_config where
  "demo_cfg = \<lparr>pc_port = 9000, pc_secret = ''secret-secret'', pc_chaos = False, pc_seed = ''atrium'',
     pc_callbackUrl = Some ''http://api'', pc_production = False, pc_testEndpointsRequested = False,
     pc_testEndpoints = False, pc_declineAmountMinor = 666, pc_deliveryTimeoutMs = 5000,
     pc_store = StorePostgres, pc_databaseUrl = Some ''postgres://db''\<rparr>"

definition demo_body :: charge_body where
  "demo_body = \<lparr>cb_amount_minor = 5000, cb_currency = ''GBP'', cb_reference = ''BK1''\<rparr>"

lemma demo_body_parsed: "ChargeBody (charge_body_json demo_body) = Some demo_body"
  by (simp add: ChargeBody_def charge_body_json_def demo_body_def json_safe_int_def json_sized_def is_currency_def)

lemma demo_plan: "planFor key demo_cfg = NO_CHAOS"
  by (simp add: planFor_def demo_cfg_def)

definition demo_input :: open_charge_input where
  "demo_input = charge_input demo_gh demo_cfg ''k1'' demo_body None"

definition demo_open :: paygate where
  "demo_open = snd (open_charge demo_gh 100 demo_input paygate_empty)"

lemmas demo_defs = demo_gh_def demo_cfg_def demo_body_def NO_CHAOS_def paygate_empty_def

lemma demo_open:
  "open_charge demo_gh 100 demo_input paygate_empty
   = (Inr (ChargeCreated (toCharge (new_charge_row ''ch_a'' 100 demo_input) [] [])), demo_open)"
  by (simp add: demo_open_def open_charge_def mint_def demo_input_def charge_input_def newChargeId_def undashed_def
      demo_plan pg_eval demo_defs)

lemma accepted_charge_lost_witness:
  "find_charge ''ch_a'' (pa_ledger (restart demo_open)) \<noteq> None
   \<and> fst (post_charges demo_gh demo_cfg 500 (HString ''k1'') HMissing (charge_body_json demo_body) (restart demo_open))
     = charge_accepted ''ch_a''"
  using accepted_charge_lost [OF rtranclp.rtrancl_refl demo_open [unfolded demo_input_def] _ rtranclp.rtrancl_refl,
      of "HString ''k1''" "charge_body_json demo_body" 500 HMissing]
  by (auto simp: demo_plan NO_CHAOS_def demo_body_parsed new_charge_row_def)

definition demo_announcement :: delivery_request where
  "demo_announcement = (charge_announcement
     (toCharge (materialise_charge Succeeded 100 (new_charge_row ''ch_a'' 100 demo_input)) [] []) 100)
     \<lparr>dq_branch := Timed Normal, dq_scheduledDelayMs := 0\<rparr>"

definition demo_charged :: paygate where
  "demo_charged = snd (post_charges demo_gh demo_cfg 100 (HString ''k1'') HMissing (charge_body_json demo_body) paygate_empty)"

lemma deliver_posts:
  assumes "find_charge (dq_chargeId q) (pa_ledger s) \<noteq> None" and "pc_callbackUrl cfg = Some url"
  shows "map fst (pa_sent (snd (deliver h cfg now q s))) = map fst (pa_sent s) @ [q]"
proof -
  obtain attempt l1 where n: "pg_nextAttempt (dq_chargeId q) (pa_ledger s) = (attempt, l1)" by force
  have "dq_chargeId q \<in> ch_id ` set (pg_charges l1)"
    using n assms(1) find_charge_None_iff [of "dq_chargeId q"] by (auto simp: pg_nextAttempt_def split: option.splits)
  then have "\<exists>l2. pg_recordDelivery now (delivery_record_of q did attempt x) l1 = Inr l2" for did x
    by (simp add: pg_recordDelivery_def delivery_record_of_def)
  then show ?thesis using assms(2)
    by (auto simp: deliver_def n mint_def Let_def split: sum.split)
      (metis Inr_not_Inl)
qed

lemma demo_open_state: "demo_open = paygate_empty\<lparr>pa_ledger := pa_ledger demo_open, pa_minted := 1\<rparr>"
  by (simp add: demo_open_def open_charge_def mint_def split_beta paygate_empty_def)

lemma demo_open_row: "find_charge ''ch_a'' (pa_ledger demo_open) = Some (new_charge_row ''ch_a'' 100 demo_input)"
  by (simp add: demo_open_def open_charge_def mint_def demo_input_def charge_input_def newChargeId_def
      undashed_def demo_plan pg_eval demo_defs)

lemma demo_charged_sent: "map fst (pa_sent demo_charged) = [demo_announcement]"
proof -
  let ?l = "update_charge ''ch_a'' (materialise_charge Succeeded 100) (pa_ledger demo_open)"
  let ?x = "toCharge (materialise_charge Succeeded 100 (new_charge_row ''ch_a'' 100 demo_input)) [] []"
  let ?s = "demo_open\<lparr>pa_ledger := ?l, pa_forced := pa_forced paygate_empty\<rparr>"
  have "demo_charged = snd (app_materialiseCharge demo_gh demo_cfg 100
      (toCharge (new_charge_row ''ch_a'' 100 demo_input) [] []) demo_open)"
    by (simp add: demo_charged_def post_charges_def demo_body_parsed demo_open [unfolded demo_input_def]
        demo_input_def demo_plan) (simp add: NO_CHAOS_def)
  also have "\<dots> = snd (dispatch demo_gh demo_cfg 100 (charge_announcement ?x 100) NO_CHAOS (demo_open\<lparr>pa_ledger := ?l\<rparr>))"
    using demo_open_row
    by (simp add: app_materialiseCharge_def pg_materialiseCharge_def new_charge_row_def materialise_charge_def toCharge_def
        demo_input_def charge_input_def demo_plan) (simp add: NO_CHAOS_def demo_cfg_def demo_body_def)
  also have "\<dots> = snd (deliver demo_gh demo_cfg 100 demo_announcement ?s)"
    by (subst demo_open_state, subst (2) demo_open_state)
      (simp add: dispatch_def take_delay_def paygate_empty_def NO_CHAOS_def schedule_def demo_announcement_def)
  finally have d: "demo_charged = snd (deliver demo_gh demo_cfg 100 demo_announcement ?s)" .
  have "find_charge ''ch_a'' ?l \<noteq> None" using demo_open_row by (simp add: find_charge_update materialise_charge_def)
  moreover have "dq_chargeId demo_announcement = ''ch_a''"
    by (simp add: demo_announcement_def charge_announcement_def toCharge_def materialise_charge_def new_charge_row_def)
  moreover have "pa_sent ?s = []" by (subst demo_open_state) (simp add: paygate_empty_def)
  ultimately show ?thesis using deliver_posts [of demo_announcement ?s demo_cfg] by (simp add: d demo_cfg_def)
qed

text \<open>The announcement of the settled charge, with its amount, is what was posted.\<close>

lemma webhooks_truthful_witness:
  "announced (pa_ledger demo_charged) demo_announcement \<and> dq_event demo_announcement = ChargeSucceededEvent
   \<and> dq_amountMinor demo_announcement = 5000"
proof -
  have "app_steps demo_gh demo_cfg paygate_empty demo_charged"
    unfolding demo_charged_def by (rule r_into_rtranclp) (rule app_step.charged)
  moreover have "demo_announcement \<in> fst ` set (pa_sent demo_charged)"
    by (simp add: demo_charged_sent flip: set_map)
  ultimately have "announced (pa_ledger demo_charged) demo_announcement" by (intro webhooks_truthful) simp_all
  then show ?thesis
    by (simp add: demo_announcement_def charge_announcement_def toCharge_def materialise_charge_def new_charge_row_def
        demo_input_def charge_input_def demo_body_def)
qed

text \<open>The client reads the charge from an answer that arrives.\<close>

definition demo_view_host :: "json \<Rightarrow> host" where
  "demo_view_host view = \<lparr>h_json_parse = (\<lambda>text. Some view), h_hmac_hex = (\<lambda>secret raw. ''mac''),
     h_date_parse = (\<lambda>text. None), h_message = (\<lambda>e. [])\<rparr>"

definition demo_row :: charge where
  "demo_row = toCharge (new_charge_row ''ch_a'' 100 demo_input) [] []"

lemma client_reads_ledger_witness:
  "client_getCharge (demo_view_host (chargeView demo_gh demo_row (pa_ledger demo_open)))
     (on_the_wire demo_gh (get_charge demo_gh ''ch_a'' demo_open))
   = Inr (Some \<lparr>lk_id = None, lk_other = Some (JStr ''BK1''), lk_amount_minor = 5000, lk_status = Some (JStr ''processing'')\<rparr>)"
proof -
  have "pg_getCharge ''ch_a'' (pa_ledger demo_open) = Some demo_row"
    by (simp add: demo_row_def pg_getCharge_def demo_open_row) (simp add: demo_open_def open_charge_def mint_def demo_input_def charge_input_def newChargeId_def
        undashed_def demo_plan pg_eval demo_defs refundIdsFor_def pg_refundsFor_def pg_deliveriesFor_def)
  from client_reads_ledger [OF _ this, of "demo_view_host (chargeView demo_gh demo_row (pa_ledger demo_open))"]
  show ?thesis
    by (simp add: demo_view_host_def demo_row_def new_charge_row_def toCharge_def demo_input_def charge_input_def demo_body_def)
qed

end
