(* ===== verification/Auth.thy ===== *)
theory Auth
  imports Bookings
begin

text \<open>
  Who is calling: \<open>apps/api/src/auth\<close>, the guards of \<open>common/guards\<close> with the decorators of the
  controllers, the request context of \<open>common/context\<close>, and \<open>repositories/venue-scoped.repository.ts\<close>.

  Argon2 and the signing of tokens are library code and fields of \<open>auth_env\<close>: a hash takes the password
  and a salt, a token is signed at an instant and verified at another. \<open>verify(...).catch(() => false)\<close>
  is the total function \<open>argon_verify\<close>. The validator of addresses is the field \<open>is_email\<close>; it accepts
  ASCII only, so lower-casing is that of ASCII.
\<close>

section \<open>Tokens\<close>

record auth_env =
  is_email :: "string \<Rightarrow> bool"
  argon_hash :: "string \<Rightarrow> string \<Rightarrow> string"
  argon_verify :: "string \<Rightarrow> string \<Rightarrow> bool"
  jwt_sign :: "json \<Rightarrow> instant \<Rightarrow> string"
  jwt_verify :: "string \<Rightarrow> instant \<Rightarrow> json option"
  JWT_ACCESS_TTL :: int

fun role_name :: "user_role \<Rightarrow> string" where
  "role_name CUSTOMER = ''CUSTOMER''"
| "role_name VENUE_STAFF = ''VENUE_STAFF''"
| "role_name VENUE_ADMIN = ''VENUE_ADMIN''"
| "role_name PLATFORM_ADMIN = ''PLATFORM_ADMIN''"

definition enumValues :: "user_role list" where
  "enumValues = [CUSTOMER, VENUE_STAFF, VENUE_ADMIN, PLATFORM_ADMIN]"

definition role_of_name :: "string \<Rightarrow> user_role option" where
  "role_of_name s = List.find (\<lambda>r. role_name r = s) enumValues"

definition jwt_payload :: "uuid \<Rightarrow> user_role \<Rightarrow> uuid option \<Rightarrow> json" where
  "jwt_payload uid role venue = JObj
     [(''sub'', JStr uid), (''role'', JStr (role_name role)),
      (''venue_id'', case venue of None \<Rightarrow> JNull | Some v \<Rightarrow> JStr v)]"

fun nullable_uuid :: "json \<Rightarrow> uuid option option" where
  "nullable_uuid JNull = Some None"
| "nullable_uuid (JStr v) = (if zod_uuid v then Some (Some v) else None)"
| "nullable_uuid _ = None"

definition JwtPayloadSchema :: "json \<Rightarrow> principal option" where
  "JwtPayloadSchema j =
     (case (json_field ''sub'' j, json_field ''role'' j, json_field ''venue_id'' j) of
        (Some (JStr uid), Some (JStr r), Some v) \<Rightarrow>
          if \<not> zod_uuid uid then None
          else (case (role_of_name r, nullable_uuid v) of
                  (Some role, Some venue) \<Rightarrow> Some \<lparr>pr_user_id = uid, pr_role = role, pr_venue_id = venue\<rparr>
                | _ \<Rightarrow> None)
      | _ \<Rightarrow> None)"

lemma role_of_name [simp]: "role_of_name (role_name r) = Some r"
  by (cases r) (simp_all add: role_of_name_def enumValues_def)

text \<open>What the guard reads is what was signed, whatever claims the library adds.\<close>

lemma payload_read_back:
  assumes "\<And>k. k \<in> {''sub'', ''role'', ''venue_id''} \<Longrightarrow> json_field k j = json_field k (jwt_payload uid role venue)"
    and "zod_uuid uid" and "\<And>v. venue = Some v \<Longrightarrow> zod_uuid v"
  shows "JwtPayloadSchema j = Some \<lparr>pr_user_id = uid, pr_role = role, pr_venue_id = venue\<rparr>"
  using assms by (cases venue) (simp_all add: JwtPayloadSchema_def jwt_payload_def)

section \<open>The request context\<close>

record request_context =
  rq_correlation_id :: string
  rq_inherited_correlation_id :: bool
  rq_principal :: "principal option"

definition CorrelationMiddleware :: "string option \<Rightarrow> uuid \<Rightarrow> request_context" where
  "CorrelationMiddleware header fresh =
     (case header of
        Some (c # cs) \<Rightarrow> \<lparr>rq_correlation_id = c # cs, rq_inherited_correlation_id = True, rq_principal = None\<rparr>
      | _ \<Rightarrow> \<lparr>rq_correlation_id = fresh, rq_inherited_correlation_id = False, rq_principal = None\<rparr>)"

definition requirePrincipal :: "request_context \<Rightarrow> exn + principal" where
  "requirePrincipal ctx = or_throw (rq_principal ctx) (JsError ''No authenticated principal in request context'')"

definition setPrincipal :: "principal \<Rightarrow> request_context \<Rightarrow> request_context" where
  "setPrincipal p ctx = ctx\<lparr>rq_principal := Some p\<rparr>"

section \<open>Guards\<close>

datatype access = Public | SignedIn | Roles "user_role list"

definition JwtAuthGuard :: "auth_env \<Rightarrow> access \<Rightarrow> string option \<Rightarrow> instant \<Rightarrow> exn + principal option" where
  "JwtAuthGuard env access authorization now =
     (if access = Public then Inr None
      else case authorization of
        None \<Rightarrow> Inl Unauthorized
      | Some header \<Rightarrow>
          if take 7 header \<noteq> ''Bearer '' then Inl Unauthorized
          else case jwt_verify env (drop 7 header) now of
            None \<Rightarrow> Inl Unauthorized
          | Some raw \<Rightarrow>
              (case JwtPayloadSchema raw of
                 None \<Rightarrow> Inl Unauthorized
               | Some p \<Rightarrow> Inr (Some p)))"

definition RolesGuard :: "access \<Rightarrow> principal option \<Rightarrow> exn + unit" where
  "RolesGuard access p =
     (case access of
        Roles required \<Rightarrow>
          if required = [] then Inr ()
          else ensure (case p of None \<Rightarrow> False | Some p \<Rightarrow> pr_role p \<in> set required) Forbidden
      | _ \<Rightarrow> Inr ())"

definition VenueScopeGuard :: "principal option \<Rightarrow> request_context \<Rightarrow> request_context" where
  "VenueScopeGuard p ctx = (case p of None \<Rightarrow> ctx | Some p \<Rightarrow> setPrincipal p ctx)"

text \<open>The guards in the order the module registers them.\<close>

definition admit :: "auth_env \<Rightarrow> access \<Rightarrow> string option \<Rightarrow> instant \<Rightarrow> request_context \<Rightarrow> exn + request_context" where
  "admit env access authorization now ctx =
     result_bind (JwtAuthGuard env access authorization now) (\<lambda>p.
     result_bind (RolesGuard access p) (\<lambda>_. Inr (VenueScopeGuard p ctx)))"

text \<open>The routes of the API and what their decorators ask for.\<close>

datatype route =
    PostRegister | PostLogin | GetMe
  | PostHold | PostCheckout | PostCancel | GetBookings | GetBooking | PostPay | PostWebhook
  | GetSearch | GetRoom | GetAvailability | GetRoomEquipment
  | GetPolicy | PutPolicy
  | GetSettings | PatchSettings | GetRooms | PostRoom | PatchRoom | PostEquipmentType | PatchEquipmentType
  | GetEquipmentTypes | GetEquipmentType
  | GetRevenue | GetReconciliation | GetHealth

fun route_access :: "route \<Rightarrow> access" where
  "route_access PostRegister = Public"
| "route_access PostLogin = Public"
| "route_access PostWebhook = Public"
| "route_access GetHealth = Public"
| "route_access GetPolicy = Roles [VENUE_ADMIN, VENUE_STAFF, PLATFORM_ADMIN]"
| "route_access PutPolicy = Roles [VENUE_ADMIN]"
| "route_access GetSettings = Roles [VENUE_ADMIN, VENUE_STAFF]"
| "route_access PatchSettings = Roles [VENUE_ADMIN]"
| "route_access GetRooms = Roles [VENUE_ADMIN, VENUE_STAFF]"
| "route_access PostRoom = Roles [VENUE_ADMIN]"
| "route_access PatchRoom = Roles [VENUE_ADMIN]"
| "route_access PostEquipmentType = Roles [VENUE_ADMIN]"
| "route_access PatchEquipmentType = Roles [VENUE_ADMIN]"
| "route_access GetEquipmentTypes = Roles [VENUE_ADMIN, VENUE_STAFF, PLATFORM_ADMIN]"
| "route_access GetEquipmentType = Roles [VENUE_ADMIN, VENUE_STAFF, PLATFORM_ADMIN]"
| "route_access GetRevenue = Roles [VENUE_ADMIN, VENUE_STAFF]"
| "route_access GetReconciliation = Roles [PLATFORM_ADMIN]"
| "route_access _ = SignedIn"

lemma JwtAuthGuard_eq_Inr:
  "JwtAuthGuard env access authorization now = Inr p \<longleftrightarrow>
     access = Public \<and> p = None
     \<or> access \<noteq> Public \<and> (\<exists>token raw q. authorization = Some (''Bearer '' @ token) \<and> jwt_verify env token now = Some raw
          \<and> JwtPayloadSchema raw = Some q \<and> p = Some q)"
proof -
  have bearer: "take 7 h = ''Bearer '' \<longleftrightarrow> (\<exists>token. h = ''Bearer '' @ token)" for h :: string
  proof
    assume "take 7 h = ''Bearer ''"
    then show "\<exists>token. h = ''Bearer '' @ token" using append_take_drop_id [of 7 h] by metis
  qed auto
  show ?thesis
    by (auto simp: JwtAuthGuard_def bearer split: option.splits if_splits)
qed

lemma RolesGuard_eq_Inr:
  "RolesGuard access p = Inr u \<longleftrightarrow>
     (\<forall>rs. access = Roles rs \<longrightarrow> rs \<noteq> [] \<longrightarrow> (\<exists>q. p = Some q \<and> pr_role q \<in> set rs))"
  by (auto simp: RolesGuard_def tx_simps split: access.splits option.splits)

text \<open>What a handler can rely on.\<close>

lemma admitted:
  assumes "admit env access authorization now ctx = Inr ctx'" and "access \<noteq> Public"
  obtains token raw p where "authorization = Some (''Bearer '' @ token)" "jwt_verify env token now = Some raw"
    "JwtPayloadSchema raw = Some p" "ctx' = setPrincipal p ctx"
    "\<And>rs. access = Roles rs \<Longrightarrow> rs \<noteq> [] \<Longrightarrow> pr_role p \<in> set rs"
  using assms by (auto simp: admit_def tx_simps JwtAuthGuard_eq_Inr RolesGuard_eq_Inr VenueScopeGuard_def)

section \<open>Accounts\<close>

definition lower :: "char \<Rightarrow> char" where
  "lower c = (if CHR ''A'' \<le> c \<and> c \<le> CHR ''Z'' then char_of (of_char c + (32::nat)) else c)"

definition toLowerCase :: "string \<Rightarrow> string" where
  "toLowerCase s = map lower s"

record login_input =
  ln_email :: string
  ln_password :: string

definition LoginSchema :: "auth_env \<Rightarrow> login_input \<Rightarrow> bool" where
  "LoginSchema env i \<longleftrightarrow> is_email env (ln_email i) \<and> length (ln_email i) \<le> 320
     \<and> 1 \<le> length (ln_password i) \<and> length (ln_password i) \<le> 1024"

definition RegisterSchema :: "auth_env \<Rightarrow> login_input \<Rightarrow> bool" where
  "RegisterSchema env i \<longleftrightarrow> is_email env (ln_email i) \<and> length (ln_email i) \<le> 320
     \<and> 12 \<le> length (ln_password i) \<and> length (ln_password i) \<le> 1024"

record access_token =
  tk_access_token :: string
  tk_token_type :: string
  tk_expires_in :: int

definition issue :: "auth_env \<Rightarrow> user \<Rightarrow> instant \<Rightarrow> access_token" where
  "issue env u now =
     \<lparr>tk_access_token = jwt_sign env (jwt_payload (u_id u) (u_role u) (u_venue_id u)) now,
      tk_token_type = ''Bearer'', tk_expires_in = JWT_ACCESS_TTL env\<rparr>"

text \<open>\<open>users_venue_scope_ck\<close>.\<close>

definition venue_scope_ck :: "user_role \<Rightarrow> uuid option \<Rightarrow> bool" where
  "venue_scope_ck role venue \<longleftrightarrow>
     role \<in> {VENUE_STAFF, VENUE_ADMIN} \<and> venue \<noteq> None \<or> role \<in> {CUSTOMER, PLATFORM_ADMIN} \<and> venue = None"

definition insert_user :: "user \<Rightarrow> db \<Rightarrow> exn + db" where
  "insert_user u d =
     (if \<not> venue_scope_ck (u_role u) (u_venue_id u) then Inl (pg_error ''23514'' ''users_venue_scope_ck'')
      else if u_id u \<in> u_id ` set (t_users d) then Inl (pg_error ''23505'' ''users_pkey'')
      else if u_email u \<in> u_email ` set (t_users d) then Inl (pg_error ''23505'' ''users_email_unique'')
      else if \<not> (case u_venue_id u of None \<Rightarrow> True | Some v \<Rightarrow> v \<in> v_id ` set (t_venues d))
      then Inl (pg_error ''23503'' '''')
      else Inr (d\<lparr>t_users := t_users d @ [u]\<rparr>))"

definition email_conflict :: "exn + 'a \<Rightarrow> exn + 'a" where
  "email_conflict r =
     (case r of
        Inl e \<Rightarrow> if isUniqueViolation e (Some ''users_email_unique'') then Inl (Conflict EmailTaken) else Inl e
      | Inr a \<Rightarrow> Inr a)"

definition register :: "auth_env \<Rightarrow> login_input \<Rightarrow> string \<Rightarrow> uuid \<Rightarrow> instant \<Rightarrow> db \<Rightarrow> exn + access_token \<times> db" where
  "register env i salt fresh now d =
     (let u = \<lparr>u_id = fresh, u_email = toLowerCase (ln_email i), u_password_hash = argon_hash env (ln_password i) salt,
               u_role = CUSTOMER, u_venue_id = None\<rparr> in
      email_conflict (result_bind (insert_user u d) (\<lambda>d'. Inr (issue env u now, d'))))"

definition login :: "auth_env \<Rightarrow> login_input \<Rightarrow> instant \<Rightarrow> db \<Rightarrow> exn + access_token" where
  "login env i now d =
     (case List.find (\<lambda>u. u_email u = toLowerCase (ln_email i)) (t_users d) of
        None \<Rightarrow> Inl Unauthorized
      | Some u \<Rightarrow>
          if argon_verify env (u_password_hash u) (ln_password i) then Inr (issue env u now)
          else Inl Unauthorized)"

text \<open>The row without its password hash.\<close>

record safe_user =
  su_id :: uuid
  su_email :: string
  su_role :: user_role
  su_venue_id :: "uuid option"

definition me :: "uuid \<Rightarrow> db \<Rightarrow> exn + safe_user" where
  "me uid d =
     result_bind (or_throw (List.find (\<lambda>u. u_id u = uuid_in uid) (t_users d)) Unauthorized)
       (\<lambda>u. Inr \<lparr>su_id = u_id u, su_email = u_email u, su_role = u_role u, su_venue_id = u_venue_id u\<rparr>)"

section \<open>The venue scope of a repository\<close>

definition venueFilter :: "('row \<Rightarrow> uuid) \<Rightarrow> request_context \<Rightarrow> exn + ('row \<Rightarrow> bool)" where
  "venueFilter column ctx =
     result_bind (requirePrincipal ctx) (\<lambda>p.
       if pr_role p = PLATFORM_ADMIN then Inr (\<lambda>_. True)
       else case pr_venue_id p of None \<Rightarrow> Inl NotFound | Some v \<Rightarrow> Inr (\<lambda>r. column r = v))"

definition ownerFilter :: "('row \<Rightarrow> uuid) \<Rightarrow> request_context \<Rightarrow> exn + ('row \<Rightarrow> bool)" where
  "ownerFilter column ctx =
     result_bind (requirePrincipal ctx) (\<lambda>p.
       if pr_role p = PLATFORM_ADMIN then Inr (\<lambda>_. True) else Inr (\<lambda>r. column r = pr_user_id p))"

definition scoped :: "('row \<Rightarrow> uuid) \<Rightarrow> ('row \<Rightarrow> bool) list \<Rightarrow> request_context \<Rightarrow> exn + ('row \<Rightarrow> bool)" where
  "scoped column predicates ctx =
     result_bind (venueFilter column ctx) (\<lambda>scope. Inr (\<lambda>r. scope r \<and> list_all (\<lambda>q. q r) predicates))"

definition requireOne :: "'row list \<Rightarrow> exn + 'row" where
  "requireOne rows = (case rows of [] \<Rightarrow> Inl NotFound | row # _ \<Rightarrow> Inr row)"

section \<open>What accounts and tokens promise\<close>

text \<open>
  The documented behaviour of the library for the tokens of one account: within its life a token verifies,
  to an object with the claims that were signed. Expiry counts whole seconds.
\<close>

definition within_life :: "auth_env \<Rightarrow> instant \<Rightarrow> instant \<Rightarrow> bool" where
  "within_life env t now \<longleftrightarrow> t \<le> now \<and> now div 1000 < t div 1000 + JWT_ACCESS_TTL env"

definition jwt_law :: "auth_env \<Rightarrow> uuid \<Rightarrow> user_role \<Rightarrow> uuid option \<Rightarrow> bool" where
  "jwt_law env uid role venue \<longleftrightarrow>
     (\<forall>t now. within_life env t now \<longrightarrow>
        (\<exists>j. jwt_verify env (jwt_sign env (jwt_payload uid role venue) t) now = Some j
           \<and> (\<forall>k \<in> {''sub'', ''role'', ''venue_id''}. json_field k j = json_field k (jwt_payload uid role venue))))"

definition user_principal :: "user \<Rightarrow> principal" where
  "user_principal u = \<lparr>pr_user_id = u_id u, pr_role = u_role u, pr_venue_id = u_venue_id u\<rparr>"

definition bearer :: "access_token \<Rightarrow> string option" where
  "bearer tok = Some (''Bearer '' @ tk_access_token tok)"

lemma issued_token_admits:
  assumes "jwt_law env (u_id u) (u_role u) (u_venue_id u)" and "within_life env t now" and "access \<noteq> Public"
    and "zod_uuid (u_id u)" and "\<And>v. u_venue_id u = Some v \<Longrightarrow> zod_uuid v"
  shows "JwtAuthGuard env access (bearer (issue env u t)) now = Inr (Some (user_principal u))"
proof -
  obtain j where "jwt_verify env (jwt_sign env (jwt_payload (u_id u) (u_role u) (u_venue_id u)) t) now = Some j"
    "\<forall>k \<in> {''sub'', ''role'', ''venue_id''}. json_field k j = json_field k (jwt_payload (u_id u) (u_role u) (u_venue_id u))"
    using assms(1,2) by (auto simp: jwt_law_def)
  moreover from this(2) have "JwtPayloadSchema j = Some (user_principal u)"
    unfolding user_principal_def using assms(4,5) by (intro payload_read_back) auto
  ultimately show ?thesis using assms(3) by (simp add: JwtAuthGuard_eq_Inr bearer_def issue_def)
qed

lemma insert_user_eq_Inr [tx_simps]:
  "insert_user u d = Inr d' \<longleftrightarrow> venue_scope_ck (u_role u) (u_venue_id u)
     \<and> u_id u \<notin> u_id ` set (t_users d) \<and> u_email u \<notin> u_email ` set (t_users d)
     \<and> (case u_venue_id u of None \<Rightarrow> True | Some v \<Rightarrow> v \<in> v_id ` set (t_venues d))
     \<and> d' = d\<lparr>t_users := t_users d @ [u]\<rparr>"
  by (auto simp: insert_user_def)

lemma email_conflict_eq_Inr [tx_simps]: "email_conflict r = Inr a \<longleftrightarrow> r = Inr a"
  by (cases r) (auto simp: email_conflict_def)

definition users_ok :: "db \<Rightarrow> bool" where
  "users_ok d \<longleftrightarrow> distinct (map u_id (t_users d)) \<and> distinct (map u_email (t_users d))
     \<and> (\<forall>u \<in> set (t_users d). venue_scope_ck (u_role u) (u_venue_id u))"

lemma users_ok_insert: "users_ok d \<Longrightarrow> insert_user u d = Inr d' \<Longrightarrow> users_ok d'"
  by (auto simp: users_ok_def tx_simps)

lemma register_users_ok: "users_ok d \<Longrightarrow> register env i salt fresh now d = Inr (tok, d') \<Longrightarrow> users_ok d'"
  using users_ok_insert by (auto simp: register_def tx_simps Let_def)

definition registered :: "auth_env \<Rightarrow> login_input \<Rightarrow> string \<Rightarrow> uuid \<Rightarrow> user" where
  "registered env i salt fresh = \<lparr>u_id = fresh, u_email = toLowerCase (ln_email i),
     u_password_hash = argon_hash env (ln_password i) salt, u_role = CUSTOMER, u_venue_id = None\<rparr>"

lemma register_eq_Inr:
  "register env i salt fresh now d = Inr (tok, d') \<longleftrightarrow>
     fresh \<notin> u_id ` set (t_users d) \<and> toLowerCase (ln_email i) \<notin> u_email ` set (t_users d)
     \<and> tok = issue env (registered env i salt fresh) now
     \<and> d' = d\<lparr>t_users := t_users d @ [registered env i salt fresh]\<rparr>"
  by (auto simp: register_def registered_def tx_simps Let_def venue_scope_ck_def)

text \<open>
  C21. Registering opens an account one can come back to. The token that registration returns, and the
  token a later login with the same password and the same address in any case returns, both read back
  as the same principal: the new user, a customer without a venue, whatever the request said.
\<close>

theorem registration_roundtrip:
  assumes "register env i salt fresh t0 d = Inr (tok, d')" and "zod_uuid fresh" and "jwt_law env fresh CUSTOMER None"
    and "argon_verify env (argon_hash env (ln_password i) salt) (ln_password i)"
    and "ln_password i' = ln_password i" and "toLowerCase (ln_email i') = toLowerCase (ln_email i)"
  shows "\<exists>tok'. login env i' t1 d' = Inr tok'
    \<and> (\<forall>now. within_life env t0 now \<longrightarrow> JwtAuthGuard env SignedIn (bearer tok) now
         = Inr (Some \<lparr>pr_user_id = fresh, pr_role = CUSTOMER, pr_venue_id = None\<rparr>))
    \<and> (\<forall>now. within_life env t1 now \<longrightarrow> JwtAuthGuard env SignedIn (bearer tok') now
         = Inr (Some \<lparr>pr_user_id = fresh, pr_role = CUSTOMER, pr_venue_id = None\<rparr>))"
proof -
  let ?u = "registered env i salt fresh"
  have r: "toLowerCase (ln_email i) \<notin> u_email ` set (t_users d)" "tok = issue env ?u t0"
    "d' = d\<lparr>t_users := t_users d @ [?u]\<rparr>"
    using assms(1) by (simp_all add: register_eq_Inr)
  have "List.find (\<lambda>u. u_email u = toLowerCase (ln_email i')) (t_users d') = Some ?u"
    using r(1,3) assms(6) by (auto simp: find_append registered_def find_None_iff image_iff split: option.splits dest!: find_SomeD)
  then have l: "login env i' t1 d' = Inr (issue env ?u t1)"
    using assms(4,5) by (simp add: login_def registered_def)
  have "JwtAuthGuard env SignedIn (bearer (issue env ?u t)) now = Inr (Some (user_principal ?u))"
    if "within_life env t now" for t now
    using that assms(2,3) by (intro issued_token_admits) (simp_all add: registered_def)
  then show ?thesis using l r(2) by (simp add: registered_def user_principal_def)
qed

text \<open>
  A taken address, in any case, is answered 409 and nothing else is: the driver's error is found
  under the wrapper it comes in, and every other failure of the insert is passed on as it is.
\<close>

theorem register_conflict:
  assumes "fresh \<notin> u_id ` set (t_users d)"
  shows "register env i salt fresh now d = Inl e \<longleftrightarrow>
    e = Conflict EmailTaken \<and> (\<exists>u \<in> set (t_users d). u_email u = toLowerCase (ln_email i))"
proof -
  have "isUniqueViolation (pg_error ''23505'' ''users_email_unique'') (Some ''users_email_unique'')" by code_simp
  then show ?thesis
    using assms by (auto simp: register_def insert_user_def email_conflict_def Let_def venue_scope_ck_def image_iff)
qed

text \<open>
  C22. A token leads back to the account it was issued for. Whoever logs in has shown the password of the
  one account with the address, and the principal the guard makes of the token is that account's: its
  role, and a venue exactly when the role has one.
\<close>

theorem login_principal:
  assumes "login env i t d = Inr tok" and "users_ok d" and "within_life env t now" and "access \<noteq> Public"
    and "\<And>u. u \<in> set (t_users d) \<Longrightarrow> jwt_law env (u_id u) (u_role u) (u_venue_id u) \<and> zod_uuid (u_id u)
      \<and> (\<forall>v. u_venue_id u = Some v \<longrightarrow> zod_uuid v)"
  shows "\<exists>u \<in> set (t_users d). u_email u = toLowerCase (ln_email i) \<and> argon_verify env (u_password_hash u) (ln_password i)
    \<and> JwtAuthGuard env access (bearer tok) now = Inr (Some (user_principal u))
    \<and> venue_scope_ck (pr_role (user_principal u)) (pr_venue_id (user_principal u))"
proof -
  obtain u where u: "List.find (\<lambda>u. u_email u = toLowerCase (ln_email i)) (t_users d) = Some u"
    "argon_verify env (u_password_hash u) (ln_password i)" "tok = issue env u t"
    using assms(1) by (auto simp: login_def split: option.splits if_splits)
  then have m: "u \<in> set (t_users d)" "u_email u = toLowerCase (ln_email i)" by (auto dest: find_SomeD)
  then have "JwtAuthGuard env access (bearer tok) now = Inr (Some (user_principal u))"
    unfolding u(3) using assms(3-5) by (intro issued_token_admits) auto
  moreover have "venue_scope_ck (pr_role (user_principal u)) (pr_venue_id (user_principal u))"
    using assms(2) m(1) by (simp add: users_ok_def user_principal_def)
  ultimately show ?thesis using m u(2) by blast
qed

section \<open>Witnesses\<close>

definition sample_uid :: uuid where
  "sample_uid = ''00000000-0000-4000-8000-000000000001''"

text \<open>A library with one key holder: it signs for this account and lets the token live for a minute.\<close>

definition sample_auth :: auth_env where
  "sample_auth = \<lparr>is_email = (\<lambda>s. CHR ''@'' \<in> set s), argon_hash = (\<lambda>pw salt. salt @ pw),
     argon_verify = (\<lambda>h pw. h = ''s'' @ pw),
     jwt_sign = (\<lambda>j t. (if 0 \<le> t div 1000 then replicate (nat (t div 1000)) CHR ''p'' else replicate (nat (- (t div 1000))) CHR ''m'')),
     jwt_verify = (\<lambda>tok now.
       if now div 1000 < (if CHR ''m'' \<in> set tok then - int (length tok) else int (length tok)) + 60
       then Some (jwt_payload sample_uid CUSTOMER None) else None),
     JWT_ACCESS_TTL = 60\<rparr>"

lemma sample_jwt_law: "jwt_law sample_auth sample_uid CUSTOMER None"
  by (auto simp: jwt_law_def within_life_def sample_auth_def)

definition sample_login :: login_input where
  "sample_login = \<lparr>ln_email = ''Ada@example.org'', ln_password = ''correct horse''\<rparr>"

definition no_users :: db where
  "no_users = \<lparr>t_venues = [], t_rooms = [], t_equipment_types = [], t_users = [], t_cancellation_policies = [],
     t_bookings = [], t_booking_line_items = [], t_payments = [], t_payment_events = [],
     t_webhook_deliveries = [], t_audit_events = []\<rparr>"

definition one_user :: db where
  "one_user = no_users\<lparr>t_users := [registered sample_auth sample_login ''s'' sample_uid]\<rparr>"

lemma sample_registers:
  "register sample_auth sample_login ''s'' sample_uid 5000 no_users
   = Inr (issue sample_auth (registered sample_auth sample_login ''s'' sample_uid) 5000, one_user)"
  by (simp add: register_eq_Inr no_users_def one_user_def)

lemma sample_uid_ok: "zod_uuid sample_uid"
  by code_simp

lemma registration_roundtrip_witness:
  "\<exists>tok'. login sample_auth \<lparr>ln_email = ''ada@EXAMPLE.org'', ln_password = ''correct horse''\<rparr> 9000 one_user = Inr tok'
     \<and> JwtAuthGuard sample_auth SignedIn (bearer tok') 30000
       = Inr (Some \<lparr>pr_user_id = sample_uid, pr_role = CUSTOMER, pr_venue_id = None\<rparr>)"
proof -
  let ?i = "\<lparr>ln_email = ''ada@EXAMPLE.org'', ln_password = ''correct horse''\<rparr>"
  have "argon_verify sample_auth (argon_hash sample_auth (ln_password sample_login) ''s'') (ln_password sample_login)"
    by (simp add: sample_auth_def)
  moreover have "ln_password ?i = ln_password sample_login" by (simp add: sample_login_def)
  moreover have "toLowerCase (ln_email ?i) = toLowerCase (ln_email sample_login)" by code_simp
  moreover have "within_life sample_auth 9000 30000" by (simp add: within_life_def sample_auth_def)
  ultimately show ?thesis
    using registration_roundtrip [OF sample_registers sample_uid_ok sample_jwt_law, of ?i 9000] by auto
qed

lemma register_conflict_witness:
  "register sample_auth \<lparr>ln_email = ''ADA@example.org'', ln_password = ''another horse''\<rparr> ''s''
     ''00000000-0000-4000-8000-000000000002'' 6000 one_user = Inl (Conflict EmailTaken)"
proof -
  have "''00000000-0000-4000-8000-000000000002'' \<notin> u_id ` set (t_users one_user)"
    "\<exists>u \<in> set (t_users one_user). u_email u = toLowerCase (ln_email \<lparr>ln_email = ''ADA@example.org'', ln_password = ''another horse''\<rparr>)"
    by code_simp+
  then show ?thesis
    using register_conflict [of "''00000000-0000-4000-8000-000000000002''" one_user sample_auth
        "\<lparr>ln_email = ''ADA@example.org'', ln_password = ''another horse''\<rparr>" "''s''" 6000] by simp
qed

lemma login_principal_witness:
  "\<exists>tok. login sample_auth sample_login 9000 one_user = Inr tok
     \<and> (\<exists>u \<in> set (t_users one_user). JwtAuthGuard sample_auth SignedIn (bearer tok) 30000 = Inr (Some (user_principal u)))"
proof -
  have l: "login sample_auth sample_login 9000 one_user
      = Inr (issue sample_auth (registered sample_auth sample_login ''s'' sample_uid) 9000)"
    by (simp add: login_def one_user_def registered_def sample_auth_def)
  have "users_ok one_user" by (simp add: users_ok_def one_user_def registered_def venue_scope_ck_def)
  moreover have "within_life sample_auth 9000 30000" by (simp add: within_life_def sample_auth_def)
  moreover have "jwt_law sample_auth (u_id u) (u_role u) (u_venue_id u) \<and> zod_uuid (u_id u)
      \<and> (\<forall>v. u_venue_id u = Some v \<longrightarrow> zod_uuid v)" if "u \<in> set (t_users one_user)" for u
    using that sample_jwt_law sample_uid_ok by (auto simp: one_user_def registered_def)
  ultimately show ?thesis using login_principal [OF l, of 30000 SignedIn] l by auto
qed

end
