(* ===== verification/Catalogue.thy ===== *)
theory Catalogue
  imports Availability
begin

text \<open>
  What the API publishes of every venue: \<open>apps/api/src/search/search.service.ts\<close> with its query schema,
  and \<open>apps/api/src/rooms/rooms.service.ts\<close>. The lower-casing of Postgres is a parameter. A rate leaves
  as a decimal text; the rows here carry the number.
\<close>

section \<open>Queries\<close>

record search_query =
  sq_city :: "string option"
  sq_min_capacity :: "int option"
  sq_amenity :: "string list"
  sq_max_hourly_rate_minor :: "int option"
  sq_from :: "instant option"
  sq_to :: "instant option"
  sq_page :: int
  sq_page_size :: int

text \<open>A repeated or comma-separated parameter: split, trimmed, without the empty pieces.\<close>

fun split_on :: "char \<Rightarrow> string \<Rightarrow> string list" where
  "split_on c [] = [[]]"
| "split_on c (x # xs) =
     (if x = c then [] # split_on c xs
      else case split_on c xs of [] \<Rightarrow> [[x]] | w # ws \<Rightarrow> (x # w) # ws)"

definition is_space :: "char \<Rightarrow> bool" where
  "is_space c \<longleftrightarrow> c \<in> {CHR '' '', CHR 0x09, CHR 0x0A, CHR 0x0B, CHR 0x0C, CHR 0x0D, CHR 0xA0}"

definition trim :: "string \<Rightarrow> string" where
  "trim s = rev (dropWhile is_space (rev (dropWhile is_space s)))"

definition amenity_list :: "string list \<Rightarrow> string list" where
  "amenity_list raw = filter (\<lambda>s. s \<noteq> []) (map trim (concat (map (split_on CHR '','') raw)))"

fun opt_between :: "int \<Rightarrow> int \<Rightarrow> int option \<Rightarrow> bool" where
  "opt_between lo hi None \<longleftrightarrow> True"
| "opt_between lo hi (Some n) \<longleftrightarrow> lo \<le> n \<and> n \<le> hi"

definition SearchSchema :: "search_query \<Rightarrow> bool" where
  "SearchSchema q \<longleftrightarrow>
     (case sq_city q of None \<Rightarrow> True | Some c \<Rightarrow> 1 \<le> length c \<and> length c \<le> 120)
     \<and> opt_between 1 10000 (sq_min_capacity q) \<and> opt_between 0 (2 ^ 53 - 1) (sq_max_hourly_rate_minor q)
     \<and> 1 \<le> sq_page q \<and> sq_page q < 2 ^ 53 \<and> 1 \<le> sq_page_size q \<and> sq_page_size q \<le> 100
     \<and> (sq_from q = None \<longleftrightarrow> sq_to q = None)
     \<and> (case (sq_from q, sq_to q) of (Some f, Some t) \<Rightarrow> f < t | _ \<Rightarrow> True)"

section \<open>The search\<close>

text \<open>A room with the venue it is joined to.\<close>

type_synonym offer = "room \<times> venue"

definition room_venues :: "db \<Rightarrow> offer list" where
  "room_venues d = concat (map (\<lambda>r. map (Pair r) (filter (\<lambda>v. v_id v = r_venue_id r) (t_venues d))) (t_rooms d))"

definition in_city :: "(string \<Rightarrow> string) \<Rightarrow> string option \<Rightarrow> venue \<Rightarrow> bool" where
  "in_city lower city v \<longleftrightarrow> (case city of None \<Rightarrow> True | Some c \<Rightarrow> c = [] \<or> lower (v_city v) = lower c)"

definition matches :: "(string \<Rightarrow> string) \<Rightarrow> search_query \<Rightarrow> offer \<Rightarrow> bool" where
  "matches lower q x \<longleftrightarrow> (case x of (r, v) \<Rightarrow>
     in_city lower (sq_city q) v
     \<and> (case sq_min_capacity q of None \<Rightarrow> True | Some n \<Rightarrow> n \<le> r_capacity r)
     \<and> (case sq_max_hourly_rate_minor q of None \<Rightarrow> True | Some n \<Rightarrow> r_hourly_rate_minor r \<le> n)
     \<and> set (sq_amenity q) \<subseteq> set (r_amenities r))"

definition open_for :: "zone_offsets \<Rightarrow> instant \<Rightarrow> instant \<Rightarrow> venue \<Rightarrow> bool" where
  "open_for off from to v \<longleftrightarrow>
     (case parseOperatingHours (v_operating_hours v) of
        None \<Rightarrow> False
      | Some hours \<Rightarrow> isWithinOperatingHours off hours (v_timezone v) from to)"

definition venuesOpenFor :: "zone_offsets \<Rightarrow> (string \<Rightarrow> string) \<Rightarrow> instant \<Rightarrow> instant \<Rightarrow> string option \<Rightarrow> db \<Rightarrow> uuid list" where
  "venuesOpenFor off lower from to city d =
     map v_id (filter (open_for off from to) (filter (in_city lower city) (t_venues d)))"

text \<open>\<open>ORDER BY hourly_rate_minor, id\<close>, and one page of it.\<close>

definition ordered :: "(offer \<Rightarrow> bool) \<Rightarrow> db \<Rightarrow> offer list" where
  "ordered p d = sort_key (\<lambda>(r, v). (r_hourly_rate_minor r, r_id r)) (filter p (room_venues d))"

definition page_of :: "int \<Rightarrow> int \<Rightarrow> 'a list \<Rightarrow> 'a list" where
  "page_of page n xs = take (nat n) (drop (nat ((page - 1) * n)) xs)"

definition CANDIDATE_CAP :: nat where
  "CANDIDATE_CAP = 2000"

record search_result =
  sr_data :: "offer list"
  sr_page :: int
  sr_page_size :: int
  sr_total :: nat
  sr_filters_applied :: "string list"
  sr_truncated_at_candidates :: "nat option"

definition filters_applied :: "search_query \<Rightarrow> string list" where
  "filters_applied q =
     (case sq_city q of Some (_ # _) \<Rightarrow> [''city''] | _ \<Rightarrow> [])
     @ (if sq_min_capacity q = None then [] else [''min_capacity''])
     @ (if sq_max_hourly_rate_minor q = None then [] else [''max_hourly_rate_minor''])
     @ (if sq_amenity q = [] then [] else [''amenity''])
     @ (if sq_from q = None \<or> sq_to q = None then [] else [''availability_window''])"

definition search :: "zone_offsets \<Rightarrow> (string \<Rightarrow> string) \<Rightarrow> int \<Rightarrow> instant \<Rightarrow> search_query \<Rightarrow> db \<Rightarrow> search_result" where
  "search off lower turnaround now q d =
     (let answer = (\<lambda>data total cut. \<lparr>sr_data = data, sr_page = sq_page q, sr_page_size = sq_page_size q,
            sr_total = total, sr_filters_applied = filters_applied q, sr_truncated_at_candidates = cut\<rparr>) in
      case (sq_from q, sq_to q) of
        (Some from, Some to) \<Rightarrow>
          let open_ids = venuesOpenFor off lower from to (sq_city q) d in
          if open_ids = [] then answer [] 0 None
          else
            let candidates = page_of 1 (int CANDIDATE_CAP) (ordered (\<lambda>x. matches lower q x \<and> r_venue_id (fst x) \<in> set open_ids) d);
                free = freeRoomIds turnaround (map (\<lambda>x. r_id (fst x)) candidates) from to now d;
                available = filter (\<lambda>x. r_id (fst x) \<in> free) candidates in
            answer (page_of (sq_page q) (sq_page_size q) available) (length available)
              (if length candidates = CANDIDATE_CAP then Some CANDIDATE_CAP else None)
      | _ \<Rightarrow>
          let all = ordered (matches lower q) d in
          answer (page_of (sq_page q) (sq_page_size q) all) (length all) None)"

section \<open>One room\<close>

definition rooms_findOne :: "string \<Rightarrow> db \<Rightarrow> exn + offer" where
  "rooms_findOne rid d =
     or_throw (List.find (\<lambda>x. r_id (fst x) = uuid_in rid) (room_venues d)) NotFound"

text \<open>The collation of the database gives a name its sort key.\<close>

definition equipmentForRoom :: "(string \<Rightarrow> string) \<Rightarrow> string \<Rightarrow> db \<Rightarrow> exn + equipment_type list" where
  "equipmentForRoom collate rid d =
     result_bind (or_throw (List.find (\<lambda>r. r_id r = uuid_in rid) (t_rooms d)) NotFound) (\<lambda>r.
       Inr (sort_key (\<lambda>e. (collate (e_name e), e_id e)) (filter (\<lambda>e. e_venue_id e = r_venue_id r) (t_equipment_types d))))"

section \<open>Pages\<close>

text \<open>The pages of a list, one after another, are the list.\<close>

lemma pages_take:
  assumes "0 < n"
  shows "concat (map (\<lambda>k. page_of (int k + 1) n xs) [0..<m]) = take (m * nat n) xs"
proof (induction m)
  case (Suc m)
  have "nat (int m * n) = m * nat n" using assms by (simp add: nat_mult_distrib)
  then have "page_of (int m + 1) n xs = take (nat n) (drop (m * nat n) xs)" by (simp add: page_of_def)
  then show ?case using Suc take_add [of "m * nat n" "nat n" xs] by (simp add: add.commute)
qed simp

lemma pages_all:
  assumes "0 < n"
  shows "concat (map (\<lambda>k. page_of (int k + 1) n xs) [0..<length xs]) = xs"
proof -
  have "length xs \<le> length xs * nat n" using assms by (simp add: Suc_leI)
  then show ?thesis using pages_take [OF assms, of xs "length xs"] by simp
qed

lemma room_venues_iff:
  "(r, v) \<in> set (room_venues d) \<longleftrightarrow> r \<in> set (t_rooms d) \<and> v \<in> set (t_venues d) \<and> v_id v = r_venue_id r"
  by (auto simp: room_venues_def)

lemma distinct_room_venues:
  assumes "distinct (map r_id (t_rooms d))" and "distinct (map v_id (t_venues d))"
  shows "distinct (map (\<lambda>x. r_id (fst x)) (room_venues d))"
proof -
  have one: "length (filter (\<lambda>v. v_id v = k) vs) \<le> 1" if "distinct (map v_id vs)" for k :: uuid and vs :: "venue list"
    using that by (induction vs) (auto simp: filter_empty_conv rev_image_eqI)
  have "distinct (map (\<lambda>x. r_id (fst x)) (concat (map (\<lambda>r. map (Pair r) (filter (\<lambda>v. v_id v = r_venue_id r) (t_venues d))) rs)))"
    if "distinct (map r_id rs)" for rs
    using that
  proof (induction rs)
    case (Cons r rs)
    let ?vs = "filter (\<lambda>v. v_id v = r_venue_id r) (t_venues d)"
    have "?vs = [] \<or> (\<exists>v. ?vs = [v])"
      using one [OF assms(2), of "r_venue_id r"] by (cases ?vs) auto
    then show ?case using Cons by auto
  qed simp
  then show ?thesis using assms(1) by (simp add: room_venues_def)
qed

text \<open>Whether a room is open and free for the window of the query, where it has one.\<close>

definition available_for :: "zone_offsets \<Rightarrow> int \<Rightarrow> instant \<Rightarrow> search_query \<Rightarrow> db \<Rightarrow> offer \<Rightarrow> bool" where
  "available_for off turnaround now q d x \<longleftrightarrow>
     (case (sq_from q, sq_to q) of
        (Some from, Some to) \<Rightarrow>
          open_for off from to (snd x)
          \<and> (\<forall>b \<in> set (t_bookings d). b_room_id b = r_id (fst x) \<and> live_booking now b
               \<longrightarrow> \<not> ranges_overlap (slot b) (from, addMinutes to turnaround))
      | _ \<Rightarrow> True)"

definition price_order :: "offer list \<Rightarrow> bool" where
  "price_order xs \<longleftrightarrow> sorted (map (\<lambda>x. (r_hourly_rate_minor (fst x), r_id (fst x))) xs)"

text \<open>Everything a search with these filters offers: its pages, as many as it has rows, in turn.\<close>

definition all_pages :: "zone_offsets \<Rightarrow> (string \<Rightarrow> string) \<Rightarrow> int \<Rightarrow> instant \<Rightarrow> search_query \<Rightarrow> db \<Rightarrow> offer list" where
  "all_pages off lower turnaround now q d =
     concat (map (\<lambda>k. sr_data (search off lower turnaround now (q\<lparr>sq_page := int k + 1\<rparr>) d))
       [0..<sr_total (search off lower turnaround now q d)])"

definition answer_rows :: "zone_offsets \<Rightarrow> (string \<Rightarrow> string) \<Rightarrow> int \<Rightarrow> instant \<Rightarrow> search_query \<Rightarrow> db \<Rightarrow> offer list" where
  "answer_rows off lower turnaround now q d =
     (case (sq_from q, sq_to q) of
        (Some from, Some to) \<Rightarrow>
          (let open_ids = venuesOpenFor off lower from to (sq_city q) d;
               candidates = take CANDIDATE_CAP
                 (ordered (\<lambda>x. matches lower q x \<and> r_venue_id (fst x) \<in> set open_ids) d) in
           filter (\<lambda>x. r_id (fst x) \<in> freeRoomIds turnaround (map (\<lambda>x. r_id (fst x)) candidates) from to now d) candidates)
      | _ \<Rightarrow> ordered (matches lower q) d)"

lemma search_answer_rows:
  "sr_total (search off lower turnaround now q d) = length (answer_rows off lower turnaround now q d)"
  "sr_data (search off lower turnaround now q d)
     = page_of (sq_page q) (sq_page_size q) (answer_rows off lower turnaround now q d)"
proof -
  have none: "ordered (\<lambda>x. matches lower q x \<and> r_venue_id (fst x) \<in> set []) d = []" by (simp add: ordered_def)
  have page1: "page_of 1 (int CANDIDATE_CAP) xs = take CANDIDATE_CAP xs" for xs :: "offer list"
    by (simp add: page_of_def)
  show "sr_total (search off lower turnaround now q d) = length (answer_rows off lower turnaround now q d)"
    "sr_data (search off lower turnaround now q d)
     = page_of (sq_page q) (sq_page_size q) (answer_rows off lower turnaround now q d)"
    using none by (auto simp: search_def answer_rows_def Let_def page1 ordered_def page_of_def split: option.splits)
qed

lemma answer_rows_page [simp]:
  "answer_rows off lower turnaround now (q\<lparr>sq_page := k\<rparr>) d = answer_rows off lower turnaround now q d"
proof -
  have "matches lower (q\<lparr>sq_page := k\<rparr>) x = matches lower q x" for x by (simp add: matches_def)
  moreover from this have "matches lower (q\<lparr>sq_page := k\<rparr>) = matches lower q" by (rule ext)
  ultimately show ?thesis by (simp add: answer_rows_def cong: option.case_cong)
qed

lemma all_pages_rows:
  assumes "1 \<le> sq_page_size q"
  shows "all_pages off lower turnaround now q d = answer_rows off lower turnaround now q d"
  using pages_all [of "sq_page_size q"] assms by (simp add: all_pages_def search_answer_rows)

lemma set_ordered: "set (ordered p d) = {x \<in> set (room_venues d). p x}"
  by (auto simp: ordered_def)

lemma price_order_ordered: "price_order (ordered p d)"
proof -
  have "(\<lambda>(r, v). (r_hourly_rate_minor r, r_id r)) = (\<lambda>x::offer. (r_hourly_rate_minor (fst x), r_id (fst x)))"
    by (auto simp: fun_eq_iff)
  then show ?thesis by (simp add: price_order_def ordered_def)
qed

lemma price_order_take: "price_order xs \<Longrightarrow> price_order (take n xs)"
  unfolding price_order_def by (metis sorted_wrt_take take_map)

lemma price_order_filter: "price_order xs \<Longrightarrow> price_order (filter p xs)"
  unfolding price_order_def by (rule sorted_filter)

lemma open_venue_iff:
  assumes "distinct (map v_id (t_venues d))" and "v \<in> set (t_venues d)" and "in_city lower city v"
  shows "v_id v \<in> set (venuesOpenFor off lower from to city d) \<longleftrightarrow> open_for off from to v"
  using distinct_map_eqD [OF assms(1)] assms(2,3) by (auto simp: venuesOpenFor_def)

text \<open>
  C20. The search is right and complete. Below the cap on candidates, the pages of a query put together
  list every room that meets the filters and, where a window is given, is open and free for it, each
  exactly once and by price; their number is the total every page reports.
\<close>

theorem search_pages_exact:
  assumes "1 \<le> sq_page_size q" and "length (room_venues d) \<le> CANDIDATE_CAP"
    and "distinct (map r_id (t_rooms d))" and "distinct (map v_id (t_venues d))"
    and "\<And>r. r \<in> set (t_rooms d) \<Longrightarrow> uuid_in (r_id r) = r_id r"
  shows "set (all_pages off lower turnaround now q d)
      = {x \<in> set (room_venues d). matches lower q x \<and> available_for off turnaround now q d x}
    \<and> distinct (map (\<lambda>x. r_id (fst x)) (all_pages off lower turnaround now q d))
    \<and> price_order (all_pages off lower turnaround now q d)
    \<and> sr_total (search off lower turnaround now q d) = length (all_pages off lower turnaround now q d)"
proof -
  let ?rows = "answer_rows off lower turnaround now q d"
  note rows = all_pages_rows [OF assms(1), of off lower turnaround now d]
  have dist: "distinct (map (\<lambda>x. r_id (fst x)) (ordered p d))" for p
  proof -
    have "mset (ordered p d) = mset (filter p (room_venues d))" by (simp add: ordered_def)
    moreover have "distinct (map (\<lambda>x. r_id (fst x)) (filter p (room_venues d)))"
      using distinct_room_venues [OF assms(3,4)] by (simp add: distinct_map_filter)
    ultimately show ?thesis by (metis mset_eq_imp_distinct_iff mset_map)
  qed
  have cut: "take CANDIDATE_CAP (ordered p d) = ordered p d" for p
  proof -
    have "length (ordered p d) \<le> length (room_venues d)" by (simp add: ordered_def)
    then show ?thesis using assms(2) by simp
  qed
  have canon: "uuid_in (r_id (fst x)) = r_id (fst x)" if "x \<in> set (room_venues d)" for x
    using that assms(5) room_venues_iff [of "fst x" "snd x" d] by simp
  have "set ?rows = {x \<in> set (room_venues d). matches lower q x \<and> available_for off turnaround now q d x}"
  proof (cases "(sq_from q, sq_to q)")
    case (Pair a b)
    show ?thesis
    proof (cases "\<exists>from to. a = Some from \<and> b = Some to")
      case True
      then obtain "from" to where w: "sq_from q = Some from" "sq_to q = Some to" using Pair by auto
      define open_ids where "open_ids = venuesOpenFor off lower from to (sq_city q) d"
      define cs where "cs = ordered (\<lambda>x. matches lower q x \<and> r_venue_id (fst x) \<in> set open_ids) d"
      have rowsw: "?rows = filter (\<lambda>x. r_id (fst x) \<in> freeRoomIds turnaround (map (\<lambda>x. r_id (fst x)) cs) from to now d) cs"
        by (simp add: answer_rows_def w cut cs_def open_ids_def Let_def)
      have cs: "x \<in> set cs \<longleftrightarrow> x \<in> set (room_venues d) \<and> matches lower q x \<and> open_for off from to (snd x)" for x
      proof (cases x)
        case (Pair r v)
        have "v_id v \<in> set open_ids \<longleftrightarrow> open_for off from to v"
          if "(r, v) \<in> set (room_venues d)" "matches lower q (r, v)"
          unfolding open_ids_def using that assms(4)
          by (intro open_venue_iff) (auto simp: room_venues_iff matches_def)
        then show ?thesis using Pair by (auto simp: cs_def set_ordered room_venues_iff)
      qed
      have sub: "set cs \<subseteq> set (room_venues d)" by (auto simp: cs_def set_ordered)
      have free: "r_id (fst x) \<in> freeRoomIds turnaround (map (\<lambda>x. r_id (fst x)) cs) from to now d \<longleftrightarrow>
          (\<forall>b \<in> set (t_bookings d). b_room_id b = r_id (fst x) \<and> live_booking now b
             \<longrightarrow> \<not> ranges_overlap (slot b) (from, addMinutes to turnaround))" if "x \<in> set cs" for x
      proof -
        have "uuid_in ` set (map (\<lambda>x. r_id (fst x)) cs) = set (map (\<lambda>x. r_id (fst x)) cs)"
          using canon sub by (force simp: image_image intro: image_cong)
        then show ?thesis using that by (simp only: freeRoomIds_def Let_def) (auto simp: image_iff)
      qed
      show ?thesis using cs free by (auto simp: rowsw available_for_def w)
    next
      case False
      then have "answer_rows off lower turnaround now q d = ordered (matches lower q) d"
        "available_for off turnaround now q d x" for x
        using Pair by (auto simp: answer_rows_def available_for_def split: option.splits)
      then show ?thesis by (simp add: set_ordered)
    qed
  qed
  moreover have "distinct (map (\<lambda>x. r_id (fst x)) ?rows)" "price_order ?rows"
    using dist cut price_order_ordered price_order_filter
    by (auto simp: answer_rows_def Let_def distinct_map_filter split: option.splits)
  ultimately show ?thesis by (simp add: rows search_answer_rows)
qed

definition sample_search :: search_query where
  "sample_search = \<lparr>sq_city = Some ''Karachi'', sq_min_capacity = Some 10, sq_amenity = [''wifi''],
     sq_max_hourly_rate_minor = None, sq_from = Some (8 * hour), sq_to = Some (10 * hour), sq_page = 1,
     sq_page_size = 20\<rparr>"

lemma search_pages_exact_witness:
  "(sample_room, sample_venue) \<in> set (all_pages sample_utc (\<lambda>s. s) 15 120000 sample_search sample_db)"
proof -
  have "1 \<le> sq_page_size sample_search" "length (room_venues sample_db) \<le> CANDIDATE_CAP"
    "distinct (map r_id (t_rooms sample_db))" "distinct (map v_id (t_venues sample_db))"
    "\<forall>r \<in> set (t_rooms sample_db). uuid_in (r_id r) = r_id r"
    by code_simp+
  moreover have "(sample_room, sample_venue) \<in> set (room_venues sample_db)"
    "matches (\<lambda>s. s) sample_search (sample_room, sample_venue)"
    "\<forall>b \<in> set (t_bookings sample_db). b_room_id b = r_id sample_room \<and> live_booking 120000 b
       \<longrightarrow> \<not> ranges_overlap (slot b) (8 * hour, addMinutes (10 * hour) 15)"
    by code_simp+
  moreover have "parseOperatingHours (v_operating_hours sample_venue) = Some (rc_hours sample_context)" by code_simp
  then have "open_for sample_utc (8 * hour) (10 * hour) sample_venue"
    using sample_bookable
    by (auto simp: open_for_def assertBookable_def tx_simps Let_def sample_hold_def sample_context_def sample_venue_def)
  ultimately show ?thesis
    using search_pages_exact [of sample_search sample_db sample_utc "\<lambda>s. s" 15 120000]
    by (simp add: available_for_def sample_search_def)
qed

end
