(* ===== verification/Decimal.thy ===== *)
theory Decimal
  imports ZonedTime
begin

text \<open>
  Amounts as text. A \<open>bigint\<close> leaves Postgres and the API as a decimal text and is read back by
  \<open>BigInt\<close>; the two are inverse to each other, so no amount changes on the wire.
\<close>

fun decimal :: "int \<Rightarrow> string \<Rightarrow> int option" where
  "decimal n [] = Some n"
| "decimal n (c # cs) = (case digit c of None \<Rightarrow> None | Some k \<Rightarrow> decimal (10 * n + k) cs)"

text \<open>\<open>BigInt(s)\<close> for the texts of integers; \<open>None\<close> is any other text.\<close>

fun BigInt :: "string \<Rightarrow> int option" where
  "BigInt [] = None"
| "BigInt (c # cs) =
     (if c = CHR ''-'' then (if cs = [] then None else map_option uminus (decimal 0 cs)) else decimal 0 (c # cs))"

lemma digit_char [simp]:
  assumes "k < 10"
  shows "digit (char_of (48 + k :: nat)) = Some (int k)"
proof -
  have "list_all (\<lambda>k. digit (char_of (48 + k :: nat)) = Some (int k)) [0..<10]" by code_simp
  then show ?thesis using assms by (simp only: list_all_iff set_upt) auto
qed

lemma decimal_append:
  "decimal n (xs @ ys) = Option.bind (decimal n xs) (\<lambda>m. decimal m ys)"
  by (induction n xs rule: decimal.induct) (auto split: option.splits)

lemma decimal_show_nat: "decimal 0 (show_nat n) = Some (int n)"
proof (induction n rule: show_nat.induct)
  case (1 n)
  show ?case
  proof (cases "n < 10")
    case True
    then show ?thesis by (subst show_nat.simps) simp
  next
    case False
    have "int (10 * (n div 10) + n mod 10) = int n" by simp
    then have "10 * int (n div 10) + int (n mod 10) = int n" by (simp only: of_nat_add of_nat_mult of_nat_numeral)
    then show ?thesis using 1 False by (subst show_nat.simps) (simp add: decimal_append)
  qed
qed

lemma show_nat_not_Nil [simp]: "show_nat n \<noteq> []"
  by (subst show_nat.simps) simp

lemma show_nat_no_sign: "hd (show_nat n) \<noteq> CHR ''-''"
proof
  assume "hd (show_nat n) = CHR ''-''"
  then have "show_nat n = CHR ''-'' # tl (show_nat n)" by (metis list.collapse show_nat_not_Nil)
  moreover have "digit (CHR ''-'') = None" by (simp add: digit_def)
  ultimately have "decimal 0 (show_nat n) = None" by (metis decimal.simps(2) option.simps(4))
  then show False by (simp add: decimal_show_nat)
qed

lemma BigInt_show_int [simp]: "BigInt (show_int n) = Some n"
proof (cases "n < 0")
  case False
  then have "show_int n = show_nat (nat n)" by (simp add: show_int_def)
  moreover obtain c cs where "show_nat (nat n) = c # cs" using show_nat_not_Nil by (meson neq_Nil_conv)
  ultimately show ?thesis
    using show_nat_no_sign [of "nat n"] decimal_show_nat [of "nat n"] False by simp
qed (simp add: show_int_def decimal_show_nat)

lemma show_int_inject [simp]: "show_int m = show_int n \<longleftrightarrow> m = n"
  by (metis BigInt_show_int option.inject)

end
