(* ===== verification/VenuesAdmin.thy ===== *)
theory VenuesAdmin
  imports Auth Catalogue Payments Decimal
begin

text \<open>
  A venue's own configuration: \<open>venues/venues-admin.service.ts\<close> with its schemas,
  \<open>policies/policies.service.ts\<close> and \<open>equipment/equipment.controller.ts\<close> of \<open>apps/api/src\<close>.

  A body arrives with the types of its fields; a schema trims, checks and converts it, or the request
  is answered 422. Fields of a PATCH are options. A row of an answer stands for its projection, which
  spells a rate as a decimal text and leaves no column out.
\<close>

section \<open>Schemas\<close>

text \<open>An optional field: absent, or present and valid.\<close>

definition optional :: "('a \<Rightarrow> 'b option) \<Rightarrow> 'a option \<Rightarrow> 'b option option" where
  "optional f x = (case x of None \<Rightarrow> Some None | Some a \<Rightarrow> map_option Some (f a))"

definition trimmed_text :: "nat \<Rightarrow> string \<Rightarrow> string option" where
  "trimmed_text most s = (let t = trim s in if 1 \<le> length t \<and> length t \<le> most then Some t else None)"

definition int_between :: "int \<Rightarrow> int \<Rightarrow> int \<Rightarrow> int option" where
  "int_between lo hi n = (if lo \<le> n \<and> n \<le> hi then Some n else None)"

text \<open>
  A rate is a string or a number. \<open>String(value)\<close> of a number is plain digits exactly for the whole ones
  from 0 below \<open>10 ^ 21\<close>.
\<close>

datatype rate_in = RateString string | RateNumber js_number

fun rate_value :: "rate_in \<Rightarrow> int option" where
  "rate_value (RateString s) = (let t = trim s in if t = [] then None else decimal 0 t)"
| "rate_value (RateNumber x) = (if x = of_int \<lfloor>x\<rfloor> \<and> 0 \<le> x \<and> x < 10 ^ 21 then Some \<lfloor>x\<rfloor> else None)"

definition RateMinor :: "rate_in \<Rightarrow> int option" where
  "RateMinor r = Option.bind (rate_value r) (\<lambda>n. if n \<le> 9223372036854775807 then Some n else None)"

definition OverbookingBufferPct :: "int \<Rightarrow> int option" where
  "OverbookingBufferPct n = int_between 0 10 n"

record settings_body =
  sb_name :: "string option"
  sb_city :: "string option"
  sb_timezone :: "string option"
  sb_operating_hours :: "json option"
  sb_overbooking_buffer_pct :: "int option"

record settings_input =
  si_name :: "string option"
  si_city :: "string option"
  si_timezone :: "string option"
  si_operating_hours :: "operating_hours option"
  si_overbooking_buffer_pct :: "int option"

definition isKnownTimezone :: "(string \<Rightarrow> bool) \<Rightarrow> string \<Rightarrow> string option" where
  "isKnownTimezone tz s = (let t = trim s in if t \<noteq> [] \<and> tz t then Some t else None)"

definition no_settings :: settings_input where
  "no_settings = \<lparr>si_name = None, si_city = None, si_timezone = None, si_operating_hours = None,
     si_overbooking_buffer_pct = None\<rparr>"

definition UpdateVenueSettingsSchema :: "(string \<Rightarrow> bool) \<Rightarrow> settings_body \<Rightarrow> settings_input option" where
  "UpdateVenueSettingsSchema tz b =
     (case (optional (trimmed_text 200) (sb_name b), optional (trimmed_text 120) (sb_city b),
            optional (isKnownTimezone tz) (sb_timezone b), optional parseOperatingHours (sb_operating_hours b),
            optional OverbookingBufferPct (sb_overbooking_buffer_pct b)) of
        (Some name, Some city, Some zone, Some hours, Some buffer) \<Rightarrow>
          let i = \<lparr>si_name = name, si_city = city, si_timezone = zone, si_operating_hours = hours,
                   si_overbooking_buffer_pct = buffer\<rparr> in
          if i = no_settings then None else Some i
      | _ \<Rightarrow> None)"

record room_body =
  rb_name :: "string option"
  rb_capacity :: "int option"
  rb_hourly_rate_minor :: "rate_in option"
  rb_amenities :: "string list option"
  rb_min_duration_minutes :: "int option"
  rb_max_duration_minutes :: "int option"
  rb_overbooking_buffer_pct :: "int option"

record room_input =
  ri_name :: "string option"
  ri_capacity :: "int option"
  ri_hourly_rate_minor :: "int option"
  ri_amenities :: "string list option"
  ri_min_duration_minutes :: "int option"
  ri_max_duration_minutes :: "int option"
  ri_overbooking_buffer_pct :: "int option"

definition durationsCoherent :: "int option \<Rightarrow> int option \<Rightarrow> bool" where
  "durationsCoherent lo hi \<longleftrightarrow> (case (lo, hi) of (Some a, Some b) \<Rightarrow> \<not> a > b | _ \<Rightarrow> True)"

definition amenity_texts :: "string list \<Rightarrow> string list option" where
  "amenity_texts xs = (if length xs \<le> 50 then all_some (map (trimmed_text 60) xs) else None)"

text \<open>\<open>RoomFields\<close>, each of them where the body has it.\<close>

definition RoomFields :: "room_body \<Rightarrow> room_input option" where
  "RoomFields b =
     (case (optional (trimmed_text 200) (rb_name b), optional (int_between 1 10000) (rb_capacity b),
            optional RateMinor (rb_hourly_rate_minor b), optional amenity_texts (rb_amenities b),
            optional (int_between 30 480) (rb_min_duration_minutes b),
            optional (int_between 30 480) (rb_max_duration_minutes b),
            optional (int_between 0 100) (rb_overbooking_buffer_pct b)) of
        (Some name, Some capacity, Some rate, Some amenities, Some lo, Some hi, Some buffer) \<Rightarrow>
          Some \<lparr>ri_name = name, ri_capacity = capacity, ri_hourly_rate_minor = rate, ri_amenities = amenities,
                ri_min_duration_minutes = lo, ri_max_duration_minutes = hi, ri_overbooking_buffer_pct = buffer\<rparr>
      | _ \<Rightarrow> None)"

definition no_room_fields :: room_input where
  "no_room_fields = \<lparr>ri_name = None, ri_capacity = None, ri_hourly_rate_minor = None, ri_amenities = None,
     ri_min_duration_minutes = None, ri_max_duration_minutes = None, ri_overbooking_buffer_pct = None\<rparr>"

definition UpdateRoomSchema :: "room_body \<Rightarrow> room_input option" where
  "UpdateRoomSchema b = Option.bind (RoomFields b) (\<lambda>i.
     if i \<noteq> no_room_fields \<and> durationsCoherent (ri_min_duration_minutes i) (ri_max_duration_minutes i)
     then Some i else None)"

text \<open>A new room: three fields are required, three have a default.\<close>

record create_room_input =
  cr_name :: string
  cr_capacity :: int
  cr_hourly_rate_minor :: int
  cr_amenities :: "string list"
  cr_min_duration_minutes :: int
  cr_max_duration_minutes :: int
  cr_overbooking_buffer_pct :: "int option"

text \<open>\<open>x ?? a\<close>.\<close>

definition unless_given :: "'a \<Rightarrow> 'a option \<Rightarrow> 'a" where
  "unless_given a x = (case x of None \<Rightarrow> a | Some b \<Rightarrow> b)"

definition CreateRoomSchema :: "room_body \<Rightarrow> create_room_input option" where
  "CreateRoomSchema b = Option.bind (RoomFields b) (\<lambda>i.
     case (ri_name i, ri_capacity i, ri_hourly_rate_minor i) of
       (Some name, Some capacity, Some rate) \<Rightarrow>
         let lo = unless_given 60 (ri_min_duration_minutes i); hi = unless_given 480 (ri_max_duration_minutes i) in
         if durationsCoherent (Some lo) (Some hi)
         then Some \<lparr>cr_name = name, cr_capacity = capacity, cr_hourly_rate_minor = rate,
                cr_amenities = unless_given [] (ri_amenities i), cr_min_duration_minutes = lo,
                cr_max_duration_minutes = hi, cr_overbooking_buffer_pct = ri_overbooking_buffer_pct i\<rparr>
         else None
     | _ \<Rightarrow> None)"

record equipment_body =
  eb_name :: "string option"
  eb_hourly_rate_minor :: "rate_in option"
  eb_units_owned :: "int option"

record equipment_input =
  ei_name :: "string option"
  ei_hourly_rate_minor :: "int option"
  ei_units_owned :: "int option"

definition equipment_fields :: "equipment_body \<Rightarrow> equipment_input option" where
  "equipment_fields b =
     (case (optional (trimmed_text 200) (eb_name b), optional RateMinor (eb_hourly_rate_minor b),
            optional (int_between 1 100000) (eb_units_owned b)) of
        (Some name, Some rate, Some units) \<Rightarrow>
          Some \<lparr>ei_name = name, ei_hourly_rate_minor = rate, ei_units_owned = units\<rparr>
      | _ \<Rightarrow> None)"

definition no_equipment_fields :: equipment_input where
  "no_equipment_fields = \<lparr>ei_name = None, ei_hourly_rate_minor = None, ei_units_owned = None\<rparr>"

definition UpdateEquipmentTypeSchema :: "equipment_body \<Rightarrow> equipment_input option" where
  "UpdateEquipmentTypeSchema b = Option.bind (equipment_fields b) (\<lambda>i. if i = no_equipment_fields then None else Some i)"

definition CreateEquipmentTypeSchema :: "equipment_body \<Rightarrow> (string \<times> int \<times> int) option" where
  "CreateEquipmentTypeSchema b = Option.bind (equipment_fields b) (\<lambda>i.
     case (ei_name i, ei_hourly_rate_minor i, ei_units_owned i) of
       (Some name, Some rate, Some units) \<Rightarrow> Some (name, rate, units)
     | _ \<Rightarrow> None)"

section \<open>The service\<close>

text \<open>The venue on the token, or a refusal.\<close>

definition admin_scope :: "principal \<Rightarrow> exn + uuid" where
  "admin_scope p = (case pr_venue_id p of None \<Rightarrow> Inl Forbidden | Some v \<Rightarrow> if v = [] then Inl Forbidden else Inr (uuid_in v))"

definition settings :: "principal \<Rightarrow> db \<Rightarrow> exn + venue" where
  "settings p d = result_bind (admin_scope p) (\<lambda>vid. or_throw (List.find (\<lambda>v. v_id v = vid) (t_venues d)) NotFound)"

definition day_json :: "day_hours option \<Rightarrow> json" where
  "day_json h = (case h of None \<Rightarrow> JNull
     | Some d \<Rightarrow> JObj [(''open'', JStr (dh_open d)), (''close'', JStr (dh_close d))])"

definition hours_json :: "operating_hours \<Rightarrow> json" where
  "hours_json hs = JObj (zip WEEKDAY_KEYS (map day_json hs))"

definition patch_venue :: "settings_input \<Rightarrow> venue \<Rightarrow> venue" where
  "patch_venue i v = v\<lparr>v_name := unless_given (v_name v) (si_name i), v_city := unless_given (v_city v) (si_city i),
     v_timezone := unless_given (v_timezone v) (si_timezone i),
     v_operating_hours := unless_given (v_operating_hours v) (map_option hours_json (si_operating_hours i)),
     v_overbooking_buffer_pct := unless_given (v_overbooking_buffer_pct v) (si_overbooking_buffer_pct i)\<rparr>"

definition updateSettings :: "settings_input \<Rightarrow> principal \<Rightarrow> db \<Rightarrow> exn + venue \<times> db" where
  "updateSettings i p d =
     result_bind (admin_scope p) (\<lambda>vid.
     if i = no_settings then Inl (JsError ''No values to set'')
     else result_bind (or_throw (List.find (\<lambda>v. v_id v = vid) (t_venues d)) NotFound) (\<lambda>v.
       let v' = patch_venue i v in
       if \<not> (0 \<le> v_overbooking_buffer_pct v' \<and> v_overbooking_buffer_pct v' \<le> 10)
       then Inl (pg_error ''23514'' ''venues_overbooking_buffer_ck'')
       else Inr (v', d\<lparr>t_venues := update_where (\<lambda>v. v_id v = vid) (patch_venue i) (t_venues d)\<rparr>)))"

definition refuseRoomBuffer :: "int option \<Rightarrow> exn + unit" where
  "refuseRoomBuffer b = (case b of None \<Rightarrow> Inr () | Some n \<Rightarrow> ensure (n = 0) (Unprocessable (RoomBuffer n)))"

definition createRoom :: "create_room_input \<Rightarrow> principal \<Rightarrow> uuid \<Rightarrow> db \<Rightarrow> exn + room \<times> db" where
  "createRoom i p fresh d =
     result_bind (admin_scope p) (\<lambda>vid.
     result_bind (refuseRoomBuffer (cr_overbooking_buffer_pct i)) (\<lambda>_.
     let r = \<lparr>r_id = fresh, r_venue_id = vid, r_name = cr_name i, r_capacity = cr_capacity i,
              r_hourly_rate_minor = cr_hourly_rate_minor i, r_amenities = cr_amenities i,
              r_min_duration_minutes = cr_min_duration_minutes i, r_max_duration_minutes = cr_max_duration_minutes i\<rparr> in
     if fresh \<in> r_id ` set (t_rooms d) then Inl (pg_error ''23505'' ''rooms_pkey'')
     else if vid \<notin> v_id ` set (t_venues d) then Inl (pg_error ''23503'' '''')
     else Inr (r, d\<lparr>t_rooms := t_rooms d @ [r]\<rparr>)))"

text \<open>The statement that reads, and the checks on what it read.\<close>

definition find_room :: "string \<Rightarrow> uuid \<Rightarrow> db \<Rightarrow> room option" where
  "find_room rid vid d = List.find (\<lambda>r. r_id r = uuid_in rid \<and> r_venue_id r = vid) (t_rooms d)"

definition updateRoom_read :: "string \<Rightarrow> room_input \<Rightarrow> principal \<Rightarrow> db \<Rightarrow> exn + room" where
  "updateRoom_read rid i p d =
     result_bind (admin_scope p) (\<lambda>vid.
     result_bind (refuseRoomBuffer (ri_overbooking_buffer_pct i)) (\<lambda>_.
     result_bind (or_throw (find_room rid vid d) NotFound) (\<lambda>existing.
     let lo = unless_given (r_min_duration_minutes existing) (ri_min_duration_minutes i);
         hi = unless_given (r_max_duration_minutes existing) (ri_max_duration_minutes i) in
     result_bind (ensure (\<not> lo > hi) (Unprocessable (DurationsCross lo hi))) (\<lambda>_. Inr existing))))"

definition patch_room :: "room_input \<Rightarrow> room \<Rightarrow> room" where
  "patch_room i r = r\<lparr>r_name := unless_given (r_name r) (ri_name i), r_capacity := unless_given (r_capacity r) (ri_capacity i),
     r_hourly_rate_minor := unless_given (r_hourly_rate_minor r) (ri_hourly_rate_minor i),
     r_amenities := unless_given (r_amenities r) (ri_amenities i),
     r_min_duration_minutes := unless_given (r_min_duration_minutes r) (ri_min_duration_minutes i),
     r_max_duration_minutes := unless_given (r_max_duration_minutes r) (ri_max_duration_minutes i)\<rparr>"

text \<open>The statement that writes. Only the fields sent are set, and the row is not the one that was checked.\<close>

definition updateRoom_write :: "string \<Rightarrow> room_input \<Rightarrow> principal \<Rightarrow> room \<Rightarrow> db \<Rightarrow> exn + room \<times> db" where
  "updateRoom_write rid i p existing d =
     result_bind (admin_scope p) (\<lambda>vid.
     if i\<lparr>ri_overbooking_buffer_pct := None\<rparr> = no_room_fields then Inr (existing, d)
     else result_bind (or_throw (find_room rid vid d) NotFound) (\<lambda>r.
       Inr (patch_room i r,
         d\<lparr>t_rooms := update_where (\<lambda>r. r_id r = uuid_in rid \<and> r_venue_id r = vid) (patch_room i) (t_rooms d)\<rparr>)))"

definition updateRoom :: "string \<Rightarrow> room_input \<Rightarrow> principal \<Rightarrow> db \<Rightarrow> exn + room \<times> db" where
  "updateRoom rid i p d = result_bind (updateRoom_read rid i p d) (\<lambda>existing. updateRoom_write rid i p existing d)"

text \<open>\<open>ORDER BY name, id\<close>; the collation of the database gives a name its key.\<close>

definition listRooms :: "(string \<Rightarrow> string) \<Rightarrow> principal \<Rightarrow> db \<Rightarrow> exn + room list" where
  "listRooms collate p d =
     result_bind (admin_scope p) (\<lambda>vid.
       Inr (sort_key (\<lambda>r. (collate (r_name r), r_id r)) (filter (\<lambda>r. r_venue_id r = vid) (t_rooms d))))"

definition createEquipmentType :: "string \<times> int \<times> int \<Rightarrow> principal \<Rightarrow> uuid \<Rightarrow> db \<Rightarrow> exn + equipment_type \<times> db" where
  "createEquipmentType i p fresh d =
     result_bind (admin_scope p) (\<lambda>vid.
     let e = \<lparr>e_id = fresh, e_venue_id = vid, e_name = fst i, e_hourly_rate_minor = fst (snd i), e_units_owned = snd (snd i)\<rparr> in
     if \<not> 0 \<le> e_units_owned e then Inl (pg_error ''23514'' ''equipment_types_units_ck'')
     else if fresh \<in> e_id ` set (t_equipment_types d) then Inl (pg_error ''23505'' ''equipment_types_pkey'')
     else if vid \<notin> v_id ` set (t_venues d) then Inl (pg_error ''23503'' '''')
     else Inr (e, d\<lparr>t_equipment_types := t_equipment_types d @ [e]\<rparr>))"

definition patch_equipment :: "equipment_input \<Rightarrow> equipment_type \<Rightarrow> equipment_type" where
  "patch_equipment i e = e\<lparr>e_name := unless_given (e_name e) (ei_name i),
     e_hourly_rate_minor := unless_given (e_hourly_rate_minor e) (ei_hourly_rate_minor i),
     e_units_owned := unless_given (e_units_owned e) (ei_units_owned i)\<rparr>"

definition updateEquipmentType :: "string \<Rightarrow> equipment_input \<Rightarrow> principal \<Rightarrow> db \<Rightarrow> exn + equipment_type \<times> db" where
  "updateEquipmentType eid i p d =
     result_bind (admin_scope p) (\<lambda>vid.
     if i = no_equipment_fields then Inl (JsError ''No values to set'')
     else result_bind (or_throw (List.find (\<lambda>e. e_id e = uuid_in eid \<and> e_venue_id e = vid) (t_equipment_types d)) NotFound) (\<lambda>e.
       if \<not> 0 \<le> e_units_owned (patch_equipment i e) then Inl (pg_error ''23514'' ''equipment_types_units_ck'')
       else Inr (patch_equipment i e,
         d\<lparr>t_equipment_types := update_where (\<lambda>e. e_id e = uuid_in eid \<and> e_venue_id e = vid) (patch_equipment i) (t_equipment_types d)\<rparr>)))"

section \<open>Equipment and policies\<close>

definition equipment_scope :: "principal \<Rightarrow> exn + (equipment_type \<Rightarrow> bool)" where
  "equipment_scope p =
     (if pr_role p = PLATFORM_ADMIN then Inr (\<lambda>_. True)
      else case pr_venue_id p of
        None \<Rightarrow> Inl NotFound
      | Some v \<Rightarrow> if v = [] then Inl NotFound else Inr (\<lambda>e. e_venue_id e = uuid_in v))"

definition equipment_list :: "principal \<Rightarrow> db \<Rightarrow> exn + equipment_type list" where
  "equipment_list p d = result_bind (equipment_scope p) (\<lambda>scope. Inr (filter scope (t_equipment_types d)))"

definition equipment_findOne :: "string \<Rightarrow> principal \<Rightarrow> db \<Rightarrow> exn + equipment_type" where
  "equipment_findOne eid p d =
     result_bind (equipment_scope p) (\<lambda>scope.
       or_throw (List.find (\<lambda>e. e_id e = uuid_in eid \<and> scope e) (t_equipment_types d)) NotFound)"

record policy_answer =
  pa_venue_id :: "uuid option"
  pa_policy_id :: uuid
  pa_resolved_from :: policy_source
  pa_tiers :: "tier list"

definition policies_current :: "principal \<Rightarrow> db \<Rightarrow> exn + policy_answer" where
  "policies_current p d =
     result_bind (resolveTiers (map_option uuid_in (pr_venue_id p)) d) (\<lambda>(ts, pid, src).
       Inr \<lparr>pa_venue_id = pr_venue_id p, pa_policy_id = pid, pa_resolved_from = src, pa_tiers = ts\<rparr>)"

definition policies_replace :: "tier list \<Rightarrow> principal \<Rightarrow> uuid \<Rightarrow> instant \<Rightarrow> db \<Rightarrow> exn + policy_answer \<times> db" where
  "policies_replace ts p fresh now d =
     (case pr_venue_id p of
        None \<Rightarrow> Inl Forbidden
      | Some v \<Rightarrow>
          if v = [] then Inl Forbidden
          else if fresh \<in> cp_id ` set (t_cancellation_policies d) then Inl (pg_error ''23505'' ''cancellation_policies_pkey'')
          else if uuid_in v \<notin> v_id ` set (t_venues d) then Inl (pg_error ''23503'' '''')
          else Inr (\<lparr>pa_venue_id = Some v, pa_policy_id = fresh, pa_resolved_from = FromVenue, pa_tiers = ts\<rparr>,
            d\<lparr>t_cancellation_policies := t_cancellation_policies d
               @ [\<lparr>cp_id = fresh, cp_venue_id = Some (uuid_in v), cp_tiers = tiers_json ts, cp_created_at = now\<rparr>]\<rparr>))"

end
