(* ===== verification/Reports.thy ===== *)
theory Reports
  imports Auth Fixtures Decimal
begin

text \<open>
  \<open>apps/api/src/reports/reports.service.ts\<close> with its schema: revenue and utilisation of the caller's venue
  over a range of instants. The aggregates are computed by Postgres and come back as text where they are
  \<open>bigint\<close>; \<open>::int\<close> rounds half away from zero. Open minutes are computed in JavaScript.
\<close>

section \<open>The aggregates\<close>

record revenue_query =
  rv_from :: instant
  rv_to :: instant

definition RevenueReportSchema :: "revenue_query \<Rightarrow> bool" where
  "RevenueReportSchema q \<longleftrightarrow> rv_from q < rv_to q \<and> rv_to q - rv_from q \<le> 366 * 24 * 60 * 60 * 1000"

text \<open>The predicate the four statements share.\<close>

definition report_rows :: "uuid \<Rightarrow> revenue_query \<Rightarrow> db \<Rightarrow> booking list" where
  "report_rows vid q d =
     filter (\<lambda>b. b_venue_id b = vid \<and> rv_from q \<le> b_starts_at b \<and> b_starts_at b < rv_to q) (t_bookings d)"

definition earns :: "booking \<Rightarrow> bool" where
  "earns b \<longleftrightarrow> b_status b \<in> {CONFIRMED, COMPLETED}"

definition count_status :: "booking_status \<Rightarrow> booking list \<Rightarrow> nat" where
  "count_status s bs = length (filter (\<lambda>b. b_status b = s) bs)"

definition gross :: "booking list \<Rightarrow> int" where
  "gross bs = sum_list (map b_total_minor (filter earns bs))"

definition pg_round :: "rat \<Rightarrow> int" where
  "pg_round x = (if x < 0 then - \<lfloor>- x + 1 / 2\<rfloor> else \<lfloor>x + 1 / 2\<rfloor>)"

definition minutes_of :: "booking \<Rightarrow> rat" where
  "minutes_of b = of_int (b_ends_at b - b_starts_at b) / 1000 / 60"

definition booked_minutes :: "booking list \<Rightarrow> int" where
  "booked_minutes bs = pg_round (sum_list (map minutes_of (filter earns bs)))"

definition text_min :: "string list \<Rightarrow> string option" where
  "text_min xs = (case xs of [] \<Rightarrow> None | y # ys \<Rightarrow> Some (fold min ys y))"

record report_totals =
  tt_bookings :: nat
  tt_confirmed :: nat
  tt_completed :: nat
  tt_cancelled :: nat
  tt_refunded :: nat
  tt_expired :: nat
  tt_failed :: nat
  tt_gross_minor :: string
  tt_booked_minutes :: int
  tt_currency :: "string option"

definition totals :: "uuid \<Rightarrow> revenue_query \<Rightarrow> db \<Rightarrow> report_totals" where
  "totals vid q d =
     (let bs = report_rows vid q d in
      \<lparr>tt_bookings = length bs, tt_confirmed = count_status CONFIRMED bs,
       tt_completed = count_status COMPLETED bs, tt_cancelled = count_status CANCELLED bs,
       tt_refunded = count_status REFUNDED bs, tt_expired = count_status EXPIRED bs,
       tt_failed = count_status FAILED bs, tt_gross_minor = show_int (gross bs),
       tt_booked_minutes = booked_minutes bs, tt_currency = text_min (map b_currency bs)\<rparr>)"

definition refunds_of :: "db \<Rightarrow> booking \<Rightarrow> int" where
  "refunds_of d b = sum_list (map p_refunded_minor (filter (\<lambda>p. p_booking_id p = b_id b) (t_payments d)))"

definition refunded :: "uuid \<Rightarrow> revenue_query \<Rightarrow> db \<Rightarrow> string" where
  "refunded vid q d = show_int (sum_list (map (refunds_of d) (report_rows vid q d)))"

definition net_minor :: "string \<Rightarrow> string \<Rightarrow> exn + string" where
  "net_minor gross_text refunded_text =
     (case (BigInt gross_text, BigInt refunded_text) of
        (Some g, Some r) \<Rightarrow> Inr (show_int (g - r))
      | _ \<Rightarrow> Inl (JsError ''SyntaxError''))"

text \<open>
  \<open>GROUP BY\<close> a key; \<open>ORDER BY 5 DESC, room_id\<close> sorts by the fifth column of the output, which is a text,
  and then by the id: two stable sorts, the second descending.
\<close>

definition group_by :: "('r \<Rightarrow> 'k) \<Rightarrow> 'r list \<Rightarrow> ('k \<times> 'r list) list" where
  "group_by key rows = map (\<lambda>k. (k, filter (\<lambda>r. key r = k) rows)) (remdups (map key rows))"

definition sort_desc :: "('r \<Rightarrow> 'k::linorder) \<Rightarrow> 'r list \<Rightarrow> 'r list" where
  "sort_desc key rows = rev (sort_key key (rev rows))"

record room_revenue =
  rr_room_id :: uuid
  rr_room_name :: string
  rr_bookings :: nat
  rr_booked_minutes :: int
  rr_gross_minor :: string

definition joined_rooms :: "db \<Rightarrow> booking list \<Rightarrow> (booking \<times> room) list" where
  "joined_rooms d bs = concat (map (\<lambda>b. map (Pair b) (filter (\<lambda>r. r_id r = b_room_id b) (t_rooms d))) bs)"

definition room_revenue_of :: "(uuid \<times> string) \<times> (booking \<times> room) list \<Rightarrow> room_revenue" where
  "room_revenue_of g = (case g of ((rid, name), rows) \<Rightarrow>
     \<lparr>rr_room_id = rid, rr_room_name = name, rr_bookings = length rows,
      rr_booked_minutes = booked_minutes (map fst rows), rr_gross_minor = show_int (gross (map fst rows))\<rparr>)"

definition byRoom :: "uuid \<Rightarrow> revenue_query \<Rightarrow> db \<Rightarrow> room_revenue list" where
  "byRoom vid q d =
     sort_desc rr_gross_minor (sort_key rr_room_id
       (map room_revenue_of (group_by (\<lambda>(b, r). (b_room_id b, r_name r)) (joined_rooms d (report_rows vid q d)))))"

record day_revenue =
  dr_day :: string
  dr_bookings :: nat
  dr_gross_minor :: string

text \<open>\<open>to_char(date_trunc('day', starts_at AT TIME ZONE tz), 'YYYY-MM-DD')\<close>\<close>

definition local_day :: "zone_offsets \<Rightarrow> string \<Rightarrow> booking \<Rightarrow> string" where
  "local_day off tz b =
     (let (y, m, d) = civil_from_days ((b_starts_at b + off tz (b_starts_at b)) div MS_PER_DAY) in
      padded 4 y @ ''-'' @ padded 2 m @ ''-'' @ padded 2 d)"

definition byDay :: "zone_offsets \<Rightarrow> string \<Rightarrow> uuid \<Rightarrow> revenue_query \<Rightarrow> db \<Rightarrow> day_revenue list" where
  "byDay off tz vid q d =
     sort_key dr_day (map (\<lambda>(day, bs). \<lparr>dr_day = day, dr_bookings = length bs, dr_gross_minor = show_int (gross bs)\<rparr>)
       (group_by (local_day off tz) (report_rows vid q d)))"

section \<open>Open minutes and utilisation\<close>

definition clipped_minutes :: "revenue_query \<Rightarrow> js_number \<Rightarrow> open_window \<Rightarrow> js_number" where
  "clipped_minutes q minutes w =
     (let opens = (if rv_from q < ow_opens_at w then ow_opens_at w else rv_from q);
          closes = (if ow_closes_at w < rv_to q then ow_closes_at w else rv_to q) in
      if opens < closes then js_add minutes (js_div (js_of_int (closes - opens)) 60000) else minutes)"

definition openMinutes :: "zone_offsets \<Rightarrow> venue \<Rightarrow> revenue_query \<Rightarrow> nat \<Rightarrow> int" where
  "openMinutes off v q room_count =
     (if room_count = 0 then 0
      else case parseOperatingHours (v_operating_hours v) of
        None \<Rightarrow> 0
      | Some hours \<Rightarrow>
          math_round (foldl (clipped_minutes q) 0 (openWindowsBetween off hours (v_timezone v) (rv_from q) (rv_to q)))
          * int room_count)"

definition utilisation_pct :: "int \<Rightarrow> int \<Rightarrow> js_number option" where
  "utilisation_pct booked minutes_open =
     (if 0 < minutes_open
      then Some (js_div (js_of_int (math_round (js_mul (js_div (js_of_int booked) (js_of_int minutes_open)) 1000))) 10)
      else None)"

record revenue_report =
  rp_venue_id :: uuid
  rp_venue_name :: string
  rp_timezone :: string
  rp_totals :: report_totals
  rp_refunded_minor :: string
  rp_net_minor :: string
  rp_open_minutes :: int
  rp_utilisation_pct :: "js_number option"
  rp_by_room :: "room_revenue list"
  rp_by_day :: "day_revenue list"

definition revenue :: "zone_offsets \<Rightarrow> revenue_query \<Rightarrow> request_context \<Rightarrow> db \<Rightarrow> exn + revenue_report" where
  "revenue off q ctx d =
     result_bind (requirePrincipal ctx) (\<lambda>p.
     result_bind (or_throw (pr_venue_id p) NotFound) (\<lambda>token_venue.
     let vid = uuid_in token_venue in
     result_bind (or_throw (List.find (\<lambda>v. v_id v = vid) (t_venues d)) NotFound) (\<lambda>v.
     let tot = totals vid q d;
         ref = refunded vid q d;
         rooms = byRoom vid q d;
         minutes_open = openMinutes off v q (length rooms) in
     result_bind (net_minor (tt_gross_minor tot) ref) (\<lambda>net.
     Inr \<lparr>rp_venue_id = v_id v, rp_venue_name = v_name v, rp_timezone = v_timezone v, rp_totals = tot,
       rp_refunded_minor = ref, rp_net_minor = net, rp_open_minutes = minutes_open,
       rp_utilisation_pct = utilisation_pct (tt_booked_minutes tot) minutes_open,
       rp_by_room = rooms, rp_by_day = byDay off (v_timezone v) vid q d\<rparr>))))"

section \<open>The parts add up\<close>

text \<open>A sum over the groups is the sum over the rows.\<close>

lemma sum_groups:
  fixes f :: "'r \<Rightarrow> 'n::comm_monoid_add"
  shows "sum_list (map (\<lambda>(k, rs). sum_list (map f rs)) (group_by key rows)) = sum_list (map f rows)"
proof -
  have "sum_list (map f rows) = (\<Sum>k \<in> set (map key rows). sum_list (map f (filter (\<lambda>r. key r = k) rows)))"
  proof (induction rows)
    case (Cons r rows)
    let ?g = "\<lambda>rs k. sum_list (map f (filter (\<lambda>r. key r = k) rs))"
    have "(\<Sum>k \<in> insert (key r) (key ` set rows). ?g (r # rows) k)
        = (\<Sum>k \<in> insert (key r) (key ` set rows). (if k = key r then f r else 0) + ?g rows k)"
      by (intro sum.cong) auto
    also have "\<dots> = f r + (\<Sum>k \<in> insert (key r) (key ` set rows). ?g rows k)"
      by (simp add: sum.distrib)
    also have "(\<Sum>k \<in> insert (key r) (key ` set rows). ?g rows k) = (\<Sum>k \<in> key ` set rows. ?g rows k)"
      proof (intro sum.mono_neutral_right)
      have "filter (\<lambda>ra. key ra = key r) rows = []" if "key r \<notin> key ` set rows"
        using that by (auto simp: filter_empty_conv image_iff)
      then show "\<forall>k \<in> insert (key r) (key ` set rows) - key ` set rows. ?g rows k = 0" by auto
    qed auto
    finally show ?case using Cons.IH by simp
  qed simp
  then show ?thesis
    by (simp add: group_by_def sum_list_distinct_conv_sum_set comp_def)
qed

lemma length_as_sum: "length rows = sum_list (map (\<lambda>_. 1) rows)"
  by (induction rows) simp_all

lemma gross_as_sum: "gross bs = sum_list (map (\<lambda>b. if earns b then b_total_minor b else 0) bs)"
  by (induction bs) (simp_all add: gross_def)

lemma sum_list_sort_key [simp]:
  fixes f :: "'r \<Rightarrow> 'n::comm_monoid_add"
  shows "sum_list (map f (sort_key key rows)) = sum_list (map f rows)"
  by (metis mset_map mset_sort sum_mset_sum_list)

lemma sum_list_sort_desc [simp]:
  fixes f :: "'r \<Rightarrow> 'n::comm_monoid_add"
  shows "sum_list (map f (sort_desc key rows)) = sum_list (map f rows)"
  by (metis mset_map mset_rev mset_sort sort_desc_def sum_mset_sum_list)

text \<open>Whole minutes are not rounded.\<close>

definition whole_minutes :: "booking \<Rightarrow> bool" where
  "whole_minutes b \<longleftrightarrow> (b_ends_at b - b_starts_at b) mod 60000 = 0"

lemma booked_minutes_exact:
  assumes "\<forall>b \<in> set bs. whole_minutes b"
  shows "booked_minutes bs = sum_list (map (\<lambda>b. if earns b then (b_ends_at b - b_starts_at b) div 60000 else 0) bs)"
proof -
  let ?m = "\<lambda>b. (b_ends_at b - b_starts_at b) div 60000"
  have "minutes_of b = of_int (?m b)" if "b \<in> set bs" for b
  proof -
    have "b_ends_at b - b_starts_at b = 60000 * ?m b"
      using that assms mult_div_mod_eq [of 60000 "b_ends_at b - b_starts_at b"] by (simp add: whole_minutes_def)
    then have "(of_int (b_ends_at b - b_starts_at b) :: rat) = 60000 * of_int (?m b)" by (metis of_int_mult of_int_numeral)
    then show ?thesis by (simp add: minutes_of_def)
  qed
  then have "sum_list (map minutes_of (filter earns bs)) = of_int (sum_list (map (\<lambda>b. if earns b then ?m b else 0) bs))"
    by (induction bs) simp_all
  moreover have "pg_round (of_int n) = n" for n
    by (simp add: pg_round_def floor_eq_iff)
  ultimately show ?thesis by (simp add: booked_minutes_def)
qed

lemma map_fst_joined_rooms:
  assumes "distinct (map r_id (t_rooms d))" and "\<forall>b \<in> set bs. b_room_id b \<in> r_id ` set (t_rooms d)"
  shows "map fst (joined_rooms d bs) = bs"
proof -
  have one: "length (filter (\<lambda>r. r_id r = k) rs) = 1" if "distinct (map r_id rs)" "k \<in> r_id ` set rs" for k and rs :: "room list"
    using that by (induction rs) (auto simp: filter_empty_conv image_iff)
  have "\<exists>r. filter (\<lambda>r. r_id r = b_room_id b) (t_rooms d) = [r]" if "b \<in> set bs" for b
    using one [OF assms(1), of "b_room_id b"] that assms(2) by (auto simp: length_Suc_conv)
  then have "map fst (concat (map (\<lambda>b. map (Pair b) (filter (\<lambda>r. r_id r = b_room_id b) (t_rooms d))) bs')) = bs'"
    if "set bs' \<subseteq> set bs" for bs'
    using that by (induction bs') force+
  then show ?thesis by (simp add: joined_rooms_def)
qed

lemma room_sums:
  fixes f :: "booking \<Rightarrow> 'n::comm_monoid_add" and g :: "room_revenue \<Rightarrow> 'n"
  assumes "\<And>k rows. set rows \<subseteq> set (joined_rooms d (report_rows vid q d)) \<Longrightarrow>
      g (room_revenue_of (k, rows)) = sum_list (map f (map fst rows))"
    and "map fst (joined_rooms d (report_rows vid q d)) = report_rows vid q d"
  shows "sum_list (map g (byRoom vid q d)) = sum_list (map f (report_rows vid q d))"
proof -
  let ?rows = "joined_rooms d (report_rows vid q d)" and ?key = "\<lambda>(b, r). (b_room_id b, r_name r)"
  have "sum_list (map g (byRoom vid q d)) = sum_list (map (\<lambda>x. g (room_revenue_of x)) (group_by ?key ?rows))"
    by (simp add: byRoom_def comp_def)
  also have "\<dots> = sum_list (map (\<lambda>(k, rs). sum_list (map (\<lambda>x. f (fst x)) rs)) (group_by ?key ?rows))"
  proof -
    have "g (room_revenue_of x) = (case x of (k, rs) \<Rightarrow> sum_list (map (\<lambda>x. f (fst x)) rs))"
      if "x \<in> set (group_by ?key ?rows)" for x
      using that assms(1) by (auto simp: group_by_def comp_def)
    then show ?thesis by (metis (no_types, lifting) map_cong)
  qed
  also have "\<dots> = sum_list (map f (map fst ?rows))" by (simp add: sum_groups comp_def)
  finally show ?thesis using assms(2) by simp
qed

lemma day_sums:
  fixes f :: "booking \<Rightarrow> 'n::comm_monoid_add" and g :: "day_revenue \<Rightarrow> 'n"
  assumes "\<And>day bs. g \<lparr>dr_day = day, dr_bookings = length bs, dr_gross_minor = show_int (gross bs)\<rparr> = sum_list (map f bs)"
  shows "sum_list (map g (byDay off tz vid q d)) = sum_list (map f (report_rows vid q d))"
  using sum_groups [of f "local_day off tz" "report_rows vid q d"] assms
  by (simp add: byDay_def comp_def case_prod_unfold)

section \<open>What the report promises\<close>

definition amount :: "string \<Rightarrow> int" where
  "amount s = (case BigInt s of Some n \<Rightarrow> n | None \<Rightarrow> 0)"

lemma amount_show_int [simp]: "amount (show_int n) = n"
  by (simp add: amount_def)

lemma net_minor_show [simp]: "net_minor (show_int g) (show_int r) = Inr (show_int (g - r))"
  by (simp add: net_minor_def)

lemma revenue_eq_Inr:
  "revenue off q ctx d = Inr r \<longleftrightarrow>
     (\<exists>p token_venue v. rq_principal ctx = Some p \<and> pr_venue_id p = Some token_venue
        \<and> List.find (\<lambda>v. v_id v = uuid_in token_venue) (t_venues d) = Some v
        \<and> (let vid = uuid_in token_venue; rooms = byRoom vid q d; minutes_open = openMinutes off v q (length rooms) in
           r = \<lparr>rp_venue_id = v_id v, rp_venue_name = v_name v, rp_timezone = v_timezone v, rp_totals = totals vid q d,
             rp_refunded_minor = refunded vid q d,
             rp_net_minor = show_int (gross (report_rows vid q d) - sum_list (map (refunds_of d) (report_rows vid q d))),
             rp_open_minutes = minutes_open, rp_utilisation_pct = utilisation_pct (tt_booked_minutes (totals vid q d)) minutes_open,
             rp_by_room = rooms, rp_by_day = byDay off (v_timezone v) vid q d\<rparr>))"
proof -
  have "tt_gross_minor (totals vid q d) = show_int (gross (report_rows vid q d))" for vid
    by (simp add: totals_def Let_def)
  then show ?thesis
    by (auto simp: revenue_def requirePrincipal_def tx_simps Let_def refunded_def)
qed

text \<open>
  C23. The parts of a report add up to its summary. Bookings, booked minutes and gross of the rooms sum to
  the totals, and so do bookings and gross of the days: no booking of the range is counted twice or lost
  by the joins and the groupings.
\<close>

theorem revenue_adds_up:
  assumes "revenue off q ctx d = Inr r" and "distinct (map r_id (t_rooms d))"
    and "\<And>b. b \<in> set (t_bookings d) \<Longrightarrow> b_room_id b \<in> r_id ` set (t_rooms d) \<and> whole_minutes b"
  shows "sum_list (map rr_bookings (rp_by_room r)) = tt_bookings (rp_totals r)
    \<and> sum_list (map rr_booked_minutes (rp_by_room r)) = tt_booked_minutes (rp_totals r)
    \<and> sum_list (map (\<lambda>x. amount (rr_gross_minor x)) (rp_by_room r)) = amount (tt_gross_minor (rp_totals r))
    \<and> sum_list (map dr_bookings (rp_by_day r)) = tt_bookings (rp_totals r)
    \<and> sum_list (map (\<lambda>x. amount (dr_gross_minor x)) (rp_by_day r)) = amount (tt_gross_minor (rp_totals r))"
proof -
  obtain vid tz where r: "rp_by_room r = byRoom vid q d" "rp_by_day r = byDay off tz vid q d" "rp_totals r = totals vid q d"
    using assms(1) by (auto simp: revenue_eq_Inr Let_def)
  let ?rows = "report_rows vid q d"
  have rows: "\<forall>b \<in> set ?rows. b_room_id b \<in> r_id ` set (t_rooms d)" "\<forall>b \<in> set ?rows. whole_minutes b"
    using assms(3) by (auto simp: report_rows_def)
  note join = map_fst_joined_rooms [OF assms(2) rows(1)]
  have tot: "tt_bookings (totals vid q d) = sum_list (map (\<lambda>_. 1) ?rows)" "amount (tt_gross_minor (totals vid q d)) = gross ?rows"
    "tt_booked_minutes (totals vid q d) = booked_minutes ?rows"
    by (simp_all add: totals_def Let_def length_as_sum)
  have len: "length xs = sum_list (map (\<lambda>_. 1) (map fst xs))" for xs :: "(booking \<times> room) list"
    using length_as_sum [of "map fst xs"] by simp
  have "sum_list (map rr_bookings (byRoom vid q d)) = sum_list (map (\<lambda>_. 1) ?rows)"
    using join len by (intro room_sums) (simp_all add: room_revenue_of_def case_prod_unfold)
  moreover have "sum_list (map (\<lambda>x. amount (rr_gross_minor x)) (byRoom vid q d)) = gross ?rows"
    unfolding gross_as_sum using join by (intro room_sums) (simp_all add: room_revenue_of_def case_prod_unfold gross_as_sum)
  moreover have "sum_list (map rr_booked_minutes (byRoom vid q d)) = booked_minutes ?rows"
    unfolding booked_minutes_exact [OF rows(2)]
  proof (intro room_sums join)
    fix k xs
    assume "set xs \<subseteq> set (joined_rooms d ?rows)"
    then have "\<forall>b \<in> set (map fst xs). whole_minutes b"
      using rows(2) join by (metis image_mono image_set subsetD)
    then show "rr_booked_minutes (room_revenue_of (k, xs))
        = sum_list (map (\<lambda>b. if earns b then (b_ends_at b - b_starts_at b) div 60000 else 0) (map fst xs))"
      by (simp only: booked_minutes_exact [symmetric]) (simp add: room_revenue_of_def case_prod_unfold)
  qed
  moreover have "sum_list (map dr_bookings (byDay off tz vid q d)) = sum_list (map (\<lambda>_. 1) ?rows)"
    by (rule day_sums) (simp add: length_as_sum)
  moreover have "sum_list (map (\<lambda>x. amount (dr_gross_minor x)) (byDay off tz vid q d)) = gross ?rows"
    unfolding gross_as_sum by (rule day_sums) (simp add: gross_as_sum)
  ultimately show ?thesis by (simp add: r tot)
qed

text \<open>
  What the net is. The refunds of every booking of the range are taken off, also of those whose price
  was never counted: a booking that was cancelled and refunded lowers the net below what the venue keeps
  of the others, by the whole refund.
\<close>

theorem net_subtracts_cancelled_refunds:
  assumes "revenue off q ctx d = Inr r"
  shows "amount (rp_net_minor r) =
    sum_list (map (\<lambda>b. b_total_minor b - refunds_of d b) (filter earns (report_rows (rp_venue_id r) q d)))
    - sum_list (map (refunds_of d) (filter (\<lambda>b. \<not> earns b) (report_rows (rp_venue_id r) q d)))"
proof -
  have "gross bs - sum_list (map (refunds_of d) bs) = sum_list (map (\<lambda>b. b_total_minor b - refunds_of d b) (filter earns bs))
      - sum_list (map (refunds_of d) (filter (\<lambda>b. \<not> earns b) bs))" for bs
    by (induction bs) (simp_all add: gross_def)
  moreover obtain vid v where "List.find (\<lambda>v. v_id v = vid) (t_venues d) = Some v" "rp_venue_id r = v_id v"
    "rp_net_minor r = show_int (gross (report_rows vid q d) - sum_list (map (refunds_of d) (report_rows vid q d)))"
    using assms by (auto simp: revenue_eq_Inr Let_def)
  moreover from this(1) have "v_id v = vid" by (auto dest: find_SomeD)
  ultimately show ?thesis by simp
qed

text \<open>The rooms come in the descending order of a text.\<close>

lemma byRoom_text_order: "sorted (rev (map rr_gross_minor (byRoom vid q d)))"
  by (simp add: byRoom_def sort_desc_def rev_map)

section \<open>A report\<close>

text \<open>
  Two rooms and three bookings of one day: the small room earned 9002 and the large one 10000, and a
  booking of the large room was cancelled and refunded in full.
\<close>

definition report_db :: db where
  "report_db = sample_db\<lparr>t_rooms := [sample_room, sample_room\<lparr>r_id := ''large'', r_name := ''Large''\<rparr>],
     t_bookings :=
       [sample_booking ''b1'' ''u1'' (4 * hour) (6 * hour) CONFIRMED None,
        (sample_booking ''b2'' ''u2'' (4 * hour) (6 * hour) CONFIRMED None)\<lparr>b_room_id := ''large'', b_total_minor := 10000\<rparr>,
        (sample_booking ''b3'' ''u2'' (8 * hour) (10 * hour) CANCELLED None)\<lparr>b_room_id := ''large'', b_total_minor := 20000\<rparr>],
     t_payments := [\<lparr>p_id = ''y'', p_booking_id = ''b3'', p_idempotency_key = ''k'', p_charge_id = Some ''c'',
       p_amount_minor = 20000, p_status = PayRefunded, p_refund_id = Some ''r'', p_refund_idempotency_key = Some ''rk'',
       p_refunded_minor = 20000, p_failure_reason = None, p_created_at = 0, p_updated_at = 0\<rparr>]\<rparr>"

definition report_query :: revenue_query where
  "report_query = \<lparr>rv_from = 0, rv_to = 24 * hour\<rparr>"

definition staff_context :: request_context where
  "staff_context = \<lparr>rq_correlation_id = ''x'', rq_inherited_correlation_id = False,
     rq_principal = Some \<lparr>pr_user_id = ''s'', pr_role = VENUE_STAFF, pr_venue_id = Some ''v''\<rparr>\<rparr>"

lemma report_exists: "\<exists>r. revenue sample_utc report_query staff_context report_db = Inr r \<and> rp_venue_id r = ''v''"
proof -
  have "List.find (\<lambda>v. v_id v = uuid_in ''v'') (t_venues report_db) = Some sample_venue" by code_simp
  then show ?thesis by (simp add: revenue_eq_Inr staff_context_def sample_venue_def Let_def)
qed

text \<open>
  The service documents the rooms as ordered by what they earned. The fifth column is cast to a text, so
  9002 comes before 10000.
\<close>

lemma byRoom_misordered:
  "map (\<lambda>x. (rr_room_name x, rr_gross_minor x)) (byRoom ''v'' report_query report_db)
   = [(''Room'', ''9002''), (''Large'', ''10000'')]"
proof -
  let ?groups = "group_by (\<lambda>(b, r). (b_room_id b, r_name r)) (joined_rooms report_db (report_rows ''v'' report_query report_db))"
  let ?row = "\<lambda>(k, n, m, g). \<lparr>rr_room_id = fst k, rr_room_name = snd k, rr_bookings = n, rr_booked_minutes = m, rr_gross_minor = show_int g\<rparr>"
  have t: "show_int 9002 = ''9002''" "show_int 10000 = ''10000''"
    by (simp add: show_int_def show_nat.simps, code_simp)+
  have "map (\<lambda>(k, rows). (k, length rows, booked_minutes (map fst rows), gross (map fst rows))) ?groups
      = [((sample_room_id, ''Room''), 1, 120, 9002), ((''large'', ''Large''), 2, 120, 10000)]" (is "map ?f ?groups = _")
    by code_simp
  moreover have "map room_revenue_of ?groups = map ?row (map ?f ?groups)"
    by (simp add: room_revenue_of_def case_prod_unfold)
  ultimately have "map room_revenue_of ?groups = map ?row [((sample_room_id, ''Room''), 1, 120, 9002), ((''large'', ''Large''), 2, 120, 10000)]"
    by simp
  moreover have "sample_room_id \<le> ''large''" "\<not> ''large'' \<le> sample_room_id" "''10000'' \<le> ''9002''" "\<not> ''9002'' \<le> ''10000''"
    by code_simp+
  ultimately show ?thesis by (simp add: byRoom_def sort_desc_def t)
qed

lemma report_db_rooms:
  "distinct (map r_id (t_rooms report_db))"
  "\<forall>b \<in> set (t_bookings report_db). b_room_id b \<in> r_id ` set (t_rooms report_db) \<and> whole_minutes b"
  by code_simp+

lemma revenue_adds_up_witness:
  "\<exists>r. revenue sample_utc report_query staff_context report_db = Inr r
     \<and> sum_list (map rr_bookings (rp_by_room r)) = tt_bookings (rp_totals r)"
  using report_exists revenue_adds_up [OF _ report_db_rooms(1)] report_db_rooms(2) by blast

lemma net_subtracts_cancelled_refunds_witness:
  "\<exists>r. revenue sample_utc report_query staff_context report_db = Inr r \<and> amount (rp_net_minor r) = - 998"
proof -
  obtain r where r: "revenue sample_utc report_query staff_context report_db = Inr r" "rp_venue_id r = ''v''"
    using report_exists by blast
  have "sum_list (map (\<lambda>b. b_total_minor b - refunds_of report_db b) (filter earns (report_rows ''v'' report_query report_db))) = 19002"
    "sum_list (map (refunds_of report_db) (filter (\<lambda>b. \<not> earns b) (report_rows ''v'' report_query report_db))) = 20000"
    by code_simp+
  then show ?thesis using net_subtracts_cancelled_refunds [OF r(1)] r by auto
qed

end
