(* ===== verification/VenueRequests.thy ===== *)
theory VenueRequests
  imports VenuesAdmin Reports
begin

text \<open>
  The routes of a venue's staff as requests: the guards, the pipes and the handler of
  \<open>venues-admin.controller.ts\<close>, \<open>policies.controller.ts\<close>, \<open>equipment.controller.ts\<close>,
  \<open>reports.controller.ts\<close> and the two reads of \<open>bookings.controller.ts\<close>, in the order the framework
  runs them. What one venue's token can write, and what it can learn, is stated over these.
\<close>

section \<open>Requests\<close>

datatype venue_request =
    ReqSettings | ReqUpdateSettings settings_body
  | ReqListRooms | ReqCreateRoom room_body | ReqUpdateRoom string room_body
  | ReqCreateEquipmentType equipment_body | ReqUpdateEquipmentType string equipment_body
  | ReqEquipmentTypes | ReqEquipmentType string
  | ReqPolicy | ReqReplacePolicy json
  | ReqRevenue revenue_query
  | ReqBookings list_query | ReqBooking string

fun request_route :: "venue_request \<Rightarrow> route" where
  "request_route ReqSettings = GetSettings"
| "request_route (ReqUpdateSettings _) = PatchSettings"
| "request_route ReqListRooms = GetRooms"
| "request_route (ReqCreateRoom _) = PostRoom"
| "request_route (ReqUpdateRoom _ _) = PatchRoom"
| "request_route (ReqCreateEquipmentType _) = PostEquipmentType"
| "request_route (ReqUpdateEquipmentType _ _) = PatchEquipmentType"
| "request_route ReqEquipmentTypes = GetEquipmentTypes"
| "request_route (ReqEquipmentType _) = GetEquipmentType"
| "request_route ReqPolicy = GetPolicy"
| "request_route (ReqReplacePolicy _) = PutPolicy"
| "request_route (ReqRevenue _) = GetRevenue"
| "request_route (ReqBookings _) = GetBookings"
| "request_route (ReqBooking _) = GetBooking"

datatype venue_answer =
    AnsVenue venue | AnsRoom room | AnsRooms "room list" | AnsEquipment equipment_type
  | AnsEquipments "equipment_type list" | AnsPolicy policy_answer | AnsRevenue revenue_report
  | AnsBookings booking_page | AnsBooking booking_view

text \<open>The pipes: \<open>ParseUUIDPipe\<close> on the id of the path, \<open>zodBody\<close> on the body or the query.\<close>

definition ParseUUIDPipe :: "string \<Rightarrow> exn + string" where
  "ParseUUIDPipe s = result_bind (ensure (isUuid s) BadRequest) (\<lambda>_. Inr s)"

definition zodBody :: "'a option \<Rightarrow> exn + 'a" where
  "zodBody parsed = or_throw parsed (Unprocessable InvalidBody)"

definition wrote :: "('a \<Rightarrow> venue_answer) \<Rightarrow> exn + 'a \<times> db \<Rightarrow> exn + venue_answer \<times> db" where
  "wrote f r = result_bind r (\<lambda>(a, d). Inr (f a, d))"

definition read :: "('a \<Rightarrow> venue_answer) \<Rightarrow> db \<Rightarrow> exn + 'a \<Rightarrow> exn + venue_answer \<times> db" where
  "read f d r = result_bind r (\<lambda>a. Inr (f a, d))"

text \<open>What the handlers draw from outside: the zone database, the collation, a fresh id and the clock.\<close>

record surroundings =
  sr_timezone :: "string \<Rightarrow> bool"
  sr_offsets :: zone_offsets
  sr_collate :: "string \<Rightarrow> string"
  sr_fresh :: uuid
  sr_now :: instant

fun venue_handler :: "surroundings \<Rightarrow> request_context \<Rightarrow> principal \<Rightarrow> venue_request \<Rightarrow> db \<Rightarrow> exn + venue_answer \<times> db" where
  "venue_handler s ctx p ReqSettings d = read AnsVenue d (settings p d)"
| "venue_handler s ctx p (ReqUpdateSettings b) d =
     result_bind (zodBody (UpdateVenueSettingsSchema (sr_timezone s) b)) (\<lambda>i. wrote AnsVenue (updateSettings i p d))"
| "venue_handler s ctx p ReqListRooms d = read AnsRooms d (listRooms (sr_collate s) p d)"
| "venue_handler s ctx p (ReqCreateRoom b) d =
     result_bind (zodBody (CreateRoomSchema b)) (\<lambda>i. wrote AnsRoom (createRoom i p (sr_fresh s) d))"
| "venue_handler s ctx p (ReqUpdateRoom rid b) d =
     result_bind (ParseUUIDPipe rid) (\<lambda>rid.
     result_bind (zodBody (UpdateRoomSchema b)) (\<lambda>i. wrote AnsRoom (updateRoom rid i p d)))"
| "venue_handler s ctx p (ReqCreateEquipmentType b) d =
     result_bind (zodBody (CreateEquipmentTypeSchema b)) (\<lambda>i. wrote AnsEquipment (createEquipmentType i p (sr_fresh s) d))"
| "venue_handler s ctx p (ReqUpdateEquipmentType eid b) d =
     result_bind (ParseUUIDPipe eid) (\<lambda>eid.
     result_bind (zodBody (UpdateEquipmentTypeSchema b)) (\<lambda>i. wrote AnsEquipment (updateEquipmentType eid i p d)))"
| "venue_handler s ctx p ReqEquipmentTypes d = read AnsEquipments d (equipment_list p d)"
| "venue_handler s ctx p (ReqEquipmentType eid) d =
     result_bind (ParseUUIDPipe eid) (\<lambda>eid. read AnsEquipment d (equipment_findOne eid p d))"
| "venue_handler s ctx p ReqPolicy d = read AnsPolicy d (policies_current p d)"
| "venue_handler s ctx p (ReqReplacePolicy tiers) d =
     result_bind (zodBody (TiersSchema tiers)) (\<lambda>ts. wrote AnsPolicy (policies_replace ts p (sr_fresh s) (sr_now s) d))"
| "venue_handler s ctx p (ReqRevenue q) d =
     result_bind (zodBody (if RevenueReportSchema q then Some q else None)) (\<lambda>q. read AnsRevenue d (revenue (sr_offsets s) q ctx d))"
| "venue_handler s ctx p (ReqBookings q) d =
     result_bind (zodBody (if ListBookingsSchema q then Some q else None)) (\<lambda>q. read AnsBookings d (list_bookings q p d))"
| "venue_handler s ctx p (ReqBooking bid) d =
     result_bind (ParseUUIDPipe bid) (\<lambda>bid. read AnsBooking d (findOne bid p d))"

definition venue_api :: "auth_env \<Rightarrow> surroundings \<Rightarrow> string option \<Rightarrow> request_context \<Rightarrow> venue_request \<Rightarrow> db
    \<Rightarrow> (exn + venue_answer) \<times> db" where
  "venue_api env s authorization ctx rq d =
     transaction (\<lambda>d. result_bind (admit env (route_access (request_route rq)) authorization (sr_now s) ctx) (\<lambda>ctx.
       result_bind (requirePrincipal ctx) (\<lambda>p. venue_handler s ctx p rq d))) d"

section \<open>What a venue can see\<close>

definition venue_bookings :: "uuid \<Rightarrow> db \<Rightarrow> booking list" where
  "venue_bookings v d = filter (\<lambda>b. b_venue_id b = v) (t_bookings d)"

definition venue_view :: "uuid \<Rightarrow> db \<Rightarrow> db" where
  "venue_view v d =
     \<lparr>t_venues = filter (\<lambda>x. v_id x = v) (t_venues d),
      t_rooms = filter (\<lambda>r. r_venue_id r = v) (t_rooms d),
      t_equipment_types = filter (\<lambda>e. e_venue_id e = v) (t_equipment_types d),
      t_users = [],
      t_cancellation_policies = filter (\<lambda>c. cp_venue_id c = None \<or> cp_venue_id c = Some v) (t_cancellation_policies d),
      t_bookings = venue_bookings v d,
      t_booking_line_items = filter (\<lambda>li. li_booking_id li \<in> b_id ` set (venue_bookings v d)) (t_booking_line_items d),
      t_payments = filter (\<lambda>p. p_booking_id p \<in> b_id ` set (venue_bookings v d)) (t_payments d),
      t_payment_events = [], t_webhook_deliveries = [], t_audit_events = []\<rparr>"

lemma venue_view_sel:
  "t_venues (venue_view v d) = filter (\<lambda>x. v_id x = v) (t_venues d)"
  "t_rooms (venue_view v d) = filter (\<lambda>r. r_venue_id r = v) (t_rooms d)"
  "t_equipment_types (venue_view v d) = filter (\<lambda>e. e_venue_id e = v) (t_equipment_types d)"
  "t_bookings (venue_view v d) = venue_bookings v d"
  "t_cancellation_policies (venue_view v d)
     = filter (\<lambda>c. cp_venue_id c = None \<or> cp_venue_id c = Some v) (t_cancellation_policies d)"
  by (simp_all add: venue_view_def)

section \<open>Writes stay in the venue\<close>

lemma filter_update_where_other:
  assumes "\<And>r. p r \<Longrightarrow> key r \<noteq> u" and "\<And>r. key (f r) = key r"
  shows "filter (\<lambda>r. key r = u) (update_where p f rows) = filter (\<lambda>r. key r = u) rows"
  using assms by (intro filter_update_where_disjoint) auto

text \<open>A step that keeps everything another venue sees, and everything that is not configuration.\<close>

definition confined :: "uuid \<Rightarrow> db \<Rightarrow> db \<Rightarrow> bool" where
  "confined v d d' \<longleftrightarrow> (\<forall>u. u \<noteq> v \<longrightarrow> venue_view u d' = venue_view u d)
     \<and> t_users d' = t_users d \<and> t_bookings d' = t_bookings d \<and> t_booking_line_items d' = t_booking_line_items d
     \<and> t_payments d' = t_payments d \<and> t_payment_events d' = t_payment_events d
     \<and> t_webhook_deliveries d' = t_webhook_deliveries d \<and> t_audit_events d' = t_audit_events d"

lemma confined_refl [simp]: "confined v d d"
  by (simp add: confined_def)

lemma admin_scope_eq_Inr [tx_simps]:
  "admin_scope p = Inr v \<longleftrightarrow> (\<exists>w. pr_venue_id p = Some w \<and> w \<noteq> [] \<and> v = uuid_in w)"
  by (auto simp: admin_scope_def split: option.splits if_splits)

lemma patch_venue_id [simp]: "v_id (patch_venue i v) = v_id v"
  by (simp add: patch_venue_def)

lemma patch_room_sel [simp]: "r_id (patch_room i r) = r_id r" "r_venue_id (patch_room i r) = r_venue_id r"
  by (simp_all add: patch_room_def)

lemma patch_equipment_sel [simp]: "e_id (patch_equipment i e) = e_id e" "e_venue_id (patch_equipment i e) = e_venue_id e"
  by (simp_all add: patch_equipment_def)

lemma updateSettings_InrD:
  assumes "updateSettings i p d = Inr (a, d')"
  obtains w v where "pr_venue_id p = Some w" "w \<noteq> []" "i \<noteq> no_settings"
    "List.find (\<lambda>v. v_id v = uuid_in w) (t_venues d) = Some v"
    "a = patch_venue i v" "0 \<le> v_overbooking_buffer_pct a" "v_overbooking_buffer_pct a \<le> 10"
    "d' = d\<lparr>t_venues := update_where (\<lambda>v. v_id v = uuid_in w) (patch_venue i) (t_venues d)\<rparr>"
proof -
  obtain w where w: "pr_venue_id p = Some w" "w \<noteq> []"
     "(if i = no_settings then Inl (JsError ''No values to set'')
     else result_bind (or_throw (List.find (\<lambda>v. v_id v = uuid_in w) (t_venues d)) NotFound) (\<lambda>v.
       let v' = patch_venue i v in
       if \<not> (0 \<le> v_overbooking_buffer_pct v' \<and> v_overbooking_buffer_pct v' \<le> 10)
       then Inl (pg_error ''23514'' ''venues_overbooking_buffer_ck'')
       else Inr (v', d\<lparr>t_venues := update_where (\<lambda>v. v_id v = uuid_in w) (patch_venue i) (t_venues d)\<rparr>))) = Inr (a, d')"
    using assms unfolding updateSettings_def result_bind_eq_Inr admin_scope_eq_Inr by blast
  have n: "i \<noteq> no_settings" using w(3) by auto
  show thesis
  proof (cases "List.find (\<lambda>v. v_id v = uuid_in w) (t_venues d)")
    case None
    then show ?thesis using w(3) n by simp
  next
    case (Some v)
    then show ?thesis using w n that [of w v] by (simp add: Let_def split: if_split_asm)
  qed
qed

lemma updateRoom_write_InrD:
  assumes "updateRoom_write rid i p existing d = Inr (a, d')"
  obtains (unchanged) "a = existing" "d' = d"
  | (patched) w r where "pr_venue_id p = Some w" "w \<noteq> []" "find_room rid (uuid_in w) d = Some r" "a = patch_room i r"
      "d' = d\<lparr>t_rooms := update_where (\<lambda>r. r_id r = uuid_in rid \<and> r_venue_id r = uuid_in w) (patch_room i) (t_rooms d)\<rparr>"
proof (cases "admin_scope p")
  case (Inr vid)
  then obtain w where w: "pr_venue_id p = Some w" "w \<noteq> []" "vid = uuid_in w" by (auto simp: admin_scope_eq_Inr)
  show thesis
  proof (cases "i\<lparr>ri_overbooking_buffer_pct := None\<rparr> = no_room_fields")
    case True
    then show ?thesis using assms Inr unchanged by (simp add: updateRoom_write_def)
  next
    case False
    then obtain r where "find_room rid vid d = Some r"
      using assms Inr by (cases "find_room rid vid d") (simp_all add: updateRoom_write_def)
    then show ?thesis using assms Inr False w patched [of w r] by (simp add: updateRoom_write_def)
  qed
qed (use assms in \<open>simp add: updateRoom_write_def\<close>)

lemma confined_venues:
  assumes "\<And>v'. v_id (f v') = v_id v'"
  shows "confined v d (d\<lparr>t_venues := update_where (\<lambda>x. v_id x = v) f (t_venues d)\<rparr>)"
  using filter_update_where_other [of "\<lambda>x. v_id x = v" v_id _ f "t_venues d"] assms
  by (auto simp: confined_def venue_view_def venue_bookings_def)

lemma confined_rooms:
  assumes "\<And>r. r_venue_id (f r) = r_venue_id r" and "\<And>r. q r \<Longrightarrow> r_venue_id r = v"
  shows "confined v d (d\<lparr>t_rooms := update_where q f (t_rooms d)\<rparr>)"
  using filter_update_where_other [of q r_venue_id _ f "t_rooms d"] assms
  by (auto simp: confined_def venue_view_def venue_bookings_def)

lemma confined_equipment:
  assumes "\<And>e. e_venue_id (f e) = e_venue_id e" and "\<And>e. q e \<Longrightarrow> e_venue_id e = v"
  shows "confined v d (d\<lparr>t_equipment_types := update_where q f (t_equipment_types d)\<rparr>)"
  using filter_update_where_other [of q e_venue_id _ f "t_equipment_types d"] assms
  by (auto simp: confined_def venue_view_def venue_bookings_def)

lemma confined_inserts:
  "r_venue_id r = v \<Longrightarrow> confined v d (d\<lparr>t_rooms := t_rooms d @ [r]\<rparr>)"
  "e_venue_id e = v \<Longrightarrow> confined v d (d\<lparr>t_equipment_types := t_equipment_types d @ [e]\<rparr>)"
  "cp_venue_id c = Some v \<Longrightarrow> confined v d (d\<lparr>t_cancellation_policies := t_cancellation_policies d @ [c]\<rparr>)"
  by (auto simp: confined_def venue_view_def venue_bookings_def)

lemma handler_confined:
  assumes "venue_handler s ctx p rq d = Inr (a, d')"
  shows "d' = d \<or> (\<exists>w. pr_venue_id p = Some w \<and> confined (uuid_in w) d d')
    \<and> route_access (request_route rq) = Roles [VENUE_ADMIN]"
  using assms
proof (cases rq)
  case (ReqUpdateSettings b)
  then obtain i v where "updateSettings i p d = Inr (v, d')" using assms by (auto simp: tx_simps wrote_def)
  then obtain w where "pr_venue_id p = Some w"
    "d' = d\<lparr>t_venues := update_where (\<lambda>v. v_id v = uuid_in w) (patch_venue i) (t_venues d)\<rparr>"
    by (rule updateSettings_InrD)
  then show ?thesis using ReqUpdateSettings confined_venues [of "patch_venue i"] by auto
next
  case (ReqCreateRoom b)
  then show ?thesis using assms
    by (auto simp: tx_simps wrote_def createRoom_def Let_def intro!: confined_inserts split: if_splits)
next
  case (ReqUpdateRoom rid b)
  then obtain i existing r where "updateRoom_write rid i p existing d = Inr (r, d')"
    using assms by (auto simp: tx_simps wrote_def updateRoom_def ParseUUIDPipe_def)
  then show ?thesis
    by (cases rule: updateRoom_write_InrD) (auto simp: ReqUpdateRoom intro!: confined_rooms)
next
  case (ReqCreateEquipmentType b)
  then show ?thesis using assms
    by (auto simp: tx_simps wrote_def createEquipmentType_def Let_def intro!: confined_inserts split: if_splits)
next
  case (ReqUpdateEquipmentType eid b)
  then show ?thesis using assms
    by (auto simp: tx_simps wrote_def updateEquipmentType_def intro!: confined_equipment split: if_splits)
next
  case (ReqReplacePolicy tiers)
  then show ?thesis using assms
    by (auto simp: tx_simps wrote_def policies_replace_def intro!: confined_inserts split: if_splits option.splits)
qed (auto simp: tx_simps read_def)

text \<open>
  C6. INV-6, writing. A request of a venue's console changes nothing unless its token verifies as one of
  a venue administrator; then it changes the venue of the token and no other, whatever ids and bodies it
  names, and never a booking, a payment, an account or an audit row.
\<close>

theorem writes_confined_to_token:
  "snd (venue_api env s authorization ctx rq d) = d
   \<or> (\<exists>token raw p w. authorization = Some (''Bearer '' @ token) \<and> jwt_verify env token (sr_now s) = Some raw
        \<and> JwtPayloadSchema raw = Some p \<and> pr_role p = VENUE_ADMIN \<and> pr_venue_id p = Some w
        \<and> confined (uuid_in w) d (snd (venue_api env s authorization ctx rq d)))"
proof (cases rule: transaction_cases [of "\<lambda>d. result_bind (admit env (route_access (request_route rq)) authorization (sr_now s) ctx)
    (\<lambda>ctx. result_bind (requirePrincipal ctx) (\<lambda>p. venue_handler s ctx p rq d))" d])
  case (commit a d')
  then obtain ctx' p where a: "admit env (route_access (request_route rq)) authorization (sr_now s) ctx = Inr ctx'"
    "rq_principal ctx' = Some p" "venue_handler s ctx' p rq d = Inr (a, d')"
    by (auto simp: tx_simps requirePrincipal_def)
  have d': "snd (venue_api env s authorization ctx rq d) = d'" using commit(2) by (simp add: venue_api_def)
  consider "d' = d" | (wrote) w where "pr_venue_id p = Some w" "confined (uuid_in w) d d'"
      "route_access (request_route rq) = Roles [VENUE_ADMIN]"
    using handler_confined [OF a(3)] by blast
  then show ?thesis
  proof cases
    case wrote
    obtain token raw q where t: "authorization = Some (''Bearer '' @ token)" "jwt_verify env token (sr_now s) = Some raw"
      "JwtPayloadSchema raw = Some q" "ctx' = setPrincipal q ctx" "pr_role q \<in> set [VENUE_ADMIN]"
      using a(1) wrote(3) by (elim admitted) auto
    then have "q = p" using a(2) by (simp add: setPrincipal_def)
    then show ?thesis using t wrote(1,2) d' by auto
  qed (simp add: d')
qed (simp add: venue_api_def)

end
