(* ===== verification/TenantIsolation.thy ===== *)
theory TenantIsolation
  imports VenueRequests
begin

text \<open>
  INV-6, reading. What a venue's staff are answered is a function of the rows of their own venue and of
  the platform's default policy: run on that part of the database alone, every request of
  \<open>VenueRequests\<close> gives the same answer and leaves the same part behind. Two databases that agree on it
  cannot be told apart, whatever the other venues hold.
\<close>

section \<open>The view of a view\<close>

lemma find_filter:
  assumes "\<And>x. x \<in> set xs \<Longrightarrow> p x \<Longrightarrow> q x"
  shows "List.find p (filter q xs) = List.find p xs"
  using assms by (induction xs) auto

lemma concat_map_filter:
  assumes "\<And>x. x \<in> set xs \<Longrightarrow> h x = (if q x then g x else [])"
  shows "concat (map g (filter q xs)) = concat (map h xs)"
  using assms by (induction xs) auto

lemma venue_bookings_view [simp]: "venue_bookings u (venue_view u d) = venue_bookings u d"
  by (simp add: venue_bookings_def venue_view_def)

lemma venue_view_idem [simp]: "venue_view u (venue_view u d) = venue_view u d"
  by (simp add: venue_view_def venue_bookings_def)

lemma venue_bookings_updates [simp]:
  "venue_bookings u (d\<lparr>t_venues := vs\<rparr>) = venue_bookings u d"
  "venue_bookings u (d\<lparr>t_rooms := rs\<rparr>) = venue_bookings u d"
  "venue_bookings u (d\<lparr>t_equipment_types := es\<rparr>) = venue_bookings u d"
  "venue_bookings u (d\<lparr>t_cancellation_policies := cs\<rparr>) = venue_bookings u d"
  by (simp_all add: venue_bookings_def)

lemma venue_view_updates:
  "venue_view u (d\<lparr>t_venues := vs\<rparr>) = (venue_view u d)\<lparr>t_venues := filter (\<lambda>x. v_id x = u) vs\<rparr>"
  "venue_view u (d\<lparr>t_rooms := rs\<rparr>) = (venue_view u d)\<lparr>t_rooms := filter (\<lambda>r. r_venue_id r = u) rs\<rparr>"
  "venue_view u (d\<lparr>t_equipment_types := es\<rparr>) = (venue_view u d)\<lparr>t_equipment_types := filter (\<lambda>e. e_venue_id e = u) es\<rparr>"
  "venue_view u (d\<lparr>t_cancellation_policies := cs\<rparr>)
     = (venue_view u d)\<lparr>t_cancellation_policies := filter (\<lambda>c. cp_venue_id c = None \<or> cp_venue_id c = Some u) cs\<rparr>"
  by (simp_all add: venue_view_def)

text \<open>What the caller sees of a result: the answer, and the venue's part of the state left behind.\<close>

definition seen :: "uuid \<Rightarrow> exn + 'a \<times> db \<Rightarrow> exn + 'a \<times> db" where
  "seen u r = result_bind r (\<lambda>(a, d). Inr (a, venue_view u d))"

lemma seen_simps [simp]: "seen u (Inl e) = Inl e" "seen u (Inr (a, d)) = Inr (a, venue_view u d)"
  by (simp_all add: seen_def)

lemma seen_bind:
  assumes "\<And>i. seen u (k i) = seen u (k' i)"
  shows "seen u (result_bind r k) = seen u (result_bind r k')"
  using assms by (cases r) simp_all

lemma seen_wrote: "seen u r = seen u r' \<Longrightarrow> seen u (wrote f r) = seen u (wrote f r')"
  by (cases r; cases r') (auto simp: seen_def wrote_def result_bind_def split: sum.splits)

lemma seen_read: "r = r' \<Longrightarrow> seen u (read f d r) = seen u (read f (venue_view u d) r')"
  by (cases r') (auto simp: read_def)

section \<open>Staff of a venue\<close>

text \<open>A principal of a venue, whose token spells the venue as the column does.\<close>

definition staff_of :: "uuid \<Rightarrow> principal \<Rightarrow> bool" where
  "staff_of u p \<longleftrightarrow> pr_role p \<in> {VENUE_STAFF, VENUE_ADMIN} \<and> pr_venue_id p = Some u \<and> u \<noteq> [] \<and> uuid_in u = u"

lemma staff_scopes:
  assumes "staff_of u p"
  shows "admin_scope p = Inr u" "equipment_scope p = Inr (\<lambda>e. e_venue_id e = u)" "scopeFilter p = Inr (\<lambda>b. b_venue_id b = u)"
    "map_option uuid_in (pr_venue_id p) = Some u"
  using assms by (auto simp: staff_of_def admin_scope_def equipment_scope_def scopeFilter_def)

text \<open>
  Rows that are joined belong to one venue: the room and the equipment of a booking are of the venue of
  the booking. The hold path copies the venue from the room and refuses foreign equipment.
\<close>

definition joins_within_venue :: "db \<Rightarrow> bool" where
  "joins_within_venue d \<longleftrightarrow>
     (\<forall>b \<in> set (t_bookings d).
        (\<forall>r \<in> set (t_rooms d). r_id r = b_room_id b \<longrightarrow> r_venue_id r = b_venue_id b)
        \<and> (\<forall>li \<in> set (t_booking_line_items d). \<forall>e \<in> set (t_equipment_types d).
             li_booking_id li = b_id b \<and> e_id e = li_equipment_type_id li \<longrightarrow> e_venue_id e = b_venue_id b))"

section \<open>Configuration\<close>

lemma settings_view: "staff_of u p \<Longrightarrow> settings p (venue_view u d) = settings p d"
  by (simp add: settings_def staff_scopes venue_view_sel find_filter)

lemma updateSettings_view:
  assumes "staff_of u p"
  shows "seen u (updateSettings i p d) = seen u (updateSettings i p (venue_view u d))"
proof -
  have "List.find (\<lambda>v. v_id v = u) (filter (\<lambda>v. v_id v = u) (t_venues d)) = List.find (\<lambda>v. v_id v = u) (t_venues d)"
    by (rule find_filter)
  then show ?thesis
    using assms by (cases "List.find (\<lambda>v. v_id v = u) (t_venues d)")
      (simp_all add: updateSettings_def staff_scopes venue_view_sel venue_view_updates Let_def filter_update_where)
qed

lemma listRooms_view: "staff_of u p \<Longrightarrow> listRooms c p (venue_view u d) = listRooms c p d"
  by (simp add: listRooms_def staff_scopes venue_view_sel)

lemma venue_known: "u \<in> v_id ` set (t_venues (venue_view u d)) \<longleftrightarrow> u \<in> v_id ` set (t_venues d)"
  by (auto simp: venue_view_sel)

lemma createRoom_view:
  assumes "staff_of u p" and "fresh \<notin> r_id ` set (t_rooms d)"
  shows "seen u (createRoom i p fresh d) = seen u (createRoom i p fresh (venue_view u d))"
proof (cases "refuseRoomBuffer (cr_overbooking_buffer_pct i)")
  case (Inr x)
  define r where "r = \<lparr>r_id = fresh, r_venue_id = u, r_name = cr_name i, r_capacity = cr_capacity i,
      r_hourly_rate_minor = cr_hourly_rate_minor i, r_amenities = cr_amenities i,
      r_min_duration_minutes = cr_min_duration_minutes i, r_max_duration_minutes = cr_max_duration_minutes i\<rparr>"
  have fresh: "fresh \<notin> r_id ` set (t_rooms (venue_view u d))" using assms(2) by (auto simp: venue_view_sel)
  have "createRoom i p fresh d' = (if u \<notin> v_id ` set (t_venues d') then Inl (pg_error ''23503'' '''') else Inr (r, d'\<lparr>t_rooms := t_rooms d' @ [r]\<rparr>))"
    if "fresh \<notin> r_id ` set (t_rooms d')" for d'
    using that by (simp only: createRoom_def staff_scopes [OF assms(1)] Inr result_bind_Inr Let_def r_def [symmetric] if_False)
  moreover have "venue_view u (d\<lparr>t_rooms := t_rooms d @ [r]\<rparr>) = venue_view u ((venue_view u d)\<lparr>t_rooms := t_rooms (venue_view u d) @ [r]\<rparr>)"
    by (simp add: venue_view_updates) (simp add: venue_view_def)
  ultimately show ?thesis using fresh assms(2) venue_known [of u d]
    by (cases "u \<in> v_id ` set (t_venues d)") (simp_all only: seen_simps if_True if_False simp_thms not_True_eq_False not_False_eq_True)
qed (simp add: createRoom_def staff_scopes [OF assms(1)])

lemma find_room_view: "find_room rid u (venue_view u d) = find_room rid u d"
  unfolding find_room_def venue_view_sel by (rule find_filter) simp

lemma view_update_rooms:
  assumes "\<And>r. r_venue_id (f r) = r_venue_id r"
  shows "venue_view u (d\<lparr>t_rooms := update_where q f (t_rooms d)\<rparr>)
    = venue_view u ((venue_view u d)\<lparr>t_rooms := update_where q f (t_rooms (venue_view u d))\<rparr>)"
proof -
  have "filter (\<lambda>r. r_venue_id r = u) (update_where q f rs) = update_where q f (filter (\<lambda>r. r_venue_id r = u) rs)" for rs
    using assms by (intro filter_update_where) simp
  then show ?thesis by (simp add: venue_view_updates venue_view_sel)
qed

lemma updateRoom_view:
  assumes "staff_of u p"
  shows "seen u (updateRoom rid i p d) = seen u (updateRoom rid i p (venue_view u d))"
proof -
  have checked: "updateRoom_read rid i p (venue_view u d) = updateRoom_read rid i p d"
    using assms by (simp add: updateRoom_read_def staff_scopes find_room_view)
  have written: "seen u (updateRoom_write rid i p existing d) = seen u (updateRoom_write rid i p existing (venue_view u d))" for existing
  proof (cases "find_room rid u d")
    case (Some r)
    let ?q = "\<lambda>r. r_id r = uuid_in rid \<and> r_venue_id r = u"
    have "updateRoom_write rid i p existing d' = (if i\<lparr>ri_overbooking_buffer_pct := None\<rparr> = no_room_fields then Inr (existing, d')
        else Inr (patch_room i r, d'\<lparr>t_rooms := update_where ?q (patch_room i) (t_rooms d')\<rparr>))"
      if "find_room rid u d' = Some r" for d'
      by (simp only: updateRoom_write_def staff_scopes [OF assms] that result_bind_Inr or_throw_simps)
    moreover have "venue_view u (d\<lparr>t_rooms := update_where ?q (patch_room i) (t_rooms d)\<rparr>)
        = venue_view u ((venue_view u d)\<lparr>t_rooms := update_where ?q (patch_room i) (t_rooms (venue_view u d))\<rparr>)"
      by (rule view_update_rooms) simp
    moreover have "find_room rid u (venue_view u d) = Some r" using Some by (simp only: find_room_view)
    ultimately show ?thesis using Some
      by (cases "i\<lparr>ri_overbooking_buffer_pct := None\<rparr> = no_room_fields") (simp_all only: seen_simps if_True if_False venue_view_idem simp_thms)
  next
    case None
    then have "find_room rid u (venue_view u d) = None" by (simp only: find_room_view)
    then show ?thesis
      by (cases "i\<lparr>ri_overbooking_buffer_pct := None\<rparr> = no_room_fields")
        (simp_all only: updateRoom_write_def staff_scopes [OF assms] None result_bind_Inr result_bind_Inl or_throw_simps
          seen_simps if_True if_False venue_view_idem simp_thms)
  qed
  show ?thesis unfolding updateRoom_def checked by (rule seen_bind) (rule written)
qed

lemma createEquipmentType_view:
  assumes "staff_of u p" and "fresh \<notin> e_id ` set (t_equipment_types d)"
  shows "seen u (createEquipmentType i p fresh d) = seen u (createEquipmentType i p fresh (venue_view u d))"
proof -
  have "fresh \<notin> e_id ` set (t_equipment_types (venue_view u d))" using assms(2) by (auto simp: venue_view_sel)
  then show ?thesis
    using assms venue_known [of u d]
    by (simp add: createEquipmentType_def staff_scopes Let_def venue_view_updates) (simp add: venue_view_sel)
qed

lemma find_equipment_view:
  "List.find (\<lambda>e. e_id e = k \<and> e_venue_id e = u) (t_equipment_types (venue_view u d))
   = List.find (\<lambda>e. e_id e = k \<and> e_venue_id e = u) (t_equipment_types d)"
  unfolding venue_view_sel by (rule find_filter) simp

lemma updateEquipmentType_view:
  assumes "staff_of u p"
  shows "seen u (updateEquipmentType eid i p d) = seen u (updateEquipmentType eid i p (venue_view u d))"
  using assms
  by (cases "List.find (\<lambda>e. e_id e = uuid_in eid \<and> e_venue_id e = u) (t_equipment_types d)")
    (simp_all add: updateEquipmentType_def staff_scopes find_equipment_view venue_view_updates,
     simp add: venue_view_sel filter_update_where)

lemma equipment_list_view: "staff_of u p \<Longrightarrow> equipment_list p (venue_view u d) = equipment_list p d"
  by (simp add: equipment_list_def staff_scopes venue_view_sel)

lemma equipment_findOne_view: "staff_of u p \<Longrightarrow> equipment_findOne eid p (venue_view u d) = equipment_findOne eid p d"
  by (simp add: equipment_findOne_def staff_scopes find_equipment_view)

lemma newest_policy_view:
  "newest_policy (Some u) (venue_view u d) = newest_policy (Some u) d"
  "newest_policy None (venue_view u d) = newest_policy None d"
proof -
  have "filter (\<lambda>c. cp_venue_id c = w) (t_cancellation_policies (venue_view u d)) = filter (\<lambda>c. cp_venue_id c = w) (t_cancellation_policies d)"
    if "w = None \<or> w = Some u" for w
    unfolding venue_view_sel filter_filter by (rule filter_cong) (use that in auto)
  then show "newest_policy (Some u) (venue_view u d) = newest_policy (Some u) d"
    "newest_policy None (venue_view u d) = newest_policy None d"
    by (simp_all add: newest_policy_def)
qed

lemma policies_current_view: "staff_of u p \<Longrightarrow> policies_current p (venue_view u d) = policies_current p d"
  by (simp add: policies_current_def staff_scopes resolveTiers_def newest_policy_view cong: option.case_cong)

lemma policies_replace_view:
  assumes "staff_of u p" and "fresh \<notin> cp_id ` set (t_cancellation_policies d)"
  shows "seen u (policies_replace ts p fresh now d) = seen u (policies_replace ts p fresh now (venue_view u d))"
proof -
  have "fresh \<notin> cp_id ` set (t_cancellation_policies (venue_view u d))" using assms(2) by (auto simp: venue_view_sel)
  moreover have "pr_venue_id p = Some u" "u \<noteq> []" "uuid_in u = u" using assms(1) by (simp_all add: staff_of_def)
  ultimately show ?thesis
    using assms(2) venue_known [of u d]
    by (simp add: policies_replace_def venue_view_updates) (simp add: venue_view_sel)
qed

section \<open>Reports and bookings\<close>

lemma report_rows_view: "report_rows u q (venue_view u d) = report_rows u q d"
  by (simp add: report_rows_def venue_view_sel venue_bookings_def)

lemma report_rows_sub: "set (report_rows u q d) \<subseteq> set (venue_bookings u d)"
  by (auto simp: report_rows_def venue_bookings_def)

lemma payments_view:
  assumes "b \<in> set (venue_bookings u d)"
  shows "filter (\<lambda>p. p_booking_id p = b_id b) (t_payments (venue_view u d)) = filter (\<lambda>p. p_booking_id p = b_id b) (t_payments d)"
  using assms by (simp add: venue_view_def) (rule filter_cong, auto)

lemma rooms_view:
  assumes "joins_within_venue d" and "b \<in> set (venue_bookings u d)"
  shows "filter (\<lambda>r. r_id r = b_room_id b) (t_rooms (venue_view u d)) = filter (\<lambda>r. r_id r = b_room_id b) (t_rooms d)"
    and "List.find (\<lambda>r. r_id r = b_room_id b) (t_rooms (venue_view u d)) = List.find (\<lambda>r. r_id r = b_room_id b) (t_rooms d)"
proof -
  have b: "r_venue_id r = u" if "r \<in> set (t_rooms d)" "r_id r = b_room_id b" for r
    using assms that by (auto simp: joins_within_venue_def venue_bookings_def)
  show "filter (\<lambda>r. r_id r = b_room_id b) (t_rooms (venue_view u d)) = filter (\<lambda>r. r_id r = b_room_id b) (t_rooms d)"
    unfolding venue_view_sel filter_filter by (rule filter_cong) (use b in auto)
  show "List.find (\<lambda>r. r_id r = b_room_id b) (t_rooms (venue_view u d)) = List.find (\<lambda>r. r_id r = b_room_id b) (t_rooms d)"
    unfolding venue_view_sel by (rule find_filter) (rule b)
qed

lemma revenue_view:
  assumes "staff_of u p" and "rq_principal ctx = Some p" and "joins_within_venue d"
  shows "revenue off q ctx (venue_view u d) = revenue off q ctx d"
proof -
  have p: "pr_venue_id p = Some u" "uuid_in u = u" using assms(1) by (simp_all add: staff_of_def)
  have "refunds_of (venue_view u d) b = refunds_of d b" if "b \<in> set (report_rows u q d)" for b
    using payments_view [of b u d] that report_rows_sub [of u q d] by (auto simp: refunds_of_def)
  then have ref: "refunded u q (venue_view u d) = refunded u q d"
    unfolding refunded_def report_rows_view by (metis (no_types, lifting) map_cong)
  have join: "joined_rooms (venue_view u d) (report_rows u q d) = joined_rooms d (report_rows u q d)"
  proof -
    have "map (Pair b) (filter (\<lambda>r. r_id r = b_room_id b) (t_rooms (venue_view u d)))
        = map (Pair b) (filter (\<lambda>r. r_id r = b_room_id b) (t_rooms d))" if "b \<in> set (report_rows u q d)" for b
      using rooms_view(1) [OF assms(3)] that report_rows_sub [of u q d] by (metis subsetD)
    then show ?thesis unfolding joined_rooms_def by (metis (no_types, lifting) map_cong)
  qed
  have "List.find (\<lambda>v. v_id v = u) (t_venues (venue_view u d)) = List.find (\<lambda>v. v_id v = u) (t_venues d)"
    unfolding venue_view_sel by (rule find_filter)
  then show ?thesis
    by (simp add: revenue_def requirePrincipal_def assms(2) p totals_def byRoom_def byDay_def report_rows_view ref join)
qed

lemma list_bookings_view:
  assumes "staff_of u p" and "joins_within_venue d"
  shows "list_bookings q p (venue_view u d) = list_bookings q p d"
proof -
  let ?scope = "\<lambda>b. b_venue_id b = u"
  have rows: "filter (list_where q ?scope) (t_bookings (venue_view u d)) = filter (list_where q ?scope) (t_bookings d)"
    unfolding venue_view_sel venue_bookings_def filter_filter by (rule filter_cong) (auto simp: list_where_def)
  have "joined (venue_view u d) b = joined d b" if "b \<in> set (filter (list_where q ?scope) (t_bookings d))" for b
  proof -
    have b: "b \<in> set (t_bookings d)" "b_venue_id b = u" using that by (auto simp: list_where_def)
    then have "\<forall>r \<in> set (t_rooms d). r_id r = b_room_id b \<longrightarrow> r_venue_id r = u" using assms(2) by (simp add: joins_within_venue_def)
    then have "b_room_id b \<in> r_id ` set (t_rooms (venue_view u d)) \<longleftrightarrow> b_room_id b \<in> r_id ` set (t_rooms d)"
      unfolding venue_view_sel image_iff set_filter by auto
    then show ?thesis using b(2) venue_known [of u d] by (simp add: joined_def)
  qed
  then have "filter (joined (venue_view u d)) (filter (list_where q ?scope) (t_bookings d))
      = filter (joined d) (filter (list_where q ?scope) (t_bookings d))"
    by (intro filter_cong) auto
  then show ?thesis using assms(1) by (simp add: list_bookings_def staff_scopes rows del: filter_filter)
qed

lemma findOne_view:
  assumes "staff_of u p" and "joins_within_venue d"
  shows "findOne bid p (venue_view u d) = findOne bid p d"
proof -
  let ?find = "\<lambda>d. List.find (\<lambda>b. b_id b = uuid_in bid \<and> b_venue_id b = u) (t_bookings d)"
  have f: "?find (venue_view u d) = ?find d"
    unfolding venue_view_sel venue_bookings_def by (rule find_filter) simp
  have "booking_view_of (uuid_in bid) b (venue_view u d) = booking_view_of (uuid_in bid) b d" if "?find d = Some b" for b
  proof -
    have b: "b \<in> set (venue_bookings u d)" "b_id b = uuid_in bid" using find_SomeD [OF that] by (auto simp: venue_bookings_def)
    note room = rooms_view(2) [OF assms(2) b(1)]
    have venue: "List.find (\<lambda>v. v_id v = r_venue_id r) (t_venues (venue_view u d)) = List.find (\<lambda>v. v_id v = r_venue_id r) (t_venues d)"
      if "List.find (\<lambda>r. r_id r = b_room_id b) (t_rooms d) = Some r" for r
    proof -
      have "r_venue_id r = u" using find_SomeD [OF that] b(1) assms(2) by (auto simp: joins_within_venue_def venue_bookings_def)
      then show ?thesis unfolding venue_view_sel by (intro find_filter) simp
    qed
    have items: "booking_items (b_id b) (venue_view u d) = booking_items (b_id b) d"
    proof -
      have "b \<in> set (t_bookings d)" "b_venue_id b = u" using b(1) by (auto simp: venue_bookings_def)
      then have e: "e_venue_id e = u" if "li \<in> set (t_booking_line_items d)" "e \<in> set (t_equipment_types d)"
          "li_booking_id li = b_id b" "e_id e = li_equipment_type_id li" for li e
        using that assms(2) by (auto simp: joins_within_venue_def)
      let ?pick = "\<lambda>es li. concat (map (\<lambda>e. if li_booking_id li = b_id b \<and> e_id e = li_equipment_type_id li then [(li, e_name e)] else []) es)"
      have es: "?pick (filter (\<lambda>e. e_venue_id e = u) es) li = ?pick es li"
        if "li \<in> set (t_booking_line_items d)" "set es \<subseteq> set (t_equipment_types d)" for li es
        using that e by (induction es) auto
      have none: "?pick es li = []" if "li_booking_id li \<noteq> b_id b" for li es
        using that by (induction es) auto
      have "concat (map (?pick (t_equipment_types (venue_view u d))) (filter (\<lambda>li. li_booking_id li \<in> b_id ` set (venue_bookings u d)) (t_booking_line_items d)))
          = concat (map (?pick (t_equipment_types d)) (t_booking_line_items d))" (is ?picked)
      proof (rule concat_map_filter)
        fix li
        assume li: "li \<in> set (t_booking_line_items d)"
        show "?pick (t_equipment_types d) li
            = (if li_booking_id li \<in> b_id ` set (venue_bookings u d) then ?pick (t_equipment_types (venue_view u d)) li else [])"
        proof (cases "li_booking_id li = b_id b")
          case True
          then have "li_booking_id li \<in> b_id ` set (venue_bookings u d)" using b(1) by (simp only: image_eqI)
          then show ?thesis using es [OF li order_refl] by (simp only: if_True venue_view_sel)
        next
          case False
          show ?thesis unfolding none [OF False] by (rule if_cancel [symmetric])
        qed
      qed
      have "t_booking_line_items (venue_view u d) = filter (\<lambda>li. li_booking_id li \<in> b_id ` set (venue_bookings u d)) (t_booking_line_items d)"
        by (simp add: venue_view_def)
      then show ?thesis using \<open>?picked\<close> by (simp only: booking_items_def)
    qed
    have pay: "newest_payment (b_id b) (venue_view u d) = newest_payment (b_id b) d"
      by (simp only: newest_payment_def payments_view [OF b(1)])
    have "Option.bind (List.find (\<lambda>r. r_id r = b_room_id b) (t_rooms d)) (\<lambda>r. List.find (\<lambda>v. v_id v = r_venue_id r) (t_venues (venue_view u d)))
        = Option.bind (List.find (\<lambda>r. r_id r = b_room_id b) (t_rooms d)) (\<lambda>r. List.find (\<lambda>v. v_id v = r_venue_id r) (t_venues d))"
      using venue by (cases "List.find (\<lambda>r. r_id r = b_room_id b) (t_rooms d)") simp_all
    then show ?thesis by (simp only: booking_view_of_def Let_def b(2) [symmetric] room items pay)
  qed
  then show ?thesis using assms(1) f by (cases "?find d") (simp_all add: findOne_def staff_scopes)
qed

section \<open>Isolation\<close>

definition unused_id :: "uuid \<Rightarrow> db \<Rightarrow> bool" where
  "unused_id k d \<longleftrightarrow> k \<notin> r_id ` set (t_rooms d) \<and> k \<notin> e_id ` set (t_equipment_types d)
     \<and> k \<notin> cp_id ` set (t_cancellation_policies d)"

lemma handler_view:
  assumes "staff_of u p" and "rq_principal ctx = Some p" and "joins_within_venue d" and "unused_id (sr_fresh s) d"
  shows "seen u (venue_handler s ctx p rq d) = seen u (venue_handler s ctx p rq (venue_view u d))"
proof (cases rq)
  case (ReqUpdateRoom rid b)
  then show ?thesis using assms(1) by (auto intro!: seen_bind seen_wrote updateRoom_view)
next
  case (ReqCreateRoom b)
  then show ?thesis using assms(1,4) by (auto simp: unused_id_def intro!: seen_bind seen_wrote createRoom_view)
next
  case (ReqCreateEquipmentType b)
  then show ?thesis using assms(1,4) by (auto simp: unused_id_def intro!: seen_bind seen_wrote createEquipmentType_view)
next
  case (ReqReplacePolicy ts)
  then show ?thesis using assms(1,4) by (auto simp: unused_id_def intro!: seen_bind seen_wrote policies_replace_view)
qed (use assms in \<open>auto intro!: seen_bind seen_wrote seen_read updateSettings_view updateEquipmentType_view
    simp: settings_view listRooms_view equipment_list_view equipment_findOne_view policies_current_view
      revenue_view list_bookings_view findOne_view\<close>)

text \<open>
  C5. INV-6, reading. Staff of a venue are answered from their own venue alone: on two databases that
  agree on the rows of the venue, the same request gets the same answer, errors included, and leaves the
  venue in the same state, whatever bookings, customers and revenue other venues have.
\<close>

theorem tenant_isolation:
  assumes "admit env (route_access (request_route rq)) authorization (sr_now s) ctx = Inr ctx'"
    and "rq_principal ctx' = Some p" and "staff_of u p" and "venue_view u d1 = venue_view u d2"
    and "joins_within_venue d1" "joins_within_venue d2" and "unused_id (sr_fresh s) d1" "unused_id (sr_fresh s) d2"
  shows "fst (venue_api env s authorization ctx rq d1) = fst (venue_api env s authorization ctx rq d2)
    \<and> venue_view u (snd (venue_api env s authorization ctx rq d1)) = venue_view u (snd (venue_api env s authorization ctx rq d2))"
proof -
  have api: "venue_api env s authorization ctx rq d = transaction (venue_handler s ctx' p rq) d" for d
    using assms(1,2) by (simp add: venue_api_def transaction_def requirePrincipal_def)
  have "seen u (venue_handler s ctx' p rq d1) = seen u (venue_handler s ctx' p rq d2)"
    using handler_view [OF assms(3,2)] assms(4-8) by metis
  then show ?thesis
    using assms(4) unfolding api transaction_def
    by (cases "venue_handler s ctx' p rq d1"; cases "venue_handler s ctx' p rq d2") (auto split: prod.splits)
qed

section \<open>Two venues\<close>

text \<open>A database with one venue, and the same with a second venue, its room and a booking in it.\<close>

definition first_venue :: uuid where "first_venue = ''00000000-0000-4000-8000-0000000000f1''"

definition one_venue_db :: db where
  "one_venue_db = sample_db\<lparr>t_venues := [sample_venue\<lparr>v_id := first_venue\<rparr>],
     t_rooms := [sample_room\<lparr>r_venue_id := first_venue\<rparr>], t_bookings := [], t_booking_line_items := []\<rparr>"

definition two_venues_db :: db where
  "two_venues_db = one_venue_db\<lparr>t_venues := sample_venue # t_venues one_venue_db,
     t_rooms := sample_room\<lparr>r_id := ''other''\<rparr> # t_rooms one_venue_db,
     t_bookings := [(sample_booking ''b9'' ''u2'' (4 * hour) (6 * hour) CONFIRMED None)\<lparr>b_room_id := ''other''\<rparr>]\<rparr>"

definition admin_auth :: auth_env where
  "admin_auth = sample_auth\<lparr>jwt_verify := \<lambda>token now.
     if token = ''t'' then Some (jwt_payload sample_uid VENUE_ADMIN (Some first_venue)) else None\<rparr>"

definition sample_surroundings :: surroundings where
  "sample_surroundings = \<lparr>sr_timezone = (\<lambda>s. s = ''UTC''), sr_offsets = sample_utc, sr_collate = (\<lambda>s. s),
     sr_fresh = ''fresh'', sr_now = 0\<rparr>"

definition admin_principal :: principal where
  "admin_principal = \<lparr>pr_user_id = sample_uid, pr_role = VENUE_ADMIN, pr_venue_id = Some first_venue\<rparr>"

lemma admin_payload:
  "JwtPayloadSchema (jwt_payload sample_uid VENUE_ADMIN (Some first_venue)) = Some admin_principal"
proof -
  have "zod_uuid sample_uid" "zod_uuid first_venue" by code_simp+
  then show ?thesis unfolding admin_principal_def by (intro payload_read_back) simp_all
qed

lemma admin_admitted:
  assumes "access = Roles [VENUE_ADMIN] \<or> access = Roles [VENUE_ADMIN, VENUE_STAFF]"
  shows "admit admin_auth access (Some ''Bearer t'') 0 ctx = Inr (setPrincipal admin_principal ctx)"
proof -
  have "JwtAuthGuard admin_auth access (Some ''Bearer t'') 0 = Inr (Some admin_principal)"
    using assms admin_payload by (auto simp: JwtAuthGuard_eq_Inr admin_auth_def)
  then show ?thesis using assms by (auto simp: admit_def RolesGuard_def VenueScopeGuard_def admin_principal_def)
qed

lemma tenant_isolation_witness:
  "fst (venue_api admin_auth sample_surroundings (Some ''Bearer t'') (CorrelationMiddleware None ''c'') ReqListRooms one_venue_db)
   = fst (venue_api admin_auth sample_surroundings (Some ''Bearer t'') (CorrelationMiddleware None ''c'') ReqListRooms two_venues_db)"
proof -
  have "staff_of first_venue admin_principal" by code_simp
  moreover have "venue_view first_venue one_venue_db = venue_view first_venue two_venues_db"
    by (simp add: venue_view_def venue_bookings_def two_venues_db_def one_venue_db_def sample_venue_def first_venue_def
        sample_booking_def sample_room_def)
  moreover have "joins_within_venue one_venue_db" "joins_within_venue two_venues_db"
    by (simp_all add: joins_within_venue_def one_venue_db_def two_venues_db_def sample_booking_def sample_db_def
        sample_room_def sample_room_id_def)
  moreover have "unused_id (sr_fresh sample_surroundings) one_venue_db" "unused_id (sr_fresh sample_surroundings) two_venues_db"
    by code_simp+
  moreover have "admit admin_auth (route_access (request_route ReqListRooms)) (Some ''Bearer t'') (sr_now sample_surroundings)
      (CorrelationMiddleware None ''c'') = Inr (setPrincipal admin_principal (CorrelationMiddleware None ''c''))"
    using admin_admitted by (simp add: sample_surroundings_def)
  ultimately show ?thesis
    using tenant_isolation [of admin_auth ReqListRooms "Some ''Bearer t''" sample_surroundings "CorrelationMiddleware None ''c''"
        "setPrincipal admin_principal (CorrelationMiddleware None ''c'')" admin_principal first_venue one_venue_db two_venues_db]
    by (simp add: setPrincipal_def)
qed

end
