(* ===== verification/VenueProperties.thy ===== *)
theory VenueProperties
  imports TenantIsolation
begin

text \<open>
  What the administration of a venue does to the rest of the program: the hours and buffer a hold is
  decided with, the rates and durations of rooms, and the policy a booking is confirmed under.
\<close>

section \<open>Texts that come back\<close>

lemma parse_day_json [simp]: "DayHoursSchema (Some (day_json h)) = Some h"
  by (cases h) (simp_all add: day_json_def)

lemma parse_hours_json:
  assumes "length hs = 7"
  shows "parseOperatingHours (hours_json hs) = Some hs"
proof -
  obtain a b c d e f g where "hs = [a, b, c, d, e, f, g]"
    using assms by (auto simp: numeral_eq_Suc length_Suc_conv)
  then show ?thesis by (simp add: parseOperatingHours_def hours_json_def WEEKDAY_KEYS_def)
qed

lemma parse_days_length: "parse_days ks j = Some hs \<Longrightarrow> length hs = length ks"
  by (induction ks arbitrary: hs) (auto split: option.splits)

lemma parsed_hours_length: "parseOperatingHours j = Some hs \<Longrightarrow> length hs = 7"
  using parse_days_length [of WEEKDAY_KEYS j hs] by (simp add: parseOperatingHours_def WEEKDAY_KEYS_def)

lemma decimal_digits: "decimal n s \<noteq> None \<Longrightarrow> c \<in> set s \<Longrightarrow> digit c \<noteq> None"
  by (induction n s rule: decimal.induct) (auto split: option.splits)

lemma digit_no_space: "digit c \<noteq> None \<Longrightarrow> \<not> is_space c"
  by (auto simp: digit_def is_space_def split: if_splits)

lemma trim_no_space:
  assumes "\<And>c. c \<in> set s \<Longrightarrow> \<not> is_space c"
  shows "trim s = s"
proof -
  have "dropWhile is_space s = s" "dropWhile is_space (rev s) = rev s"
    using assms by (simp_all add: dropWhile_eq_self_iff) (metis hd_in_set hd_rev last_in_set)+
  then show ?thesis by (simp add: trim_def)
qed

text \<open>
  One spelling of money: the text in which every answer gives a rate is accepted as the rate of a
  request and read as the same amount, up to the largest a column holds.
\<close>

theorem rate_roundtrip:
  assumes "0 \<le> n" "n < 2 ^ 63"
  shows "RateMinor (RateString (show_int n)) = Some n"
proof -
  have s: "show_int n = show_nat (nat n)" using assms(1) by (simp add: show_int_def)
  have "trim (show_nat (nat n)) = show_nat (nat n)"
    using decimal_digits [of 0 "show_nat (nat n)"] digit_no_space by (intro trim_no_space) (simp add: decimal_show_nat)
  then show ?thesis using assms by (simp add: RateMinor_def s decimal_show_nat Let_def)
qed

lemma rate_roundtrip_witness: "RateMinor (RateString (show_int 9223372036854775807)) = Some 9223372036854775807"
  by (rule rate_roundtrip) simp_all

section \<open>Settings\<close>

lemma settings_schema_hours:
  assumes "UpdateVenueSettingsSchema tz b = Some i" and "si_operating_hours i = Some hs"
  shows "length hs = 7"
  using assms
  by (auto simp: UpdateVenueSettingsSchema_def optional_def Let_def split: option.splits if_splits intro: parsed_hours_length)


text \<open>
  The schema takes any text for the times of a day. A clock that does not parse closes the day, and the
  request that set it is answered as a success.
\<close>

lemma malformed_hours_accepted:
  "parseOperatingHours (JObj (map (\<lambda>k. (k, JObj [(''open'', JStr ''9:00''), (''close'', JStr ''21:00'')])) WEEKDAY_KEYS)) \<noteq> None
   \<and> parseClock ''9:00'' = None"
  by code_simp

section \<open>Durations\<close>

definition rooms_coherent :: "db \<Rightarrow> bool" where
  "rooms_coherent d \<longleftrightarrow> (\<forall>r \<in> set (t_rooms d). r_min_duration_minutes r \<le> r_max_duration_minutes r)"

lemma patched_room_coherent:
  assumes "updateRoom_read rid i p d = Inr existing"
  shows "r_min_duration_minutes (patch_room i existing) \<le> r_max_duration_minutes (patch_room i existing)"
  using assms by (auto simp: updateRoom_read_def tx_simps Let_def patch_room_def)

lemma updateRoom_read_found:
  "updateRoom_read rid i p d = Inr existing \<Longrightarrow> admin_scope p = Inr vid \<Longrightarrow> find_room rid vid d = Some existing"
  by (auto simp: updateRoom_read_def tx_simps Let_def)

text \<open>Alone, a PATCH keeps the minimum of every room below its maximum.\<close>

lemma updateRoom_coherent:
  assumes "updateRoom rid i p d = Inr (r, d')" and "rooms_coherent d" and "distinct (map r_id (t_rooms d))"
  shows "rooms_coherent d'"
proof -
  obtain existing where e: "updateRoom_read rid i p d = Inr existing" "updateRoom_write rid i p existing d = Inr (r, d')"
    using assms(1) by (auto simp: updateRoom_def tx_simps)
  show ?thesis
    using e(2)
  proof (cases rule: updateRoom_write_InrD)
    case (patched w r0)
    then have "find_room rid (uuid_in w) d = Some existing"
      using updateRoom_read_found [OF e(1)] by (simp add: admin_scope_eq_Inr)
    then have ex: "existing \<in> set (t_rooms d)" "r_id existing = uuid_in rid"
      by (auto simp: find_room_def dest: find_SomeD)
    have "r_min_duration_minutes (patch_room i x) \<le> r_max_duration_minutes (patch_room i x)"
      if "x \<in> set (t_rooms d)" "r_id x = uuid_in rid" for x
    proof -
      have "x = existing" using distinct_map_eqD [OF assms(3) that(1) ex(1)] that(2) ex(2) by simp
      then show ?thesis using patched_room_coherent [OF e(1)] by simp
    qed
    then show ?thesis
      using assms(2) unfolding patched(5) by (auto simp: rooms_coherent_def set_update_where)
  qed (use assms(2) in simp)
qed

text \<open>
  C25. Two PATCHes of one room can cross. The bounds are compared with the row as it was read, in a
  statement of its own: when one request raises the minimum and another lowers the maximum, both pass the
  check and both write, and the room is left with a minimum above its maximum. No hold of it is
  accepted until somebody corrects it, whatever its interval.
\<close>

theorem crossing_patches_close_room:
  assumes "admin_scope p = Inr vid" and "updateRoom_read rid i p d = Inr r" and "updateRoom_read rid j p d = Inr r"
    and "ri_min_duration_minutes i = Some lo" "ri_max_duration_minutes j = Some hi" "ri_min_duration_minutes j = None"
    and "hi < lo" and "distinct (map r_id (t_rooms d))"
  shows "\<exists>r1 d1 r2 d2. updateRoom_write rid i p r d = Inr (r1, d1) \<and> updateRoom_write rid j p r d1 = Inr (r2, d2)
    \<and> r_min_duration_minutes r2 = lo \<and> r_max_duration_minutes r2 = hi
    \<and> (\<forall>off now h ctx. uuid_in (hi_room_id h) = uuid_in rid \<longrightarrow> loadRoomContext (hi_room_id h) d2 = Inr ctx
         \<longrightarrow> assertBookable off now h ctx \<noteq> Inr ())"
proof -
  let ?q = "\<lambda>r. r_id r = uuid_in rid \<and> r_venue_id r = vid"
  define d1 where "d1 = d\<lparr>t_rooms := update_where ?q (patch_room i) (t_rooms d)\<rparr>"
  define d2 where "d2 = d1\<lparr>t_rooms := update_where ?q (patch_room j) (t_rooms d1)\<rparr>"
  let ?r2 = "patch_room j (patch_room i r)"
  have f: "find_room rid vid d = Some r" using updateRoom_read_found [OF assms(2,1)] .
  then have r: "r \<in> set (t_rooms d)" "?q r" by (auto simp: find_room_def dest: find_SomeD)
  have rows: "x = r" if "x \<in> set (t_rooms d)" "r_id x = uuid_in rid" for x
    using distinct_map_eqD [OF assms(8) that(1) r(1)] that(2) r(2) by simp
  have id1: "List.find (\<lambda>r. r_id r = uuid_in rid) (t_rooms d) = Some r"
    using find_key_unique [OF assms(8) r(1)] r(2) by simp
  have "t_rooms d1 = update_where (\<lambda>r. r_id r = uuid_in rid) (patch_room i) (t_rooms d)"
    using rows r(2) by (auto simp: d1_def update_where_def)
  then have id2: "List.find (\<lambda>r. r_id r = uuid_in rid) (t_rooms d1) = Some (patch_room i r)"
    using id1 find_update_where_key [of r_id "uuid_in rid" "patch_room i" "t_rooms d"] by simp
  have f1: "find_room rid vid d1 = Some (patch_room i r)"
    using f find_update_where_key [of "\<lambda>r. (r_id r, r_venue_id r)" "(uuid_in rid, vid)" "patch_room i" "t_rooms d"]
    by (simp add: find_room_def d1_def)
  have rows2: "t_rooms d2 = update_where (\<lambda>r. r_id r = uuid_in rid) (patch_room j) (t_rooms d1)"
  proof -
    have "r_venue_id x = vid" if x: "x \<in> set (t_rooms d1)" "r_id x = uuid_in rid" for x
    proof -
      have "x \<in> set (update_where ?q (patch_room i) (t_rooms d))" using x(1) by (simp add: d1_def)
      then obtain r0 where r0: "r0 \<in> set (t_rooms d)" "x = (if ?q r0 then patch_room i r0 else r0)"
        by (rule in_update_whereE)
      then have "r_id r0 = uuid_in rid" using x(2) by (simp split: if_split_asm)
      then have "r0 = r" using rows r0(1) by blast
      then show ?thesis using r0(2) r(2) by simp
    qed
    then show ?thesis by (auto simp: d2_def update_where_def)
  qed
  have id3: "List.find (\<lambda>r. r_id r = uuid_in rid) (t_rooms d2) = Some ?r2"
    using id2 find_update_where_key [of r_id "uuid_in rid" "patch_room j" "t_rooms d1"] by (simp add: rows2)
  have set: "i\<lparr>ri_overbooking_buffer_pct := None\<rparr> \<noteq> no_room_fields" "j\<lparr>ri_overbooking_buffer_pct := None\<rparr> \<noteq> no_room_fields"
  proof -
    show "i\<lparr>ri_overbooking_buffer_pct := None\<rparr> \<noteq> no_room_fields"
    proof
      assume "i\<lparr>ri_overbooking_buffer_pct := None\<rparr> = no_room_fields"
      then have "ri_min_duration_minutes (i\<lparr>ri_overbooking_buffer_pct := None\<rparr>) = ri_min_duration_minutes no_room_fields" by (rule arg_cong)
      then show False using assms(4) by (simp add: no_room_fields_def)
    qed
    show "j\<lparr>ri_overbooking_buffer_pct := None\<rparr> \<noteq> no_room_fields"
    proof
      assume "j\<lparr>ri_overbooking_buffer_pct := None\<rparr> = no_room_fields"
      then have "ri_max_duration_minutes (j\<lparr>ri_overbooking_buffer_pct := None\<rparr>) = ri_max_duration_minutes no_room_fields" by (rule arg_cong)
      then show False using assms(5) by (simp add: no_room_fields_def)
    qed
  qed
  have "updateRoom_write rid i p r d = Inr (patch_room i r, d1)" "updateRoom_write rid j p r d1 = Inr (?r2, d2)"
    using f f1 set by (simp_all only: updateRoom_write_def assms(1) result_bind_Inr or_throw_simps if_False d1_def [symmetric] d2_def [symmetric])
  moreover have b: "r_min_duration_minutes ?r2 = lo" "r_max_duration_minutes ?r2 = hi"
    using assms(4-6) by (simp_all add: patch_room_def unless_given_def)
  moreover have "assertBookable off now h ctx \<noteq> Inr ()"
    if "uuid_in (hi_room_id h) = uuid_in rid" "loadRoomContext (hi_room_id h) d2 = Inr ctx" for off now h ctx
  proof -
    have c: "rc_min_duration_minutes ctx = lo" "rc_max_duration_minutes ctx = hi"
      using that id3 b by (auto simp: loadRoomContext_def split: option.splits)
    have "(of_int hi :: rat) < of_int lo" using assms(7) by simp
    then show ?thesis unfolding assertBookable_def Let_def c by (auto simp: tx_simps)
  qed
  ultimately show ?thesis by blast
qed

section \<open>Policies\<close>

lemma sort_key_last:
  assumes "\<And>y. y \<in> set xs \<Longrightarrow> f x < f y"
  shows "sort_key f (xs @ [x]) = x # sort_key f xs"
  using assms
proof (induction xs)
  case (Cons a xs)
  have "\<not> f a \<le> f x" using Cons.prems by (simp add: not_le)
  moreover have "sort_key f (xs @ [x]) = x # sort_key f xs" using Cons.prems by (intro Cons.IH) simp
  ultimately show ?case by simp
qed simp

lemma newest_policy_snoc:
  assumes "\<And>c. c \<in> set (t_cancellation_policies d) \<Longrightarrow> cp_venue_id c = cp_venue_id n \<Longrightarrow> cp_created_at c < cp_created_at n"
  shows "newest_policy (cp_venue_id n) (d\<lparr>t_cancellation_policies := t_cancellation_policies d @ [n]\<rparr>) = Some n"
    and "w \<noteq> cp_venue_id n \<Longrightarrow> newest_policy w (d\<lparr>t_cancellation_policies := t_cancellation_policies d @ [n]\<rparr>) = newest_policy w d"
proof -
  let ?same = "filter (\<lambda>c. cp_venue_id c = cp_venue_id n) (t_cancellation_policies d)"
  have "sort_key (\<lambda>c. - cp_created_at c) (?same @ [n]) = n # sort_key (\<lambda>c. - cp_created_at c) ?same"
    using assms by (intro sort_key_last) auto
  then show "newest_policy (cp_venue_id n) (d\<lparr>t_cancellation_policies := t_cancellation_policies d @ [n]\<rparr>) = Some n"
    by (simp add: newest_policy_def)
qed (auto simp: newest_policy_def)

text \<open>
  A replaced policy is the one that counts from now on, and only from now on. A later reading of the
  venue's terms, and the snapshot of the next confirmation, carry the new tiers unchanged through the
  column; the terms of every other venue stay, and no booking, with the snapshot it may carry, is touched.
\<close>

theorem policy_replaced:
  assumes "policies_replace ts p fresh now d = Inr (a, d')" and "TiersSchema j = Some ts" and "pr_venue_id p = Some v"
    and "\<And>c. c \<in> set (t_cancellation_policies d) \<Longrightarrow> cp_venue_id c = Some (uuid_in v) \<Longrightarrow> cp_created_at c < now"
  shows "policies_current p d' = Inr a \<and> pa_tiers a = ts
    \<and> (\<exists>snap. resolvePolicySnapshot (uuid_in v) later d' = Inr snap \<and> ps_tiers snap = ts \<and> ps_policy_id snap = fresh)
    \<and> (\<forall>w. w \<noteq> Some (uuid_in v) \<longrightarrow> resolveTiers w d' = resolveTiers w d) \<and> t_bookings d' = t_bookings d"
proof -
  define n where "n = \<lparr>cp_id = fresh, cp_venue_id = Some (uuid_in v), cp_tiers = tiers_json ts, cp_created_at = now\<rparr>"
  have r: "a = \<lparr>pa_venue_id = Some v, pa_policy_id = fresh, pa_resolved_from = FromVenue, pa_tiers = ts\<rparr>"
    "d' = d\<lparr>t_cancellation_policies := t_cancellation_policies d @ [n]\<rparr>"
    using assms(1,3) by (auto simp: policies_replace_def n_def split: if_splits)
  have newer: "cp_created_at c < cp_created_at n" if "c \<in> set (t_cancellation_policies d)" "cp_venue_id c = cp_venue_id n" for c
    using that assms(4) by (simp add: n_def)
  have kept: "TiersSchema (tiers_json ts) = Some ts" using TiersSchema_SomeD [OF assms(2)] by (intro TiersSchema_tiers_json) auto
  have mine: "newest_policy (Some (uuid_in v)) d' = Some n"
    using newest_policy_snoc(1) [OF newer] r(2) by (simp add: n_def)
  have "resolveTiers (Some (uuid_in v)) d' = Inr (ts, fresh, FromVenue)"
    using mine kept by (simp add: resolveTiers_def parsed_tiers_def n_def)
  moreover have "resolveTiers w d' = resolveTiers w d" if "w \<noteq> Some (uuid_in v)" for w
  proof -
    have "newest_policy w d' = newest_policy w d" "newest_policy None d' = newest_policy None d"
      using that newest_policy_snoc(2) [OF newer] r(2) by (simp_all add: n_def)
    then show ?thesis by (simp add: resolveTiers_def cong: option.case_cong)
  qed
  ultimately show ?thesis
    using assms(3) r by (simp add: policies_current_def resolvePolicySnapshot_def)
qed

section \<open>Witnesses\<close>

definition sample_settings :: settings_body where
  "sample_settings = \<lparr>sb_name = Some '' Hall '', sb_city = None, sb_timezone = Some ''UTC'',
     sb_operating_hours = Some (v_operating_hours sample_venue), sb_overbooking_buffer_pct = Some 5\<rparr>"

definition parsed_settings :: settings_input where
  "parsed_settings = \<lparr>si_name = Some ''Hall'', si_city = None, si_timezone = Some ''UTC'',
     si_operating_hours = Some (rc_hours sample_context), si_overbooking_buffer_pct = Some 5\<rparr>"

definition first_hall :: venue where
  "first_hall = sample_venue\<lparr>v_id := first_venue\<rparr>"

lemma sample_settings_parsed: "UpdateVenueSettingsSchema (\<lambda>z. z = ''UTC'') sample_settings = Some parsed_settings"
proof -
  have "trim '' Hall '' = ''Hall''" "trim ''UTC'' = ''UTC''" by code_simp+
  moreover have "parseOperatingHours (v_operating_hours sample_venue) = Some (rc_hours sample_context)" by code_simp
  ultimately show ?thesis
    by (simp add: UpdateVenueSettingsSchema_def sample_settings_def parsed_settings_def optional_def trimmed_text_def
        isKnownTimezone_def OverbookingBufferPct_def int_between_def no_settings_def)
qed

lemma admin_scope_first [simp]: "admin_scope admin_principal = Inr first_venue"
  by code_simp

lemma first_hall_found:
  "List.find (\<lambda>v. v_id v = first_venue) (t_venues one_venue_db) = Some first_hall"
  by (simp add: one_venue_db_def first_hall_def)


definition first_room :: room where
  "first_room = sample_room\<lparr>r_venue_id := first_venue\<rparr>"

lemma first_room_read:
  assumes "ri_overbooking_buffer_pct i = None"
    and "unless_given 60 (ri_min_duration_minutes i) \<le> unless_given 480 (ri_max_duration_minutes i)"
  shows "updateRoom_read sample_room_id i admin_principal one_venue_db = Inr first_room"
proof -
  have "find_room sample_room_id first_venue one_venue_db = Some first_room" by code_simp
  then show ?thesis
    using assms by (simp add: updateRoom_read_def refuseRoomBuffer_def Let_def first_room_def sample_room_def)
qed

lemma crossing_patches_close_room_witness:
  "\<exists>r1 d1 r2 d2. updateRoom_write sample_room_id (no_room_fields\<lparr>ri_min_duration_minutes := Some 300\<rparr>) admin_principal first_room one_venue_db = Inr (r1, d1)
     \<and> updateRoom_write sample_room_id (no_room_fields\<lparr>ri_max_duration_minutes := Some 120\<rparr>) admin_principal first_room d1 = Inr (r2, d2)
     \<and> r_min_duration_minutes r2 = 300 \<and> r_max_duration_minutes r2 = 120"
proof -
  let ?i = "no_room_fields\<lparr>ri_min_duration_minutes := Some 300\<rparr>" and ?j = "no_room_fields\<lparr>ri_max_duration_minutes := Some 120\<rparr>"
  have "updateRoom_read sample_room_id ?i admin_principal one_venue_db = Inr first_room"
    "updateRoom_read sample_room_id ?j admin_principal one_venue_db = Inr first_room"
    by (rule first_room_read; simp add: no_room_fields_def unless_given_def)+
  moreover have "distinct (map r_id (t_rooms one_venue_db))" by code_simp
  ultimately show ?thesis
    using crossing_patches_close_room [OF admin_scope_first, of sample_room_id ?i one_venue_db first_room ?j 300 120]
    by (auto simp: no_room_fields_def)
qed

lemma policy_replaced_witness:
  "\<exists>a d'. policies_replace sample_tiers admin_principal ''p2'' 5000 one_venue_db = Inr (a, d')
     \<and> policies_current admin_principal d' = Inr a \<and> pa_tiers a = sample_tiers"
proof -
  have "TiersSchema (tiers_json sample_tiers) = Some sample_tiers" by code_simp
  moreover have "pr_venue_id admin_principal = Some first_venue" by (simp add: admin_principal_def)
  moreover have "\<not> isl (policies_replace sample_tiers admin_principal ''p2'' 5000 one_venue_db)" by code_simp
  then obtain a d' where "policies_replace sample_tiers admin_principal ''p2'' 5000 one_venue_db = Inr (a, d')"
    by (cases "policies_replace sample_tiers admin_principal ''p2'' 5000 one_venue_db") auto
  moreover have "cp_created_at c < 5000" if "c \<in> set (t_cancellation_policies one_venue_db)" for c
    using that by (simp add: one_venue_db_def sample_db_def sample_policy_def)
  ultimately show ?thesis using policy_replaced by blast
qed

end
