(* ===== verification/Calendar.thy ===== *)
theory Calendar
  imports ZonedTime
begin

text \<open>
  The calendar of \<open>Date\<close>: the civil date of a day determines the day, so a wall-clock reading determines
  the local time it was taken at, to the second.
\<close>

section \<open>Years of an era\<close>

text \<open>Days before year \<open>y\<close> of an era of 400 years that begin in March, and the estimate of the year of a day.\<close>

definition year_start :: "int \<Rightarrow> int" where
  "year_start y = 365 * y + y div 4 - y div 100"

definition year_days :: "int \<Rightarrow> int" where
  "year_days n = n - n div 1460 + n div 36524 - n div 146096"

lemma year_days_step:
  assumes "0 \<le> n"
  shows "year_days n \<le> year_days (n + 1)"
proof -
  have nested: "n div 146096 = n div 36524 div 4" "(n + 1) div 146096 = (n + 1) div 36524 div 4"
    by (simp_all add: zdiv_zmult2_eq [symmetric])
  have a: "(n + 1) div 1460 \<le> n div 1460 + 1" by linarith
  have quarter: "(q + 1) div 4 \<le> q div 4 + 1" for q :: int by linarith
  have b: "(n + 1) div 36524 div 4 - n div 36524 div 4 \<le> (n + 1) div 36524 - n div 36524"
  proof -
    consider "(n + 1) div 36524 = n div 36524" | "(n + 1) div 36524 = n div 36524 + 1" by linarith
    then show ?thesis
    proof cases
      case 2
      then show ?thesis using quarter [of "n div 36524"] by (simp only:)
    qed simp
  qed
  have "x - c + q - r \<le> x + 1 - c' + q' - r'" if "c' \<le> c + 1" "r' - r \<le> q' - q" for x c c' q q' r r' :: int
    using that by linarith
  from this [OF a b] show ?thesis unfolding year_days_def nested .
qed

lemma year_days_mono:
  assumes "0 \<le> a" and "a \<le> b"
  shows "year_days a \<le> year_days b"
  using assms(2,1) by (induction rule: int_ge_induct) (auto intro: order_trans year_days_step)

lemma years_table:
  "list_all (\<lambda>y. year_days (year_start y) div 365 = y
     \<and> year_days (if y = 399 then 146096 else year_start (y + 1) - 1) div 365 = y
     \<and> (if y = 399 then 146096 else year_start (y + 1) - 1) \<le> year_start y + 365) [0..399]"
  by code_simp

lemma year_found:
  assumes "0 \<le> n"
  shows "(\<exists>y. 0 \<le> y \<and> y < int k \<and> year_start y \<le> n \<and> n < year_start (y + 1)) \<or> year_start (int k) \<le> n"
proof (induction k)
  case (Suc k)
  then show ?case
  proof
    assume "\<exists>y. 0 \<le> y \<and> y < int k \<and> year_start y \<le> n \<and> n < year_start (y + 1)"
    then show ?thesis by (metis less_add_same_cancel1 less_trans of_nat_Suc zero_less_one add.commute)
  next
    assume k: "year_start (int k) \<le> n"
    show ?thesis
    proof (cases "n < year_start (int k + 1)")
      case True
      then show ?thesis using k by (intro disjI1 exI [of _ "int k"]) simp
    qed (simp add: add.commute)
  qed
qed (use assms in \<open>simp add: year_start_def\<close>)

lemma year_of_day:
  assumes "0 \<le> n" and "n \<le> 146096"
  shows "0 \<le> year_days n div 365 \<and> year_days n div 365 < 400
    \<and> year_start (year_days n div 365) \<le> n \<and> n \<le> year_start (year_days n div 365) + 365"
proof -
  let ?last = "\<lambda>y. if y = 399 then 146096 else year_start (y + 1) - 1"
  obtain y where y: "0 \<le> y" "y \<le> 399" "year_start y \<le> n" "n \<le> ?last y"
  proof -
    consider y where "0 \<le> y" "y < 399" "year_start y \<le> n" "n < year_start (y + 1)" | "year_start 399 \<le> n"
      using year_found [OF assms(1), of 399] by auto
    then show thesis
    proof cases
      case (1 y)
      then show thesis using that [of y] by simp
    qed (use that [of 399] assms(2) in simp)
  qed
  have t: "year_days (year_start y) div 365 = y" "year_days (?last y) div 365 = y" "?last y \<le> year_start y + 365"
    using years_table y(1,2) unfolding list_all_iff set_upto by (metis atLeastAtMost_iff)+
  have "0 \<le> year_start y" using y(1) unfolding year_start_def by linarith
  then have "year_days (year_start y) \<le> year_days n" "year_days n \<le> year_days (?last y)"
    using y(3,4) assms(1) year_days_mono by blast+
  then have "year_days n div 365 = y" using t(1,2) zdiv_mono1 by (metis antisym zero_less_numeral)
  then show ?thesis using y t(3) by auto
qed

section \<open>The day of a civil date\<close>

lemma month_of_day:
  fixes doy :: int
  assumes "0 \<le> doy" and "doy \<le> 365"
  defines "mp \<equiv> (5 * doy + 2) div 153"
  shows "0 \<le> mp" "mp \<le> 11" "1 \<le> doy - (153 * mp + 2) div 5 + 1" "doy - (153 * mp + 2) div 5 + 1 \<le> 31"
  using assms unfolding mp_def by linarith+

lemma civil_from_days_eq:
  assumes "civil_from_days z = (y, m, d)"
  shows "days_from_civil y m d = z" "1 \<le> m" "m \<le> 12" "1 \<le> d" "d \<le> 31"
proof -
  define z' where "z' = z + 719468"
  define era where "era = z' div 146097"
  define doe where "doe = z' mod 146097"
  define yoe where "yoe = year_days doe div 365"
  define doy where "doy = doe - year_start yoe"
  define mp where "mp = (5 * doy + 2) div 153"
  have doe: "0 \<le> doe" "doe \<le> 146096" by (simp_all add: doe_def zle_diff1_eq [symmetric] del: zle_diff1_eq)
  have yoe: "0 \<le> yoe" "yoe < 400" "0 \<le> doy" "doy \<le> 365"
    using year_of_day [OF doe] by (simp_all add: yoe_def doy_def)
  note mp = month_of_day [OF yoe(3,4), folded mp_def]
  have whole: "civil_from_days z =
      (let m = if mp < 10 then mp + 3 else mp - 9 in
       (yoe + era * 400 + (if m \<le> 2 then 1 else 0), m, doy - (153 * mp + 2) div 5 + 1))"
    unfolding civil_from_days_def Let_def mp_def doy_def yoe_def era_def doe_def z'_def year_days_def year_start_def
    by (rule refl)
  have eq: "m = (if mp < 10 then mp + 3 else mp - 9)" "d = doy - (153 * mp + 2) div 5 + 1"
    "y = yoe + era * 400 + (if m \<le> 2 then 1 else 0)"
    using assms unfolding whole Let_def by auto
  show "1 \<le> m" "m \<le> 12" "1 \<le> d" "d \<le> 31" using mp eq(1,2) by auto
  have y: "(if m \<le> 2 then y - 1 else y) = yoe + era * 400" using eq(3) by simp
  have m: "(m + 9) mod 12 = mp" using mp eq(1) by (auto simp: mod_pos_pos_trivial)
  have "(yoe + era * 400) div 400 = era" "(yoe + era * 400) mod 400 = yoe" using yoe by simp_all
  moreover have "yoe * 365 + yoe div 4 - yoe div 100 + doy = doe" by (simp add: doy_def year_start_def)
  moreover have "era * 146097 + doe = z'" unfolding era_def doe_def by (rule div_mult_mod_eq)
  ultimately show "days_from_civil y m d = z"
    unfolding days_from_civil_def Let_def y m eq(2) by (simp add: z'_def)
qed

section \<open>The local time of a reading\<close>

lemma seconds_of_day:
  fixes secs :: int
  assumes "secs = a * 86400 + b" and "b = h * 3600 + c" and "c = mi * 60 + s"
  shows "((a * 24 + h) * 60 + mi) * 60 + s = secs"
  using assms by simp

lemma days_and_seconds:
  fixes secs :: int
  shows "((secs div 86400 * 24 + secs mod 86400 div 3600 mod 24) * 60 + secs mod 86400 mod 3600 div 60) * 60
    + secs mod 86400 mod 60 = secs"
proof (rule seconds_of_day)
  have "0 \<le> secs mod 86400 div 3600" by (simp add: pos_imp_zdiv_nonneg_iff)
  moreover have "secs mod 86400 div 3600 < 24" by (simp add: div_less_iff_less_mult)
  ultimately have "secs mod 86400 div 3600 mod 24 = secs mod 86400 div 3600" by (rule mod_pos_pos_trivial)
  then show "secs mod 86400 = secs mod 86400 div 3600 mod 24 * 3600 + secs mod 86400 mod 3600" by simp
  have "secs mod 86400 mod 3600 mod 60 = secs mod 86400 mod 60" by (simp add: mod_mod_cancel)
  then show "secs mod 86400 mod 3600 = secs mod 86400 mod 3600 div 60 * 60 + secs mod 86400 mod 60"
    using div_mult_mod_eq [of "secs mod 86400 mod 3600" 60] by simp
qed simp

text \<open>The reading of a zone, put together again as if it were UTC, is the local time without its fraction of a second.\<close>

lemma date_utc_of_parts:
  assumes "p = toLocalParts off i tz" and "100 \<le> lp_year p"
  shows "date_utc (lp_year p) (lp_month p) (lp_day p) (lp_hour p) (lp_minute p) (lp_second p)
    = (i + off tz i) div 1000 * 1000"
proof -
  define secs where "secs = (i + off tz i) div 1000"
  obtain y m d where c: "civil_from_days (secs div 86400) = (y, m, d)" by (metis prod_cases3)
  have p: "lp_year p = y" "lp_month p = m" "lp_day p = d" "lp_hour p = secs mod 86400 div 3600 mod 24"
    "lp_minute p = secs mod 86400 mod 3600 div 60" "lp_second p = secs mod 86400 mod 60"
    using c by (simp_all add: assms(1) toLocalParts_def Let_def secs_def [symmetric])
  have "days_from_civil y m d = secs div 86400" using c by (rule civil_from_days_eq)
  moreover have "(if 0 \<le> y \<and> y \<le> 99 then 1900 + y else y) = y" using assms(2) p(1) by simp
  ultimately have "date_utc (lp_year p) (lp_month p) (lp_day p) (lp_hour p) (lp_minute p) (lp_second p)
      = (((secs div 86400 * 24 + lp_hour p) * 60 + lp_minute p) * 60 + lp_second p) * 1000"
    unfolding date_utc_def MS_PER_MINUTE_def Let_def p(1-3) by (simp only: distrib_right)
  also have "\<dots> = secs * 1000" unfolding p days_and_seconds ..
  finally show ?thesis by (simp only: secs_def)
qed

lemma toLocalParts_ranges:
  assumes "p = toLocalParts off i tz"
  shows "1 \<le> lp_month p" "lp_month p \<le> 12" "1 \<le> lp_day p" "lp_day p \<le> 31"
    "0 \<le> lp_hour p" "lp_hour p < 24" "0 \<le> lp_minute p" "lp_minute p < 60" "0 \<le> lp_second p" "lp_second p < 60"
proof -
  define secs where "secs = (i + off tz i) div 1000"
  obtain y m d where c: "civil_from_days (secs div 86400) = (y, m, d)" by (metis prod_cases3)
  have p: "lp_month p = m" "lp_day p = d" "lp_hour p = secs mod 86400 div 3600 mod 24"
    "lp_minute p = secs mod 86400 mod 3600 div 60" "lp_second p = secs mod 86400 mod 60"
    using c by (simp_all add: assms(1) toLocalParts_def Let_def secs_def [symmetric])
  show "1 \<le> lp_month p" "lp_month p \<le> 12" "1 \<le> lp_day p" "lp_day p \<le> 31"
    using civil_from_days_eq [OF c] by (simp_all add: p)
  have "0 \<le> secs mod 86400 mod 3600" "secs mod 86400 mod 3600 < 3600" by simp_all
  then have "0 \<le> secs mod 86400 mod 3600 div 60" "secs mod 86400 mod 3600 div 60 < 60" by linarith+
  then show "0 \<le> lp_hour p" "lp_hour p < 24" "0 \<le> lp_minute p" "lp_minute p < 60"
    "0 \<le> lp_second p" "lp_second p < 60"
    by (simp_all add: p)
qed

end
