(* ===== verification/JsText.thy ===== *)
theory JsText
  imports Catalogue Decimal
begin

text \<open>
  Numbers read off texts, as the language does it: \<open>Number(s)\<close>, \<open>BigInt(s)\<close> and \<open>padStart\<close>. The
  environment of the API, the fields of the console's forms and its query strings arrive as texts and
  pass through these. Subnormal results are not rounded.
\<close>

section \<open>\<open>Number(s)\<close>\<close>

datatype js_value = NaN | PosInf | NegInf | Finite js_number

fun alnum_value :: "char \<Rightarrow> int option" where
  "alnum_value c =
     (if hex_lower c \<in> set ''abcdef'' then Some (of_char (hex_lower c) - 87) else digit c)"

fun radix_value :: "int \<Rightarrow> int \<Rightarrow> string \<Rightarrow> int option" where
  "radix_value r n [] = Some n"
| "radix_value r n (c # cs) =
     (case alnum_value c of
        None \<Rightarrow> None
      | Some k \<Rightarrow> if k < r then radix_value r (r * n + k) cs else None)"

text \<open>A text with a radix prefix, which takes no sign; \<^const>\<open>None\<close> for a text without one.\<close>

fun prefix_radix :: "char \<Rightarrow> int option" where
  "prefix_radix c =
     (if c \<in> set ''xX'' then Some 16 else if c \<in> set ''oO'' then Some 8 else if c \<in> set ''bB'' then Some 2 else None)"

fun prefixed :: "string \<Rightarrow> int option option" where
  "prefixed (z # x # ds) =
     (if z \<noteq> CHR ''0'' then None
      else map_option (\<lambda>r. if ds = [] then None else radix_value r 0 ds) (prefix_radix x))"
| "prefixed _ = None"

definition digits_of :: "string \<Rightarrow> int option" where
  "digits_of s = (if s = [] then None else decimal 0 s)"

fun signed_digits :: "string \<Rightarrow> int option" where
  "signed_digits [] = None"
| "signed_digits (c # cs) =
     (if c = CHR ''-'' then map_option uminus (digits_of cs)
      else if c = CHR ''+'' then digits_of cs else digits_of (c # cs))"

definition mantissa :: "string \<Rightarrow> rat option" where
  "mantissa m =
     (let ip = takeWhile (\<lambda>c. c \<noteq> CHR ''.'') m; fp = drop (Suc (length ip)) m in
      map_option (\<lambda>n. of_int n / 10 ^ length fp) (digits_of (ip @ fp)))"

text \<open>From here on a number rounds to infinity.\<close>

definition DOUBLE_LIMIT :: int where
  "DOUBLE_LIMIT = (2 ^ 54 - 1) * 2 ^ 970"

definition to_double :: "rat \<Rightarrow> js_value" where
  "to_double x = (if DOUBLE_LIMIT \<le> \<lfloor>x\<rfloor> then PosInf else Finite (dbl x))"

lemma to_double_small: "n < 2 ^ 53 \<Longrightarrow> to_double (of_int n) = Finite (dbl (of_int n))"
proof -
  assume "n < 2 ^ 53"
  moreover have "(2 :: int) ^ 53 \<le> 2 ^ 970" by (rule power_increasing) simp_all
  then have "(2 :: int) ^ 53 \<le> DOUBLE_LIMIT"
    unfolding DOUBLE_LIMIT_def using mult_right_mono [of 1 "2 ^ 54 - 1" "2 ^ 970 :: int"] by simp
  ultimately have "\<not> DOUBLE_LIMIT \<le> n" by linarith
  then show ?thesis by (simp only: to_double_def floor_of_int if_False)
qed

definition unsigned_decimal :: "string \<Rightarrow> js_value" where
  "unsigned_decimal s =
     (if s = ''Infinity'' then PosInf
      else
        let m = takeWhile (\<lambda>c. c \<notin> set ''eE'') s; ex = drop (length m) s in
        case (mantissa m, if ex = [] then Some 0 else signed_digits (tl ex)) of
          (Some x, Some e) \<Rightarrow> to_double (x * 10 powi e)
        | _ \<Rightarrow> NaN)"

fun negate :: "js_value \<Rightarrow> js_value" where
  "negate (Finite x) = Finite (- x)"
| "negate PosInf = NegInf"
| "negate NegInf = PosInf"
| "negate NaN = NaN"

fun signed_decimal :: "string \<Rightarrow> js_value" where
  "signed_decimal [] = NaN"
| "signed_decimal (c # cs) =
     (if c = CHR ''-'' then negate (unsigned_decimal cs)
      else if c = CHR ''+'' then unsigned_decimal cs else unsigned_decimal (c # cs))"

definition Number :: "string \<Rightarrow> js_value" where
  "Number s =
     (let t = trim s in
      if t = [] then Finite 0
      else case prefixed t of
        Some v \<Rightarrow> (case v of None \<Rightarrow> NaN | Some n \<Rightarrow> to_double (of_int n))
      | None \<Rightarrow> signed_decimal t)"

section \<open>\<open>BigInt(s)\<close>\<close>

text \<open>The whole domain; \<^const>\<open>None\<close> is the \<open>SyntaxError\<close>.\<close>

definition js_BigInt :: "string \<Rightarrow> int option" where
  "js_BigInt s =
     (let t = trim s in
      if t = [] then Some 0
      else case prefixed t of Some v \<Rightarrow> v | None \<Rightarrow> signed_digits t)"

text \<open>\<open>BigInt(x)\<close> of a number: a \<open>RangeError\<close> unless it is an integer.\<close>

fun bigint_of_value :: "js_value \<Rightarrow> int option" where
  "bigint_of_value (Finite x) = (if x = of_int \<lfloor>x\<rfloor> then Some \<lfloor>x\<rfloor> else None)"
| "bigint_of_value _ = None"

section \<open>Texts of integers\<close>

definition padStart :: "nat \<Rightarrow> string \<Rightarrow> string" where
  "padStart n s = replicate (n - length s) CHR ''0'' @ s"

definition is_digit :: "char \<Rightarrow> bool" where
  "is_digit c \<longleftrightarrow> c \<in> set ''0123456789''"

lemma is_digit_char: "k < 10 \<Longrightarrow> is_digit (char_of (48 + k :: nat))"
proof -
  assume k: "k < 10"
  have "list_all (\<lambda>k. is_digit (char_of (48 + k :: nat))) [0..<10]" by code_simp
  then show ?thesis using k by (simp only: list_all_iff set_upt) auto
qed

lemma show_nat_digits: "\<forall>c \<in> set (show_nat n). is_digit c"
proof (induction n rule: show_nat.induct)
  case (1 n)
  then show ?case by (subst show_nat.simps) (auto intro: is_digit_char)
qed

lemma digit_not_space: "is_digit c \<Longrightarrow> \<not> is_space c"
  by (auto simp: is_digit_def is_space_def)

lemma trim_nonspace [simp]: "\<forall>c \<in> set s. \<not> is_space c \<Longrightarrow> trim s = s"
proof -
  have "dropWhile is_space t = t" if "\<forall>c \<in> set t. \<not> is_space c" for t using that by (cases t) auto
  from this [of s] this [of "rev s"] show "trim s = s" if "\<forall>c \<in> set s. \<not> is_space c"
    using that by (simp add: trim_def)
qed

lemma prefixed_digits: "\<forall>c \<in> set s. is_digit c \<Longrightarrow> prefixed s = None"
  by (cases s rule: prefixed.cases) (auto simp: is_digit_def)

lemma digits_of_show_nat [simp]: "digits_of (show_nat n) = Some (int n)"
  by (simp add: digits_of_def decimal_show_nat)

lemma digit_no_sign: "is_digit c \<Longrightarrow> c \<noteq> CHR ''-'' \<and> c \<noteq> CHR ''+''"
  by (auto simp: is_digit_def)

lemma signed_digits_of:
  assumes "\<forall>c \<in> set s. is_digit c"
  shows "signed_digits s = digits_of s"
  using assms digit_no_sign by (cases s) (auto simp: digits_of_def)

lemma trim_digits: "\<forall>c \<in> set s. is_digit c \<Longrightarrow> trim s = s"
  using digit_not_space by simp

text \<open>What the API sends as the text of a \<open>bigint\<close> is read back.\<close>

lemma js_BigInt_show_int [simp]: "js_BigInt (show_int n) = Some n"
proof (cases "n < 0")
  case True
  have "\<forall>c \<in> set (show_int n). \<not> is_space c"
    using True show_nat_digits [of "nat (- n)"] digit_not_space by (auto simp: show_int_def is_space_def)
  moreover have "prefixed (show_int n) = None"
    using True by (cases "show_nat (nat (- n))") (auto simp: show_int_def)
  ultimately show ?thesis using True by (simp add: js_BigInt_def show_int_def)
next
  case False
  have d: "\<forall>c \<in> set (show_nat (nat n)). is_digit c" by (rule show_nat_digits)
  then show ?thesis using False
    by (simp add: js_BigInt_def show_int_def trim_digits prefixed_digits signed_digits_of)
qed

lemma digit_not_mark: "is_digit c \<Longrightarrow> c \<notin> set ''eE'' \<and> c \<noteq> CHR ''.'' \<and> c \<noteq> CHR ''I''"
  by (auto simp: is_digit_def)

lemma takeWhile_digits:
  assumes "\<forall>c \<in> set s. is_digit c" and "\<And>c. is_digit c \<Longrightarrow> p c"
  shows "takeWhile p s = s"
  using assms by (simp add: takeWhile_eq_all_conv)

lemma unsigned_decimal_digits:
  assumes "\<forall>c \<in> set s. is_digit c" and "digits_of s = Some n" and "n < 2 ^ 53"
  shows "unsigned_decimal s = Finite (dbl (of_int n))"
proof -
  have m: "takeWhile (\<lambda>c. c \<notin> set ''eE'') s = s" "takeWhile (\<lambda>c. c \<noteq> CHR ''.'') s = s"
    using assms(1) digit_not_mark by (simp_all add: takeWhile_digits)
  have "CHR ''I'' \<notin> set s" using assms(1) digit_not_mark by blast
  then have "s \<noteq> ''Infinity''" by auto
  moreover have "mantissa s = Some (of_int n)" using assms(2) unfolding mantissa_def m(2) Let_def by simp
  ultimately show ?thesis using assms(3) unfolding unsigned_decimal_def m(1) Let_def
    by (simp add: to_double_small)
qed

lemma Number_digits:
  assumes "\<forall>c \<in> set s. is_digit c" and "digits_of s = Some n" and "0 \<le> n" and "n < 2 ^ 53"
  shows "Number s = Finite (of_int n)"
proof -
  have "s \<noteq> []" using assms(2) by (auto simp: digits_of_def)
  then have "signed_decimal s = unsigned_decimal s" using assms(1) digit_no_sign by (cases s) auto
  moreover have "dbl (of_int n) = of_int n" using assms(3,4) by (intro dbl_of_int) linarith
  ultimately show ?thesis
    using assms \<open>s \<noteq> []\<close> by (simp add: Number_def Let_def trim_digits prefixed_digits unsigned_decimal_digits)
qed

lemma Number_show_nat: "n < 2 ^ 53 \<Longrightarrow> Number (show_nat n) = Finite (of_nat n)"
proof -
  assume "n < 2 ^ 53"
  then have "int n < 2 ^ 53" by simp
  then show ?thesis
    using Number_digits [OF show_nat_digits [of n] digits_of_show_nat] by simp
qed

text \<open>Digits padded with zeros are read as the number they show.\<close>

lemma padded_digits: "0 \<le> n \<Longrightarrow> \<forall>c \<in> set (padded k n). is_digit c"
  by (induction k n rule: padded.induct) (auto intro!: is_digit_char)

lemma length_padded [simp]: "length (padded k n) = k"
  by (induction k n rule: padded.induct) auto

lemma decimal_padded: "0 \<le> n \<Longrightarrow> n < 10 ^ k \<Longrightarrow> decimal 0 (padded k n) = Some n"
proof (induction k n rule: padded.induct)
  case (2 k n)
  have "nat (n mod 10) < 10" by simp
  then have "digit (char_of (48 + nat (n mod 10))) = Some (n mod 10)" by (simp add: digit_char)
  then show ?case using 2 by (simp add: decimal_append)
qed simp

lemma Number_padded:
  assumes "0 \<le> n" and "n < 10 ^ k" and "0 < k" and "n < 2 ^ 53"
  shows "Number (padded k n) = Finite (of_int n)"
proof (rule Number_digits)
  show "\<forall>c \<in> set (padded k n). is_digit c" using assms(1) by (rule padded_digits)
  have "padded k n \<noteq> []" using assms(3) length_padded [of k n] by (metis list.size(3) not_gr_zero)
  then show "digits_of (padded k n) = Some n" using assms by (simp add: digits_of_def decimal_padded)
qed (use assms in auto)

lemma padStart_show_nat: "n < 100 \<Longrightarrow> padStart 2 (show_nat n) = padded 2 (int n)"
proof -
  assume n: "n < 100"
  have two: "padded 2 (int n) = [char_of (48 + n div 10), char_of (48 + n mod 10)]"
    using n by (simp add: numeral_2_eq_2 nat_div_distrib nat_mod_distrib)
  show ?thesis
  proof (cases "n < 10")
    case True
    then have "show_nat n = [char_of (48 + n)]" by (subst show_nat.simps) simp
    moreover have "char_of (48 :: nat) = CHR ''0''" by code_simp
    ultimately show ?thesis using True by (simp add: two padStart_def)
  next
    case False
    then have "show_nat n = [char_of (48 + n div 10), char_of (48 + n mod 10)]"
      using n by (subst show_nat.simps, subst show_nat.simps) simp
    then show ?thesis by (simp add: two padStart_def)
  qed
qed

end
