(* ===== verification/Format.thy ===== *)
theory Format
  imports Calendar JsText
begin

text \<open>
  How the console writes amounts and instants, and how it reads a typed clock: \<open>apps/web/lib/format.ts\<close>,
  \<open>apps/web/lib/wall-clock.ts\<close>, and the countdown of \<open>components/countdown.tsx\<close>.

  The fields of an instant come from \<open>Intl\<close>, with the offsets of a zone as a parameter and its names of
  months and weekdays as another. An ISO text of the API is the instant it names.
\<close>

section \<open>Amounts\<close>

text \<open>The replacement of \<open>/\B(?=(\d{3})+(?!\d))/g\<close> by a comma, in a text of digits.\<close>

definition grouped :: "string \<Rightarrow> string" where
  "grouped s = concat (map (\<lambda>i. if 0 < i \<and> (length s - i) mod 3 = 0 then [CHR '','', s ! i] else [s ! i])
     [0..<length s])"

definition EM_DASH :: string where
  "EM_DASH = [CHR 0xE2, CHR 0x80, CHR 0x94]"

definition money_of :: "int \<Rightarrow> string \<Rightarrow> string" where
  "money_of v currency =
     (let absolute = \<bar>v\<bar>; major = absolute div 100; cents = absolute mod 100 in
      (if v < 0 then ''-'' else []) @ currency @ '' '' @ grouped (show_int major) @ ''.'' @ padStart 2 (show_int cents))"

definition money :: "string \<Rightarrow> string \<Rightarrow> string" where
  "money minor currency = (case js_BigInt minor of None \<Rightarrow> currency @ '' '' @ EM_DASH | Some v \<Rightarrow> money_of v currency)"

definition amount :: "string \<Rightarrow> string" where
  "amount minor = trim (money minor [])"

definition shortId :: "string \<Rightarrow> string" where
  "shortId s = take 8 s"

section \<open>Instants in a venue's zone\<close>

record intl_names =
  month_short :: "int \<Rightarrow> string"
  weekday_short :: "nat \<Rightarrow> string"

definition two_digit :: "int \<Rightarrow> string" where
  "two_digit n = padStart 2 (show_int n)"

definition fieldsIn :: "zone_offsets \<Rightarrow> instant \<Rightarrow> string \<Rightarrow> local_parts" where
  "fieldsIn off i tz = toLocalParts off i tz"

definition dateTimeIn :: "intl_names \<Rightarrow> zone_offsets \<Rightarrow> instant \<Rightarrow> string \<Rightarrow> string" where
  "dateTimeIn nm off i tz =
     (let f = fieldsIn off i tz in
      two_digit (lp_day f) @ '' '' @ month_short nm (lp_month f) @ '' '' @ show_int (lp_year f) @ '', ''
      @ two_digit (lp_hour f) @ '':'' @ two_digit (lp_minute f))"

definition timeIn :: "zone_offsets \<Rightarrow> instant \<Rightarrow> string \<Rightarrow> string" where
  "timeIn off i tz = (let f = fieldsIn off i tz in two_digit (lp_hour f) @ '':'' @ two_digit (lp_minute f))"

definition dayIn :: "intl_names \<Rightarrow> zone_offsets \<Rightarrow> instant \<Rightarrow> string \<Rightarrow> string" where
  "dayIn nm off i tz =
     (let f = fieldsIn off i tz in
      weekday_short nm (lp_weekday f) @ '' '' @ two_digit (lp_day f) @ '' '' @ month_short nm (lp_month f))"

text \<open>The label of an offset in minutes, and the offset the fields of an instant amount to.\<close>

definition offset_label :: "int \<Rightarrow> string" where
  "offset_label n =
     (if n = 0 then ''UTC''
      else ''UTC'' @ (if n < 0 then ''-'' else ''+'') @ two_digit (\<bar>n\<bar> div 60) @ '':'' @ two_digit (\<bar>n\<bar> mod 60))"

definition zoneLabel :: "zone_offsets \<Rightarrow> instant \<Rightarrow> string \<Rightarrow> string" where
  "zoneLabel off i tz =
     (let f = fieldsIn off i tz;
          asUtc = date_utc (lp_year f) (lp_month f) (lp_day f) (lp_hour f) (lp_minute f) (lp_second f) in
      offset_label (math_round (js_div (js_of_int (asUtc - i)) 60000)))"

definition venueTime :: "intl_names \<Rightarrow> zone_offsets \<Rightarrow> instant \<Rightarrow> string \<Rightarrow> string" where
  "venueTime nm off i tz = dateTimeIn nm off i tz @ '' '' @ zoneLabel off i tz"

definition utc :: "intl_names \<Rightarrow> zone_offsets \<Rightarrow> instant \<Rightarrow> string" where
  "utc nm off i = dateTimeIn nm off i ''UTC'' @ '' UTC''"

section \<open>Durations\<close>

definition clock :: "int \<Rightarrow> string" where
  "clock msRemaining =
     (let total = max 0 (math_floor (js_div (js_of_int msRemaining) 1000)) in
      padStart 2 (show_int (total div 60)) @ '':'' @ padStart 2 (show_int (total mod 60)))"

text \<open>\<open>toFixed(1)\<close>: the nearest tenth, the larger of two.\<close>

definition toFixed1 :: "js_number \<Rightarrow> string" where
  "toFixed1 x =
     (let n = math_round (\<bar>x\<bar> * 10) in
      (if x < 0 then ''-'' else []) @ show_int (n div 10) @ ''.'' @ show_int (n mod 10))"

definition durationHours :: "instant \<Rightarrow> instant \<Rightarrow> string" where
  "durationHours starts ends =
     (let hours = js_div (js_of_int (ends - starts)) 3600000 in
      (if hours = of_int \<lfloor>hours\<rfloor> then show_int \<lfloor>hours\<rfloor> else toFixed1 hours) @ ''h'')"

text \<open>The countdown: what remains, whether it has run out, and the share the bar shows.\<close>

record countdown =
  cd_remaining :: int
  cd_expired :: bool
  cd_fraction :: js_number

definition Countdown :: "instant \<Rightarrow> int \<Rightarrow> instant \<Rightarrow> countdown" where
  "Countdown expiresAt totalMs now =
     (let remaining = max 0 (expiresAt - now) in
      \<lparr>cd_remaining = remaining, cd_expired = (remaining \<le> 0),
       cd_fraction = (if 0 < totalMs then min 1 (max 0 (js_div (js_of_int remaining) (js_of_int totalMs))) else 0)\<rparr>)"

section \<open>The reader's zone\<close>

text \<open>
  Here the zone is the browser's: an offset, and the instants at which another takes over. A local time
  that occurs twice names its first occurrence, one that is skipped is read with the offset before the
  change, as \<open>new Date(y, m, d, h, mi)\<close> does.
\<close>

type_synonym reader_zone = "int \<times> (instant \<times> int) list"

fun offset_at :: "int \<Rightarrow> (instant \<times> int) list \<Rightarrow> instant \<Rightarrow> int" where
  "offset_at o1 [] i = o1"
| "offset_at o1 ((t, o2) # cs) i = (if i < t then o1 else offset_at o2 cs i)"

fun local_to_utc :: "int \<Rightarrow> (instant \<times> int) list \<Rightarrow> int \<Rightarrow> instant" where
  "local_to_utc o1 [] l = l - o1"
| "local_to_utc o1 ((t, o2) # cs) l = (if l - o1 < t \<or> l - o2 < t then l - o1 else local_to_utc o2 cs l)"

definition reader_parts :: "reader_zone \<Rightarrow> instant \<Rightarrow> local_parts" where
  "reader_parts z i = toLocalParts (\<lambda>_. offset_at (fst z) (snd z)) i []"

section \<open>Typed clocks\<close>

record wall_clock =
  wc_date :: "string option"
  wc_time :: "string option"

definition js_truncate :: "js_number \<Rightarrow> int" where
  "js_truncate x = (if x < 0 then \<lceil>x\<rceil> else \<lfloor>x\<rfloor>)"

fun all_finite :: "js_value list \<Rightarrow> js_number list option" where
  "all_finite [] = Some []"
| "all_finite (Finite x # vs) = map_option ((#) x) (all_finite vs)"
| "all_finite (v # vs) = None"

definition MAX_TIME :: int where
  "MAX_TIME = 8640000000000000"

text \<open>\<open>new Date(year, month - 1, day, hour, minute, 0, 0)\<close>; a month outside the year carries over.\<close>

definition local_date :: "reader_zone \<Rightarrow> js_number list \<Rightarrow> instant option" where
  "local_date z parts =
     (case map js_truncate parts of
        [y, m, d, h, mi] \<Rightarrow>
          let y' = (if 0 \<le> y \<and> y \<le> 99 then 1900 + y else y);
              l = ((days_from_civil (y' + (m - 1) div 12) ((m - 1) mod 12 + 1) 1 + d - 1) * 24 + h) * 60 + mi;
              t = local_to_utc (fst z) (snd z) (l * MS_PER_MINUTE) in
          if \<bar>t\<bar> \<le> MAX_TIME then Some t else None
      | _ \<Rightarrow> None)"

definition wallClockToInstant :: "reader_zone \<Rightarrow> wall_clock \<Rightarrow> string option" where
  "wallClockToInstant z w =
     (case (wc_date w, wc_time w) of
        (Some date, Some time) \<Rightarrow>
          if date = [] \<or> time = [] then None
          else
            let dateParts = map Number (split_on CHR ''-'' date); timeParts = map Number (split_on CHR '':'' time) in
            if length dateParts \<noteq> 3 \<or> length timeParts < 2 then None
            else Option.bind (all_finite (dateParts @ take 2 timeParts)) (\<lambda>ns.
                 map_option toISOString (local_date z ns))
      | _ \<Rightarrow> None)"

definition wall_clock_of :: "local_parts \<Rightarrow> wall_clock" where
  "wall_clock_of p =
     \<lparr>wc_date = Some (show_int (lp_year p) @ ''-'' @ two_digit (lp_month p) @ ''-'' @ two_digit (lp_day p)),
      wc_time = Some (two_digit (lp_hour p) @ '':'' @ two_digit (lp_minute p))\<rparr>"

definition instantToWallClock :: "(string \<Rightarrow> instant option) \<Rightarrow> reader_zone \<Rightarrow> string \<Rightarrow> wall_clock option" where
  "instantToWallClock date_parse z stamp =
     map_option (\<lambda>i. wall_clock_of (reader_parts z i)) (date_parse stamp)"

definition halfHourGrid :: "string list" where
  "halfHourGrid = map (\<lambda>k. two_digit (30 * int k div 60) @ '':'' @ two_digit (30 * int k mod 60)) [0..<48]"

section \<open>What an amount shows\<close>

lemma grouped_ungroup:
  assumes "CHR '','' \<notin> set s"
  shows "filter (\<lambda>c. c \<noteq> CHR '','') (grouped s) = s"
proof -
  have "filter (\<lambda>c. c \<noteq> CHR '','') (grouped s) = concat (map (\<lambda>i. [s ! i]) [0..<length s])"
    unfolding grouped_def filter_concat map_map
  proof (intro arg_cong [where f = concat] map_cong refl)
    fix i assume "i \<in> set [0..<length s]"
    then have "s ! i \<noteq> CHR '',''" using assms by (metis atLeastLessThan_iff nth_mem set_upt)
    then show "(filter (\<lambda>c. c \<noteq> CHR '','') \<circ> (\<lambda>i. if 0 < i \<and> (length s - i) mod 3 = 0 then [CHR '','', s ! i] else [s ! i])) i
        = [s ! i]" by simp
  qed
  also have "\<dots> = map ((!) s) [0..<length s]" by (rule concat_map_singleton)
  finally show ?thesis by (simp add: map_nth)
qed

lemma show_int_nat: "0 \<le> n \<Longrightarrow> show_int n = show_nat (nat n)"
  by (simp add: show_int_def)

lemma digit_plain: "is_digit c \<Longrightarrow> c \<noteq> CHR '','' \<and> c \<noteq> CHR ''-'' \<and> c \<noteq> CHR '':''"
  by (auto simp: is_digit_def)

lemma grouped_inject:
  assumes "0 \<le> m" "0 \<le> n" and "grouped (show_int m) = grouped (show_int n)"
  shows "m = n"
proof -
  have "CHR '','' \<notin> set (show_int k)" if "0 \<le> k" for k
    using show_nat_digits [of "nat k"] digit_plain that by (auto simp: show_int_nat)
  then have "show_int m = show_int n" using assms grouped_ungroup by metis
  then show ?thesis by simp
qed

lemma grouped_no_sign: "CHR ''-'' \<notin> set s \<Longrightarrow> CHR ''-'' \<notin> set (grouped s)"
  by (auto simp: grouped_def split: if_splits)

lemma two_digit_padded: "0 \<le> n \<Longrightarrow> n < 100 \<Longrightarrow> two_digit n = padded 2 n"
  using padStart_show_nat [of "nat n"] by (simp add: two_digit_def show_int_nat)

lemma two_digit_inject:
  assumes "0 \<le> m" "m < 100" "0 \<le> n" "n < 100" and "two_digit m = two_digit n"
  shows "m = n"
proof -
  have "decimal 0 (two_digit k) = Some k" if "0 \<le> k" "k < 100" for k
    using that decimal_padded [of k 2] by (simp add: two_digit_padded)
  then show ?thesis using assms by (metis option.inject)
qed

text \<open>No two amounts of a currency are written alike.\<close>

lemma money_inject:
  assumes "money_of v currency = money_of w currency"
  shows "v = w"
proof -
  let ?sign = "\<lambda>v :: int. if v < 0 then ''-'' else []"
  let ?whole = "\<lambda>v :: int. grouped (show_int (\<bar>v\<bar> div 100))"
  let ?cents = "\<lambda>v :: int. two_digit (\<bar>v\<bar> mod 100)"
  have eq: "(?sign v @ currency @ '' '' @ ?whole v) @ ''.'' @ ?cents v
      = (?sign w @ currency @ '' '' @ ?whole w) @ ''.'' @ ?cents w"
    using assms unfolding money_of_def two_digit_def Let_def by (simp only: append_assoc)
  have len: "length (''.'' @ ?cents v) = length (''.'' @ ?cents w)" by (simp add: two_digit_padded)
  have "?cents v = ?cents w" using eq len by (metis append_eq_append_conv same_append_eq)
  then have cents: "\<bar>v\<bar> mod 100 = \<bar>w\<bar> mod 100" by (intro two_digit_inject) simp_all
  have front: "?sign v @ currency @ '' '' @ ?whole v = ?sign w @ currency @ '' '' @ ?whole w"
    using eq len by (metis append_eq_append_conv)
  have "CHR ''-'' \<notin> set (?whole k)" for k
    using show_nat_digits [of "nat (\<bar>k\<bar> div 100)"] digit_plain
    by (intro grouped_no_sign) (auto simp: show_int_nat pos_imp_zdiv_nonneg_iff)
  then have "filter (\<lambda>c. c = CHR ''-'') (?whole k) = []" for k by (auto simp: filter_empty_conv)
  then have "length (filter (\<lambda>c. c = CHR ''-'') (?sign v)) = length (filter (\<lambda>c. c = CHR ''-'') (?sign w))"
    using arg_cong [OF front, of "\<lambda>s. length (filter (\<lambda>c. c = CHR ''-'') s)"] by simp
  then have sign: "v < 0 \<longleftrightarrow> w < 0" by (auto split: if_splits)
  then have "?whole v = ?whole w" using front by simp
  then have "\<bar>v\<bar> div 100 = \<bar>w\<bar> div 100" by (intro grouped_inject) (simp_all add: pos_imp_zdiv_nonneg_iff)
  then have "\<bar>v\<bar> = \<bar>w\<bar>" using cents by (metis div_mult_mod_eq)
  then show ?thesis using sign by linarith
qed

section \<open>What an instant shows\<close>

lemma math_round_near:
  assumes "\<bar>x - of_int n\<bar> \<le> 1 / 4"
  shows "math_round x = n"
proof -
  have "of_int n \<le> x + 1 / 2" "x + 1 / 2 < of_int n + 1" using assms unfolding abs_le_iff by linarith+
  then show ?thesis unfolding math_round_def by (rule floor_unique)
qed

text \<open>The label of a zone is the offset in force at the instant, which need not be a whole number of seconds past the minute.\<close>

lemma zoneLabel_exact:
  assumes "off tz i = m * 60000" and "\<bar>m\<bar> \<le> 1440" and "100 \<le> lp_year (fieldsIn off i tz)"
  shows "zoneLabel off i tz = offset_label m"
proof -
  let ?f = "fieldsIn off i tz"
  define r where "r = i mod 1000"
  have r: "0 \<le> r" "r < 1000" by (simp_all add: r_def)
  have "date_utc (lp_year ?f) (lp_month ?f) (lp_day ?f) (lp_hour ?f) (lp_minute ?f) (lp_second ?f)
      = (i + off tz i) div 1000 * 1000"
    using assms(3) by (intro date_utc_of_parts) (simp_all add: fieldsIn_def)
  also have "(i + off tz i) div 1000 = i div 1000 + m * 60" using assms(1) by simp
  also have "(i div 1000 + m * 60) * 1000 = i - r + m * 60000" by (simp add: r_def algebra_simps minus_mod_eq_mult_div)
  finally have asUtc: "date_utc (lp_year ?f) (lp_month ?f) (lp_day ?f) (lp_hour ?f) (lp_minute ?f) (lp_second ?f) - i
      = m * 60000 - r" by simp
  let ?x = "of_int (m * 60000 - r) / 60000 :: rat"
  have x: "?x = of_int m - of_int r / 60000" by (simp add: diff_divide_distrib)
  have r': "0 \<le> (of_int r :: rat)" "(of_int r :: rat) < 1000" using r by simp_all
  have "\<bar>of_int m\<bar> \<le> (1440 :: rat)" using assms(2) by (simp add: abs_le_iff)
  then have "\<bar>?x\<bar> \<le> 1441" using r' unfolding x by (auto simp: abs_le_iff)
  then have "\<bar>?x\<bar> / 2 ^ 53 \<le> 1 / 8" by simp
  then have "\<bar>dbl ?x - ?x\<bar> \<le> 1 / 8" using dbl_error [of ?x] by linarith
  moreover have "\<bar>?x - of_int m\<bar> \<le> 1 / 8" using r' unfolding x by simp
  ultimately have "\<bar>dbl ?x - of_int m\<bar> \<le> 1 / 4" by linarith
  then have "math_round (dbl ?x) = m" by (rule math_round_near)
  moreover have "js_of_int (m * 60000 - r) = of_int (m * 60000 - r)"
    using assms(2) r by (intro js_of_int_exact) (simp add: abs_le_iff)
  ultimately show ?thesis unfolding zoneLabel_def Let_def asUtc js_div_def by simp
qed

lemma clock_eq:
  assumes "0 \<le> ms" and "ms < 6000000"
  shows "clock ms = padded 2 (ms div 1000 div 60) @ '':'' @ padded 2 (ms div 1000 mod 60)"
proof -
  have ms: "js_of_int ms = of_int ms" using assms by simp
  have "math_floor (js_div (of_int ms) 1000) = ms div 1000"
    unfolding math_floor_def
  proof (rule floor_unique)
    have q: "0 \<le> ms div 1000" "ms div 1000 \<le> 6000" using assms by (simp add: pos_imp_zdiv_nonneg_iff, linarith)
    have "ms div 1000 * 1000 \<le> ms" by linarith
    then show "of_int (ms div 1000) \<le> js_div (of_int ms) 1000"
      using js_div_of_int_ge_iff [of ms 1000 "ms div 1000"] assms q by simp
    have "\<not> (ms div 1000 + 1) * 1000 \<le> ms"
      using pos_mod_bound [of 1000 ms] minus_mod_eq_div_mult [of ms 1000] unfolding distrib_right by linarith
    then have "\<not> of_int (ms div 1000 + 1) \<le> js_div (of_int ms) 1000"
      using js_div_of_int_ge_iff [of ms 1000 "ms div 1000 + 1"] assms q by simp
    then show "js_div (of_int ms) 1000 < of_int (ms div 1000) + 1" by simp
  qed
  moreover have "0 \<le> ms div 1000" "ms div 1000 < 6000" using assms by (simp add: pos_imp_zdiv_nonneg_iff, linarith)
  moreover from this have "0 \<le> ms div 1000 div 60" "ms div 1000 div 60 < 100" by linarith+
  ultimately show ?thesis
    unfolding clock_def ms Let_def
    by (simp add: two_digit_padded [unfolded two_digit_def] max_def)
qed

lemma clock_width: "0 \<le> ms \<Longrightarrow> ms < 6000000 \<Longrightarrow> length (clock ms) = 5"
  by (simp add: clock_eq)

section \<open>A typed clock keeps its meaning\<close>

text \<open>
  A zone as the time zone database has them: changes and offsets on whole minutes, and changes far
  enough apart that local time after a later change is not before local time after an earlier one.
\<close>

fun spaced :: "instant \<Rightarrow> int \<Rightarrow> (instant \<times> int) list \<Rightarrow> bool" where
  "spaced t o1 [] \<longleftrightarrow> True"
| "spaced t o1 ((u, o2) # cs) \<longleftrightarrow> t \<le> u \<and> t + o1 \<le> u + o2"

fun changes_ok :: "int \<Rightarrow> (instant \<times> int) list \<Rightarrow> bool" where
  "changes_ok o1 [] \<longleftrightarrow> 60000 dvd o1 \<and> \<bar>o1\<bar> \<le> MS_PER_DAY"
| "changes_ok o1 ((t, o2) # cs) \<longleftrightarrow>
     60000 dvd o1 \<and> \<bar>o1\<bar> \<le> MS_PER_DAY \<and> 60000 dvd t \<and> spaced t o2 cs \<and> changes_ok o2 cs"

lemma offset_at_ok: "changes_ok o1 cs \<Longrightarrow> 60000 dvd offset_at o1 cs i \<and> \<bar>offset_at o1 cs i\<bar> \<le> MS_PER_DAY"
  by (induction o1 cs i rule: offset_at.induct) auto

lemma local_time_after:
  "changes_ok o1 cs \<Longrightarrow> spaced t o1 cs \<Longrightarrow> t \<le> i \<Longrightarrow> t + o1 \<le> i + offset_at o1 cs i"
  by (induction o1 cs i arbitrary: t rule: offset_at.induct) force+

lemma local_to_utc_after:
  "changes_ok o1 cs \<Longrightarrow> spaced t o1 cs \<Longrightarrow> t \<le> l - o1 \<Longrightarrow> t \<le> local_to_utc o1 cs l"
  by (induction o1 cs l arbitrary: t rule: local_to_utc.induct) force+

lemma local_to_utc_first:
  assumes "changes_ok o1 cs" and "i + offset_at o1 cs i = l"
  shows "local_to_utc o1 cs l + offset_at o1 cs (local_to_utc o1 cs l) = l \<and> local_to_utc o1 cs l \<le> i"
  using assms
proof (induction o1 cs l rule: local_to_utc.induct)
  case (2 o1 t o2 cs l)
  show ?case
  proof (cases "l - o1 < t")
    case True
    then show ?thesis using "2.prems" by (auto split: if_splits)
  next
    case False
    then have i: "t \<le> i" "i + offset_at o2 cs i = l" using "2.prems"(2) by (auto split: if_splits)
    have ok: "changes_ok o2 cs" "spaced t o2 cs" using "2.prems"(1) by simp_all
    have "t + o2 \<le> l" using local_time_after [OF ok i(1)] i(2) by simp
    then have later: "local_to_utc o1 ((t, o2) # cs) l = local_to_utc o2 cs l" using False by simp
    have "t \<le> local_to_utc o2 cs l" using ok \<open>t + o2 \<le> l\<close> by (intro local_to_utc_after) simp_all
    moreover have "local_to_utc o2 cs l + offset_at o2 cs (local_to_utc o2 cs l) = l \<and> local_to_utc o2 cs l \<le> i"
      using "2.IH" False \<open>t + o2 \<le> l\<close> ok(1) i(2) by simp
    ultimately show ?thesis unfolding later by simp
  qed
qed simp

lemma minute_before_iff: "60000 dvd t \<Longrightarrow> i - i mod 60000 < t \<longleftrightarrow> i < (t :: int)"
  by (auto simp: dvd_def minus_mod_eq_mult_div)

lemma offset_at_minute: "changes_ok o1 cs \<Longrightarrow> offset_at o1 cs (i - i mod 60000) = offset_at o1 cs i"
  by (induction o1 cs i rule: offset_at.induct) (simp_all add: minute_before_iff)

lemma minute_of_second: "x mod 3600 div 60 = x div 60 mod (60 :: int)"
  using zmod_zmult2_eq [of 60 x 60] by simp

text \<open>The fields a clock shows depend on the whole minutes of local time alone.\<close>

lemma wall_clock_of_minutes:
  "wall_clock_of (toLocalParts off i tz) =
     (let m = (i + off tz i) div 60000; (y, mo, d) = civil_from_days (m div 1440) in
      \<lparr>wc_date = Some (show_int y @ ''-'' @ two_digit mo @ ''-'' @ two_digit d),
       wc_time = Some (two_digit (m mod 1440 div 60) @ '':'' @ two_digit (m mod 60))\<rparr>)"
proof -
  define secs where "secs = (i + off tz i) div 1000"
  have m: "(i + off tz i) div 60000 = secs div 60" unfolding secs_def by (simp add: zdiv_zmult2_eq [symmetric])
  have day: "secs div 86400 = secs div 60 div 1440" by (simp add: zdiv_zmult2_eq [symmetric])
  have sod: "secs mod 86400 div 60 = secs div 60 mod 1440"
    using zmod_zmult2_eq [of 1440 secs 60] by simp
  have "secs mod 86400 div 3600 = secs mod 86400 div 60 div 60"
    using zdiv_zmult2_eq [of 60 "secs mod 86400" 60] by simp
  then have "secs mod 86400 div 3600 = secs div 60 mod 1440 div 60" unfolding sod .
  moreover have "secs div 60 mod 1440 div 60 < 24" "0 \<le> secs div 60 mod 1440 div 60"
    by (simp_all add: div_less_iff_less_mult pos_imp_zdiv_nonneg_iff)
  ultimately have h: "secs mod 86400 div 3600 mod 24 = secs div 60 mod 1440 div 60" by (simp add: mod_pos_pos_trivial)
  have "secs div 60 mod 1440 mod 60 = secs div 60 mod 60" by (rule mod_mod_cancel) simp
  then have mi: "secs mod 86400 mod 3600 div 60 = secs div 60 mod 60"
    unfolding minute_of_second sod .
  show ?thesis
    unfolding toLocalParts_def Let_def secs_def [symmetric] m wall_clock_of_def day h mi
    by (simp split: prod.splits)
qed

lemma split_on_word:
  assumes "c \<notin> set w"
  shows "split_on c w = [w]" "split_on c (w @ c # rest) = w # split_on c rest"
  using assms by (induction w) auto

lemma js_truncate_of_int [simp]: "js_truncate (of_int n) = n"
  by (simp add: js_truncate_def)

lemma plain_text: "\<forall>c \<in> set s. is_digit c \<Longrightarrow> CHR ''-'' \<notin> set s \<and> CHR '':'' \<notin> set s"
  using digit_plain by blast

lemma Number_two_digit: "0 \<le> n \<Longrightarrow> n < 100 \<Longrightarrow> Number (two_digit n) = Finite (of_int n)"
proof -
  assume n: "0 \<le> n" "n < 100"
  have "Number (padded 2 n) = Finite (of_int n)" by (rule Number_padded) (use n in auto)
  then show ?thesis by (simp only: two_digit_padded [OF n])
qed

lemma two_digit_plain: "0 \<le> n \<Longrightarrow> n < 100 \<Longrightarrow> CHR ''-'' \<notin> set (two_digit n) \<and> CHR '':'' \<notin> set (two_digit n)"
  using plain_text padded_digits two_digit_padded by metis

text \<open>What the two fields are read as.\<close>

lemma wallClockToInstant_fields:
  assumes "0 \<le> y" "y < 2 ^ 53" "0 \<le> mo" "mo < 100" "0 \<le> d" "d < 100" "0 \<le> h" "h < 100" "0 \<le> mi" "mi < 100"
  shows "wallClockToInstant z \<lparr>wc_date = Some (show_int y @ ''-'' @ two_digit mo @ ''-'' @ two_digit d),
      wc_time = Some (two_digit h @ '':'' @ two_digit mi)\<rparr>
    = map_option toISOString (local_date z [of_int y, of_int mo, of_int d, of_int h, of_int mi])"
proof -
  have y: "CHR ''-'' \<notin> set (show_int y)" "Number (show_int y) = Finite (of_int y)"
    using assms(1,2) plain_text [OF show_nat_digits] Number_show_nat [of "nat y"] by (simp_all add: show_int_nat)
  have "split_on CHR ''-'' (show_int y @ ''-'' @ two_digit mo @ ''-'' @ two_digit d)
      = [show_int y, two_digit mo, two_digit d]"
    using y(1) two_digit_plain assms(3-6) by (simp add: split_on_word)
  moreover have "split_on CHR '':'' (two_digit h @ '':'' @ two_digit mi) = [two_digit h, two_digit mi]"
    using two_digit_plain assms(7-10) by (simp add: split_on_word)
  ultimately show ?thesis
    using y(2) assms by (simp add: wallClockToInstant_def Let_def Number_two_digit)
qed

text \<open>The fields of a clock determine the minute of local time.\<close>

lemma minutes_of_fields:
  fixes m :: int
  shows "(m div 1440 * 24 + m mod 1440 div 60) * 60 + m mod 60 = m"
proof -
  have "m mod 60 = m mod 1440 mod 60" by (rule mod_mod_cancel [symmetric]) simp
  then have "m mod 1440 div 60 * 60 + m mod 60 = m mod 1440" using div_mult_mod_eq [of "m mod 1440" 60] by simp
  moreover have "m div 1440 * 1440 + m mod 1440 = m" by (rule div_mult_mod_eq)
  ultimately show ?thesis by (simp only: distrib_right mult.assoc)
qed

lemma clock_fields_range:
  fixes m :: int
  shows "0 \<le> m mod 1440 div 60" "m mod 1440 div 60 < 24" "0 \<le> m mod 60" "m mod 60 < 60"
  by (simp_all add: div_less_iff_less_mult pos_imp_zdiv_nonneg_iff)

lemma local_date_of_minutes:
  assumes "civil_from_days (m div 1440) = (y, mo, d)" and "100 \<le> y"
    and "t = local_to_utc (fst z) (snd z) (m * 60000)"
  shows "local_date z [of_int y, of_int mo, of_int d, of_int (m mod 1440 div 60), of_int (m mod 60)]
    = (if \<bar>t\<bar> \<le> MAX_TIME then Some t else None)"
proof -
  note c = civil_from_days_eq [OF assms(1)]
  have mo: "(mo - 1) div 12 = 0" "(mo - 1) mod 12 + 1 = mo"
    using c(2,3) by (simp_all add: div_pos_pos_trivial mod_pos_pos_trivial)
  have "days_from_civil y mo 1 + d - 1 = days_from_civil y mo d" by (simp add: days_from_civil_def Let_def)
  then have d: "days_from_civil y mo 1 + d - 1 = m div 1440" using c(1) by simp
  have y: "(if 0 \<le> y \<and> y \<le> 99 then 1900 + y else y) = y" using assms(2) by simp
  show ?thesis
    unfolding local_date_def list.map js_truncate_of_int list.case Let_def y mo add_0_right d
      minutes_of_fields MS_PER_MINUTE_def assms(3) ..
qed

lemma two_digit_pair:
  assumes "0 \<le> a" "a < 100" "0 \<le> b" "b < 100" "0 \<le> a'" "a' < 100" "0 \<le> b'" "b' < 100"
    and "two_digit a @ sep # two_digit b = two_digit a' @ sep # two_digit b'"
  shows "a = a' \<and> b = b'"
proof -
  have "length (two_digit a) = length (two_digit a')" using assms(1-8) by (simp add: two_digit_padded)
  then have "two_digit a = two_digit a'" "two_digit b = two_digit b'" using assms(9) by simp_all
  then show ?thesis using two_digit_inject assms(1-8) by blast
qed

lemma wall_clock_minutes_inject:
  assumes "wall_clock_of (toLocalParts off i tz) = wall_clock_of (toLocalParts off k tz)"
  shows "(i + off tz i) div 60000 = (k + off tz k) div 60000"
proof -
  let ?m = "(i + off tz i) div 60000" and ?n = "(k + off tz k) div 60000"
  obtain y mo d where c: "civil_from_days (?m div 1440) = (y, mo, d)" by (metis prod_cases3)
  obtain y' mo' d' where c': "civil_from_days (?n div 1440) = (y', mo', d')" by (metis prod_cases3)
  note r = civil_from_days_eq [OF c] and r' = civil_from_days_eq [OF c']
  have date: "show_int y @ ''-'' @ two_digit mo @ ''-'' @ two_digit d
      = show_int y' @ ''-'' @ two_digit mo' @ ''-'' @ two_digit d'"
    and time: "two_digit (?m mod 1440 div 60) @ '':'' @ two_digit (?m mod 60)
      = two_digit (?n mod 1440 div 60) @ '':'' @ two_digit (?n mod 60)"
    using assms unfolding wall_clock_of_minutes c c' Let_def by simp_all
  have ms: "0 \<le> mo" "mo < 100" "0 \<le> d" "d < 100" "0 \<le> mo'" "mo' < 100" "0 \<le> d'" "d' < 100" using r r' by auto
  have l6: "length (''-'' @ two_digit mo @ ''-'' @ two_digit d) = length (''-'' @ two_digit mo' @ ''-'' @ two_digit d')"
    using ms by (simp add: two_digit_padded)
  have "show_int y = show_int y' \<and> ''-'' @ two_digit mo @ ''-'' @ two_digit d = ''-'' @ two_digit mo' @ ''-'' @ two_digit d'"
    using date unfolding append_eq_append_conv [OF disjI2 [OF l6]] .
  then have ymd: "show_int y = show_int y'" "two_digit mo @ CHR ''-'' # two_digit d = two_digit mo' @ CHR ''-'' # two_digit d'"
    by simp_all
  have "y = y'" using ymd(1) unfolding show_int_inject .
  moreover have "mo = mo' \<and> d = d'" by (rule two_digit_pair [OF ms ymd(2)])
  ultimately have day: "?m div 1440 = ?n div 1440" using r(1) r'(1) by simp
  note f = clock_fields_range [of ?m] and f' = clock_fields_range [of ?n]
  have lt: "v < 24 \<Longrightarrow> v < 100" "v < 60 \<Longrightarrow> v < 100" for v :: int by simp_all
  have same: "?m mod 1440 div 60 = ?n mod 1440 div 60 \<and> ?m mod 60 = ?n mod 60"
    by (rule two_digit_pair [OF f(1) lt(1) [OF f(2)] f(3) lt(2) [OF f(4)] f'(1) lt(1) [OF f'(2)] f'(3) lt(2) [OF f'(4)],
        of "CHR '':''"]) (use time in \<open>simp only: append_Cons append_Nil\<close>)
  have "?m = (?m div 1440 * 24 + ?m mod 1440 div 60) * 60 + ?m mod 60" by (rule minutes_of_fields [symmetric])
  also have "\<dots> = ?n" unfolding day same [THEN conjunct1] same [THEN conjunct2] by (rule minutes_of_fields)
  finally show ?thesis .
qed

text \<open>
  A clock that the reader's zone shows at some instant, typed into the console, becomes the first
  instant that shows it, and that instant is shown as the clock that was typed: nothing drifts,
  whatever the offset and on both sides of its changes.
\<close>

lemma wall_clock_roundtrip:
  assumes "changes_ok (fst z) (snd z)" and "w = wall_clock_of (reader_parts z i)"
    and "100 \<le> lp_year (reader_parts z i)" "lp_year (reader_parts z i) \<le> 9999" and "\<bar>i\<bar> \<le> 8 * 10 ^ 15"
  shows "\<exists>j. wallClockToInstant z w = Some (toISOString j) \<and> \<bar>j\<bar> \<le> MAX_TIME
    \<and> (\<forall>k. wall_clock_of (reader_parts z k) = w \<longrightarrow> j \<le> k)
    \<and> (date_parse (toISOString j) = Some j \<longrightarrow> instantToWallClock date_parse z (toISOString j) = Some w)"
proof -
  let ?off = "\<lambda>_ :: string. offset_at (fst z) (snd z)"
  define m where "m = (i + offset_at (fst z) (snd z) i) div 60000"
  define j where "j = local_to_utc (fst z) (snd z) (m * 60000)"
  obtain y mo d where c: "civil_from_days (m div 1440) = (y, mo, d)" by (metis prod_cases3)
  note r = civil_from_days_eq [OF c] and f = clock_fields_range [of m]
  have first: "j + offset_at (fst z) (snd z) j = m * 60000 \<and> j \<le> k"
    if "(k + offset_at (fst z) (snd z) k) div 60000 = m" for k
  proof -
    have "60000 dvd offset_at (fst z) (snd z) k" using offset_at_ok [OF assms(1)] by blast
    then have "k - k mod 60000 + offset_at (fst z) (snd z) k = m * 60000"
      using that by (auto simp: dvd_def minus_mod_eq_mult_div)
    then have "j + offset_at (fst z) (snd z) j = m * 60000 \<and> j \<le> k - k mod 60000"
      unfolding j_def using offset_at_minute [OF assms(1), of k] by (intro local_to_utc_first [OF assms(1)]) simp
    moreover have "0 \<le> k mod 60000" by simp
    ultimately show ?thesis by linarith
  qed
  have w: "w = \<lparr>wc_date = Some (show_int y @ ''-'' @ two_digit mo @ ''-'' @ two_digit d),
       wc_time = Some (two_digit (m mod 1440 div 60) @ '':'' @ two_digit (m mod 60))\<rparr>"
    unfolding assms(2) reader_parts_def wall_clock_of_minutes m_def [symmetric] Let_def c by simp
  have year: "lp_year (reader_parts z i) = y"
    using c unfolding reader_parts_def toLocalParts_def m_def Let_def
    by (simp add: zdiv_zmult2_eq [symmetric] split: prod.splits)
  have "local_date z [of_int y, of_int mo, of_int d, of_int (m mod 1440 div 60), of_int (m mod 60)] = Some j"
  proof -
    have near: "\<bar>b\<bar> \<le> MAX_TIME"
      if "\<bar>a\<bar> \<le> 8 * 10 ^ 15" "b \<le> a" "a + p < b + q + 60000" "\<bar>p\<bar> \<le> 86400000" "\<bar>q\<bar> \<le> 86400000" for a b p q :: int
      using that unfolding MAX_TIME_def abs_le_iff by simp
    have off: "\<bar>offset_at (fst z) (snd z) k\<bar> \<le> 86400000" for k
      using offset_at_ok [OF assms(1)] by (simp add: MS_PER_DAY_def)
    have "i + offset_at (fst z) (snd z) i < m * 60000 + 60000" unfolding m_def by linarith
    then have "\<bar>j\<bar> \<le> MAX_TIME"
      using first [OF m_def [symmetric]] assms(5) off
      by (intro near [of i j "offset_at (fst z) (snd z) i" "offset_at (fst z) (snd z) j"]) simp_all
    then show ?thesis using local_date_of_minutes [OF c] assms(3) year by (simp add: j_def)
  qed
  moreover have "wallClockToInstant z w = map_option toISOString
      (local_date z [of_int y, of_int mo, of_int d, of_int (m mod 1440 div 60), of_int (m mod 60)])"
    unfolding w using assms(3,4) year r f by (intro wallClockToInstant_fields) auto
  moreover have "wall_clock_of (reader_parts z j) = w"
    unfolding reader_parts_def wall_clock_of_minutes w using first [OF m_def [symmetric]] c by simp
  moreover have "j \<le> k" if "wall_clock_of (reader_parts z k) = w" for k
    using that wall_clock_minutes_inject [of ?off k "[]" i] first [of k]
    unfolding assms(2) reader_parts_def m_def by simp
  moreover have "\<bar>j\<bar> \<le> MAX_TIME"
    using calculation(1) by (auto simp: local_date_def Let_def split: list.splits if_splits)
  ultimately show ?thesis by (auto simp: instantToWallClock_def)
qed

text \<open>London in 2026: a repeated clock is its first occurrence, a skipped one is shown an hour later.\<close>

definition london_zone :: reader_zone where
  "london_zone = (0, [(date_utc 2026 3 29 1 0 0, 3600000), (date_utc 2026 10 25 1 0 0, 0)])"

definition autumn_clock :: wall_clock where
  "autumn_clock = \<lparr>wc_date = Some ''2026-10-25'', wc_time = Some ''01:30''\<rparr>"

lemma autumn_clock_roundtrip:
  "\<exists>j. wallClockToInstant london_zone autumn_clock = Some (toISOString j) \<and> \<bar>j\<bar> \<le> MAX_TIME
    \<and> (\<forall>k. wall_clock_of (reader_parts london_zone k) = autumn_clock \<longrightarrow> j \<le> k)
    \<and> (Some (date_utc 2026 10 25 0 30 0) = Some j
       \<longrightarrow> instantToWallClock (\<lambda>_. Some (date_utc 2026 10 25 0 30 0)) london_zone (toISOString j) = Some autumn_clock)"
proof (rule wall_clock_roundtrip)
  show "changes_ok (fst london_zone) (snd london_zone)" by code_simp
  show "autumn_clock = wall_clock_of (reader_parts london_zone (date_utc 2026 10 25 1 30 0))" by code_simp
  show "100 \<le> lp_year (reader_parts london_zone (date_utc 2026 10 25 1 30 0))"
    "lp_year (reader_parts london_zone (date_utc 2026 10 25 1 30 0)) \<le> 9999"
    "\<bar>date_utc 2026 10 25 1 30 0\<bar> \<le> 8 * 10 ^ 15"
    by code_simp+
qed

lemma skipped_clock_shifts:
  "wallClockToInstant london_zone \<lparr>wc_date = Some ''2026-03-29'', wc_time = Some ''01:30''\<rparr>
     = Some (toISOString (date_utc 2026 3 29 1 30 0))
   \<and> wall_clock_of (reader_parts london_zone (date_utc 2026 3 29 1 30 0))
     = \<lparr>wc_date = Some ''2026-03-29'', wc_time = Some ''02:30''\<rparr>"
  by code_simp

text \<open>
  In a zone that is a quarter of an hour off, as Kathmandu's 5:45, no clock of the picker's grid is on the
  grid the API enforces, which is that of UTC.
\<close>

lemma picker_grid_off_api_grid: "\<not> OnTheHalfHour (local_to_utc 20700000 [] (h * THIRTY_MINUTES_MS))"
proof -
  have "(- 20700000 + h * 1800000) mod 1800000 = (- 20700000) mod (1800000 :: int)" by (rule mod_mult_self1)
  also have "- 20700000 + h * 1800000 = h * 1800000 - 20700000" by simp
  finally show ?thesis by (simp add: OnTheHalfHour_def THIRTY_MINUTES_MS_def)
qed

end
