(* ===== verification/Console.thy ===== *)
theory Console
  imports Format Auth
begin

text \<open>
  The server side of the console: \<open>apps/web/lib/api.ts\<close> and \<open>lib/session.ts\<close>, the server actions that
  sign in, hold, pay, extend and cancel, the one route handler, and the redirects of the pages.

  A call of \<open>fetch\<close> is a \<open>net\<close>: it takes the request and the state of the world it reaches, and gives what
  came back with the state it leaves. So a request can take effect although its answer is lost. The session
  cookie and the paths to be rendered anew are the state of the console. The environment variable with the
  address of the API is taken to be set.
\<close>

section \<open>Calls of the API\<close>

record http_request =
  ht_method :: string
  ht_path :: string
  ht_token :: "string option"
  ht_body :: "json option"

datatype fetched = HttpAnswer nat string | HttpTimeout | HttpNone

type_synonym 'w net = "http_request \<Rightarrow> 'w \<Rightarrow> fetched \<times> 'w"

text \<open>\<open>JSON.parse\<close>, and \<open>String(x)\<close> of what is not a string.\<close>

record console_host =
  ch_parse :: "string \<Rightarrow> json option"
  ch_string :: "json \<Rightarrow> string"

record 'w console =
  cs_cookie :: "(string \<times> int) option"
  cs_revalidated :: "string list"
  cs_world :: 'w

datatype api_failure = ApiError nat string json | ApiUnreachableError string bool

definition COLD_START_TIMEOUT_MS :: int where
  "COLD_START_TIMEOUT_MS = 75000"

definition session_ended :: string where
  "session_ended = ''Your session has ended. Sign in again.''"

definition timed_out_message :: string where
  "timed_out_message = ''The API did not answer within '' @ show_int (COLD_START_TIMEOUT_MS div 1000) @ '' seconds.''"

definition unreached_message :: string where
  "unreached_message = ''The API could not be reached.''"

definition safeJson :: "console_host \<Rightarrow> string \<Rightarrow> json" where
  "safeJson h text = (case ch_parse h text of Some j \<Rightarrow> j | None \<Rightarrow> JObj [(''message'', JStr text)])"

fun isRecord :: "json \<Rightarrow> bool" where
  "isRecord (JObj _) \<longleftrightarrow> True"
| "isRecord (JArr _) \<longleftrightarrow> True"
| "isRecord _ \<longleftrightarrow> False"

fun joined_text :: "(json \<Rightarrow> string) \<Rightarrow> json list \<Rightarrow> string" where
  "joined_text str [] = []"
| "joined_text str [JNull] = []"
| "joined_text str [JStr s] = s"
| "joined_text str [j] = str j"
| "joined_text str (j # js) = joined_text str [j] @ '', '' @ joined_text str js"

definition failure_message :: "console_host \<Rightarrow> nat \<Rightarrow> json \<Rightarrow> string" where
  "failure_message h status r =
     (case json_field ''message'' r of
        Some (JStr m) \<Rightarrow> m
      | Some (JArr ms) \<Rightarrow> joined_text (ch_string h) ms
      | _ \<Rightarrow> ''The API returned '' @ show_nat status @ ''.'')"

definition read_answer :: "console_host \<Rightarrow> fetched \<Rightarrow> api_failure + json" where
  "read_answer h r =
     (case r of
        HttpTimeout \<Rightarrow> Inl (ApiUnreachableError timed_out_message True)
      | HttpNone \<Rightarrow> Inl (ApiUnreachableError unreached_message False)
      | HttpAnswer status text \<Rightarrow>
          let payload = (if text = [] then JObj [] else safeJson h text) in
          if 200 \<le> status \<and> status \<le> 299 then Inr payload
          else
            let rec = (if isRecord payload then payload else JObj []) in
            Inl (ApiError status (failure_message h status rec) rec))"

definition api :: "console_host \<Rightarrow> 'w net \<Rightarrow> string \<Rightarrow> string \<Rightarrow> json option \<Rightarrow> bool \<Rightarrow> 'w console
    \<Rightarrow> (api_failure + json) \<times> 'w console" where
  "api h net method path body auth c =
     (case (auth, cs_cookie c) of
        (True, None) \<Rightarrow> (Inl (ApiError 401 session_ended (JObj [])), c)
      | (True, Some ([], _)) \<Rightarrow> (Inl (ApiError 401 session_ended (JObj [])), c)
      | (_, cookie) \<Rightarrow>
          (case net \<lparr>ht_method = method, ht_path = path,
                  ht_token = (if auth then map_option fst cookie else None), ht_body = body\<rparr> (cs_world c) of
             (r, w) \<Rightarrow> (read_answer h r, c\<lparr>cs_world := w\<rparr>)))"

text \<open>\<open>get issues()\<close>: the well-formed entries, with blanks for what is missing.\<close>

definition text_or_blank :: "json option \<Rightarrow> string" where
  "text_or_blank v = (case json_string v of Some s \<Rightarrow> s | None \<Rightarrow> [])"

definition issues_of :: "json \<Rightarrow> (string \<times> string) list" where
  "issues_of body =
     (case json_field ''issues'' body of
        Some (JArr rows) \<Rightarrow>
          map (\<lambda>r. (text_or_blank (json_field ''path'' r), text_or_blank (json_field ''message'' r))) (filter isRecord rows)
      | _ \<Rightarrow> [])"

text \<open>The pairs of a query string, before they are encoded; blanks are dropped.\<close>

datatype query_value = QUndefined | QText string | QMany "string list"

fun qs :: "(string \<times> query_value) list \<Rightarrow> (string \<times> string) list" where
  "qs [] = []"
| "qs ((k, QUndefined) # ps) = qs ps"
| "qs ((k, QText v) # ps) = (if v = [] then [] else [(k, v)]) @ qs ps"
| "qs ((k, QMany vs) # ps) = map (Pair k) (filter (\<lambda>v. v \<noteq> []) vs) @ qs ps"

section \<open>The session\<close>

definition COOKIE_MAX_AGE_SECONDS :: int where
  "COOKIE_MAX_AGE_SECONDS = 900 - 60"

definition cookie_max_age :: "int \<Rightarrow> int" where
  "cookie_max_age expiresIn = max 60 (min expiresIn COOKIE_MAX_AGE_SECONDS)"

definition setSession :: "string \<Rightarrow> int \<Rightarrow> 'w console \<Rightarrow> 'w console" where
  "setSession token expiresIn c = c\<lparr>cs_cookie := Some (token, cookie_max_age expiresIn)\<rparr>"

definition clearSession :: "'w console \<Rightarrow> 'w console" where
  "clearSession c = c\<lparr>cs_cookie := None\<rparr>"

definition hasSession :: "'w console \<Rightarrow> bool" where
  "hasSession c \<longleftrightarrow> cs_cookie c \<noteq> None"

datatype 'a page = Rendered 'a | Redirect string | Threw api_failure

text \<open>\<open>encodeURIComponent\<close> is part of the host of this function.\<close>

definition requireUser :: "console_host \<Rightarrow> (string \<Rightarrow> string) \<Rightarrow> 'w net \<Rightarrow> string option \<Rightarrow> 'w console
    \<Rightarrow> json page \<times> 'w console" where
  "requireUser h encode net returnTo c =
     (case api h net ''GET'' ''/auth/me'' None True c of
        (Inr user, c') \<Rightarrow> (Rendered user, c')
      | (Inl (ApiError status m body), c') \<Rightarrow>
          if status = 401 \<or> status = 403
          then (Redirect (''/login'' @ (case returnTo of None \<Rightarrow> [] | Some r \<Rightarrow> if r = [] then [] else ''?next='' @ encode r)), c')
          else (Threw (ApiError status m body), c')
      | (Inl e, c') \<Rightarrow> (Threw e, c'))"

definition isStaff :: "user_role \<Rightarrow> bool" where
  "isStaff role \<longleftrightarrow> role = VENUE_ADMIN \<or> role = VENUE_STAFF \<or> role = PLATFORM_ADMIN"

definition hasVenueScope :: "user_role \<Rightarrow> bool" where
  "hasVenueScope role \<longleftrightarrow> role = VENUE_ADMIN \<or> role = VENUE_STAFF"

section \<open>Signing in and out\<close>

type_synonym form = "string \<Rightarrow> string option"

definition field :: "form \<Rightarrow> string \<Rightarrow> string" where
  "field f k = (case f k of Some v \<Rightarrow> v | None \<Rightarrow> [])"

record auth_state =
  as_error :: "string option"
  as_issues :: "(string \<times> string) list"
  as_unreachable :: bool

definition asleep_hint :: string where
  "asleep_hint = '' It is deployed on a free tier that sleeps after 15 idle minutes; the first request wakes it and can take 30-60 seconds. Try again.''"

definition toAuthState :: "api_failure \<Rightarrow> auth_state" where
  "toAuthState e =
     (case e of
        ApiUnreachableError m t \<Rightarrow> \<lparr>as_error = Some (m @ asleep_hint), as_issues = [], as_unreachable = True\<rparr>
      | ApiError status m body \<Rightarrow> \<lparr>as_error = Some m, as_issues = issues_of body, as_unreachable = False\<rparr>)"

definition safeNext :: "string option \<Rightarrow> string" where
  "safeNext v =
     (let next = (case v of Some s \<Rightarrow> s | None \<Rightarrow> []) in
      if take 1 next = ''/'' \<and> take 2 next \<noteq> ''//'' then next else ''/search'')"

text \<open>
  The token response is used as its type says it is; a field of another shape, which the API does not
  send, is read as blank or zero.
\<close>

definition accept_token :: "json \<Rightarrow> 'w console \<Rightarrow> 'w console" where
  "accept_token j c =
     setSession (text_or_blank (json_field ''access_token'' j))
       (case json_number (json_field ''expires_in'' j) of Some x \<Rightarrow> \<lfloor>x\<rfloor> | None \<Rightarrow> 0) c"

definition credentials :: "string \<Rightarrow> string \<Rightarrow> json" where
  "credentials email password = JObj [(''email'', JStr email), (''password'', JStr password)]"

definition exchange_credentials :: "console_host \<Rightarrow> 'w net \<Rightarrow> string \<Rightarrow> string \<Rightarrow> string \<Rightarrow> string \<Rightarrow> 'w console
    \<Rightarrow> auth_state page \<times> 'w console" where
  "exchange_credentials h net path email password next c =
     (case api h net ''POST'' path (Some (credentials email password)) False c of
        (Inl e, c') \<Rightarrow> (Rendered (toAuthState e), c')
      | (Inr j, c') \<Rightarrow> (Redirect next, accept_token j c'))"

definition signIn :: "console_host \<Rightarrow> 'w net \<Rightarrow> form \<Rightarrow> 'w console \<Rightarrow> auth_state page \<times> 'w console" where
  "signIn h net f c =
     (let email = trim (field f ''email''); password = field f ''password'';
          missing = (if email = [] then [(''email'', ''Enter an email address.'')] else [])
            @ (if password = [] then [(''password'', ''Enter a password.'')] else []) in
      if missing \<noteq> []
      then (Rendered \<lparr>as_error = Some ''Enter an email address and a password.'', as_issues = missing,
              as_unreachable = False\<rparr>, c)
      else exchange_credentials h net ''/auth/login'' email password (safeNext (f ''next'')) c)"

definition console_register :: "console_host \<Rightarrow> 'w net \<Rightarrow> form \<Rightarrow> 'w console \<Rightarrow> auth_state page \<times> 'w console" where
  "console_register h net f c =
     (let email = trim (field f ''email''); password = field f ''password'' in
      if email = []
      then (Rendered \<lparr>as_error = Some ''Enter an email address.'', as_issues = [(''email'', ''Enter an email address.'')],
              as_unreachable = False\<rparr>, c)
      else if length password < 12
      then (Rendered \<lparr>as_error = Some ''The API requires a password of at least 12 characters.'',
              as_issues = [(''password'', ''At least 12 characters - the API enforces this.'')], as_unreachable = False\<rparr>, c)
      else exchange_credentials h net ''/auth/register'' email password ''/search'' c)"

definition signOut :: "'w console \<Rightarrow> auth_state page \<times> 'w console" where
  "signOut c = (Redirect ''/login'', clearSession c)"

end
