(* ===== verification/ConsoleActions.thy ===== *)
theory ConsoleActions
  imports Console
begin

text \<open>
  What the console does on a customer's behalf: the server actions of \<open>rooms/[id]/actions.ts\<close>,
  \<open>checkout/[id]/actions.ts\<close> and \<open>bookings/actions.ts\<close>, and the route handler the browser polls,
  \<open>app/api/bookings/[id]/route.ts\<close>. Where \<open>createHold\<close> throws a type error the model has \<^const>\<open>None\<close>. A dash in a message is written as a hyphen.
\<close>

section \<open>Holding a slot\<close>

datatype hold_status = HoldIdle | HoldConflict | HoldInvalid | HoldUnreachable | HoldError

record hold_state =
  hs_status :: hold_status
  hs_message :: "string option"
  hs_issues :: "(string \<times> string) list"
  hs_detail :: json

definition EMPTY_HOLD_STATE :: hold_state where
  "EMPTY_HOLD_STATE = \<lparr>hs_status = HoldIdle, hs_message = None, hs_issues = [], hs_detail = JObj []\<rparr>"

definition refused :: "string \<Rightarrow> hold_state" where
  "refused m = \<lparr>hs_status = HoldInvalid, hs_message = Some m, hs_issues = [], hs_detail = JObj []\<rparr>"

text \<open>
  \<open>lineItems.length > 0\<close> of whatever the field parses to; \<^const>\<open>None\<close> is the type error on \<open>null\<close>. A
  \<open>length\<close> among the fields of an object is not looked for: the panel sends arrays.
\<close>

fun has_items :: "json \<Rightarrow> bool option" where
  "has_items JNull = None"
| "has_items (JArr xs) = Some (xs \<noteq> [])"
| "has_items (JStr s) = Some (s \<noteq> [])"
| "has_items j = Some False"

definition nothing_held :: string where
  "nothing_held = '' Nothing was held - no request reached the booking path.''"

definition hold_failed :: "api_failure \<Rightarrow> hold_state" where
  "hold_failed e =
     (case e of
        ApiUnreachableError m t \<Rightarrow>
          \<lparr>hs_status = HoldUnreachable, hs_message = Some (m @ nothing_held), hs_issues = [], hs_detail = JObj []\<rparr>
      | ApiError status m body \<Rightarrow>
          \<lparr>hs_status = (if status = 409 then HoldConflict else if status = 422 then HoldInvalid else HoldError),
           hs_message = Some m, hs_issues = issues_of body, hs_detail = body\<rparr>)"

definition hold_body :: "string \<Rightarrow> string \<Rightarrow> string \<Rightarrow> (json \<times> bool) option \<Rightarrow> json" where
  "hold_body roomId startsAt endsAt items =
     JObj ([(''room_id'', JStr roomId), (''starts_at'', JStr startsAt), (''ends_at'', JStr endsAt)]
       @ (case items of Some (j, True) \<Rightarrow> [(''line_items'', j)] | _ \<Rightarrow> []))"

text \<open>The field with the line items: absent or blank, unreadable, or a value and whether it has entries.\<close>

definition read_items :: "console_host \<Rightarrow> string option \<Rightarrow> string + (json \<times> bool) option option" where
  "read_items h raw =
     (case raw of
        None \<Rightarrow> Inr (Some None)
      | Some s \<Rightarrow>
          if trim s = [] then Inr (Some None)
          else case ch_parse h s of
            None \<Rightarrow> Inl ''The equipment selection could not be read. Remove the line items and retry.''
          | Some j \<Rightarrow> Inr (map_option (\<lambda>b. Some (j, b)) (has_items j)))"

definition createHold :: "console_host \<Rightarrow> 'w net \<Rightarrow> form \<Rightarrow> 'w console \<Rightarrow> hold_state page option \<times> 'w console" where
  "createHold h net f c =
     (let roomId = field f ''room_id''; startsAt = field f ''starts_at''; endsAt = field f ''ends_at'' in
      if roomId = [] \<or> startsAt = [] \<or> endsAt = []
      then (Some (Rendered (refused ''Pick a slot before holding it.'')), c)
      else case read_items h (f ''line_items'') of
        Inl m \<Rightarrow> (Some (Rendered (refused m)), c)
      | Inr None \<Rightarrow> (None, c)
      | Inr (Some items) \<Rightarrow>
          (case api h net ''POST'' ''/bookings/hold'' (Some (hold_body roomId startsAt endsAt items)) True c of
             (Inl e, c') \<Rightarrow> (Some (Rendered (hold_failed e)), c')
           | (Inr answer, c') \<Rightarrow> (Some (Redirect (''/checkout/'' @ text_or_blank (json_field ''id'' answer))), c')))"

section \<open>Paying and extending\<close>

datatype console_pay_outcome = PayIdle | PayAccepted | PayReplayed | PayTransient | PayNoAnswer | PayConflict | PayFailure

record pay_state =
  py_outcome :: console_pay_outcome
  py_message :: "string option"
  py_payment :: "json option"
  py_detail :: json

definition EMPTY_PAY_STATE :: pay_state where
  "EMPTY_PAY_STATE = \<lparr>py_outcome = PayIdle, py_message = None, py_payment = None, py_detail = JObj []\<rparr>"

definition revalidatePath :: "string \<Rightarrow> 'w console \<Rightarrow> 'w console" where
  "revalidatePath p c = c\<lparr>cs_revalidated := cs_revalidated c @ [p]\<rparr>"

definition payForBooking :: "console_host \<Rightarrow> 'w net \<Rightarrow> form \<Rightarrow> 'w console \<Rightarrow> pay_state \<times> 'w console" where
  "payForBooking h net f c =
     (let bid = field f ''booking_id'' in
      if bid = []
      then (\<lparr>py_outcome = PayFailure, py_message = Some ''No booking to pay for.'', py_payment = None, py_detail = JObj []\<rparr>, c)
      else case api h net ''POST'' (''/bookings/'' @ bid @ ''/pay'') None True c of
        (Inr payment, c') \<Rightarrow>
          (\<lparr>py_outcome = (if json_field ''outcome'' payment = Some (JStr ''replayed'') then PayReplayed else PayAccepted),
            py_message = None, py_payment = Some payment, py_detail = JObj []\<rparr>, revalidatePath (''/checkout/'' @ bid) c')
      | (Inl (ApiUnreachableError m t), c') \<Rightarrow>
          (\<lparr>py_outcome = PayNoAnswer, py_message = Some m, py_payment = None, py_detail = JObj []\<rparr>, c')
      | (Inl (ApiError status m body), c') \<Rightarrow>
          if status = 502 \<or> status = 503
          then (\<lparr>py_outcome = (if status = 502 then PayTransient else PayNoAnswer), py_message = Some m,
                 py_payment = None, py_detail = body\<rparr>, c')
          else if status = 409
          then (\<lparr>py_outcome = PayConflict, py_message = Some m, py_payment = None, py_detail = body\<rparr>,
                revalidatePath (''/checkout/'' @ bid) c')
          else (\<lparr>py_outcome = PayFailure, py_message = Some m, py_payment = None, py_detail = body\<rparr>, c'))"

record extend_state =
  ex_message :: "string option"
  ex_ok :: bool

definition EMPTY_EXTEND_STATE :: extend_state where
  "EMPTY_EXTEND_STATE = \<lparr>ex_message = None, ex_ok = False\<rparr>"

definition extendHold :: "console_host \<Rightarrow> 'w net \<Rightarrow> form \<Rightarrow> 'w console \<Rightarrow> extend_state \<times> 'w console" where
  "extendHold h net f c =
     (let bid = field f ''booking_id'' in
      case api h net ''POST'' (''/bookings/'' @ bid @ ''/checkout'') None True c of
        (Inr b, c') \<Rightarrow> (\<lparr>ex_message = None, ex_ok = True\<rparr>, revalidatePath (''/checkout/'' @ bid) c')
      | (Inl (ApiUnreachableError m t), c') \<Rightarrow> (\<lparr>ex_message = Some m, ex_ok = False\<rparr>, c')
      | (Inl (ApiError status m body), c') \<Rightarrow>
          (\<lparr>ex_message = Some m, ex_ok = False\<rparr>, revalidatePath (''/checkout/'' @ bid) c'))"

section \<open>Cancelling\<close>

datatype cancel_status = CancelIdle | CancelDone | CancelConflict | CancelUnreachable | CancelError

record cancel_state =
  cn_status :: cancel_status
  cn_message :: "string option"
  cn_result :: "json option"

definition EMPTY_CANCEL_STATE :: cancel_state where
  "EMPTY_CANCEL_STATE = \<lparr>cn_status = CancelIdle, cn_message = None, cn_result = None\<rparr>"

definition cancelBooking :: "console_host \<Rightarrow> 'w net \<Rightarrow> form \<Rightarrow> 'w console \<Rightarrow> cancel_state \<times> 'w console" where
  "cancelBooking h net f c =
     (let bid = field f ''booking_id''; reason = trim (field f ''reason'') in
      if bid = [] then (\<lparr>cn_status = CancelError, cn_message = Some ''No booking to cancel.'', cn_result = None\<rparr>, c)
      else case api h net ''POST'' (''/bookings/'' @ bid @ ''/cancel'')
              (Some (JObj (if reason = [] then [] else [(''reason'', JStr reason)]))) True c of
        (Inr result, c') \<Rightarrow>
          (\<lparr>cn_status = CancelDone, cn_message = None, cn_result = Some result\<rparr>,
           revalidatePath (''/bookings/'' @ bid) (revalidatePath ''/bookings'' c'))
      | (Inl (ApiUnreachableError m t), c') \<Rightarrow>
          (\<lparr>cn_status = CancelUnreachable, cn_message = Some m, cn_result = None\<rparr>, c')
      | (Inl (ApiError status m body), c') \<Rightarrow>
          (\<lparr>cn_status = (if status = 409 then CancelConflict else CancelError), cn_message = Some m, cn_result = None\<rparr>,
           revalidatePath (''/bookings/'' @ bid) c'))"

section \<open>The route the browser polls\<close>

definition GET_booking :: "console_host \<Rightarrow> 'w net \<Rightarrow> string \<Rightarrow> 'w console \<Rightarrow> (nat \<times> json) \<times> 'w console" where
  "GET_booking h net bid c =
     (case api h net ''GET'' (''/bookings/'' @ bid) None True c of
        (Inr b, c') \<Rightarrow> ((200, b), c')
      | (Inl (ApiUnreachableError m t), c') \<Rightarrow> ((504, JObj [(''message'', JStr m)]), c')
      | (Inl (ApiError status m body), c') \<Rightarrow> ((status, JObj [(''message'', JStr m)]), c'))"

section \<open>Redirects of the pages\<close>

text \<open>
  What a page answers before it renders. The console's layout asks who is signed in; the sign-in page
  sends on whoever has a cookie.
\<close>

definition RootPage :: "'w console \<Rightarrow> unit page" where
  "RootPage c = Redirect (if hasSession c then ''/search'' else ''/login'')"

definition LoginPage :: "'w console \<Rightarrow> unit page" where
  "LoginPage c = (if hasSession c then Redirect ''/search'' else Rendered ())"

definition ConsoleLayout :: "console_host \<Rightarrow> (string \<Rightarrow> string) \<Rightarrow> 'w net \<Rightarrow> 'w console \<Rightarrow> json page \<times> 'w console" where
  "ConsoleLayout h encode net c = requireUser h encode net None c"

definition user_role_of :: "json \<Rightarrow> user_role option" where
  "user_role_of user = (case json_field ''role'' user of Some (JStr r) \<Rightarrow> role_of_name r | _ \<Rightarrow> None)"

definition VenuePage :: "console_host \<Rightarrow> (string \<Rightarrow> string) \<Rightarrow> 'w net \<Rightarrow> 'w console \<Rightarrow> json page \<times> 'w console" where
  "VenuePage h encode net c =
     (case requireUser h encode net (Some ''/venue'') c of
        (Rendered user, c') \<Rightarrow>
          (case user_role_of user of
             Some role \<Rightarrow>
               if hasVenueScope role then (Rendered user, c')
               else (Redirect (if role = PLATFORM_ADMIN then ''/reconciliation'' else ''/bookings''), c')
           | None \<Rightarrow> (Redirect ''/bookings'', c'))
      | (r, c') \<Rightarrow> (r, c'))"

definition ReconciliationPage :: "console_host \<Rightarrow> (string \<Rightarrow> string) \<Rightarrow> 'w net \<Rightarrow> 'w console \<Rightarrow> json page \<times> 'w console" where
  "ReconciliationPage h encode net c =
     (case requireUser h encode net (Some ''/reconciliation'') c of
        (Rendered user, c') \<Rightarrow>
          if user_role_of user = Some PLATFORM_ADMIN then (Rendered user, c') else (Redirect ''/bookings'', c')
      | (r, c') \<Rightarrow> (r, c'))"

text \<open>The navigation of a role.\<close>

record nav_item =
  nv_href :: string
  nv_label :: string
  nv_match :: "string list"

definition navFor :: "user_role \<Rightarrow> nav_item list" where
  "navFor role =
     (let search = \<lparr>nv_href = ''/search'', nv_label = ''Search'', nv_match = [''/search'', ''/rooms'']\<rparr>;
          bookings = \<lparr>nv_href = ''/bookings'', nv_label = ''My bookings'', nv_match = [''/bookings'', ''/checkout'']\<rparr> in
      if role = PLATFORM_ADMIN
      then [search, bookings\<lparr>nv_label := ''All bookings''\<rparr>,
        \<lparr>nv_href = ''/reconciliation'', nv_label = ''Reconciliation'', nv_match = [''/reconciliation'']\<rparr>]
      else if hasVenueScope role
      then [search, bookings, \<lparr>nv_href = ''/venue'', nv_label = ''Venue'', nv_match = [''/venue'']\<rparr>]
      else [search, bookings])"

definition nav_active :: "string \<Rightarrow> nav_item \<Rightarrow> bool" where
  "nav_active pathname item \<longleftrightarrow>
     list_ex (\<lambda>p. pathname = p \<or> take (length p + 1) pathname = p @ ''/'') (nv_match item)"

end
