(* ===== verification/CheckoutScreen.thy ===== *)
theory CheckoutScreen
  imports ConsoleActions
begin

text \<open>
  The checkout screen, \<open>apps/web/app/(console)/checkout/[id]/checkout-client.tsx\<close>: its state, what each
  event does to it, and what it offers. An effect of React runs when one of the values it names has
  changed since the last rendering; so does \<open>poll_effect\<close>. A poll asks at one event and is answered at a
  later one, if at all; so is the button that asks again. \<open>sc_polls\<close> speaks of the polls made.
\<close>

section \<open>State\<close>

definition POLL_INTERVAL_MS :: int where "POLL_INTERVAL_MS = 2000"
definition POLL_CEILING_MS :: int where "POLL_CEILING_MS = 180000"

definition TERMINAL :: "booking_status set" where
  "TERMINAL = {CONFIRMED, COMPLETED, FAILED, EXPIRED, CANCELLED, REFUNDED}"

text \<open>The fields of a booking that the screen decides by.\<close>

record checkout_booking =
  kb_status :: booking_status
  kb_expires_at :: "instant option"
  kb_rearm_count :: int

record checkout_screen =
  sc_booking :: checkout_booking
  sc_expiredLocally :: bool
  sc_pollGaveUp :: bool
  sc_pollError :: "string option"
  sc_startedAt :: "instant option"
  sc_pay :: pay_state
  sc_paying :: bool
  sc_extend :: extend_state
  sc_extending :: bool
  sc_left :: bool
  sc_polls :: "instant list"

definition waiting :: "checkout_screen \<Rightarrow> bool" where
  "waiting s \<longleftrightarrow> kb_status (sc_booking s) = PENDING_PAYMENT"

definition polling :: "checkout_screen \<Rightarrow> bool" where
  "polling s \<longleftrightarrow> waiting s \<and> \<not> sc_pollGaveUp s"

definition live :: "checkout_screen \<Rightarrow> bool" where
  "live s \<longleftrightarrow> kb_status (sc_booking s) = HELD \<or> kb_status (sc_booking s) = PENDING_PAYMENT"

definition holdIsUp :: "checkout_screen \<Rightarrow> bool" where
  "holdIsUp s \<longleftrightarrow> sc_expiredLocally s \<and> live s"

definition extensionsLeft :: "int \<Rightarrow> checkout_screen \<Rightarrow> int" where
  "extensionsLeft maxRearms s = max 0 (maxRearms - kb_rearm_count (sc_booking s))"

section \<open>Effects\<close>

text \<open>The effect on a booking the server has rendered.\<close>

definition initial_effect :: "checkout_booking \<Rightarrow> checkout_screen \<Rightarrow> checkout_screen" where
  "initial_effect b s =
     (let s' = s\<lparr>sc_booking := b\<rparr> in
      if kb_status b \<in> TERMINAL then s' else s'\<lparr>sc_pollGaveUp := False, sc_startedAt := None\<rparr>)"

text \<open>The effect that starts the timer; it runs only when \<open>waiting\<close> or \<open>pollGaveUp\<close> has changed.\<close>

definition start_poll :: "instant \<Rightarrow> checkout_screen \<Rightarrow> checkout_screen" where
  "start_poll now s =
     (if polling s then s\<lparr>sc_startedAt := Some (case sc_startedAt s of Some t \<Rightarrow> t | None \<Rightarrow> now)\<rparr> else s)"

definition poll_effect :: "instant \<Rightarrow> checkout_screen \<Rightarrow> checkout_screen \<Rightarrow> checkout_screen" where
  "poll_effect now before s =
     (if waiting s = waiting before \<and> sc_pollGaveUp s = sc_pollGaveUp before then s else start_poll now s)"

definition mounted :: "checkout_booking \<Rightarrow> instant \<Rightarrow> checkout_screen" where
  "mounted b now = start_poll now (initial_effect b
     \<lparr>sc_booking = b, sc_expiredLocally = False, sc_pollGaveUp = False, sc_pollError = None, sc_startedAt = None,
      sc_pay = EMPTY_PAY_STATE, sc_paying = False, sc_extend = EMPTY_EXTEND_STATE, sc_extending = False,
      sc_left = False, sc_polls = []\<rparr>)"

section \<open>Events\<close>

datatype poll_answer = SignedOut | NotOk nat "string option" | Fresh checkout_booking

datatype screen_event =
    ServerRender checkout_booking
  | PollTick
  | AskAgain
  | PollAnswer poll_answer
  | CountdownTick
  | PayPressed
  | PayReturned pay_state
  | ExtendPressed
  | ExtendReturned extend_state

definition take_answer :: "poll_answer \<Rightarrow> checkout_screen \<Rightarrow> checkout_screen" where
  "take_answer a s =
     (case a of
        SignedOut \<Rightarrow> s\<lparr>sc_left := True\<rparr>
      | NotOk status m \<Rightarrow>
          s\<lparr>sc_pollError := Some (case m of Some t \<Rightarrow> t
            | None \<Rightarrow> ''The console could not re-read the booking ('' @ show_nat status @ '').'')\<rparr>
      | Fresh b \<Rightarrow> s\<lparr>sc_pollError := None, sc_booking := b\<rparr>)"

definition poll_tick :: "instant \<Rightarrow> checkout_screen \<Rightarrow> checkout_screen" where
  "poll_tick now s =
     (if \<not> polling s then s
      else if now - (case sc_startedAt s of Some t \<Rightarrow> t | None \<Rightarrow> now) > POLL_CEILING_MS
      then s\<lparr>sc_pollGaveUp := True\<rparr>
      else s\<lparr>sc_polls := sc_polls s @ [now]\<rparr>)"

definition countdown_tick :: "instant \<Rightarrow> checkout_screen \<Rightarrow> checkout_screen" where
  "countdown_tick now s =
     (case kb_expires_at (sc_booking s) of
        Some t \<Rightarrow> if live s \<and> cd_expired (Countdown t 0 now) then s\<lparr>sc_expiredLocally := True\<rparr> else s
      | None \<Rightarrow> s)"

fun handle_event :: "instant \<Rightarrow> screen_event \<Rightarrow> checkout_screen \<Rightarrow> checkout_screen" where
  "handle_event now (ServerRender b) s = initial_effect b s"
| "handle_event now PollTick s = poll_tick now s"
| "handle_event now AskAgain s = s"
| "handle_event now (PollAnswer a) s = take_answer a s"
| "handle_event now CountdownTick s = countdown_tick now s"
| "handle_event now PayPressed s = s\<lparr>sc_paying := True\<rparr>"
| "handle_event now (PayReturned p) s = s\<lparr>sc_pay := p, sc_paying := False\<rparr>"
| "handle_event now ExtendPressed s = s\<lparr>sc_extending := True\<rparr>"
| "handle_event now (ExtendReturned e) s = s\<lparr>sc_extend := e, sc_extending := False\<rparr>"

definition screen_step :: "instant \<times> screen_event \<Rightarrow> checkout_screen \<Rightarrow> checkout_screen" where
  "screen_step e s = poll_effect (fst e) s (handle_event (fst e) (snd e) s)"

definition screen_run :: "(instant \<times> screen_event) list \<Rightarrow> checkout_screen \<Rightarrow> checkout_screen" where
  "screen_run es s = fold screen_step es s"

section \<open>What the screen offers\<close>

definition pay_enabled :: "checkout_screen \<Rightarrow> bool" where
  "pay_enabled s \<longleftrightarrow>
     (kb_status (sc_booking s) = HELD \<and> \<not> (sc_paying s \<or> holdIsUp s))
     \<or> (kb_status (sc_booking s) = PENDING_PAYMENT \<and> \<not> sc_paying s)"

definition extend_enabled :: "int \<Rightarrow> checkout_screen \<Rightarrow> bool" where
  "extend_enabled maxRearms s \<longleftrightarrow> kb_status (sc_booking s) = HELD
     \<and> \<not> (sc_extending s \<or> holdIsUp s \<or> extensionsLeft maxRearms s = 0)"

datatype card =
    CardConfirmed | CardRefunded | CardCancelled | CardFailed | CardExpired
  | CardTransient | CardNoAnswer | CardConflict | CardError | CardGaveUp | CardWaiting | CardHoldUp | CardHeld

definition StateCard :: "checkout_screen \<Rightarrow> card" where
  "StateCard s =
     (let st = kb_status (sc_booking s); o' = py_outcome (sc_pay s) in
      if st = CONFIRMED \<or> st = COMPLETED then CardConfirmed
      else if st = REFUNDED then CardRefunded
      else if st = CANCELLED then CardCancelled
      else if st = FAILED then CardFailed
      else if st = EXPIRED then CardExpired
      else if o' = PayTransient then CardTransient
      else if o' = PayNoAnswer then CardNoAnswer
      else if o' = PayConflict then CardConflict
      else if o' = PayFailure \<and> py_message (sc_pay s) \<noteq> None \<and> py_message (sc_pay s) \<noteq> Some [] then CardError
      else if waiting s then (if sc_pollGaveUp s then CardGaveUp else CardWaiting)
      else if holdIsUp s then CardHoldUp
      else CardHeld)"

section \<open>Runs\<close>

lemma screen_run_simps [simp]:
  "screen_run [] s = s"
  "screen_run (e # es) s = screen_run es (screen_step e s)"
  "screen_run (es @ fs) s = screen_run fs (screen_run es s)"
  by (simp_all add: screen_run_def)

lemma start_poll_sel [simp]:
  "sc_booking (start_poll now s) = sc_booking s" "sc_expiredLocally (start_poll now s) = sc_expiredLocally s"
  "sc_pollGaveUp (start_poll now s) = sc_pollGaveUp s" "sc_polls (start_poll now s) = sc_polls s"
  "sc_pay (start_poll now s) = sc_pay s"
  by (simp_all add: start_poll_def)

lemma poll_effect_sel [simp]:
  "sc_booking (poll_effect now s0 s) = sc_booking s" "sc_expiredLocally (poll_effect now s0 s) = sc_expiredLocally s"
  "sc_pollGaveUp (poll_effect now s0 s) = sc_pollGaveUp s" "sc_polls (poll_effect now s0 s) = sc_polls s"
  "sc_pay (poll_effect now s0 s) = sc_pay s"
  by (simp_all add: poll_effect_def)

lemma poll_effect_started: "sc_startedAt s = Some t \<Longrightarrow> sc_startedAt (poll_effect now s0 s) = Some t"
  by (simp add: poll_effect_def start_poll_def)

text \<open>The countdown's word is final: nothing takes it back.\<close>

lemma handle_event_expired: "sc_expiredLocally s \<Longrightarrow> sc_expiredLocally (handle_event now e s)"
  by (cases e) (auto simp: initial_effect_def poll_tick_def take_answer_def countdown_tick_def Let_def
      split: option.splits poll_answer.splits)

lemma screen_run_expired: "sc_expiredLocally s \<Longrightarrow> sc_expiredLocally (screen_run es s)"
  by (induction es arbitrary: s) (simp_all add: screen_step_def handle_event_expired)

text \<open>
  C38. Once the countdown has crossed zero, a screen that shows a held booking never again lets the customer
  pay or extend, whatever the server renders later: not even after an extension that was on its way has
  given the hold a new deadline.
\<close>

lemma expired_screen_stuck:
  assumes "kb_expires_at (sc_booking s) = Some t" and "t \<le> now" and "live s"
    and "kb_status (sc_booking (screen_run es (screen_step (now, CountdownTick) s))) = HELD"
  shows "\<not> pay_enabled (screen_run es (screen_step (now, CountdownTick) s))
    \<and> \<not> extend_enabled maxRearms (screen_run es (screen_step (now, CountdownTick) s))"
proof -
  have "sc_expiredLocally (screen_step (now, CountdownTick) s)"
    using assms(1-3) by (simp add: screen_step_def countdown_tick_def Countdown_def Let_def)
  then have "sc_expiredLocally (screen_run es (screen_step (now, CountdownTick) s))" by (rule screen_run_expired)
  then show ?thesis using assms(4) by (simp add: pay_enabled_def extend_enabled_def holdIsUp_def live_def)
qed

section \<open>The ceiling of the poll\<close>

definition tick_times :: "(instant \<times> screen_event) list \<Rightarrow> instant list" where
  "tick_times es = map fst (filter (\<lambda>e. snd e = PollTick) es)"

lemma tick_times_simps [simp]:
  "tick_times [] = []"
  "tick_times ((t, e) # es) = (if e = PollTick then t # tick_times es else tick_times es)"
  by (simp_all add: tick_times_def)

abbreviation apart :: "int list \<Rightarrow> bool" where
  "apart ts \<equiv> sorted_wrt (\<lambda>a b. a + POLL_INTERVAL_MS \<le> b) ts"

lemma apart_length: "apart (t # ts) \<Longrightarrow> ts \<noteq> [] \<Longrightarrow> t + POLL_INTERVAL_MS * int (length ts) \<le> last ts"
proof (induction ts arbitrary: t)
  case (Cons u us)
  have step: "t + POLL_INTERVAL_MS \<le> u" and rest: "apart (u # us)" using Cons.prems(1) by simp_all
  show ?case
  proof (cases "us = []")
    case False
    have "u + POLL_INTERVAL_MS * int (length us) \<le> last us" by (rule Cons.IH [OF rest False])
    then show ?thesis using step False by (simp add: POLL_INTERVAL_MS_def)
  qed (use step in simp)
qed simp

lemma not_tick_polls: "e \<noteq> PollTick \<Longrightarrow> sc_polls (handle_event now e s) = sc_polls s"
  by (cases e) (auto simp: initial_effect_def take_answer_def countdown_tick_def Let_def
      split: option.splits poll_answer.splits)

lemma handle_event_started:
  assumes "sc_startedAt s = Some t" and "\<And>b. e \<noteq> ServerRender b"
  shows "sc_startedAt (handle_event now e s) = Some t"
  using assms by (cases e) (auto simp: poll_tick_def take_answer_def countdown_tick_def
      split: option.splits poll_answer.splits)

lemma screen_run_polls:
  assumes "sc_startedAt s = Some t0" and "\<forall>e \<in> set es. \<forall>b. snd e \<noteq> ServerRender b" and "apart (t # tick_times es)"
  shows "\<exists>ts. sc_polls (screen_run es s) = sc_polls s @ ts \<and> apart (t # ts) \<and> (\<forall>u \<in> set ts. u \<le> t0 + POLL_CEILING_MS)"
  using assms
proof (induction es arbitrary: s t)
  case (Cons e es)
  obtain now ev where e: "e = (now, ev)" by force
  let ?s = "screen_step e s"
  have started: "sc_startedAt ?s = Some t0"
    using Cons.prems(1,2) by (auto simp: screen_step_def e intro!: poll_effect_started handle_event_started)
  have rest: "\<forall>e \<in> set es. \<forall>b. snd e \<noteq> ServerRender b" using Cons.prems(2) by simp
  show ?case
  proof (cases "sc_polls ?s = sc_polls s")
    case True
    have "apart (t # tick_times es)" using Cons.prems(3) by (auto simp: e split: if_splits)
    then show ?thesis using Cons.IH [OF started rest] True by simp
  next
    case False
    then have ev: "ev = PollTick" using not_tick_polls by (auto simp: screen_step_def e)
    then have asked: "sc_polls ?s = sc_polls s @ [now]" "now \<le> t0 + POLL_CEILING_MS"
      using False Cons.prems(1) by (auto simp: screen_step_def e poll_tick_def split: if_splits)
    have "apart (now # tick_times es)" "t + POLL_INTERVAL_MS \<le> now" using Cons.prems(3) by (simp_all add: e ev)
    then obtain ts where ts: "sc_polls (screen_run es ?s) = sc_polls ?s @ ts" "apart (now # ts)"
      "\<forall>u \<in> set ts. u \<le> t0 + POLL_CEILING_MS"
      using Cons.IH [OF started rest] by blast
    have "apart (t # now # ts)" using ts(2) \<open>t + POLL_INTERVAL_MS \<le> now\<close> by (fastforce simp: POLL_INTERVAL_MS_def)
    then show ?thesis using ts asked by (intro exI [of _ "now # ts"]) simp
  qed
qed (intro exI [of _ "[]"], simp)

text \<open>
  Until the server renders the page again, the screen that began to poll at an instant makes no request
  later than three minutes after it, and so at most ninety.
\<close>

lemma poll_ceiling:
  assumes "sc_startedAt s = Some t0" and "\<forall>e \<in> set es. \<forall>b. snd e \<noteq> ServerRender b" and "apart (t0 # tick_times es)"
  shows "\<exists>ts. sc_polls (screen_run es s) = sc_polls s @ ts \<and> length ts \<le> 90 \<and> (\<forall>u \<in> set ts. u \<le> t0 + POLL_CEILING_MS)"
proof -
  obtain ts where ts: "sc_polls (screen_run es s) = sc_polls s @ ts" "apart (t0 # ts)"
    "\<forall>u \<in> set ts. u \<le> t0 + POLL_CEILING_MS"
    using screen_run_polls [OF assms] by blast
  have "length ts \<le> 90"
  proof (cases "ts = []")
    case False
    have "t0 + POLL_INTERVAL_MS * int (length ts) \<le> last ts" by (rule apart_length [OF ts(2) False])
    also have "\<dots> \<le> t0 + POLL_CEILING_MS" using ts(3) False by simp
    finally show ?thesis by (simp add: POLL_INTERVAL_MS_def POLL_CEILING_MS_def)
  qed simp
  then show ?thesis using ts by blast
qed

definition still_pending :: "screen_event \<Rightarrow> bool" where
  "still_pending e \<longleftrightarrow> (case e of
       PollTick \<Rightarrow> True
     | PollAnswer (Fresh b) \<Rightarrow> kb_status b = PENDING_PAYMENT
     | PollAnswer (NotOk status m) \<Rightarrow> True
     | _ \<Rightarrow> False)"

lemma pending_step:
  assumes "polling s" and "sc_startedAt s = None" and "still_pending e"
  shows "polling (screen_step (now, e) s)" "sc_startedAt (screen_step (now, e) s) = None"
    "sc_polls (screen_step (now, e) s) = sc_polls s @ tick_times [(now, e)]"
  using assms by (auto simp: screen_step_def poll_effect_def polling_def waiting_def still_pending_def poll_tick_def
      take_answer_def POLL_CEILING_MS_def split: screen_event.splits poll_answer.splits)

text \<open>
  C39. Retrying the charge on a screen that polls takes the ceiling away: the page is rendered anew with the
  booking still pending, the start of the poll is forgotten, the effect that would set it again does not
  run, and from then on every tick asks, for as long as the booking stays pending.
\<close>

lemma retry_removes_ceiling:
  assumes "polling s" and "kb_status b = PENDING_PAYMENT" and "list_all (still_pending \<circ> snd) es"
  shows "polling (screen_run es (screen_step (now, ServerRender b) s))
    \<and> sc_polls (screen_run es (screen_step (now, ServerRender b) s)) = sc_polls s @ tick_times es"
proof -
  have run: "polling (screen_run es s') \<and> sc_polls (screen_run es s') = sc_polls s' @ tick_times es"
    if "polling s'" "sc_startedAt s' = None" "list_all (still_pending \<circ> snd) es" for es s'
    using that
  proof (induction es arbitrary: s')
    case (Cons e es)
    obtain t ev where e: "e = (t, ev)" by force
    then have "still_pending ev" using Cons.prems(3) by simp
    then show ?case using Cons pending_step [OF Cons.prems(1,2), of ev t] by (auto simp: e)
  qed simp
  let ?s = "screen_step (now, ServerRender b) s"
  have "polling ?s" "sc_startedAt ?s = None" "sc_polls ?s = sc_polls s"
    using assms(1,2) by (auto simp: screen_step_def poll_effect_def initial_effect_def polling_def waiting_def TERMINAL_def)
  then show ?thesis using run [of ?s es] assms(3) by simp
qed

text \<open>A charge that was not answered leaves the booking as the screen had it, so the screen does not poll for its outcome.\<close>

lemma unanswered_charge_not_polled:
  assumes "kb_status (sc_booking s) = HELD"
  shows "sc_polls (screen_run [(t, PayReturned p), (u, PollTick)] s) = sc_polls s"
  using assms by (simp add: screen_step_def poll_effect_def start_poll_def polling_def waiting_def poll_tick_def)

end
