(* ===== verification/BookingPanel.thy ===== *)
theory BookingPanel
  imports ConsoleActions HoldProperties
begin

text \<open>
  The panel that turns a slot into a hold, \<open>apps/web/app/(console)/rooms/[id]/booking-panel.tsx\<close>: the
  items picked, the estimate, the form that is sent, and which of its callouts an answer gets. Slots are
  instants here; the panel passes on the texts the API sent.
\<close>

section \<open>The items\<close>

record line_item_draft =
  dr_equipment_type_id :: string
  dr_quantity :: js_value
  dr_name :: string
  dr_rate_minor :: string

text \<open>\<open>a + b\<close> on numbers.\<close>

fun sum_value :: "js_value \<Rightarrow> js_value \<Rightarrow> js_value" where
  "sum_value (Finite x) (Finite y) = to_double (x + y)"
| "sum_value NaN y = NaN"
| "sum_value x NaN = NaN"
| "sum_value PosInf NegInf = NaN"
| "sum_value NegInf PosInf = NaN"
| "sum_value PosInf y = PosInf"
| "sum_value x PosInf = PosInf"
| "sum_value NegInf y = NegInf"
| "sum_value x NegInf = NegInf"

text \<open>\<open>Math.max(1, Number(quantity) || 1)\<close>\<close>

definition picked_quantity :: "string \<Rightarrow> js_value" where
  "picked_quantity q =
     (case Number q of
        Finite x \<Rightarrow> Finite (if x = 0 then 1 else max 1 x)
      | PosInf \<Rightarrow> PosInf
      | _ \<Rightarrow> Finite 1)"

definition draft_of :: "equipment_type \<Rightarrow> string \<Rightarrow> line_item_draft" where
  "draft_of e q = \<lparr>dr_equipment_type_id = e_id e, dr_quantity = picked_quantity q, dr_name = e_name e,
     dr_rate_minor = show_int (e_hourly_rate_minor e)\<rparr>"

fun addItem :: "line_item_draft \<Rightarrow> line_item_draft list \<Rightarrow> line_item_draft list" where
  "addItem d [] = [d]"
| "addItem d (x # xs) =
     (if dr_equipment_type_id x = dr_equipment_type_id d
      then x\<lparr>dr_quantity := sum_value (dr_quantity x) (dr_quantity d)\<rparr> # xs
      else x # addItem d xs)"

definition removeItem :: "string \<Rightarrow> line_item_draft list \<Rightarrow> line_item_draft list" where
  "removeItem eid = filter (\<lambda>c. dr_equipment_type_id c \<noteq> eid)"

section \<open>The estimate\<close>

text \<open>\<^const>\<open>None\<close> is the error that \<open>BigInt\<close> throws while the panel renders.\<close>

fun line_totals :: "int \<Rightarrow> line_item_draft list \<Rightarrow> int option" where
  "line_totals halfHours [] = Some 0"
| "line_totals halfHours (x # xs) =
     (case (js_BigInt (dr_rate_minor x), bigint_of_value (dr_quantity x), line_totals halfHours xs) of
        (Some rate, Some q, Some rest) \<Rightarrow> Some (bigint_div (halfHours * rate * q) 2 + rest)
      | _ \<Rightarrow> None)"

definition estimate :: "(instant \<times> instant) option \<Rightarrow> string option \<Rightarrow> line_item_draft list \<Rightarrow> int option option" where
  "estimate chosen hourlyRateMinor items =
     (case (chosen, hourlyRateMinor) of
        (Some (starts, ends), Some rate) \<Rightarrow>
          (let halfHours = math_round (js_mul (js_div (js_of_int (ends - starts)) 3600000) 2) in
           case (js_BigInt rate, line_totals halfHours items) of
             (Some r, Some lines) \<Rightarrow> Some (Some (bigint_div (halfHours * r) 2 + lines))
           | _ \<Rightarrow> None)
      | _ \<Rightarrow> Some None)"

section \<open>The form and the answer\<close>

text \<open>A number that is not finite is \<open>null\<close> in a JSON text.\<close>

fun json_of_value :: "js_value \<Rightarrow> json" where
  "json_of_value (Finite x) = JNum x"
| "json_of_value v = JNull"

definition panel_items :: "line_item_draft list \<Rightarrow> json" where
  "panel_items items = JArr (map (\<lambda>x. JObj [(''equipment_type_id'', JStr (dr_equipment_type_id x)),
     (''quantity'', json_of_value (dr_quantity x))]) items)"

definition panel_form :: "(json \<Rightarrow> string) \<Rightarrow> string \<Rightarrow> (string \<times> string) option \<Rightarrow> line_item_draft list \<Rightarrow> form" where
  "panel_form stringify roomId chosen items =
     [''room_id'' \<mapsto> roomId,
      ''starts_at'' \<mapsto> (case chosen of None \<Rightarrow> [] | Some (s, e) \<Rightarrow> s),
      ''ends_at'' \<mapsto> (case chosen of None \<Rightarrow> [] | Some (s, e) \<Rightarrow> e),
      ''line_items'' \<mapsto> stringify (panel_items items)]"

datatype hold_callout =
    NoCallout
  | NotEnoughEquipment "json list"
  | SlotGone "string option" "string option"
  | Rejected "string option" "(string \<times> string) list"
  | NothingCreated "string option"
  | HoldFailed "string option" "(string \<times> string) list"

definition ConflictCallout :: "string option \<Rightarrow> json \<Rightarrow> hold_callout" where
  "ConflictCallout message detail =
     (case json_field ''shortfalls'' detail of
        Some (JArr (s # ss)) \<Rightarrow> NotEnoughEquipment (s # ss)
      | _ \<Rightarrow> SlotGone message (json_string (json_field ''reason'' detail)))"

definition hold_callout_of :: "hold_state \<Rightarrow> hold_callout" where
  "hold_callout_of s =
     (case hs_status s of
        HoldIdle \<Rightarrow> NoCallout
      | HoldConflict \<Rightarrow> ConflictCallout (hs_message s) (hs_detail s)
      | HoldInvalid \<Rightarrow> Rejected (hs_message s) (hs_issues s)
      | HoldUnreachable \<Rightarrow> NothingCreated (hs_message s)
      | HoldError \<Rightarrow> HoldFailed (hs_message s) (hs_issues s))"

section \<open>What is sent\<close>

text \<open>A type is in the list once, whatever is added and removed, so the API never refuses a repeated one.\<close>

lemma addItem_ids:
  "map dr_equipment_type_id (addItem d xs) =
     (if dr_equipment_type_id d \<in> dr_equipment_type_id ` set xs then map dr_equipment_type_id xs
      else map dr_equipment_type_id xs @ [dr_equipment_type_id d])"
  by (induction xs) auto

lemma addItem_distinct:
  "distinct (map dr_equipment_type_id xs) \<Longrightarrow> distinct (map dr_equipment_type_id (addItem d xs))"
  by (simp add: addItem_ids)

lemma removeItem_distinct:
  "distinct (map dr_equipment_type_id xs) \<Longrightarrow> distinct (map dr_equipment_type_id (removeItem eid xs))"
  by (simp add: removeItem_def distinct_map_filter)

text \<open>The line items of a request, where every quantity is an integer.\<close>

definition sent_item :: "line_item_draft \<Rightarrow> (string \<times> int) option" where
  "sent_item x = map_option (Pair (dr_equipment_type_id x)) (bigint_of_value (dr_quantity x))"

definition offered :: "equipment_type list \<Rightarrow> line_item_draft \<Rightarrow> bool" where
  "offered types x \<longleftrightarrow> list_ex (\<lambda>e. e_id e = dr_equipment_type_id x \<and> show_int (e_hourly_rate_minor e) = dr_rate_minor x) types"

lemma draft_offered: "e \<in> set types \<Longrightarrow> offered types (draft_of e q)"
  by (auto simp: offered_def draft_of_def list_ex_iff)

lemma addItem_offered: "list_all (offered types) xs \<Longrightarrow> offered types d \<Longrightarrow> list_all (offered types) (addItem d xs)"
  by (induction xs) (auto simp: offered_def)

section \<open>The estimate is the price\<close>

definition type_of_item :: "(uuid \<Rightarrow> int) \<Rightarrow> line_item_draft \<Rightarrow> equipment_type \<Rightarrow> bool" where
  "type_of_item w x e \<longleftrightarrow> e_id e = dr_equipment_type_id x \<and> show_int (e_hourly_rate_minor e) = dr_rate_minor x
     \<and> bigint_of_value (dr_quantity x) = Some (w (e_id e))"

lemma line_totals_types:
  assumes "list_all2 (type_of_item w) items es"
  shows "line_totals h items = Some (\<Sum>e\<leftarrow>es. bigint_div (h * e_hourly_rate_minor e * w (e_id e)) 2)"
  using assms
proof (induction rule: list_all2_induct)
  case (Cons x xs e es)
  have "js_BigInt (dr_rate_minor x) = Some (e_hourly_rate_minor e)"
    using Cons.hyps(1) js_BigInt_show_int [of "e_hourly_rate_minor e"] by (simp add: type_of_item_def)
  then show ?case using Cons by (simp add: type_of_item_def)
qed simp

lemma list_all2_choice: "\<forall>x \<in> set xs. \<exists>y. P x y \<Longrightarrow> \<exists>ys. list_all2 P xs ys"
proof (induction xs)
  case (Cons x xs)
  then obtain y ys where "P x y" "list_all2 P xs ys" by auto
  then show ?case by (intro exI [of _ "y # ys"]) simp
qed (intro exI [of _ "[]"], simp)

lemma wanted_item: "distinct (map fst (hi_line_items i)) \<Longrightarrow> (eid, q) \<in> set (hi_line_items i) \<Longrightarrow> wanted i eid = q"
  by (simp add: wanted_def requested_quantities_def rev_map [symmetric])

lemma sent_item_ids: "map sent_item xs = map Some lis \<Longrightarrow> map fst lis = map dr_equipment_type_id xs"
proof (induction xs arbitrary: lis)
  case (Cons x xs)
  then show ?case by (cases lis) (auto simp: sent_item_def)
qed simp

text \<open>The rows that a hold locks are the types of its items.\<close>

lemma locked_types:
  assumes locked: "lockEquipmentTypes (requested_ids i) d = Inr locked" "length locked = length (requested_ids i)"
    and types: "distinct (map e_id (t_equipment_types d))" "\<forall>e \<in> set (t_equipment_types d). uuid_in (e_id e) = e_id e"
    and es: "set es \<subseteq> set (t_equipment_types d)" "map e_id es = map fst (hi_line_items i)"
    and items: "distinct (map fst (hi_line_items i))"
  shows "mset locked = mset es"
proof -
  have ids: "set (requested_ids i) = e_id ` set es"
    using es(2) by (metis image_set requested_ids_def set_remdups set_sort)
  have "uuid_in ` e_id ` set es = e_id ` set es" using types(2) es(1) by (auto simp: image_iff) (metis subsetD)+
  then have "set locked = {e \<in> set (t_equipment_types d). e_id e \<in> e_id ` set es}"
    using lockEquipmentTypes_eq_Inr [OF locked(1)] ids by simp
  then have "set locked = set es"
    using es(1) types(1) by (auto simp: distinct_map dest: inj_onD)
  moreover have "distinct es" using es(2) items by (metis distinct_map)
  moreover have "distinct locked"
    using lockEquipmentTypes_distinct [OF locked(1) types(1)] by (simp add: distinct_map)
  ultimately show ?thesis by (simp add: set_eq_iff_mset_eq_distinct)
qed

text \<open>
  C36. The estimate of the panel is the total that the hold writes, in the arithmetic of both sides: for
  the rate of the room and for items that were picked from the venue's types, whatever the order in which
  the rows are locked and priced.
\<close>

lemma estimate_agrees:
  assumes held: "hold env off i p now att d = (Inr h, d')" "0 < TRANSIENT_RETRY_ATTEMPTS env" "HoldSchema i"
    and types: "distinct (map e_id (t_equipment_types d))" "\<forall>e \<in> set (t_equipment_types d). uuid_in (e_id e) = e_id e"
    and room: "List.find (\<lambda>r. r_id r = uuid_in (hi_room_id i)) (t_rooms d) = Some room"
    and items: "list_all (offered (t_equipment_types d)) items" "map sent_item items = map Some (hi_line_items i)"
  shows "estimate (Some (hi_starts_at i, hi_ends_at i)) (Some (show_int (r_hourly_rate_minor room))) items
    = Some (Some (b_total_minor (hr_booking h)))"
proof -
  let ?hours = "duration_hours (hi_starts_at i) (hi_ends_at i)"
  let ?half = "math_round (js_mul ?hours 2)"
  have keys: "distinct (map fst (hi_line_items i))" using held(3) by (simp add: HoldSchema_def)
  have "\<exists>e. e \<in> set (t_equipment_types d) \<and> type_of_item (wanted i) x e" if x: "x \<in> set items" for x
  proof -
    obtain eid q where q: "sent_item x = Some (eid, q)" "(eid, q) \<in> set (hi_line_items i)"
      using items(2) x by (metis imageE image_eqI list.set_map surj_pair)
    obtain e where "e \<in> set (t_equipment_types d)" "e_id e = dr_equipment_type_id x"
      "show_int (e_hourly_rate_minor e) = dr_rate_minor x"
      using items(1) x by (auto simp: list_all_iff offered_def list_ex_iff)
    then show ?thesis using q(1) wanted_item [OF keys q(2)] by (auto simp: sent_item_def type_of_item_def)
  qed
  then have "\<exists>es. list_all2 (\<lambda>x e. e \<in> set (t_equipment_types d) \<and> type_of_item (wanted i) x e) items es"
    by (intro list_all2_choice ballI)
  then obtain es where "list_all2 (\<lambda>x e. e \<in> set (t_equipment_types d) \<and> type_of_item (wanted i) x e) items es" ..
  then have es: "set es \<subseteq> set (t_equipment_types d)" "list_all2 (type_of_item (wanted i)) items es"
    by (auto simp: list_all2_conv_all_nth in_set_conv_nth)
  have "map e_id es = map dr_equipment_type_id items"
    using es(2) by (induction rule: list_all2_induct) (simp_all add: type_of_item_def)
  then have ids: "map e_id es = map fst (hi_line_items i)" using sent_item_ids [OF items(2)] by simp
  obtain ctx k where hold: "loadRoomContext (hi_room_id i) d = Inr ctx" "holdOnce env i ctx ?hours p (att k) d = Inr (h, d')"
    using held(1,2) by (cases rule: hold_cases) simp_all
  obtain ids d1 ps b d2 where steps:
    "expireStaleHoldsForRoom (uuid_in (hi_room_id i)) SYSTEM_ACTOR ''hold.expired.in_transaction'' (at_now (att k)) d = (ids, d1)"
    and once: "admitEquipment i (rc_venue_id ctx) (rc_overbooking_buffer_pct ctx) ?hours (at_now (att k)) d1 = Inr ps"
    "createHeld (at_id (att k)) (held_of env i ctx p (at_now (att k)) (hold_total ctx ?hours ps))
      (user_actor (pr_user_id p)) ''hold.created'' (at_now (att k)) d1 = Inr (b, d2)"
    and b: "hr_booking h = b"
    using hold(2) unfolding holdOnce_eq_Inr by auto
  have kept: "t_equipment_types d1 = t_equipment_types d"
    using expire_for_room_sel(2) [of "uuid_in (hi_room_id i)" SYSTEM_ACTOR "''hold.expired.in_transaction''" "at_now (att k)" d]
    by (simp add: steps)
  have total: "b_total_minor b = hold_total ctx ?hours ps"
    using once(2) by (auto simp: createHeld_def held_booking_def held_of_def tx_simps)
  have rate: "rc_hourly_rate_minor ctx = r_hourly_rate_minor room"
    using hold(1) room by (auto simp: loadRoomContext_def split: option.splits)
  have "(\<Sum>q\<leftarrow>ps. pi_line_total_minor q) = (\<Sum>e\<leftarrow>es. pi_line_total_minor (priced i ?hours e))"
  proof (cases "hi_line_items i = []")
    case True
    then show ?thesis using once(1) ids by (simp add: admitEquipment_eq_Inr)
  next
    case False
    then obtain locked where locked: "lockEquipmentTypes (requested_ids i) d1 = Inr locked"
      "length locked = length (requested_ids i)" "ps = map (priced i ?hours) locked"
      using once(1) by (auto simp: admitEquipment_eq_Inr)
    have "mset locked = mset es"
      by (rule locked_types [OF locked(1,2)]) (simp_all add: kept types es(1) ids keys)
    then have "mset (map (\<lambda>e. pi_line_total_minor (priced i ?hours e)) locked)
        = mset (map (\<lambda>e. pi_line_total_minor (priced i ?hours e)) es)" by simp
    then show ?thesis unfolding locked(3) map_map comp_def by (metis sum_mset_sum_list)
  qed
  moreover have "line_totals ?half items = Some (\<Sum>e\<leftarrow>es. pi_line_total_minor (priced i ?hours e))"
    using line_totals_types [OF es(2)] by (simp add: priced_def)
  moreover have "js_div (js_of_int (hi_ends_at i - hi_starts_at i)) 3600000 = ?hours"
    by (simp add: duration_hours_def MS_PER_HOUR_def)
  ultimately show ?thesis
    using total rate b by (simp add: estimate_def hold_total_def room_total_def mult.commute)
qed

text \<open>
  A quantity that is not whole, which the field lets through, makes \<open>BigInt\<close> throw where the estimate is
  computed, whatever else was picked.
\<close>

lemma fractional_quantity_throws:
  assumes "x \<in> set items" and "bigint_of_value (dr_quantity x) = None"
  shows "estimate (Some (starts, ends)) (Some rate) items = None"
proof -
  have "line_totals n items = None" for n
    using assms by (induction items) (auto split: option.splits)
  then show ?thesis by (simp add: estimate_def Let_def split: option.splits)
qed

lemma one_and_a_half: "bigint_of_value (picked_quantity ''1.5'') = None"
  by code_simp

lemma panel_never_repeats:
  "distinct (map dr_equipment_type_id (fold addItem ds []))"
proof -
  have "distinct (map dr_equipment_type_id xs) \<Longrightarrow> distinct (map dr_equipment_type_id (fold addItem ds xs))" for xs
    by (induction ds arbitrary: xs) (simp_all add: addItem_distinct)
  then show ?thesis by simp
qed

end
