(* ===== verification/Browse.thy ===== *)
theory Browse
  imports BookingPanel
begin

text \<open>
  Finding a room and reading lists in the console: \<open>search/page.tsx\<close>, \<open>search/filters.tsx\<close> and
  \<open>search/results.tsx\<close>, \<open>rooms/[id]/page.tsx\<close> and \<open>workspace.tsx\<close>, \<open>bookings/list.tsx\<close>,
  \<open>booking-table.tsx\<close> and \<open>status-filter.tsx\<close>, and the range of \<open>reconciliation/page.tsx\<close>. The state of
  these pages is the query string, a list of pairs before it is encoded; a key that is repeated reaches a
  page as an array.
\<close>

section \<open>Values of the query string\<close>

type_synonym page_params = "(string \<times> query_value) list"

definition param :: "page_params \<Rightarrow> string \<Rightarrow> query_value" where
  "param ps k = (case map_of ps k of None \<Rightarrow> QUndefined | Some v \<Rightarrow> v)"

fun asString :: "query_value \<Rightarrow> string option" where
  "asString QUndefined = None"
| "asString (QText s) = Some s"
| "asString (QMany []) = None"
| "asString (QMany (v # vs)) = Some v"

fun asArray :: "query_value \<Rightarrow> string list option" where
  "asArray QUndefined = None"
| "asArray (QText s) = Some [s]"
| "asArray (QMany vs) = Some vs"

definition opt_text :: "string option \<Rightarrow> query_value" where
  "opt_text x = (case x of None \<Rightarrow> QUndefined | Some s \<Rightarrow> QText s)"

definition opt_many :: "string list option \<Rightarrow> query_value" where
  "opt_many x = (case x of None \<Rightarrow> QUndefined | Some vs \<Rightarrow> QMany vs)"

fun join :: "string \<Rightarrow> string list \<Rightarrow> string" where
  "join sep [] = []"
| "join sep [w] = w"
| "join sep (w # ws) = w @ sep @ join sep ws"

text \<open>\<open>Number(v)\<close> of such a value, and \<open>String(n)\<close>; the decimal text of a number that is not a small integer is a parameter.\<close>

fun number_of :: "query_value \<Rightarrow> js_value" where
  "number_of QUndefined = NaN"
| "number_of (QText s) = Number s"
| "number_of (QMany vs) = Number (join '','' vs)"

definition js_text :: "(js_number \<Rightarrow> string) \<Rightarrow> js_value \<Rightarrow> string" where
  "js_text shortest v =
     (case v of
        NaN \<Rightarrow> ''NaN''
      | PosInf \<Rightarrow> ''Infinity''
      | NegInf \<Rightarrow> ''-Infinity''
      | Finite x \<Rightarrow> if x = of_int \<lfloor>x\<rfloor> \<and> \<bar>x\<bar> < 10 ^ 21 then show_int \<lfloor>x\<rfloor> else shortest x)"

text \<open>\<open>URLSearchParams.set\<close>\<close>

fun set_param :: "string \<Rightarrow> string \<Rightarrow> (string \<times> string) list \<Rightarrow> (string \<times> string) list" where
  "set_param k v [] = [(k, v)]"
| "set_param k v ((k', v') # ps) =
     (if k' = k then (k, v) # filter (\<lambda>p. fst p \<noteq> k) ps else (k', v') # set_param k v ps)"

section \<open>The results of a search\<close>

definition toMinor :: "(js_number \<Rightarrow> string) \<Rightarrow> string option \<Rightarrow> string option" where
  "toMinor shortest major =
     (case major of
        None \<Rightarrow> None
      | Some s \<Rightarrow>
          if trim s = [] then None
          else case Number s of
            Finite x \<Rightarrow>
              if x < 0 then None
              else Some (case to_double (x * 100) of
                Finite y \<Rightarrow> js_text shortest (Finite (of_int (math_round y)))
              | v \<Rightarrow> js_text shortest v)
          | _ \<Rightarrow> None)"

definition search_query :: "(js_number \<Rightarrow> string) \<Rightarrow> page_params \<Rightarrow> (string \<times> string) list" where
  "search_query shortest ps = qs
     [(''city'', opt_text (asString (param ps ''city''))),
      (''min_capacity'', opt_text (asString (param ps ''min_capacity''))),
      (''amenity'', opt_many (asArray (param ps ''amenity''))),
      (''max_hourly_rate_minor'', opt_text (toMinor shortest (asString (param ps ''max_rate'')))),
      (''from'', opt_text (asString (param ps ''from''))),
      (''to'', opt_text (asString (param ps ''to''))),
      (''page'', QText (case asString (param ps ''page'') of None \<Rightarrow> ''1'' | Some p \<Rightarrow> p))]"

definition lastPage :: "int \<Rightarrow> int \<Rightarrow> int" where
  "lastPage n page_size = max 1 (math_ceil (js_div (js_of_int n) (js_of_int page_size)))"

fun page_pairs :: "string \<times> query_value \<Rightarrow> (string \<times> string) list" where
  "page_pairs (k, QUndefined) = []"
| "page_pairs (k, QText v) = [(k, v)]"
| "page_pairs (k, QMany vs) = map (Pair k) vs"

definition pageHref :: "page_params \<Rightarrow> int \<Rightarrow> (string \<times> string) list" where
  "pageHref ps page =
     concat (map page_pairs (filter (\<lambda>p. fst p \<noteq> ''page'') ps)) @ [(''page'', show_int page)]"

text \<open>The two links of a pager, and the pages they lead to.\<close>

definition pager :: "int \<Rightarrow> int \<Rightarrow> int \<Rightarrow> int option \<times> int option" where
  "pager page n page_size =
     (if 1 < page then Some (page - 1) else None, if page < lastPage n page_size then Some (page + 1) else None)"

datatype tone = ToneInfo | ToneWarn | ToneDanger

datatype search_view =
    SearchTable json
  | NoRooms json
  | SearchFailed tone string bool "(string \<times> string) list"

definition SearchFailure :: "api_failure \<Rightarrow> search_view" where
  "SearchFailure e =
     (case e of
        ApiUnreachableError m t \<Rightarrow> SearchFailed ToneWarn m False []
      | ApiError status m body \<Rightarrow>
          SearchFailed (if 500 \<le> status then ToneDanger else if status = 422 then ToneInfo else ToneDanger) m
            (500 \<le> status) (issues_of body))"

text \<open>The result is used as its type says it is.\<close>

definition SearchResults :: "console_host \<Rightarrow> ((string \<times> string) list \<Rightarrow> string) \<Rightarrow> (js_number \<Rightarrow> string) \<Rightarrow> 'w net
    \<Rightarrow> page_params \<Rightarrow> 'w console \<Rightarrow> search_view \<times> 'w console" where
  "SearchResults h encode shortest net ps c =
     (case api h net ''GET'' (''/search'' @ encode (search_query shortest ps)) None True c of
        (Inl e, c') \<Rightarrow> (SearchFailure e, c')
      | (Inr r, c') \<Rightarrow> (if json_field ''data'' r = Some (JArr []) then NoRooms r else SearchTable r, c'))"

section \<open>The filters\<close>

record filter_values =
  fv_city :: string
  fv_min_capacity :: string
  fv_amenity :: string
  fv_max_rate_major :: string
  fv_from_iso :: string
  fv_to_iso :: string

definition or_blank :: "string option \<Rightarrow> string" where
  "or_blank x = (case x of None \<Rightarrow> [] | Some s \<Rightarrow> s)"

definition SearchPage :: "page_params \<Rightarrow> filter_values" where
  "SearchPage ps =
     \<lparr>fv_city = or_blank (asString (param ps ''city'')),
      fv_min_capacity = or_blank (asString (param ps ''min_capacity'')),
      fv_amenity = join '', '' (case param ps ''amenity'' of
          QMany vs \<Rightarrow> vs | QText s \<Rightarrow> if s = [] then [] else [s] | QUndefined \<Rightarrow> []),
      fv_max_rate_major = or_blank (asString (param ps ''max_rate'')),
      fv_from_iso = or_blank (asString (param ps ''from'')),
      fv_to_iso = or_blank (asString (param ps ''to''))\<rparr>"

record filters =
  fs_city :: string
  fs_minCapacity :: string
  fs_amenity :: string
  fs_maxRate :: string
  fs_from :: wall_clock
  fs_to :: wall_clock

definition blank_clock :: wall_clock where
  "blank_clock = \<lparr>wc_date = None, wc_time = None\<rparr>"

definition clock_from :: "(string \<Rightarrow> instant option) \<Rightarrow> reader_zone \<Rightarrow> string \<Rightarrow> wall_clock" where
  "clock_from date_parse z stamp =
     (if stamp = [] then blank_clock
      else case instantToWallClock date_parse z stamp of None \<Rightarrow> blank_clock | Some w \<Rightarrow> w)"

text \<open>The form as the page first shows it, after the effect that needs the reader's zone.\<close>

definition SearchFilters :: "(string \<Rightarrow> instant option) \<Rightarrow> reader_zone \<Rightarrow> filter_values \<Rightarrow> filters" where
  "SearchFilters date_parse z v =
     \<lparr>fs_city = fv_city v, fs_minCapacity = fv_min_capacity v, fs_amenity = fv_amenity v,
      fs_maxRate = fv_max_rate_major v, fs_from = clock_from date_parse z (fv_from_iso v),
      fs_to = clock_from date_parse z (fv_to_iso v)\<rparr>"

definition typed :: "string option \<Rightarrow> bool" where
  "typed x \<longleftrightarrow> (case x of None \<Rightarrow> False | Some s \<Rightarrow> s \<noteq> [])"

definition windowStarted :: "filters \<Rightarrow> bool" where
  "windowStarted s \<longleftrightarrow> typed (wc_date (fs_from s)) \<or> typed (wc_time (fs_from s))
     \<or> typed (wc_date (fs_to s)) \<or> typed (wc_time (fs_to s))"

definition windowIncomplete :: "reader_zone \<Rightarrow> filters \<Rightarrow> bool" where
  "windowIncomplete z s \<longleftrightarrow> windowStarted s
     \<and> (wallClockToInstant z (fs_from s) = None \<or> wallClockToInstant z (fs_to s) = None)"

text \<open>The instants are compared as texts.\<close>

definition windowBackwards :: "reader_zone \<Rightarrow> filters \<Rightarrow> bool" where
  "windowBackwards z s \<longleftrightarrow>
     (case (wallClockToInstant z (fs_from s), wallClockToInstant z (fs_to s)) of
        (Some a, Some b) \<Rightarrow> b \<le> a
      | _ \<Rightarrow> False)"

definition unless_blank :: "string \<Rightarrow> string \<Rightarrow> (string \<times> string) list" where
  "unless_blank k s = (if trim s = [] then [] else [(k, trim s)])"

definition submit :: "reader_zone \<Rightarrow> filters \<Rightarrow> (string \<times> string) list option" where
  "submit z s =
     (if windowIncomplete z s \<or> windowBackwards z s then None
      else Some
        (unless_blank ''city'' (fs_city s) @ unless_blank ''min_capacity'' (fs_minCapacity s)
         @ map (Pair ''amenity'') (filter (\<lambda>a. a \<noteq> []) (map trim (split_on CHR '','' (fs_amenity s))))
         @ unless_blank ''max_rate'' (fs_maxRate s)
         @ (case (wallClockToInstant z (fs_from s), wallClockToInstant z (fs_to s)) of
              (Some a, Some b) \<Rightarrow> [(''from'', a), (''to'', b)]
            | _ \<Rightarrow> [])))"

section \<open>One room\<close>

definition isDate :: "query_value \<Rightarrow> bool" where
  "isDate v \<longleftrightarrow>
     (case v of
        QText s \<Rightarrow> length s = 10 \<and> s ! 4 = CHR ''-'' \<and> s ! 7 = CHR ''-''
          \<and> list_all is_digit (take 4 s @ take 2 (drop 5 s) @ drop 8 s)
      | _ \<Rightarrow> False)"

definition iso_date :: "instant \<Rightarrow> string" where
  "iso_date t = take 10 (toISOString t)"

definition DAY_MS :: int where "DAY_MS = 86400000"

record room_range =
  rr_from :: string
  rr_to :: string
  rr_duration :: int

text \<open>\<open>new Date(t).toISOString()\<close> throws outside the range of dates.\<close>

definition iso_date_at :: "instant option \<Rightarrow> string option" where
  "iso_date_at t = (case t of None \<Rightarrow> None | Some i \<Rightarrow> if \<bar>i\<bar> \<le> MAX_TIME then Some (iso_date i) else None)"

definition dated :: "query_value \<Rightarrow> string \<Rightarrow> string" where
  "dated v d = (if isDate v then or_blank (asString v) else d)"

definition slot_minutes :: "js_value \<Rightarrow> int" where
  "slot_minutes v =
     (case v of
        Finite x \<Rightarrow> if x = of_int \<lfloor>x\<rfloor> \<and> 60 \<le> x \<and> x \<le> 480 then \<lfloor>x\<rfloor> else 60
      | _ \<Rightarrow> 60)"

definition resolveRange :: "(string \<Rightarrow> instant option) \<Rightarrow> instant \<Rightarrow> page_params \<Rightarrow> room_range option" where
  "resolveRange date_parse now ps =
     (let from = dated (param ps ''from'') (iso_date now);
          to = dated (param ps ''to'') (iso_date (now + 7 * DAY_MS));
          ordered = (case (date_parse from, date_parse to) of
            (Some a, Some b) \<Rightarrow> 0 < js_div (of_int (b - a)) (of_int DAY_MS)
          | _ \<Rightarrow> False) in
      map_option (\<lambda>to'. \<lparr>rr_from = from, rr_to = to', rr_duration = slot_minutes (number_of (param ps ''duration''))\<rparr>)
        (if ordered then Some to else iso_date_at (map_option (\<lambda>a. a + 7 * DAY_MS) (date_parse from))))"

definition loadEquipment :: "console_host \<Rightarrow> 'w net \<Rightarrow> string \<Rightarrow> 'w console \<Rightarrow> json option \<times> 'w console" where
  "loadEquipment h net roomId c =
     (case api h net ''GET'' (''/rooms/'' @ roomId @ ''/equipment-types'') None True c of
        (Inl e, c') \<Rightarrow> (Some (JArr []), c')
      | (Inr r, c') \<Rightarrow> (json_field ''data'' r, c'))"

datatype room_view = RoomShown json json "json option" room_range | RoomFailed api_failure | RangeThrew

text \<open>The two reads are sent together; here the room is read first, and its failure is the one shown.\<close>

definition RoomPage :: "console_host \<Rightarrow> ((string \<times> string) list \<Rightarrow> string) \<Rightarrow> 'w net \<Rightarrow> (string \<Rightarrow> instant option)
    \<Rightarrow> instant \<Rightarrow> string \<Rightarrow> page_params \<Rightarrow> 'w console \<Rightarrow> room_view \<times> 'w console" where
  "RoomPage h encode net date_parse now rid ps c =
     (case resolveRange date_parse now ps of
        None \<Rightarrow> (RangeThrew, c)
      | Some r \<Rightarrow>
          let (room, c1) = api h net ''GET'' (''/rooms/'' @ rid) None True c;
              (free, c2) = api h net ''GET'' (''/rooms/'' @ rid @ ''/availability'' @ encode (qs
                [(''from'', QText (rr_from r @ ''T00:00:00.000Z'')), (''to'', QText (rr_to r @ ''T00:00:00.000Z'')),
                 (''duration_minutes'', QText (show_int (rr_duration r)))])) None True c1 in
          case (room, free) of
            (Inr j, Inr a) \<Rightarrow> (case loadEquipment h net rid c2 of (e, c3) \<Rightarrow> (RoomShown j a e r, c3))
          | (Inl e, _) \<Rightarrow> (RoomFailed e, c2)
          | (_, Inl e) \<Rightarrow> (RoomFailed e, c2))"

definition applyRange :: "room_range \<Rightarrow> (string \<times> string) list \<Rightarrow> (string \<times> string) list" where
  "applyRange r ps =
     set_param ''duration'' (show_int (rr_duration r)) (set_param ''to'' (rr_to r) (set_param ''from'' (rr_from r) ps))"

text \<open>The slots by their day, in the order of a \<open>Map\<close>; the label of the day is its key.\<close>

fun bucket :: "string \<Rightarrow> 'a \<Rightarrow> (string \<times> 'a list) list \<Rightarrow> (string \<times> 'a list) list" where
  "bucket k x [] = [(k, [x])]"
| "bucket k x ((k', xs) # bs) = (if k' = k then (k', xs @ [x]) # bs else (k', xs) # bucket k x bs)"

definition groupByDay :: "intl_names \<Rightarrow> zone_offsets \<Rightarrow> string \<Rightarrow> (instant \<times> instant) list
    \<Rightarrow> (string \<times> (instant \<times> instant) list) list" where
  "groupByDay nm off tz slots = fold (\<lambda>s. bucket (dayIn nm off (fst s) tz) s) slots []"

section \<open>Lists of bookings\<close>

definition pageNumber :: "string option \<Rightarrow> js_value" where
  "pageNumber page =
     (case page of
        None \<Rightarrow> Finite 1
      | Some s \<Rightarrow> (case Number s of Finite x \<Rightarrow> Finite (if 0 < x then x else 1) | PosInf \<Rightarrow> PosInf | _ \<Rightarrow> Finite 1))"

definition list_path :: "((string \<times> string) list \<Rightarrow> string) \<Rightarrow> (js_number \<Rightarrow> string) \<Rightarrow> string option \<Rightarrow> js_value \<Rightarrow> string" where
  "list_path encode shortest status page =
     ''/bookings'' @ encode (qs [(''status'', opt_text status), (''page'', QText (js_text shortest page))])"

definition hrefFor :: "((string \<times> string) list \<Rightarrow> string) \<Rightarrow> string \<Rightarrow> string option \<Rightarrow> int \<Rightarrow> string" where
  "hrefFor encode basePath status next =
     basePath @ encode (qs [(''status'', opt_text status), (''page'', if next = 1 then QUndefined else QText (show_int next))])"

datatype list_view = ListTable json | ListFailed tone string

definition BookingsList :: "console_host \<Rightarrow> ((string \<times> string) list \<Rightarrow> string) \<Rightarrow> (js_number \<Rightarrow> string) \<Rightarrow> 'w net
    \<Rightarrow> string option \<Rightarrow> js_value \<Rightarrow> 'w console \<Rightarrow> list_view \<times> 'w console" where
  "BookingsList h encode shortest net status page c =
     (case api h net ''GET'' (list_path encode shortest status page) None True c of
        (Inr r, c') \<Rightarrow> (ListTable r, c')
      | (Inl (ApiUnreachableError m t), c') \<Rightarrow> (ListFailed ToneWarn m, c')
      | (Inl (ApiError s m body), c') \<Rightarrow> (ListFailed (if s = 403 then ToneInfo else ToneDanger) m, c'))"

definition booking_href :: "booking_status \<Rightarrow> string \<Rightarrow> string \<times> string" where
  "booking_href status bid =
     (if status = HELD \<or> status = PENDING_PAYMENT then (''/checkout/'' @ bid, ''Checkout'') else (''/bookings/'' @ bid, ''Open''))"

definition STATUSES :: "booking_status list" where
  "STATUSES = [HELD, PENDING_PAYMENT, CONFIRMED, COMPLETED, EXPIRED, FAILED, CANCELLED, REFUNDED, DRAFT]"

section \<open>The range of the reconciliation report\<close>

record report_range =
  rp_from :: string
  rp_to :: string
  rp_grace :: js_value

definition whole :: "js_value \<Rightarrow> bool" where
  "whole v \<longleftrightarrow> (case v of Finite x \<Rightarrow> x = of_int \<lfloor>x\<rfloor> | _ \<Rightarrow> False)"

definition report_range_of :: "instant \<Rightarrow> page_params \<Rightarrow> report_range" where
  "report_range_of now ps =
     \<lparr>rp_from = dated (param ps ''from'') (iso_date (now - 30 * DAY_MS)),
      rp_to = dated (param ps ''to'') (iso_date now),
      rp_grace = (let g = number_of (param ps ''grace_seconds'') in if whole g then g else Finite 60)\<rparr>"

definition report_path :: "((string \<times> string) list \<Rightarrow> string) \<Rightarrow> (js_number \<Rightarrow> string) \<Rightarrow> report_range \<Rightarrow> string" where
  "report_path encode shortest r =
     ''/admin/reconciliation'' @ encode (qs
        [(''from'', QText (rp_from r @ ''T00:00:00.000Z'')), (''to'', QText (rp_to r @ ''T23:59:59.999Z'')),
         (''grace_seconds'', QText (js_text shortest (rp_grace r)))])"

section \<open>One booking\<close>

text \<open>The settings that \<open>checkout/[id]/page.tsx\<close> reads, in seconds and a count, with their defaults.\<close>

definition positiveEnv :: "string option \<Rightarrow> js_number \<Rightarrow> js_number" where
  "positiveEnv raw fallback =
     (case raw of
        None \<Rightarrow> fallback
      | Some s \<Rightarrow> (case Number s of Finite x \<Rightarrow> if 0 < x then x else fallback | _ \<Rightarrow> fallback))"

text \<open>What \<open>bookings/[id]/cancel-panel.tsx\<close> shows, and the notice over its form.\<close>

datatype cancel_view =
    CancelledView "json option"
  | NotCancellable booking_status
  | QuoteView refund_preview
  | NoTermsView
  | NothingChargedView

definition cancellable :: "booking_status \<Rightarrow> bool" where
  "cancellable s \<longleftrightarrow> s \<in> set [HELD, PENDING_PAYMENT, CONFIRMED]"

definition CancelPanel :: "web_booking \<Rightarrow> instant \<Rightarrow> cancel_state \<Rightarrow> cancel_view" where
  "CancelPanel b now s =
     (if cn_status s = CancelDone then CancelledView (cn_result s)
      else if \<not> cancellable (wb_status b) then NotCancellable (wb_status b)
      else if wasCharged (wb_status b)
      then (case previewRefund b now of Some p \<Rightarrow> QuoteView p | None \<Rightarrow> NoTermsView)
      else NothingChargedView)"

datatype cancel_notice = NoNotice | IllegalNotice "string option" | NothingCancelledNotice "string option" | ErrorNotice string

definition cancel_notice_of :: "cancel_state \<Rightarrow> cancel_notice" where
  "cancel_notice_of s =
     (case cn_status s of
        CancelConflict \<Rightarrow> IllegalNotice (cn_message s)
      | CancelUnreachable \<Rightarrow> NothingCancelledNotice (cn_message s)
      | CancelError \<Rightarrow> (case cn_message s of Some (m # ms) \<Rightarrow> ErrorNotice (m # ms) | _ \<Rightarrow> NoNotice)
      | _ \<Rightarrow> NoNotice)"

text \<open>\<open>bookings/[id]/payment-panel.tsx\<close>: the refunded amount, if there is one; \<^const>\<open>None\<close> is the error of \<open>BigInt\<close>.\<close>

definition refunded_line :: "string \<Rightarrow> string \<Rightarrow> string option" where
  "refunded_line refunded_minor currency =
     map_option (\<lambda>n. if 0 < n then money refunded_minor currency else EM_DASH)
       (js_BigInt (if refunded_minor = [] then ''0'' else refunded_minor))"

end
