(* ===== verification/IsoText.thy ===== *)
theory IsoText
  imports Calendar JsText
begin

text \<open>
  \<open>Date.parse\<close> on the texts that \<open>toISOString\<close> writes, as the language specifies it: what was written is
  read back. It discharges the hypotheses about \<open>Date.parse\<close> in the development.
\<close>

definition iso_fields :: "int option \<Rightarrow> string \<Rightarrow> instant option" where
  "iso_fields year s =
     (case (year, decimal 0 (take 2 (drop 1 s)), decimal 0 (take 2 (drop 4 s)), decimal 0 (take 2 (drop 7 s)),
            decimal 0 (take 2 (drop 10 s)), decimal 0 (take 2 (drop 13 s)), decimal 0 (take 3 (drop 16 s))) of
        (Some y, Some m, Some d, Some h, Some mi, Some sec, Some ms) \<Rightarrow>
          Some (days_from_civil y m d * MS_PER_DAY + ((h * 60 + mi) * 60 + sec) * 1000 + ms)
      | _ \<Rightarrow> None)"

definition iso_parse :: "string \<Rightarrow> instant option" where
  "iso_parse s =
     (case s of
        [] \<Rightarrow> None
      | c # cs \<Rightarrow>
          if c = CHR ''+'' then iso_fields (decimal 0 (take 6 cs)) (drop 6 cs)
          else if c = CHR ''-'' then iso_fields (map_option uminus (decimal 0 (take 6 cs))) (drop 6 cs)
          else iso_fields (decimal 0 (take 4 s)) (drop 4 s))"

lemma drop_take_parts:
  "length xs = n \<Longrightarrow> drop n (xs @ ys) = ys" "length xs = n \<Longrightarrow> take n (xs @ ys) = xs"
  by simp_all

lemma iso_fields_text:
  assumes "0 \<le> m" "m < 100" "0 \<le> d" "d < 100" "0 \<le> h" "h < 100" "0 \<le> mi" "mi < 100" "0 \<le> sec" "sec < 100"
    and "0 \<le> ms" "ms < 1000"
  shows "iso_fields (Some y) (''-'' @ padded 2 m @ ''-'' @ padded 2 d @ ''T'' @ padded 2 h @ '':'' @ padded 2 mi
      @ '':'' @ padded 2 sec @ ''.'' @ padded 3 ms @ ''Z'')
    = Some (days_from_civil y m d * MS_PER_DAY + ((h * 60 + mi) * 60 + sec) * 1000 + ms)"
proof -
  let ?s = "''-'' @ padded 2 m @ ''-'' @ padded 2 d @ ''T'' @ padded 2 h @ '':'' @ padded 2 mi
      @ '':'' @ padded 2 sec @ ''.'' @ padded 3 ms @ ''Z''"
  have "take 2 (drop 1 ?s) = padded 2 m" "take 2 (drop 4 ?s) = padded 2 d" "take 2 (drop 7 ?s) = padded 2 h"
    "take 2 (drop 10 ?s) = padded 2 mi" "take 2 (drop 13 ?s) = padded 2 sec" "take 3 (drop 16 ?s) = padded 3 ms"
    by simp_all
  then show ?thesis using assms by (simp add: iso_fields_def decimal_padded)
qed

lemma civil_year_bound:
  assumes "civil_from_days z = (y, m, d)" and "\<bar>z\<bar> \<le> 100000000"
  shows "\<bar>y\<bar> < 1000000"
proof -
  define z' where "z' = z + 719468"
  define doe where "doe = z' mod 146097"
  define yoe where "yoe = (doe - doe div 1460 + doe div 36524 - doe div 146096) div 365"
  have "\<exists>b. fst (civil_from_days z) = yoe + z' div 146097 * 400 + (if b then 1 else 0)"
    unfolding civil_from_days_def Let_def fst_conv yoe_def doe_def z'_def by (rule exI) (rule refl)
  then obtain b where "fst (civil_from_days z) = yoe + z' div 146097 * 400 + (if b then 1 else 0)" ..
  then have y: "y = yoe + z' div 146097 * 400 \<or> y = yoe + z' div 146097 * 400 + 1"
    unfolding assms(1) fst_conv by (cases b) simp_all
  have doe: "0 \<le> doe" "doe < 146097" by (simp_all add: doe_def)
  have q: "0 \<le> doe div k" "doe div k \<le> 146096 div k" if "0 < k" for k
    using doe that by (simp_all add: pos_imp_zdiv_nonneg_iff zdiv_mono1)
  let ?n = "doe - doe div 1460 + doe div 36524 - doe div 146096"
  have "- 365 \<le> ?n" "?n \<le> 146365" using doe q [of 1460] q [of 36524] q [of 146096] by simp_all
  then have "(- 365) div 365 \<le> ?n div 365" "?n div 365 \<le> 146365 div 365" by (simp_all only: zdiv_mono1 zero_less_numeral)
  then have "- 1 \<le> yoe" "yoe \<le> 401" unfolding yoe_def by simp_all
  moreover have "- 99280532 \<le> z'" "z' \<le> 100719468" using assms(2) unfolding z'_def by simp_all
  then have "(- 99280532) div 146097 \<le> z' div 146097" "z' div 146097 \<le> 100719468 div 146097" by (simp_all only: zdiv_mono1 zero_less_numeral)
  then have "- 690 \<le> z' div 146097" "z' div 146097 \<le> 690" by simp_all
  ultimately show ?thesis using y by linarith
qed

lemma day_fields:
  fixes r :: int
  assumes "0 \<le> r" "r < 86400000"
  shows "((r div 3600000 * 60 + r div 60000 mod 60) * 60 + r div 1000 mod 60) * 1000 + r mod 1000 = r"
proof -
  have "r div 3600000 = r div 60000 div 60" "r div 60000 = r div 1000 div 60" by (simp_all add: zdiv_zmult2_eq [symmetric])
  then have "(r div 3600000 * 60 + r div 60000 mod 60) * 60 + r div 1000 mod 60 = r div 1000"
    by (simp add: div_mult_mod_eq)
  then show ?thesis by (simp add: div_mult_mod_eq)
qed

lemma day_hours:
  fixes r :: int
  assumes "0 \<le> r" "r < 86400000"
  shows "0 \<le> r div 3600000" "r div 3600000 < 100"
proof -
  show "0 \<le> r div 3600000" using assms(1) by (simp add: pos_imp_zdiv_nonneg_iff)
  have "r div 3600000 \<le> 86400000 div 3600000" using assms(2) by (intro zdiv_mono1) simp_all
  then show "r div 3600000 < 100" by simp
qed

lemma mod_small: "0 \<le> n mod 60" "n mod 60 < 100" "0 \<le> n mod 1000" "n mod 1000 < 1000" for n :: int
  using pos_mod_bound [of 60 n] by simp_all

lemma iso_parse_toISOString:
  assumes "\<bar>i\<bar> \<le> 8640000000000000"
  shows "iso_parse (toISOString i) = Some i"
proof -
  obtain y m d where c: "civil_from_days (i div MS_PER_DAY) = (y, m, d)" by (metis prod_cases3)
  let ?r = "i mod MS_PER_DAY"
  let ?rest = "''-'' @ padded 2 m @ ''-'' @ padded 2 d @ ''T'' @ padded 2 (?r div 3600000) @ '':''
      @ padded 2 (?r div 60000 mod 60) @ '':'' @ padded 2 (?r div 1000 mod 60) @ ''.'' @ padded 3 (?r mod 1000) @ ''Z''"
  note f = civil_from_days_eq [OF c]
  have r: "0 \<le> ?r" "?r < 86400000" by (simp_all add: MS_PER_DAY_def)
  have "iso_fields (Some y) ?rest = Some (days_from_civil y m d * MS_PER_DAY
      + ((?r div 3600000 * 60 + ?r div 60000 mod 60) * 60 + ?r div 1000 mod 60) * 1000 + ?r mod 1000)"
    using f r day_hours [OF r] mod_small by (intro iso_fields_text) simp_all
  also have "\<dots> = Some (i div MS_PER_DAY * MS_PER_DAY + ?r)" by (simp only: day_fields [OF r] f(1) add.assoc)
  finally have rest: "iso_fields (Some y) ?rest = Some i" by (simp only: div_mult_mod_eq)
  have "\<bar>i div MS_PER_DAY\<bar> \<le> 100000000" using assms unfolding MS_PER_DAY_def abs_le_iff by linarith
  then have y: "\<bar>y\<bar> < 1000000" by (rule civil_year_bound [OF c])
  have written: "toISOString i = (if 0 \<le> y \<and> y \<le> 9999 then padded 4 y else (if y < 0 then ''-'' else ''+'') @ padded 6 \<bar>y\<bar>) @ ?rest"
    by (simp add: toISOString_def c Let_def)
  show ?thesis
  proof (cases "0 \<le> y \<and> y \<le> 9999")
    case True
    then have digits: "\<forall>c \<in> set (padded 4 y). is_digit c" by (intro padded_digits) simp
    obtain a as where a: "padded 4 y = a # as" using length_padded [of 4 y] by (cases "padded 4 y") auto
    then have "a \<noteq> CHR ''+''" "a \<noteq> CHR ''-''" using digits by (auto simp: is_digit_def)
    then have "iso_parse (padded 4 y @ ?rest) = iso_fields (decimal 0 (padded 4 y)) ?rest"
      using length_padded [of 4 y] unfolding iso_parse_def a by (simp del: length_padded)
    then show ?thesis using True rest unfolding written by (simp add: decimal_padded)
  next
    case False
    have "decimal 0 (padded 6 \<bar>y\<bar>) = Some \<bar>y\<bar>" using y by (intro decimal_padded) simp_all
    then show ?thesis using False rest unfolding written by (auto simp: iso_parse_def)
  qed
qed

end
