(* ===== verification/BrowseFacts.thy ===== *)
theory BrowseFacts
  imports Browse IsoText
begin

text \<open>
  What the pages of the console promise: the pager stops at the last row, slots are grouped without loss,
  the price ceiling reaches the API to the cent, a search survives a reload, and a range is in order.
\<close>

section \<open>Pages\<close>

lemma dbl_nonpos: "x \<le> 0 \<Longrightarrow> dbl x \<le> 0"
proof -
  assume x: "x \<le> 0"
  then have "- x / 2 ^ 53 \<le> - x" by (simp add: divide_le_eq)
  moreover have "dbl x \<le> x + (- x) / 2 ^ 53" using dbl_error [of x] x by (simp add: abs_of_nonpos abs_le_iff)
  ultimately show "dbl x \<le> 0" by linarith
qed

lemma js_div_le_int:
  assumes "0 \<le> m" "0 < u" "0 \<le> n" "m \<le> n * u" "n * u \<le> 2 ^ 53"
  shows "js_div (of_int m) (of_int u) \<le> of_int n"
proof (cases "m = n * u")
  case True
  have "1 \<le> u" using assms(2) by simp
  then have "n \<le> n * u" using mult_left_mono [of 1 u n] assms(3) by simp
  then have "\<bar>n\<bar> \<le> 2 ^ 53" using assms(3,5) by linarith
  moreover have "of_int (n * u) / of_int u = (of_int n :: rat)" using assms(2) by simp
  ultimately show ?thesis unfolding js_div_def True by simp
next
  case False
  let ?x = "of_int m / of_int u :: rat"
  have "m + 1 \<le> n * u" using assms(4) False by linarith
  then have "(of_int m + 1 :: rat) \<le> of_int n * of_int u"
    by (metis of_int_1 of_int_add of_int_le_iff of_int_mult)
  then have x: "?x + 1 / of_int u \<le> of_int n" using assms(2) by (simp add: field_simps)
  have "(of_int m :: rat) \<le> of_int (2 ^ 53)" using assms(4,5) by (simp only: of_int_le_iff)
  then have "?x / 2 ^ 53 \<le> 1 / of_int u" using assms(2) by (simp add: field_simps)
  moreover have "dbl ?x \<le> ?x + ?x / 2 ^ 53" using dbl_error [of ?x] assms(1,2) by (simp add: abs_of_nonneg)
  ultimately show ?thesis using x unfolding js_div_def by linarith
qed

text \<open>A page has a next one exactly when rows are left after it.\<close>

lemma pager_next:
  assumes "1 \<le> page" "0 < page_size" "0 \<le> n" "n < 2 ^ 53" "page * page_size \<le> 2 ^ 53"
  shows "page < lastPage n page_size \<longleftrightarrow> page * page_size < n"
proof -
  have "page_size \<le> page * page_size" using mult_right_mono [of 1 page page_size] assms(1,2) by simp
  then have "\<bar>page_size\<bar> \<le> 2 ^ 53" using assms(2,5) by linarith
  then have small: "js_of_int n = of_int n" "js_of_int page_size = of_int page_size" using assms(3,4) by simp_all
  have "page < lastPage n page_size \<longleftrightarrow> of_int page < js_div (of_int n) (of_int page_size)"
    using assms(1) by (simp add: lastPage_def small math_ceil_def less_max_iff_disj less_ceiling_iff)
  also have "\<dots> \<longleftrightarrow> page * page_size < n"
    using js_div_of_int_gt [of page page_size n] js_div_le_int [of n page_size page] assms by (meson leD less_imp_le not_less order_trans zero_le_one)
  finally show ?thesis .
qed

lemma pager_reaches_every_booking:
  assumes "list_bookings q p d = Inr r" and "1 \<le> lq_page q" "1 \<le> lq_page_size q" "bp_total r < 2 ^ 53"
    and "lq_page q * lq_page_size q \<le> 2 ^ 53"
  shows "snd (pager (int (bp_page r)) (int (bp_total r)) (int (bp_page_size r))) =
    (if lq_page q * lq_page_size q < bp_total r then Some (int (lq_page q) + 1) else None)"
proof -
  have r: "bp_page r = lq_page q" "bp_page_size r = lq_page_size q"
    using assms(1) by (auto simp: list_bookings_def result_bind_eq_Inr Let_def)
  have "int (lq_page q) * int (lq_page_size q) = int (lq_page q * lq_page_size q)" by simp
  also have "\<dots> \<le> 2 ^ 53" using assms(5) by (metis of_nat_le_iff of_nat_numeral of_nat_power)
  finally have "int (lq_page q) * int (lq_page_size q) \<le> 2 ^ 53" .
  then have "int (lq_page q) < lastPage (int (bp_total r)) (int (lq_page_size q))
      \<longleftrightarrow> int (lq_page q) * int (lq_page_size q) < int (bp_total r)"
    using assms(2-4) by (intro pager_next) auto
  then show ?thesis unfolding pager_def r by (simp flip: of_nat_mult)
qed

section \<open>Days\<close>

lemma bucket_find:
  shows "map fst (bucket k x bs) = (if k \<in> fst ` set bs then map fst bs else map fst bs @ [k])"
    and "map_of (bucket k x bs) = (map_of bs)(k \<mapsto> (case map_of bs k of None \<Rightarrow> [x] | Some xs \<Rightarrow> xs @ [x]))"
proof -
  show "map fst (bucket k x bs) = (if k \<in> fst ` set bs then map fst bs else map fst bs @ [k])"
    by (induction k x bs rule: bucket.induct) auto
  show "map_of (bucket k x bs) = (map_of bs)(k \<mapsto> (case map_of bs k of None \<Rightarrow> [x] | Some xs \<Rightarrow> xs @ [x]))"
    by (induction k x bs rule: bucket.induct) (auto simp: fun_eq_iff)
qed

text \<open>Every slot is in the list of its day, once and in the order of the API; no list is empty.\<close>

lemma groupByDay_exact:
  "distinct (map fst (groupByDay nm off tz slots))
   \<and> (\<forall>k. map_of (groupByDay nm off tz slots) k =
       (let own = filter (\<lambda>s. dayIn nm off (fst s) tz = k) slots in if own = [] then None else Some own))"
proof (induction slots rule: rev_induct)
  case (snoc s slots)
  let ?k = "dayIn nm off (fst s) tz" and ?bs = "groupByDay nm off tz slots"
  have step: "groupByDay nm off tz (slots @ [s]) = bucket ?k s ?bs" by (simp add: groupByDay_def)
  have d: "distinct (map fst ?bs)" using snoc by blast
  have "distinct (map fst (bucket ?k s ?bs))" using d by (simp add: bucket_find(1))
  then show ?case using snoc unfolding step bucket_find(2) by (auto simp: Let_def)
qed (simp add: groupByDay_def)

section \<open>The price ceiling\<close>

lemma decimal_from: "decimal n xs = map_option (\<lambda>v. n * 10 ^ length xs + v) (decimal 0 xs)"
proof (induction xs rule: rev_induct)
  case (snoc x xs)
  show ?case unfolding decimal_append snoc
    by (cases "decimal 0 xs") (auto simp: algebra_simps split: option.splits)
qed simp

lemma decimal_cents: "0 \<le> b \<Longrightarrow> b < 100 \<Longrightarrow> decimal a (padded 2 b) = Some (100 * a + b)"
  by (subst decimal_from) (simp add: decimal_padded)

lemma unsigned_decimal_cents:
  assumes "0 \<le> a" "a < 2 ^ 46" "0 \<le> b" "b < 100"
  shows "unsigned_decimal (show_int a @ ''.'' @ padded 2 b) = to_double (of_int (100 * a + b) / 100)"
proof -
  let ?s = "show_int a @ ''.'' @ padded 2 b"
  have da: "\<forall>c \<in> set (show_int a). is_digit c" using show_nat_digits [of "nat a"] assms(1) by (simp add: show_int_nat)
  have db: "\<forall>c \<in> set (padded 2 b). is_digit c" using assms(3) by (rule padded_digits)
  have e: "takeWhile (\<lambda>c. c \<notin> set ''eE'') ?s = ?s"
    using da db digit_not_mark by (auto simp: takeWhile_eq_all_conv)
  have ip: "takeWhile (\<lambda>c. c \<noteq> CHR ''.'') ?s = show_int a"
  proof -
    have "takeWhile (\<lambda>c. c \<noteq> CHR ''.'') ?s = show_int a @ takeWhile (\<lambda>c. c \<noteq> CHR ''.'') (''.'' @ padded 2 b)"
      using da digit_not_mark by (intro takeWhile_append2) blast
    then show ?thesis by simp
  qed
  have "CHR ''I'' \<notin> set ?s" using da db digit_not_mark by auto
  moreover have "CHR ''I'' \<in> set ''Infinity''" by simp
  ultimately have "?s \<noteq> ''Infinity''" by metis
  moreover have "digits_of (show_int a @ padded 2 b) = Some (100 * a + b)"
    using assms digits_of_show_nat [of "nat a"]
    by (auto simp: digits_of_def show_int_nat decimal_append decimal_cents split: if_splits option.splits)
  ultimately show ?thesis
    unfolding unsigned_decimal_def e ip mantissa_def Let_def by simp
qed

lemma to_double_near:
  assumes "0 \<le> x" "x \<le> 2 ^ 50"
  shows "to_double x = Finite (dbl x)" and "\<bar>dbl x - x\<bar> \<le> 1 / 8"
proof -
  have "(2 :: int) ^ 53 \<le> DOUBLE_LIMIT"
  proof -
    have "(2 :: int) ^ 53 \<le> 2 ^ 970" by (rule power_increasing) simp_all
    then show ?thesis
      unfolding DOUBLE_LIMIT_def using mult_right_mono [of 1 "2 ^ 54 - 1" "2 ^ 970 :: int"] by simp
  qed
  moreover have "\<lfloor>x\<rfloor> < 2 ^ 53" using assms(2) by (simp add: floor_less_iff)
  ultimately have "\<not> DOUBLE_LIMIT \<le> \<lfloor>x\<rfloor>" by linarith
  then show "to_double x = Finite (dbl x)" by (simp add: to_double_def)
  show "\<bar>dbl x - x\<bar> \<le> 1 / 8" using dbl_error [of x] assms by (simp add: abs_of_nonneg)
qed

lemma cents_exact:
  assumes "0 \<le> n" "n < 2 ^ 40"
  shows "0 \<le> dbl (of_int n / 100)"
    and "\<exists>y. to_double (dbl (of_int n / 100) * 100) = Finite y \<and> math_round y = n"
proof -
  let ?q = "of_int n / 100 :: rat" let ?x = "dbl ?q"
  have "(of_int n :: rat) < of_int (2 ^ 40)" using assms(2) by (simp only: of_int_less_iff)
  then have n: "0 \<le> (of_int n :: rat)" "(of_int n :: rat) < 2 ^ 40" using assms(1) by simp_all
  have "\<bar>?x - ?q\<bar> \<le> ?q / 2 ^ 53" using dbl_error [of ?q] n by (simp add: abs_of_nonneg)
  then have x: "?q - ?q / 2 ^ 53 \<le> ?x" "?x \<le> ?q + ?q / 2 ^ 53" by linarith+
  have "?q / 2 ^ 53 \<le> ?q" using n(1) by (simp add: divide_le_eq)
  then show "0 \<le> ?x" using x(1) by linarith
  have "?q / 2 ^ 53 \<le> 1 / 1000" using n by simp
  then have near: "\<bar>?x * 100 - of_int n\<bar> \<le> 1 / 8" using x by (intro abs_leI) linarith+
  then have "?x * 100 \<le> of_int n + 1 / 8" by (simp only: abs_le_iff) linarith
  moreover have "(2 :: rat) ^ 40 + 1 / 8 \<le> 2 ^ 50" by simp
  ultimately have "?x * 100 \<le> 2 ^ 50" using n(2) by linarith
  moreover have "0 \<le> ?x * 100" using \<open>0 \<le> ?x\<close> by simp
  ultimately have d: "to_double (?x * 100) = Finite (dbl (?x * 100))" "\<bar>dbl (?x * 100) - ?x * 100\<bar> \<le> 1 / 8"
    by (rule to_double_near [rotated])+
  have "\<bar>dbl (?x * 100) - of_int n\<bar> \<le> 1 / 4" using near d(2) by linarith
  then show "\<exists>y. to_double (?x * 100) = Finite y \<and> math_round y = n" using d(1) by (auto intro: math_round_near)
qed

lemma trim_cents:
  assumes "0 \<le> a" "0 \<le> b"
  shows "trim (show_int a @ ''.'' @ padded 2 b) = show_int a @ ''.'' @ padded 2 b"
proof (rule trim_nonspace)
  show "\<forall>c \<in> set (show_int a @ ''.'' @ padded 2 b). \<not> is_space c"
    using show_nat_digits [of "nat a"] padded_digits [OF assms(2), of 2] digit_not_space assms(1)
    by (auto simp: show_int_nat is_space_def)
qed

lemma Number_cents:
  assumes "0 \<le> a" "a < 2 ^ 46" "0 \<le> b" "b < 100"
  shows "Number (show_int a @ ''.'' @ padded 2 b) = to_double (of_int (100 * a + b) / 100)"
proof -
  let ?s = "show_int a @ ''.'' @ padded 2 b"
  have da: "\<forall>c \<in> set (show_int a). is_digit c" using show_nat_digits [of "nat a"] assms(1) by (simp add: show_int_nat)
  have t: "trim ?s = ?s" by (rule trim_cents [OF assms(1,3)])
  have "show_int a \<noteq> []" using digits_of_show_nat [of "nat a"] assms(1) by (auto simp: show_int_nat digits_of_def)
  then obtain c cs where c: "show_int a = c # cs" by (cases "show_int a") auto
  have "prefixed ?s = None"
    using da unfolding c by (cases cs) (auto simp: is_digit_def)
  moreover have "signed_decimal ?s = unsigned_decimal ?s"
    using da digit_no_sign unfolding c by auto
  ultimately show ?thesis
    using unsigned_decimal_cents [OF assms] unfolding Number_def Let_def t by (simp add: c)
qed

text \<open>A price in whole cents, as one types it, reaches the API as exactly so many minor units.\<close>

lemma toMinor_exact:
  assumes "0 \<le> n" "n < 2 ^ 40"
  shows "toMinor shortest (Some (show_int (n div 100) @ ''.'' @ padded 2 (n mod 100))) = Some (show_int n)"
proof -
  let ?s = "show_int (n div 100) @ ''.'' @ padded 2 (n mod 100)"
  have "n div 100 \<le> n" using assms(1) by linarith
  moreover have "(2 :: int) ^ 40 < 2 ^ 46" by simp
  ultimately have "n div 100 < 2 ^ 46" using assms(2) by linarith
  then have "Number ?s = to_double (of_int (100 * (n div 100) + n mod 100) / 100)"
    using assms(1) by (intro Number_cents) (simp_all add: pos_imp_zdiv_nonneg_iff)
  also have "100 * (n div 100) + n mod 100 = n" by simp
  finally have num: "Number ?s = to_double (of_int n / 100)" .
  have "(of_int n :: rat) < of_int (2 ^ 40)" using assms(2) by (simp only: of_int_less_iff)
  then have fin: "Number ?s = Finite (dbl (of_int n / 100))"
    unfolding num using assms(1) by (intro to_double_near) simp_all
  have "trim ?s \<noteq> []" using assms(1) trim_cents [of "n div 100" "n mod 100"] by (simp add: pos_imp_zdiv_nonneg_iff)
  obtain y where y: "to_double (dbl (of_int n / 100) * 100) = Finite y" "math_round y = n"
    using cents_exact [OF assms] by blast
  have "\<bar>of_int n\<bar> < (10 :: rat) ^ 21" using \<open>(of_int n :: rat) < of_int (2 ^ 40)\<close> assms(1) by simp
  then show ?thesis
    using fin y cents_exact(1) [OF assms] \<open>trim ?s \<noteq> []\<close> by (simp add: toMinor_def js_text_def not_less)
qed

section \<open>Ranges\<close>

text \<open>
  A range is in order, whatever the query string holds, for dates that the parser reads back; a text that
  has the shape of a date and is none makes the page throw.
\<close>

definition four_digit_year :: "instant \<Rightarrow> bool" where
  "four_digit_year t \<longleftrightarrow> - 62167219200000 \<le> t \<and> t \<le> 253402300799999"

lemma room_range_ordered:
  assumes "resolveRange date_parse now ps = Some r"
    and reads: "\<And>t. four_digit_year t \<Longrightarrow> date_parse (iso_date t) = Some (t div DAY_MS * DAY_MS)"
    and "\<And>s a. date_parse s = Some a \<Longrightarrow> four_digit_year (a + 7 * DAY_MS)"
  shows "\<exists>a b. date_parse (rr_from r) = Some a \<and> date_parse (rr_to r) = Some b \<and> a < b"
proof -
  let ?from = "dated (param ps ''from'') (iso_date now)"
  let ?to = "dated (param ps ''to'') (iso_date (now + 7 * DAY_MS))"
  have start: "rr_from r = ?from" using assms(1) by (auto simp: resolveRange_def Let_def)
  show ?thesis
  proof (cases "\<exists>a b. date_parse ?from = Some a \<and> date_parse ?to = Some b \<and> 0 < js_div (of_int (b - a)) (of_int DAY_MS)")
    case True
    then obtain a b where ab: "date_parse ?from = Some a" "date_parse ?to = Some b"
      "0 < js_div (of_int (b - a)) (of_int DAY_MS)" by blast
    then have "rr_to r = ?to" using assms(1) by (auto simp: resolveRange_def Let_def)
    moreover have "a < b"
    proof (rule ccontr)
      assume "\<not> a < b"
      then have "(of_int (b - a) :: rat) / of_int DAY_MS \<le> 0" by (simp add: DAY_MS_def divide_le_eq)
      then have "js_div (of_int (b - a)) (of_int DAY_MS) \<le> 0" unfolding js_div_def by (rule dbl_nonpos)
      then show False using ab(3) by simp
    qed
    ultimately show ?thesis using start ab by auto
  next
    case False
    then obtain a where a: "date_parse ?from = Some a" "rr_to r = iso_date (a + 7 * DAY_MS)"
      using assms(1) by (auto simp: resolveRange_def Let_def iso_date_at_def split: option.splits if_splits)
    then have "date_parse (rr_to r) = Some ((a + 7 * DAY_MS) div DAY_MS * DAY_MS)"
      using assms(3) by (simp add: reads)
    moreover have "a < (a + 7 * DAY_MS) div DAY_MS * DAY_MS" unfolding DAY_MS_def by linarith
    ultimately show ?thesis using start a(1) by auto
  qed
qed

lemma impossible_date_throws:
  assumes "isDate (QText s)" and "date_parse s = None" and "param ps ''from'' = QText s"
  shows "RoomPage h encode net date_parse now rid ps c = (RangeThrew, c)"
  using assms by (simp add: RoomPage_def resolveRange_def dated_def or_blank_def iso_date_at_def Let_def split: option.splits)

lemma impossible_date_shape: "isDate (QText ''2026-13-01'')"
  by code_simp

text \<open>The filter offers every status there is.\<close>

lemma STATUSES_complete: "set STATUSES = UNIV"
proof -
  have "s \<in> set STATUSES" for s by (cases s) (simp_all add: STATUSES_def)
  then show ?thesis by blast
qed

text \<open>
  The panel offers to cancel where the state machine allows it, and also while a payment is pending, where
  every cancellation is refused.
\<close>

lemma cancellable_agrees: "cancellable s \<longleftrightarrow> isLegalTransition s CANCELLED \<or> s = PENDING_PAYMENT"
  by (cases s) (simp_all add: cancellable_def isLegalTransition_def)

lemma pending_never_cancelled: "\<not> isLegalTransition PENDING_PAYMENT CANCELLED"
  by (simp add: isLegalTransition_def)

text \<open>The refund that is quoted is the one that a cancellation at that instant computes.\<close>

lemma quote_is_preview:
  assumes "CancelPanel b now s = QuoteView p"
  shows "previewRefund b now = Some p \<and> wb_status b = CONFIRMED"
  using assms by (auto simp: CancelPanel_def cancellable_def wasCharged_def split: if_splits option.splits)

section \<open>A search survives a reload\<close>

lemma dropWhile_idem: "dropWhile p (dropWhile p xs) = dropWhile p xs"
  by (induction xs) auto

lemma dropWhile_rev_dropWhile:
  "dropWhile p (rev (dropWhile p (rev (dropWhile p xs)))) = rev (dropWhile p (rev (dropWhile p xs)))"
proof (cases "dropWhile p xs")
  case (Cons y ys)
  then have y: "\<not> p y" by (metis dropWhile_eq_Cons_conv)
  have "dropWhile p (rev ys @ [y]) = dropWhile p (rev ys) @ [y]" using y by (induction "rev ys") (auto simp: dropWhile_append)
  then show ?thesis using Cons y by simp
next
  case Nil
  show ?thesis unfolding Nil by simp
qed

lemma trim_idem [simp]: "trim (trim s) = trim s"
  by (simp add: trim_def dropWhile_rev_dropWhile dropWhile_idem)

lemma set_trim: "set (trim s) \<subseteq> set s"
  unfolding trim_def by (metis set_dropWhileD set_rev subsetI)

lemma trim_blank_front: "trim (CHR '' '' # s) = trim s"
  by (simp add: trim_def is_space_def)

lemma split_on_parts: "w \<in> set (split_on c s) \<Longrightarrow> c \<notin> set w"
  by (induction c s arbitrary: w rule: split_on.induct) (auto split: list.splits if_splits)

lemma split_on_nonempty: "split_on c s \<noteq> []"
  by (cases s) (auto split: list.splits)

definition pieces :: "string \<Rightarrow> string list" where
  "pieces s = filter (\<lambda>a. a \<noteq> []) (map trim (split_on CHR '','' s))"

lemma pieces_blank: "pieces (CHR '' '' # s) = pieces s"
  using split_on_nonempty [of "CHR '',''" s] by (auto simp: pieces_def trim_blank_front split: list.splits)

lemma pieces_join:
  assumes "\<forall>e \<in> set es. e \<noteq> [] \<and> trim e = e \<and> CHR '','' \<notin> set e"
  shows "pieces (join '', '' es) = es"
  using assms
proof (induction "'', ''" es rule: join.induct)
  case (3 w v ws)
  have "pieces (w @ CHR '','' # CHR '' '' # join '', '' (v # ws)) = w # pieces (CHR '' '' # join '', '' (v # ws))"
    using 3 by (simp add: pieces_def split_on_word)
  then show ?case using 3 by (simp add: pieces_blank)
qed (simp_all add: pieces_def split_on_word trim_def)

lemma pieces_ok: "e \<in> set (pieces s) \<Longrightarrow> e \<noteq> [] \<and> trim e = e \<and> CHR '','' \<notin> set e"
  using set_trim split_on_parts unfolding pieces_def by fastforce

text \<open>How the framework hands a query string to a page: a repeated key as an array.\<close>

definition reaches :: "page_params \<Rightarrow> (string \<times> string) list \<Rightarrow> bool" where
  "reaches ps' ps \<longleftrightarrow> (\<forall>k. param ps' k = (case map snd (filter (\<lambda>p. fst p = k) ps) of
      [] \<Rightarrow> QUndefined | [v] \<Rightarrow> QText v | vs \<Rightarrow> QMany vs))"

definition shown :: "reader_zone \<Rightarrow> wall_clock \<Rightarrow> bool" where
  "shown z w \<longleftrightarrow> (\<exists>i. w = wall_clock_of (reader_parts z i) \<and> 100 \<le> lp_year (reader_parts z i)
     \<and> lp_year (reader_parts z i) \<le> 9999 \<and> \<bar>i\<bar> \<le> 8 * 10 ^ 15)"

lemma shown_roundtrip:
  assumes "changes_ok (fst z) (snd z)" and "shown z w"
    and parse: "\<And>t. \<bar>t\<bar> \<le> MAX_TIME \<Longrightarrow> date_parse (toISOString t) = Some t"
  shows "\<exists>stamp. wallClockToInstant z w = Some stamp \<and> stamp \<noteq> [] \<and> clock_from date_parse z stamp = w"
proof -
  obtain j where j: "wallClockToInstant z w = Some (toISOString j)"
    "instantToWallClock date_parse z (toISOString j) = Some w"
    using assms(2) wall_clock_roundtrip [OF assms(1)] parse unfolding shown_def by metis
  have "toISOString j \<noteq> []" by (auto simp: toISOString_def Let_def split: prod.splits)
  then show ?thesis using j by (auto simp: clock_from_def)
qed

text \<open>
  C37. Whatever is typed into the filters, the page that the search leads to, opened again, shows a form that
  leads to the same search: texts, amenities and, in a zone with summer time too, the window.
\<close>

lemma search_reload:
  assumes sent: "submit z s = Some ps" and page: "reaches ps' ps"
    and zone: "changes_ok (fst z) (snd z)" and parse: "\<And>t. \<bar>t\<bar> \<le> MAX_TIME \<Longrightarrow> date_parse (toISOString t) = Some t"
    and window: "fs_from s = blank_clock \<and> fs_to s = blank_clock \<or> shown z (fs_from s) \<and> shown z (fs_to s)"
  shows "submit z (SearchFilters date_parse z (SearchPage ps')) = Some ps"
proof -
  let ?f = "SearchFilters date_parse z (SearchPage ps')"
  define w where "w = (case (wallClockToInstant z (fs_from s), wallClockToInstant z (fs_to s)) of
       (Some a, Some b) \<Rightarrow> [(''from'', a), (''to'', b)] | _ \<Rightarrow> [])"
  have ok: "\<not> windowIncomplete z s" "\<not> windowBackwards z s"
    and ps: "ps = unless_blank ''city'' (fs_city s) @ unless_blank ''min_capacity'' (fs_minCapacity s)
      @ map (Pair ''amenity'') (pieces (fs_amenity s)) @ unless_blank ''max_rate'' (fs_maxRate s) @ w"
    using sent by (auto simp: submit_def pieces_def w_def split: if_splits)
  have own: "filter (\<lambda>p. fst p = k) (unless_blank k' t) = (if k = k' then unless_blank k' t else [])" for k k' t
    by (simp add: unless_blank_def)
  have am: "filter (\<lambda>p. fst p = k) (map (Pair k') ws) = (if k = k' then map (Pair k') ws else [])"
    for k k' :: string and ws :: "string list"
    by (induction ws) auto
  have wk: "filter (\<lambda>p. fst p = k) w = []" if "k \<noteq> ''from''" "k \<noteq> ''to''" for k
    using that by (auto simp: w_def split: option.splits)
  note at = page [unfolded reaches_def, THEN spec]
  have read: "or_blank (asString (case map snd (unless_blank k t) of [] \<Rightarrow> QUndefined | [v] \<Rightarrow> QText v | vs \<Rightarrow> QMany vs)) = trim t" for k t
    by (simp add: unless_blank_def or_blank_def)
  have texts: "fs_city ?f = trim (fs_city s)" "fs_minCapacity ?f = trim (fs_minCapacity s)" "fs_maxRate ?f = trim (fs_maxRate s)"
    unfolding SearchFilters_def SearchPage_def at ps filter_append own am
    by (simp_all add: wk read)
  have "param ps' ''amenity'' = (case pieces (fs_amenity s) of [] \<Rightarrow> QUndefined | [v] \<Rightarrow> QText v | vs \<Rightarrow> QMany vs)"
    unfolding at ps filter_append own am by (simp add: wk comp_def)
  moreover have "v \<noteq> []" if "pieces (fs_amenity s) = [v]" for v using pieces_ok [of v "fs_amenity s"] that by simp
  ultimately have "fs_amenity ?f = join '', '' (pieces (fs_amenity s))"
    by (auto simp: SearchFilters_def SearchPage_def split: list.splits)
  then have amenity: "pieces (fs_amenity ?f) = pieces (fs_amenity s)"
    using pieces_join pieces_ok by metis
  have ends: "param ps' ''from'' = (case w of [(k, a), (l, b)] \<Rightarrow> QText a | _ \<Rightarrow> QUndefined)"
    "param ps' ''to'' = (case w of [(k, a), (l, b)] \<Rightarrow> QText b | _ \<Rightarrow> QUndefined)"
    unfolding at ps filter_append own am by (auto simp: w_def split: option.splits)
  have clocks: "fs_from ?f = fs_from s \<and> fs_to ?f = fs_to s"
    using window
  proof
    assume blank: "fs_from s = blank_clock \<and> fs_to s = blank_clock"
    then have "w = []" by (simp add: w_def blank_clock_def wallClockToInstant_def)
    then show ?thesis using ends blank by (simp add: SearchFilters_def SearchPage_def or_blank_def clock_from_def)
  next
    assume "shown z (fs_from s) \<and> shown z (fs_to s)"
    then obtain a b where "wallClockToInstant z (fs_from s) = Some a" "clock_from date_parse z a = fs_from s"
      "wallClockToInstant z (fs_to s) = Some b" "clock_from date_parse z b = fs_to s"
      using shown_roundtrip [OF zone _ parse] by meson
    moreover from this have "w = [(''from'', a), (''to'', b)]" by (simp add: w_def)
    ultimately show ?thesis using ends by (simp add: SearchFilters_def SearchPage_def or_blank_def)
  qed
  have "submit z ?f = Some (unless_blank ''city'' (fs_city ?f) @ unless_blank ''min_capacity'' (fs_minCapacity ?f)
      @ map (Pair ''amenity'') (pieces (fs_amenity ?f)) @ unless_blank ''max_rate'' (fs_maxRate ?f) @ w)"
    using ok clocks by (simp add: submit_def pieces_def w_def windowIncomplete_def windowStarted_def windowBackwards_def)
  then show ?thesis unfolding ps texts amenity by (simp add: unless_blank_def)
qed

text \<open>In London, a search over the night on which the clocks go back.\<close>

definition sample_filters :: filters where
  "sample_filters = \<lparr>fs_city = '' Karachi'', fs_minCapacity = ''4'', fs_amenity = ''wifi,, blackout'', fs_maxRate = [],
     fs_from = \<lparr>wc_date = Some ''2026-10-25'', wc_time = Some ''01:30''\<rparr>,
     fs_to = \<lparr>wc_date = Some ''2026-10-25'', wc_time = Some ''09:30''\<rparr>\<rparr>"

definition sample_search :: "(string \<times> string) list" where
  "sample_search = [(''city'', ''Karachi''), (''min_capacity'', ''4''), (''amenity'', ''wifi''), (''amenity'', ''blackout''),
     (''from'', ''2026-10-25T00:30:00.000Z''), (''to'', ''2026-10-25T09:30:00.000Z'')]"

definition sample_params :: page_params where
  "sample_params = [(''city'', QText ''Karachi''), (''min_capacity'', QText ''4''), (''amenity'', QMany [''wifi'', ''blackout'']),
     (''from'', QText ''2026-10-25T00:30:00.000Z''), (''to'', QText ''2026-10-25T09:30:00.000Z'')]"

lemma search_reload_witness:
  "submit london_zone (SearchFilters iso_parse london_zone (SearchPage sample_params)) = Some sample_search"
proof (rule search_reload [where s = sample_filters])
  show "submit london_zone sample_filters = Some sample_search" by code_simp
  show "reaches sample_params sample_search"
    by (auto simp: reaches_def sample_params_def sample_search_def param_def)
  show "changes_ok (fst london_zone) (snd london_zone)" by code_simp
  show "iso_parse (toISOString t) = Some t" if "\<bar>t\<bar> \<le> MAX_TIME" for t
    using that by (intro iso_parse_toISOString) (simp add: MAX_TIME_def)
  have "shown london_zone w" if "w = wall_clock_of (reader_parts london_zone i)" "100 \<le> lp_year (reader_parts london_zone i)"
    "lp_year (reader_parts london_zone i) \<le> 9999" "\<bar>i\<bar> \<le> 8 * 10 ^ 15" for w i
    using that unfolding shown_def by blast
  moreover have "fs_from sample_filters = wall_clock_of (reader_parts london_zone (date_utc 2026 10 25 1 30 0))"
    "fs_to sample_filters = wall_clock_of (reader_parts london_zone (date_utc 2026 10 25 9 30 0))"
    "lp_year (reader_parts london_zone (date_utc 2026 10 25 1 30 0)) = 2026"
    "lp_year (reader_parts london_zone (date_utc 2026 10 25 9 30 0)) = 2026"
    "\<bar>date_utc 2026 10 25 1 30 0\<bar> \<le> 8 * 10 ^ 15" "\<bar>date_utc 2026 10 25 9 30 0\<bar> \<le> 8 * 10 ^ 15"
    by code_simp+
  ultimately have "shown london_zone (fs_from sample_filters)" "shown london_zone (fs_to sample_filters)" by simp_all
  then show "fs_from sample_filters = blank_clock \<and> fs_to sample_filters = blank_clock
      \<or> shown london_zone (fs_from sample_filters) \<and> shown london_zone (fs_to sample_filters)" by blast
qed

end
