(* ===== verification/ConsoleProperties.thy ===== *)
theory ConsoleProperties
  imports CheckoutScreen BrowseFacts Fixtures
begin

text \<open>
  The console over the API: a hold whose answer is lost, a session that has ended behind its cookie, and
  concrete runs of the checkout screen and of the booking panel.
\<close>

section \<open>Answers that are lost\<close>

text \<open>
  A request that reaches the API and is not answered in time is told to the customer as a hold that did
  not happen, although the booking is in the table.
\<close>

lemma hold_answer_lost:
  assumes "hold env off i p now att d = (Inr r, d')" and "0 < TRANSIENT_RETRY_ATTEMPTS env"
    and "\<And>req. net req d = (HttpTimeout, d')" and "cs_world c = d" "cs_cookie c = Some (token, age)" "token \<noteq> []"
    and "field f ''room_id'' \<noteq> []" "field f ''starts_at'' \<noteq> []" "field f ''ends_at'' \<noteq> []"
    and "read_items h (f ''line_items'') = Inr (Some its)"
  shows "createHold h net f c = (Some (Rendered \<lparr>hs_status = HoldUnreachable,
      hs_message = Some (timed_out_message @ nothing_held), hs_issues = [], hs_detail = JObj []\<rparr>), c\<lparr>cs_world := d'\<rparr>)
    \<and> hr_booking r \<in> set (t_bookings d')"
proof -
  have "hr_booking r \<in> set (t_bookings d')"
    using assms(1,2)
  proof (cases rule: hold_cases)
    case (held ctx k h)
    then show ?thesis
      by (auto simp: holdOnce_eq_Inr createHeld_eq_Inr insert_booking_eq_Inr)
  qed simp
  moreover obtain t ts where "token = t # ts" using assms(6) by (cases token) auto
  ultimately show ?thesis using assms(3-5,7-10)
    by (simp add: createHold_def api_def read_answer_def hold_failed_def)
qed

section \<open>Sessions\<close>

text \<open>
  A cookie whose token the API no longer honours sends every page of the console to the sign-in page, and
  the sign-in page back: nothing on the way clears it.
\<close>

lemma stale_session_loops:
  assumes "cs_cookie c = Some (t # ts, age)" and "net \<lparr>ht_method = ''GET'', ht_path = ''/auth/me'', ht_token = Some (t # ts), ht_body = None\<rparr> (cs_world c)
      = (HttpAnswer 401 body, w)"
  shows "\<exists>c'. ConsoleLayout h encode net c = (Redirect ''/login'', c') \<and> LoginPage c' = Redirect ''/search''
    \<and> cs_cookie c' = cs_cookie c"
  using assms by (simp add: ConsoleLayout_def requireUser_def api_def read_answer_def Let_def LoginPage_def hasSession_def)

text \<open>The cookie is dropped before the token runs out, unless the token lives for less than a minute.\<close>

lemma cookie_before_token: "60 \<le> expiresIn \<Longrightarrow> cookie_max_age expiresIn \<le> expiresIn"
  by (simp add: cookie_max_age_def)

text \<open>A path with a backslash passes for one of the console's own; a browser reads it as another host.\<close>

lemma safeNext_backslash: "safeNext (Some (CHR ''/'' # CHR 0x5C # host)) = CHR ''/'' # CHR 0x5C # host"
  by (simp add: safeNext_def)

lemma safeNext_path: "take 1 (safeNext v) = ''/'' \<and> take 2 (safeNext v) \<noteq> ''//''"
  by (simp add: safeNext_def Let_def)

section \<open>Runs of the checkout screen\<close>

definition sample_pending :: checkout_booking where
  "sample_pending = \<lparr>kb_status = PENDING_PAYMENT, kb_expires_at = Some 480000, kb_rearm_count = 0\<rparr>"

definition sample_held_booking :: checkout_booking where
  "sample_held_booking = \<lparr>kb_status = HELD, kb_expires_at = Some 480000, kb_rearm_count = 0\<rparr>"

text \<open>An extension that was pressed in the last second and answered after the countdown has crossed zero.\<close>

definition late_extension :: "(instant \<times> screen_event) list" where
  "late_extension = [(480500, ExtendReturned \<lparr>ex_message = None, ex_ok = True\<rparr>),
     (480600, ServerRender (sample_held_booking\<lparr>kb_expires_at := Some 1080000, kb_rearm_count := 1\<rparr>))]"

lemma expired_screen_stuck_witness:
  "\<not> pay_enabled (screen_run late_extension (screen_step (480000, CountdownTick)
        (screen_step (479900, ExtendPressed) (mounted sample_held_booking 0))))
    \<and> \<not> extend_enabled 2 (screen_run late_extension (screen_step (480000, CountdownTick)
        (screen_step (479900, ExtendPressed) (mounted sample_held_booking 0))))"
proof (rule expired_screen_stuck)
  let ?s = "screen_step (479900, ExtendPressed) (mounted sample_held_booking 0)"
  show "kb_expires_at (sc_booking ?s) = Some 480000" "live ?s"
    "kb_status (sc_booking (screen_run late_extension (screen_step (480000, CountdownTick) ?s))) = HELD"
    by code_simp+
qed simp

definition polling_screen :: checkout_screen where
  "polling_screen = mounted sample_pending 0"

definition ticks :: "(instant \<times> screen_event) list" where
  "ticks = [(182000, PollTick), (184000, PollTick), (186000, PollTick)]"

lemma retry_removes_ceiling_witness:
  "polling (screen_run ticks (screen_step (60000, ServerRender sample_pending) polling_screen))
    \<and> sc_polls (screen_run ticks (screen_step (60000, ServerRender sample_pending) polling_screen))
      = sc_polls polling_screen @ tick_times ticks"
proof (rule retry_removes_ceiling)
  show "polling polling_screen" "kb_status sample_pending = PENDING_PAYMENT" "list_all (still_pending \<circ> snd) ticks"
    by code_simp+
qed

lemma poll_ceiling_witness:
  "\<exists>ts. sc_polls (screen_run ticks polling_screen) = sc_polls polling_screen @ ts \<and> length ts \<le> 90
    \<and> (\<forall>u \<in> set ts. u \<le> 0 + POLL_CEILING_MS)"
proof (rule poll_ceiling)
  show "sc_startedAt polling_screen = Some 0" by code_simp
  show "\<forall>e \<in> set ticks. \<forall>b. snd e \<noteq> ServerRender b" by (simp add: ticks_def)
  show "sorted_wrt (\<lambda>a b. a + POLL_INTERVAL_MS \<le> b) (0 # tick_times ticks)" by code_simp
qed

section \<open>An estimate\<close>

definition sample_drafts :: "line_item_draft list" where
  "sample_drafts = addItem (draft_of sample_camera ''1'') []"

lemma estimate_agrees_witness:
  "\<exists>h d'. hold sample_env sample_utc sample_hold sample_principal 120000 (\<lambda>_. sample_attempt) sample_db = (Inr h, d')
    \<and> estimate (Some (hi_starts_at sample_hold, hi_ends_at sample_hold)) (Some (show_int (r_hourly_rate_minor sample_room)))
        sample_drafts = Some (Some (b_total_minor (hr_booking h)))"
proof -
  obtain h d' where h: "hold sample_env sample_utc sample_hold sample_principal 120000 (\<lambda>_. sample_attempt) sample_db = (Inr h, d')"
  proof -
    let ?once = "holdOnce sample_env sample_hold sample_context
      (duration_hours (hi_starts_at sample_hold) (hi_ends_at sample_hold)) sample_principal sample_attempt sample_db"
    obtain h d' where once: "?once = Inr (h, d')" using sample_held by (cases ?once) auto
    have "at_abort sample_attempt = None" "TRANSIENT_RETRY_ATTEMPTS sample_env = 3"
      by (simp_all add: sample_attempt_def sample_env_def)
    then have "hold sample_env sample_utc sample_hold sample_principal 120000 (\<lambda>_. sample_attempt) sample_db = (Inr h, d')"
      using once by (simp add: hold_def sample_room_context sample_bookable withTransientRetry_def numeral_3_eq_3
          transaction_def attempted_def)
    then show thesis by (rule that)
  qed
  have "estimate (Some (hi_starts_at sample_hold, hi_ends_at sample_hold)) (Some (show_int (r_hourly_rate_minor sample_room)))
      sample_drafts = Some (Some (b_total_minor (hr_booking h)))"
  proof (rule estimate_agrees [OF h])
    show "0 < TRANSIENT_RETRY_ATTEMPTS sample_env" "\<forall>e \<in> set (t_equipment_types sample_db). uuid_in (e_id e) = e_id e"
      "List.find (\<lambda>r. r_id r = uuid_in (hi_room_id sample_hold)) (t_rooms sample_db) = Some sample_room"
      "list_all (offered (t_equipment_types sample_db)) sample_drafts"
      "map sent_item sample_drafts = map Some (hi_line_items sample_hold)"
      by code_simp+
  qed (rule sample_hold_ok, rule sample_types_distinct)
  then show ?thesis using h by blast
qed

end
