(* ===== verification/Boot.thy ===== *)
theory Boot
  imports Bookings JsText
begin

text \<open>
  The start of the API, \<open>apps/api/src/config/env.ts\<close> and \<open>main.ts\<close>: the environment and its bounds, the
  guard in front of the seed, and the fallback of the listening address. The migrations and the seed
  themselves are arguments. A setting that is not given has its default; one that is blank is a text like
  any other, and the number read off it is zero.
\<close>

section \<open>The environment\<close>

type_synonym process_env = "string \<Rightarrow> string option"

record environment =
  ev_NODE_ENV :: string
  ev_API_PORT :: int
  ev_DATABASE_URL :: string
  ev_LOG_LEVEL :: string
  ev_JWT_SECRET :: string
  ev_JWT_ACCESS_TTL :: int
  ev_REPLICA_ID :: string
  ev_RUN_MIGRATIONS_ON_BOOT :: bool
  ev_SEED_ON_BOOT :: string
  ev_HOLD_TTL_SECONDS :: int
  ev_CHECKOUT_REARM_SECONDS :: int
  ev_MAX_HOLD_REARMS :: int
  ev_MAX_HOLD_LIFETIME_SECONDS :: int
  ev_ROOM_TURNAROUND_MINUTES :: int
  ev_HOLD_SWEEPER_INTERVAL_SECONDS :: int
  ev_TRANSIENT_RETRY_ATTEMPTS :: int
  ev_PAYGATE_BASE_URL :: "string option"
  ev_PAYGATE_SECRET :: "string option"
  ev_PAYGATE_TIMEOUT_MS :: int
  ev_WEBHOOK_DRAIN_INTERVAL_SECONDS :: int
  ev_REFUND_POLL_AFTER_SECONDS :: int
  ev_CHARGE_POLL_AFTER_SECONDS :: int

text \<open>\<open>z.coerce.number().int()\<close>: the safe integers.\<close>

definition coerced_int :: "string \<Rightarrow> int option" where
  "coerced_int s =
     (case Number s of
        Finite x \<Rightarrow> if x = of_int \<lfloor>x\<rfloor> \<and> \<bar>x\<bar> < 2 ^ 53 then Some \<lfloor>x\<rfloor> else None
      | _ \<Rightarrow> None)"

text \<open>A setting that does not parse leaves its name in the list of issues.\<close>

definition int_setting :: "process_env \<Rightarrow> string \<Rightarrow> int \<Rightarrow> (int \<Rightarrow> bool) \<Rightarrow> string + int" where
  "int_setting src k preset ok =
     (case src k of
        None \<Rightarrow> Inr preset
      | Some s \<Rightarrow> (case coerced_int s of Some n \<Rightarrow> if ok n then Inr n else Inl k | None \<Rightarrow> Inl k))"

definition enum_setting :: "process_env \<Rightarrow> string \<Rightarrow> string list \<Rightarrow> string \<Rightarrow> string + string" where
  "enum_setting src k values preset =
     (case src k of None \<Rightarrow> Inr preset | Some s \<Rightarrow> if s \<in> set values then Inr s else Inl k)"

definition text_setting :: "process_env \<Rightarrow> string \<Rightarrow> nat \<Rightarrow> string + string" where
  "text_setting src k least =
     (case src k of None \<Rightarrow> Inl k | Some s \<Rightarrow> if least \<le> length s then Inr s else Inl k)"

definition url_setting :: "(string \<Rightarrow> bool) \<Rightarrow> process_env \<Rightarrow> string \<Rightarrow> string + string option" where
  "url_setting is_url src k =
     (case src k of None \<Rightarrow> Inr None | Some s \<Rightarrow> if is_url s then Inr (Some s) else Inl k)"

definition issue_of :: "string + 'a \<Rightarrow> string list" where
  "issue_of r = (case r of Inl k \<Rightarrow> [k] | Inr _ \<Rightarrow> [])"

abbreviation positive :: "int \<Rightarrow> bool" where "positive n \<equiv> 0 < n"
abbreviation nonnegative :: "int \<Rightarrow> bool" where "nonnegative n \<equiv> 0 \<le> n"

definition retry_attempts_ok :: "int \<Rightarrow> bool" where
  "retry_attempts_ok n \<longleftrightarrow> 1 \<le> n \<and> n \<le> 10"

definition loadEnv :: "(string \<Rightarrow> bool) \<Rightarrow> process_env \<Rightarrow> string list + environment" where
  "loadEnv is_url src =
     (let node = enum_setting src ''NODE_ENV'' [''development'', ''test'', ''production''] ''development'';
          port = int_setting src ''API_PORT'' 3001 positive;
          url = text_setting src ''DATABASE_URL'' 1;
          level = enum_setting src ''LOG_LEVEL'' [''fatal'', ''error'', ''warn'', ''info'', ''debug'', ''trace''] ''info'';
          secret = text_setting src ''JWT_SECRET'' 16;
          ttl = int_setting src ''JWT_ACCESS_TTL'' 900 positive;
          migrate = enum_setting src ''RUN_MIGRATIONS_ON_BOOT'' [''true'', ''false''] ''false'';
          seed = enum_setting src ''SEED_ON_BOOT'' [''off'', ''demo'', ''full''] ''off'';
          hold = int_setting src ''HOLD_TTL_SECONDS'' 480 positive;
          rearm = int_setting src ''CHECKOUT_REARM_SECONDS'' 600 positive;
          rearms = int_setting src ''MAX_HOLD_REARMS'' 2 nonnegative;
          life = int_setting src ''MAX_HOLD_LIFETIME_SECONDS'' 1800 positive;
          turnaround = int_setting src ''ROOM_TURNAROUND_MINUTES'' 15 nonnegative;
          sweep = int_setting src ''HOLD_SWEEPER_INTERVAL_SECONDS'' 30 positive;
          attempts = int_setting src ''TRANSIENT_RETRY_ATTEMPTS'' 3 retry_attempts_ok;
          base = url_setting is_url src ''PAYGATE_BASE_URL'';
          timeout = int_setting src ''PAYGATE_TIMEOUT_MS'' 8000 positive;
          drain = int_setting src ''WEBHOOK_DRAIN_INTERVAL_SECONDS'' 10 positive;
          refunds = int_setting src ''REFUND_POLL_AFTER_SECONDS'' 45 positive;
          charges = int_setting src ''CHARGE_POLL_AFTER_SECONDS'' 100 positive;
          issues = issue_of node @ issue_of port @ issue_of url @ issue_of level @ issue_of secret @ issue_of ttl
            @ issue_of migrate @ issue_of seed @ issue_of hold @ issue_of rearm @ issue_of rearms @ issue_of life
            @ issue_of turnaround @ issue_of sweep @ issue_of attempts @ issue_of base @ issue_of timeout
            @ issue_of drain @ issue_of refunds @ issue_of charges in
      if issues \<noteq> [] then Inl issues
      else Inr
        \<lparr>ev_NODE_ENV = projr node, ev_API_PORT = projr port, ev_DATABASE_URL = projr url, ev_LOG_LEVEL = projr level,
         ev_JWT_SECRET = projr secret, ev_JWT_ACCESS_TTL = projr ttl,
         ev_REPLICA_ID = (case src ''REPLICA_ID'' of None \<Rightarrow> ''unknown'' | Some s \<Rightarrow> s),
         ev_RUN_MIGRATIONS_ON_BOOT = (projr migrate = ''true''), ev_SEED_ON_BOOT = projr seed,
         ev_HOLD_TTL_SECONDS = projr hold, ev_CHECKOUT_REARM_SECONDS = projr rearm, ev_MAX_HOLD_REARMS = projr rearms,
         ev_MAX_HOLD_LIFETIME_SECONDS = projr life, ev_ROOM_TURNAROUND_MINUTES = projr turnaround,
         ev_HOLD_SWEEPER_INTERVAL_SECONDS = projr sweep, ev_TRANSIENT_RETRY_ATTEMPTS = projr attempts,
         ev_PAYGATE_BASE_URL = projr base, ev_PAYGATE_SECRET = src ''PAYGATE_SECRET'',
         ev_PAYGATE_TIMEOUT_MS = projr timeout, ev_WEBHOOK_DRAIN_INTERVAL_SECONDS = projr drain,
         ev_REFUND_POLL_AFTER_SECONDS = projr refunds, ev_CHARGE_POLL_AFTER_SECONDS = projr charges\<rparr>)"

text \<open>What the bookings service takes from it.\<close>

definition hold_env_of :: "environment \<Rightarrow> hold_env" where
  "hold_env_of e =
     \<lparr>HOLD_TTL_SECONDS = ev_HOLD_TTL_SECONDS e, CHECKOUT_REARM_SECONDS = ev_CHECKOUT_REARM_SECONDS e,
      MAX_HOLD_REARMS = ev_MAX_HOLD_REARMS e, MAX_HOLD_LIFETIME_SECONDS = ev_MAX_HOLD_LIFETIME_SECONDS e,
      TRANSIENT_RETRY_ATTEMPTS = nat (ev_TRANSIENT_RETRY_ATTEMPTS e)\<rparr>"

section \<open>The start\<close>

text \<open>The guard reads before it seeds, in two statements; a seed that fails is logged.\<close>

definition seed_wanted :: "environment \<Rightarrow> db \<Rightarrow> bool" where
  "seed_wanted e d \<longleftrightarrow> ev_SEED_ON_BOOT e \<noteq> ''off'' \<and> t_venues d = []"

definition seed_if :: "bool \<Rightarrow> (string \<Rightarrow> db \<Rightarrow> 'x + db) \<Rightarrow> environment \<Rightarrow> db \<Rightarrow> db" where
  "seed_if found_empty runSeed e d =
     (if found_empty then (case runSeed (ev_SEED_ON_BOOT e) d of Inl _ \<Rightarrow> d | Inr d' \<Rightarrow> d') else d)"

definition seedOnBootIfUnseeded :: "(string \<Rightarrow> db \<Rightarrow> 'x + db) \<Rightarrow> environment \<Rightarrow> db \<Rightarrow> db" where
  "seedOnBootIfUnseeded runSeed e d = seed_if (seed_wanted e d) runSeed e d"

text \<open>\<open>app.listen\<close> on an address: nothing, or the code of the error.\<close>

definition listenPreferringDualStack :: "(int \<Rightarrow> string \<Rightarrow> string option) \<Rightarrow> int \<Rightarrow> string + string" where
  "listenPreferringDualStack listen port =
     (case listen port ''::'' of
        None \<Rightarrow> Inr ''::''
      | Some code \<Rightarrow>
          if code \<noteq> ''EAFNOSUPPORT'' then Inl code
          else (case listen port ''0.0.0.0'' of None \<Rightarrow> Inr ''0.0.0.0'' | Some code' \<Rightarrow> Inl code'))"

definition no_default_policy :: "db \<Rightarrow> bool" where
  "no_default_policy d \<longleftrightarrow> \<not> list_ex (\<lambda>p. cp_venue_id p = None) (t_cancellation_policies d)"

datatype boot_failure = InvalidEnvironment "string list" | MigrationFailed | ListenFailed string

text \<open>The address that was bound, and whether the start complains about the default policy.\<close>

definition bootstrap :: "(string \<Rightarrow> bool) \<Rightarrow> (db \<Rightarrow> 'x + db) \<Rightarrow> (string \<Rightarrow> db \<Rightarrow> 'x + db) \<Rightarrow> (int \<Rightarrow> string \<Rightarrow> string option)
    \<Rightarrow> process_env \<Rightarrow> db \<Rightarrow> (boot_failure + string \<times> bool) \<times> db" where
  "bootstrap is_url runMigrations runSeed listen src d =
     (case loadEnv is_url src of
        Inl issues \<Rightarrow> (Inl (InvalidEnvironment issues), d)
      | Inr e \<Rightarrow>
          (case if ev_RUN_MIGRATIONS_ON_BOOT e then runMigrations d else Inr d of
             Inl _ \<Rightarrow> (Inl MigrationFailed, d)
           | Inr d1 \<Rightarrow>
               let d2 = seedOnBootIfUnseeded runSeed e d1 in
               (case listenPreferringDualStack listen (ev_API_PORT e) of
                  Inl code \<Rightarrow> (Inl (ListenFailed code), d2)
                | Inr host \<Rightarrow> (Inr (host, no_default_policy d2), d2))))"

section \<open>What a start guarantees\<close>

lemma int_setting_ok: "int_setting src k n ok = Inr m \<Longrightarrow> ok n \<Longrightarrow> ok m"
  by (auto simp: int_setting_def split: option.splits if_splits)

lemma issue_of_Nil: "issue_of r = [] \<longleftrightarrow> (\<exists>x. r = Inr x)"
  by (cases r) (auto simp: issue_of_def)

text \<open>Every bound that the services rely on, of an environment that was accepted.\<close>

lemma loadEnv_bounds:
  assumes "loadEnv is_url src = Inr e"
  shows "0 < HOLD_TTL_SECONDS (hold_env_of e)" "0 < CHECKOUT_REARM_SECONDS (hold_env_of e)"
    "0 \<le> MAX_HOLD_REARMS (hold_env_of e)" "0 < MAX_HOLD_LIFETIME_SECONDS (hold_env_of e)"
    "0 < TRANSIENT_RETRY_ATTEMPTS (hold_env_of e)" "TRANSIENT_RETRY_ATTEMPTS (hold_env_of e) \<le> 10"
    "0 \<le> ev_ROOM_TURNAROUND_MINUTES e" "0 < ev_JWT_ACCESS_TTL e" "16 \<le> length (ev_JWT_SECRET e)"
proof -
  have s: "int_setting src ''HOLD_TTL_SECONDS'' 480 positive = Inr (ev_HOLD_TTL_SECONDS e)"
    "int_setting src ''CHECKOUT_REARM_SECONDS'' 600 positive = Inr (ev_CHECKOUT_REARM_SECONDS e)"
    "int_setting src ''MAX_HOLD_REARMS'' 2 nonnegative = Inr (ev_MAX_HOLD_REARMS e)"
    "int_setting src ''MAX_HOLD_LIFETIME_SECONDS'' 1800 positive = Inr (ev_MAX_HOLD_LIFETIME_SECONDS e)"
    "int_setting src ''TRANSIENT_RETRY_ATTEMPTS'' 3 retry_attempts_ok = Inr (ev_TRANSIENT_RETRY_ATTEMPTS e)"
    "int_setting src ''ROOM_TURNAROUND_MINUTES'' 15 nonnegative = Inr (ev_ROOM_TURNAROUND_MINUTES e)"
    "int_setting src ''JWT_ACCESS_TTL'' 900 positive = Inr (ev_JWT_ACCESS_TTL e)"
    "text_setting src ''JWT_SECRET'' 16 = Inr (ev_JWT_SECRET e)"
    using assms by (auto simp: loadEnv_def Let_def issue_of_Nil split: if_splits)
  show "0 < HOLD_TTL_SECONDS (hold_env_of e)" using int_setting_ok [OF s(1)] by (simp add: hold_env_of_def)
  show "0 < CHECKOUT_REARM_SECONDS (hold_env_of e)" using int_setting_ok [OF s(2)] by (simp add: hold_env_of_def)
  show "0 \<le> MAX_HOLD_REARMS (hold_env_of e)" using int_setting_ok [OF s(3)] by (simp add: hold_env_of_def)
  show "0 < MAX_HOLD_LIFETIME_SECONDS (hold_env_of e)" using int_setting_ok [OF s(4)] by (simp add: hold_env_of_def)
  have "retry_attempts_ok (ev_TRANSIENT_RETRY_ATTEMPTS e)" using int_setting_ok [OF s(5)] by (simp add: retry_attempts_ok_def)
  then show "0 < TRANSIENT_RETRY_ATTEMPTS (hold_env_of e)" "TRANSIENT_RETRY_ATTEMPTS (hold_env_of e) \<le> 10"
    by (simp_all add: hold_env_of_def retry_attempts_ok_def nat_le_iff)
  show "0 \<le> ev_ROOM_TURNAROUND_MINUTES e" using int_setting_ok [OF s(6)] by simp
  show "0 < ev_JWT_ACCESS_TTL e" using int_setting_ok [OF s(7)] by simp
  show "16 \<le> length (ev_JWT_SECRET e)" using s(8) by (auto simp: text_setting_def split: option.splits if_splits)
qed

text \<open>A database with a venue is never seeded again, whatever the environment says.\<close>

lemma seeded_once: "t_venues d \<noteq> [] \<Longrightarrow> seedOnBootIfUnseeded runSeed e d = d"
  by (simp add: seedOnBootIfUnseeded_def seed_if_def seed_wanted_def)

text \<open>
  Two replicas that start together both find the database empty; the second then seeds a database that
  has venues, and what was booked in it meanwhile is truncated.
\<close>

lemma replicas_seed_twice:
  assumes "seed_wanted e d" and "runSeed (ev_SEED_ON_BOOT e) d = Inr d1" "t_venues d1 \<noteq> []"
    and "runSeed (ev_SEED_ON_BOOT e) (book d1) = Inr d2"
  shows "seed_if (seed_wanted e d) runSeed e (book (seed_if (seed_wanted e d) runSeed e d)) = d2"
  using assms by (simp add: seed_if_def)

lemma invalid_environment_changes_nothing:
  assumes "loadEnv is_url src = Inl issues"
  shows "bootstrap is_url runMigrations runSeed listen src d = (Inl (InvalidEnvironment issues), d)"
  using assms by (simp add: bootstrap_def)

text \<open>The least that has to be set.\<close>

definition least_env :: process_env where
  "least_env = [''DATABASE_URL'' \<mapsto> ''postgres://db'', ''JWT_SECRET'' \<mapsto> ''0123456789abcdef'']"

lemma least_env_loads: "\<exists>e. loadEnv is_url least_env = Inr e \<and> ev_HOLD_TTL_SECONDS e = 480 \<and> ev_SEED_ON_BOOT e = ''off''"
  by (simp add: loadEnv_def least_env_def enum_setting_def int_setting_def text_setting_def url_setting_def issue_of_def Let_def)

text \<open>
  Nothing relates the settings: a charge can be left to its webhook for longer than its hold lives, and the
  turnaround of the searches need not be the fifteen minutes of the table's constraint.
\<close>

lemma unrelated_settings:
  "\<exists>e. loadEnv is_url (least_env(''CHARGE_POLL_AFTER_SECONDS'' \<mapsto> ''600'', ''ROOM_TURNAROUND_MINUTES'' \<mapsto> ''0'')) = Inr e
    \<and> ev_HOLD_TTL_SECONDS e < ev_CHARGE_POLL_AFTER_SECONDS e \<and> ev_ROOM_TURNAROUND_MINUTES e = 0"
proof -
  have "coerced_int ''600'' = Some 600" "coerced_int ''0'' = Some 0" by code_simp+
  then show ?thesis
    by (simp add: loadEnv_def least_env_def enum_setting_def int_setting_def text_setting_def url_setting_def issue_of_def Let_def)
qed

end
