(* ===== verification/BookingRequests.thy ===== *)
theory BookingRequests
  imports System VenueRequests
begin

text \<open>
  The routes of \<open>bookings.controller.ts\<close> and \<open>payments.controller.ts\<close> as requests: guards, pipes, handler,
  and the webhook, which has no principal. A cancellation is two operations with anything in between, and
  so is a payment. An answer stands for its projection.
\<close>

datatype booking_request =
    ReqHold hold_input | ReqCheckout string | ReqCancel string "string option" | ReqPay string
  | ReqList list_query | ReqFindOne string

fun booking_route :: "booking_request \<Rightarrow> route" where
  "booking_route (ReqHold _) = PostHold"
| "booking_route (ReqCheckout _) = PostCheckout"
| "booking_route (ReqCancel _ _) = PostCancel"
| "booking_route (ReqPay _) = PostPay"
| "booking_route (ReqList _) = GetBookings"
| "booking_route (ReqFindOne _) = GetBooking"

datatype booking_answer =
    AnsHold hold_result | AnsCheckout booking | AnsCancel uuid booking_status "refund_breakdown option"
  | AnsPay payment_view | AnsList booking_page | AnsFindOne booking_view

text \<open>What the handlers draw from outside, and what other requests do while one waits for the provider.\<close>

record booking_surroundings =
  bs_env :: hold_env
  bs_offsets :: zone_offsets
  bs_host :: host
  bs_provider :: provider
  bs_now :: instant
  bs_later :: instant
  bs_attempts :: "nat \<Rightarrow> attempt"
  bs_meanwhile :: "db \<Rightarrow> db"

definition answered :: "('a \<Rightarrow> booking_answer) \<Rightarrow> (exn + 'a) \<times> db \<Rightarrow> (exn + booking_answer) \<times> db" where
  "answered f r = (map_sum id f (fst r), snd r)"

definition piped :: "exn + 'a \<Rightarrow> ('a \<Rightarrow> db \<Rightarrow> (exn + booking_answer) \<times> db) \<Rightarrow> db \<Rightarrow> (exn + booking_answer) \<times> db" where
  "piped r f d = (case r of Inl e \<Rightarrow> (Inl e, d) | Inr a \<Rightarrow> f a d)"

definition cancel_reason :: "string option \<Rightarrow> string option" where
  "cancel_reason given =
     (let reason = (case given of None \<Rightarrow> ''customer.cancelled'' | Some r \<Rightarrow> r) in
      if CancelSchema reason then Some reason else None)"

text \<open>The state moves and commits; then the money.\<close>

definition cancel_handler :: "booking_surroundings \<Rightarrow> string \<Rightarrow> string \<Rightarrow> principal \<Rightarrow> db \<Rightarrow> (exn + booking_answer) \<times> db" where
  "cancel_handler s bid reason p d =
     (case cancel bid reason p (bs_now s) d of
        (Inl e, d1) \<Rightarrow> (Inl e, d1)
      | (Inr b, d1) \<Rightarrow>
          answered (AnsCancel (b_id b) (b_status b))
            (settleCancellation (bs_host s) (bs_provider s) (TRANSIENT_RETRY_ATTEMPTS (bs_env s)) (bs_attempts s)
               (b_id b) (bs_later s) (bs_meanwhile s d1)))"

fun booking_handler :: "booking_surroundings \<Rightarrow> principal \<Rightarrow> booking_request \<Rightarrow> db \<Rightarrow> (exn + booking_answer) \<times> db" where
  "booking_handler s p (ReqHold i) d =
     piped (zodBody (if HoldSchema i then Some i else None))
       (\<lambda>i d. answered AnsHold (hold (bs_env s) (bs_offsets s) i p (bs_now s) (bs_attempts s) d)) d"
| "booking_handler s p (ReqCheckout bid) d =
     piped (ParseUUIDPipe bid) (\<lambda>bid d. answered AnsCheckout (checkout (bs_env s) bid p (bs_now s) d)) d"
| "booking_handler s p (ReqCancel bid given) d =
     piped (ParseUUIDPipe bid) (\<lambda>bid. piped (zodBody (cancel_reason given)) (\<lambda>reason. cancel_handler s bid reason p)) d"
| "booking_handler s p (ReqPay bid) d =
     piped (ParseUUIDPipe bid) (\<lambda>bid d. answered AnsPay (pay (TRANSIENT_RETRY_ATTEMPTS (bs_env s)) (bs_provider s)
       (bs_meanwhile s) bid p (bs_attempts s) (bs_later s) d)) d"
| "booking_handler s p (ReqList q) d =
     piped (zodBody (if ListBookingsSchema q then Some q else None)) (\<lambda>q d. answered AnsList (list_bookings q p d, d)) d"
| "booking_handler s p (ReqFindOne bid) d =
     piped (ParseUUIDPipe bid) (\<lambda>bid d. answered AnsFindOne (findOne bid p d, d)) d"

definition booking_api :: "auth_env \<Rightarrow> booking_surroundings \<Rightarrow> string option \<Rightarrow> request_context \<Rightarrow> booking_request \<Rightarrow> db
    \<Rightarrow> (exn + booking_answer) \<times> db" where
  "booking_api env s authorization ctx rq d =
     piped (result_bind (admit env (route_access (booking_route rq)) authorization (bs_now s) ctx) requirePrincipal)
       (\<lambda>p. booking_handler s p rq) d"

text \<open>The webhook route: the delivery is recorded and answered, and the row that the processor is to apply.\<close>

definition webhook_route :: "host \<Rightarrow> string option \<Rightarrow> string option \<Rightarrow> string option \<Rightarrow> string option \<Rightarrow> string option
    \<Rightarrow> uuid \<Rightarrow> string \<Rightarrow> instant \<Rightarrow> db \<Rightarrow> (exn + ingest_status) \<times> uuid option \<times> db" where
  "webhook_route h secret rawBody sig header corr row rnd now d =
     (case ingest h secret (case rawBody of None \<Rightarrow> [] | Some raw \<Rightarrow> raw) sig header corr row rnd now d of
        (Inl e, d1) \<Rightarrow> (Inl e, None, d1)
      | (Inr (kicked, status), d1) \<Rightarrow> (Inr status, kicked, d1))"

section \<open>Requests are runs of the system\<close>

lemma answered_snd [simp]: "snd (answered f r) = snd r"
  by (simp add: answered_def)

lemma piped_steps: "(\<And>a. api_steps d (snd (f a d))) \<Longrightarrow> api_steps d (snd (piped r f d))"
  by (cases r) (simp_all add: piped_def)

lemma pay_api_steps:
  assumes "\<And>d. api_steps d (meanwhile d)"
  shows "api_steps d (snd (pay n pv meanwhile bid p att later d))"
proof -
  let ?first = "withTransientRetry n (\<lambda>k. transaction (attempted (att k) (pay_prepare bid p (att k)))) d"
  have first: "api_steps d (snd ?first)" by (rule r_into_rtranclp) (rule api_step.pay_prepared)
  have recorded: "api_steps x (snd (transaction (pay_record pid cid later) x))" for pid cid x
    by (rule r_into_rtranclp) (rule api_step.pay_answered)
  show ?thesis
  proof (cases ?first)
    case (Pair r d1)
    have waited: "api_steps d (meanwhile d1)" using first assms [of d1] Pair by (simp add: rtranclp_trans)
    show ?thesis
    proof (cases r)
      case (Inr a)
      obtain b payment settled where a: "a = (b, payment, settled)" by (metis prod_cases3)
      show ?thesis
      proof (cases "settled \<or> isl (pv_charge pv (charge_request_of bid b payment))")
        case True
        then show ?thesis using first waited Pair Inr a by (auto simp: pay_def Let_def split: sum.splits)
      next
        case False
        then obtain cid where "pv_charge pv (charge_request_of bid b payment) = Inr cid" by (metis sum.collapse(2))
        then have "snd (pay n pv meanwhile bid p att later d) = snd (transaction (pay_record (p_id payment) cid later) (meanwhile d1))"
          using False Pair Inr a by (simp add: pay_def Let_def split: prod.split sum.split)
        then show ?thesis using waited recorded by (simp add: rtranclp_trans)
      qed
    qed (use first Pair in \<open>simp add: pay_def\<close>)
  qed
qed


text \<open>Nobody without an account gets past the guards.\<close>

lemma anonymous_refused: "booking_api env s None ctx rq d = (Inl Unauthorized, d)"
  by (cases rq) (simp_all add: booking_api_def admit_def JwtAuthGuard_def piped_def result_bind_def)

end
