(* ===== verification/RequestWitnesses.thy ===== *)
theory RequestWitnesses
  imports BookingRequests PaymentWitnesses
begin

text \<open>A hold sent as a request, over the venue of the fixtures, where another request cancels while one waits.\<close>

definition request_surroundings :: booking_surroundings where
  "request_surroundings = \<lparr>bs_env = sample_env, bs_offsets = sample_utc, bs_host = sample_host,
     bs_provider = sample_provider, bs_now = 120000, bs_later = 130000, bs_attempts = (\<lambda>_. sample_attempt),
     bs_meanwhile = (\<lambda>d. snd (cancel ''b2'' ''changed.plans'' sample_principal 125000 d))\<rparr>"


end
