(* ===== verification/Spec2Isabelle.thy ===== *)
theory Spec2Isabelle
  imports BookingWitnesses PaymentWitnesses PaygateWitnesses VenueProperties ConsoleProperties
    Boot RequestWitnesses
begin

text \<open>
  Atrium books meeting rooms and equipment: \<open>apps/api\<close> holds rooms, takes payments and refunds them,
  \<open>apps/paygate\<close> is the payment provider it talks to, a simulator with deliberate failures, and
  \<open>apps/web\<close> is the console. This library models the two servers and the
  decisions of the console, and states what makes them correct.

  \<^bold>\<open>How the parts meet.\<close> A customer holds a room (\<open>BookingsService.hold\<close>), checks out, and pays; the
  API asks the provider for a charge under a key it stored before; the provider posts a signed webhook,
  which the API records and applies, moving the booking along its state machine. Workers on every
  replica expire holds and poll the provider for what a lost webhook never told. All state of the API is
  in one database, and so is the state of the provider; a transaction is a function on the tables that
  either commits or rolls back (\<open>transaction\<close> in \<open>Prelude\<close>), and replicas interleave at that grain.

  \<^bold>\<open>The theories and the code they model.\<close>

  \<^item> \<open>Prelude\<close>: tables as lists of rows, handlers that return or throw, transactions.
  \<^item> \<open>Schema\<close>: \<open>db/schema.ts\<close>, its enums, rows, checks, unique keys and the exclusion constraint; the
    exceptions of the services and their HTTP status.
  \<^item> \<open>StateMachine\<close>: \<open>booking-state-machine.service.ts\<close>, every statement that writes a booking or an
    audit row, and the legality table.
  \<^item> \<open>Retry\<close>: \<open>pg-errors.ts\<close> and \<open>retry-transaction.ts\<close>.
  \<^item> \<open>JsNumber\<close>, \<open>ZonedTime\<close>: the arithmetic of JavaScript numbers that the code relies on, and
    \<open>common/time\<close>.
  \<^item> \<open>Equipment\<close>: \<open>equipment-availability.ts\<close>, peak use and the ceiling of admission.
  \<^item> \<open>RefundPolicy\<close>: \<open>refund-policy.ts\<close> and the preview of the console, \<open>apps/web/lib/refund.ts\<close>.
  \<^item> \<open>Bookings\<close>: \<open>bookings.service.ts\<close> and its schemas; \<open>HoldProperties\<close> what a hold, a checkout and a
    read promise.
  \<^item> \<open>Availability\<close>: \<open>rooms/availability.service.ts\<close>.
  \<^item> \<open>Catalogue\<close>: \<open>search/search.service.ts\<close> and \<open>rooms/rooms.service.ts\<close>.
  \<^item> \<open>Auth\<close>: \<open>auth\<close>, the guards, the request context and \<open>repositories/venue-scoped.repository.ts\<close>.
  \<^item> \<open>VenuesAdmin\<close>: \<open>venues\<close>, \<open>policies\<close> and \<open>equipment/equipment.controller.ts\<close>; \<open>Decimal\<close>, \<open>Reports\<close>:
    \<open>reports/reports.service.ts\<close> and the texts of amounts; \<open>VenueRequests\<close> their routes behind the
    guards, with what a token can write; \<open>TenantIsolation\<close> what it can learn; \<open>VenueProperties\<close> what
    administration does to holds and refunds.
  \<^item> \<open>Payments\<close>: \<open>payments.service.ts\<close> over the interface of the provider; \<open>PaymentSteps\<close> the steps its
    handlers are made of, and \<open>PaymentProperties\<close> what they promise.
  \<^item> \<open>Workers\<close>: \<open>hold-sweeper.service.ts\<close> and \<open>webhook-processor.service.ts\<close>.
  \<^item> \<open>Reconciliation\<close>: \<open>admin/reconciliation.service.ts\<close>.
  \<^item> \<open>System\<close>: all operations of the API as one step relation.
  \<^item> \<open>BookingRequests\<close>: \<open>bookings/bookings.controller.ts\<close> and the webhook route of
    \<open>payments.controller.ts\<close> behind the guards, each request a run of \<open>System\<close>.
  \<^item> \<open>Boot\<close>: \<open>config/env.ts\<close> and \<open>main.ts\<close>, the settings read from the environment and the order of the
    start.
  \<^item> \<open>Rng\<close>, \<open>Chaos\<close>: \<open>rng.ts\<close>, \<open>chaos.ts\<close>, \<open>signature.ts\<close> and \<open>config.ts\<close> of the provider.
  \<^item> \<open>Ledger\<close>, \<open>MemoryLedger\<close>, \<open>PostgresLedger\<close>: \<open>apps/paygate/src/ledger\<close> and \<open>types.ts\<close>.
  \<^item> \<open>LedgerSteps\<close>, \<open>LedgerContract\<close>, \<open>LedgerRefinement\<close>, \<open>LedgerProperties\<close>: the durable ledger as a
    step relation with its invariant, the contract of a ledger as a locale that both ledgers provide,
    the simulation between them, and what follows.
  \<^item> \<open>PaygateApp\<close>: \<open>app.ts\<close>, \<open>delivery.ts\<close>, \<open>ledger-import.ts\<close> and the delay route of \<open>test-routes.ts\<close>;
    \<open>PaygateSteps\<close> and \<open>PaygateProperties\<close> the simulator as a step relation, with deaths of the process
    in the middle of a request.
  \<^item> \<open>PaygateClient\<close>: \<open>payments/paygate.client.ts\<close>, the API's side of the wire.
  \<^item> \<open>JsText\<close>, \<open>Calendar\<close>, \<open>IsoText\<close>: the texts of JavaScript numbers, the calendar of dates and ISO
    texts, with their round trips; \<open>Format\<close>: \<open>apps/web/lib/format.ts\<close>, wall clocks and amounts.
  \<^item> \<open>Console\<close>: the API client, session and types of \<open>apps/web/lib\<close>; \<open>ConsoleActions\<close>: the server actions
    of the console; \<open>CheckoutScreen\<close>: \<open>checkout-client.tsx\<close>, the countdown and the polling of a payment;
    \<open>BookingPanel\<close>: \<open>booking-panel.tsx\<close>, the estimate and the button; \<open>Browse\<close>: the search form and
    results, the reports page and the cancel panel; \<open>BrowseFacts\<close> and \<open>ConsoleProperties\<close> what they promise.
  \<^item> \<open>Fixtures\<close>, \<open>BookingWitnesses\<close>, \<open>PaymentWitnesses\<close>, \<open>PaygateWitnesses\<close>, \<open>RequestWitnesses\<close>: a
    small venue and runs of the provider, at which the theorems with hypotheses are applied.

  \<^bold>\<open>What the theorems show.\<close> For the API: no two active bookings of a room overlap with their
  turnaround, and no equipment is promised beyond its ceiling; bookings move along legal transitions and
  their audit trail spells the path; every operation keeps the constraints of the tables; a charge is
  prepared once per spelling of a booking and its event applied once; a capture confirms or is refunded
  in full; refunds stay within the total and follow the ladder, in the floating-point arithmetic of the
  code; the sweeps, reports, slots and searches agree with what they stand for; a token leads back to one account, and staff
  neither change nor learn anything of another venue. For the provider: a key
  leads to one charge for ever, a charge is decided once, refunds never exceed it, imports can be
  repeated, both ledgers answer alike, and every webhook tells the truth. For the console: the estimate
  it shows is the total the API charges, and a search survives the reload of its address. Every request
  of a client is a run of the system, so what holds of runs holds of requests. Where the code does not do what
  it means to, the theorem states what it does: a refused refund that uses up its key, a charge that is
  accepted and never decided, a forged delivery that takes an id, slots that are offered and refused, an
  expired checkout whose screen stays as it is, a retry that polls without a ceiling.

  \<^bold>\<open>Parameters.\<close> Code outside the repository is an argument: the offsets of a time zone, digests, \<open>JSON\<close>
  texts, date texts, fresh ids, the clock, the answers of the network, and for the payments service the
  provider. A hypothesis about one is discharged in the witness of its theorem.

  \<^bold>\<open>Bounds and fuel.\<close> No definition has fuel. The retry loop recurses on its attempts, the slot
  enumeration on the days and steps of its range, batches on the length of the list, each with its
  termination proof. Amounts are integers with the range of their column; numbers of JavaScript are
  rationals rounded to 53 bits, and the generator works on 32-bit words.

  \<^bold>\<open>Not modelled.\<close> Log lines, messages and other free text of an answer; isolation weaker than whole
  transactions, which row locks and constraints of the code are there to exclude; the route that forges
  deliveries for tests; the migrations and the rows of the seed, which are data. Of the console, its
  markup, columns and styles: what is modelled are the decisions a component takes on its state, its
  inputs and the answers of the API. Wiring of the frameworks, logging and health checks have no model.
\<close>

end
